(* ===== verification/Json.thy ===== *)
theory Json
  imports Prelude Complex_Main
begin

text \<open>
  The JSON documents the tenant exchanges with the program, and the structural
  comparison of \<open>src/src/jsondiff.rs\<close>.

  \<open>json\<close> is \<open>serde_json::Value\<close>. Objects are \<open>BTreeMap\<close>s there (the crate is built
  without \<open>preserve_order\<close>), so here they are association lists that \<open>json_wf\<close> requires to be
  strictly ordered by key; \<open>obj_insert\<close> is the ordered insertion that keeps them so. Equality
  of well-formed documents is then equality of their members. An integer and a float are
  different numbers, as they are for \<open>serde_json::Number\<close>.
\<close>

section \<open>Documents\<close>

datatype json_number = NInt int | NFloat rat

datatype json =
    JNull
  | JBool bool
  | JNum json_number
  | JStr string
  | JArr "json list"
  | JObj "(string \<times> json) list"

type_synonym json_map = "(string \<times> json) list"

lemma size_member [termination_simp]:
  "map_of kvs k = Some v \<Longrightarrow> size v < Suc (size_list (size_prod (\<lambda>_. 0) size) kvs)"
  by (induction kvs) (auto split: if_splits)

lemma size_member_set [termination_simp]:
  "(k, v) \<in> set kvs \<Longrightarrow> size v < Suc (size_list (size_prod (\<lambda>_. 0) size) kvs)"
  by (induction kvs) auto

fun json_wf :: "json \<Rightarrow> bool" where
  "json_wf (JObj kvs) =
     (sorted (map fst kvs) \<and> distinct (map fst kvs) \<and> (\<forall>(k, v) \<in> set kvs. json_wf v))"
| "json_wf (JArr vs) = (\<forall>v \<in> set vs. json_wf v)"
| "json_wf _ = True"

fun json_get :: "json \<Rightarrow> string \<Rightarrow> json option" where
  "json_get (JObj kvs) k = map_of kvs k"
| "json_get _ k = None"

fun as_str :: "json \<Rightarrow> string option" where
  "as_str (JStr s) = Some s"
| "as_str _ = None"

fun as_bool :: "json \<Rightarrow> bool option" where
  "as_bool (JBool b) = Some b"
| "as_bool _ = None"

fun as_array :: "json \<Rightarrow> json list option" where
  "as_array (JArr vs) = Some vs"
| "as_array _ = None"

fun as_object :: "json \<Rightarrow> json_map option" where
  "as_object (JObj kvs) = Some kvs"
| "as_object _ = None"

fun is_object :: "json \<Rightarrow> bool" where
  "is_object (JObj kvs) = True"
| "is_object _ = False"

text \<open>\<open>value.get(key).and_then(Value::as_str)\<close> and its two siblings.\<close>

definition get_str :: "json \<Rightarrow> string \<Rightarrow> string option" where
  "get_str v k = Option.bind (json_get v k) as_str"

definition get_bool :: "json \<Rightarrow> string \<Rightarrow> bool option" where
  "get_bool v k = Option.bind (json_get v k) as_bool"

definition get_array :: "json \<Rightarrow> string \<Rightarrow> json list option" where
  "get_array v k = Option.bind (json_get v k) as_array"

definition str_or_default :: "json \<Rightarrow> string \<Rightarrow> string" where
  "str_or_default v k = (case get_str v k of None \<Rightarrow> [] | Some s \<Rightarrow> s)"

definition bool_or_false :: "json \<Rightarrow> string \<Rightarrow> bool" where
  "bool_or_false v k = (case get_bool v k of None \<Rightarrow> False | Some b \<Rightarrow> b)"

fun json_at :: "json \<Rightarrow> string list \<Rightarrow> json option" where
  "json_at v [] = Some v"
| "json_at v (k # ks) = (case json_get v k of None \<Rightarrow> None | Some w \<Rightarrow> json_at w ks)"

section \<open>Ordered maps\<close>

fun obj_insert :: "string \<Rightarrow> json \<Rightarrow> json_map \<Rightarrow> json_map" where
  "obj_insert k v [] = [(k, v)]"
| "obj_insert k v ((k', v') # kvs) =
     (if k < k' then (k, v) # (k', v') # kvs
      else if k = k' then (k, v) # kvs
      else (k', v') # obj_insert k v kvs)"

lemma map_of_obj_insert [simp]: "map_of (obj_insert k v kvs) = (map_of kvs)(k \<mapsto> v)"
  by (induction kvs) auto

lemma fst_set_obj_insert [simp]: "fst ` set (obj_insert k v kvs) = insert k (fst ` set kvs)"
  by (simp flip: dom_map_of_conv_image_fst)

lemma keys_obj_insert: "kv \<in> set (obj_insert k v kvs) \<Longrightarrow> fst kv = k \<or> fst kv \<in> fst ` set kvs"
  using fst_set_obj_insert [of k v kvs] by (metis image_eqI insertE)

lemma obj_insert_strict:
  "sorted (map fst kvs) \<Longrightarrow> distinct (map fst kvs) \<Longrightarrow>
   sorted (map fst (obj_insert k v kvs)) \<and> distinct (map fst (obj_insert k v kvs))"
proof (induction kvs)
  case Nil
  then show ?case by simp
next
  case (Cons kv kvs)
  obtain k' v' where kv: "kv = (k', v')" by (cases kv)
  show ?case
  proof (cases rule: linorder_cases [of k k'])
    case less
    with Cons.prems show ?thesis by (auto simp: kv)
  next
    case equal
    with Cons.prems show ?thesis by (auto simp: kv)
  next
    case greater
    with Cons show ?thesis by (auto simp: kv dest!: keys_obj_insert)
  qed
qed

lemma set_obj_insert: "kv \<in> set (obj_insert k v kvs) \<Longrightarrow> kv = (k, v) \<or> kv \<in> set kvs"
  by (induction kvs) (auto split: if_splits)

lemma json_wf_obj_insert:
  assumes "json_wf (JObj kvs)" and "json_wf v"
  shows "json_wf (JObj (obj_insert k v kvs))"
  using assms obj_insert_strict [of kvs k v] by (auto dest!: set_obj_insert)

lemma json_wf_get: "json_wf v \<Longrightarrow> json_get v k = Some w \<Longrightarrow> json_wf w"
  by (cases v) (auto dest!: map_of_SomeD)

text \<open>Two strictly ordered association lists with the same lookups are the same list.\<close>

lemma alist_from_keys:
  "distinct (map fst xs) \<Longrightarrow> map (\<lambda>k. (k, the (map_of xs k))) (map fst xs) = xs"
  by (auto intro!: map_idI)

lemma strict_map_of_eqI:
  assumes "sorted (map fst xs)" "distinct (map fst xs)"
    and "sorted (map fst ys)" "distinct (map fst ys)"
    and eq: "map_of xs = map_of ys"
  shows "xs = ys"
proof -
  have "set (map fst xs) = set (map fst ys)"
    using arg_cong [OF eq, of dom] by (simp add: dom_map_of_conv_image_fst)
  then have "map fst xs = map fst ys"
    using assms by (intro sorted_distinct_set_unique)
  then show ?thesis
    using alist_from_keys [OF assms(2)] alist_from_keys [OF assms(4)] eq by metis
qed

section \<open>Structural comparison (jsondiff)\<close>

text \<open>Decimal rendering of an index, as \<open>format!\<close> prints a \<open>usize\<close>.\<close>

fun show_nat :: "nat \<Rightarrow> string" where
  "show_nat n = (if n < 10 then [char_of (48 + n)] else show_nat (n div 10) @ [char_of (48 + n mod 10)])"

declare show_nat.simps [simp del]

record change =
  ch_path :: string
  ch_left :: "json option"
  ch_right :: "json option"

definition escape_char :: "char \<Rightarrow> string" where
  "escape_char c = (if c = CHR ''~'' then ''~0'' else if c = CHR ''/'' then ''~1'' else [c])"

definition pointer_segment :: "string \<Rightarrow> string" where
  "pointer_segment key = concat (map escape_char key)"

definition nth_opt :: "'a list \<Rightarrow> nat \<Rightarrow> 'a option" where
  "nth_opt xs i = (if i < length xs then Some (xs ! i) else None)"

lemma size_nth_opt [termination_simp]:
  "nth_opt vs i = Some v \<Longrightarrow> size v < Suc (size_list size vs)"
  using size_list_estimation' [of v vs "size v" size]
  by (auto simp: nth_opt_def less_Suc_eq_le split: if_splits)

function walk :: "string \<Rightarrow> json \<Rightarrow> json \<Rightarrow> change list" where
  "walk pos l r =
     (if l = r then []
      else case (l, r) of
        (JObj a, JObj b) \<Rightarrow>
          concat (map (\<lambda>key.
            let here = pos @ ''/'' @ pointer_segment key in
            case (map_of a key, map_of b key) of
              (Some x, Some y) \<Rightarrow> walk here x y
            | (None, None) \<Rightarrow> []
            | (x, y) \<Rightarrow> [\<lparr>ch_path = here, ch_left = x, ch_right = y\<rparr>])
            (btree_set (map fst a @ map fst b)))
      | (JArr a, JArr b) \<Rightarrow>
          concat (map (\<lambda>i.
            let here = pos @ ''/'' @ show_nat i in
            case (nth_opt a i, nth_opt b i) of
              (Some x, Some y) \<Rightarrow> walk here x y
            | (x, y) \<Rightarrow> [\<lparr>ch_path = here, ch_left = x, ch_right = y\<rparr>])
            [0..<max (length a) (length b)])
      | _ \<Rightarrow> [\<lparr>ch_path = (if pos = [] then ''/'' else pos), ch_left = Some l, ch_right = Some r\<rparr>])"
  by pat_completeness auto
termination
  by (relation "measure (\<lambda>(pos, l, r). size l + size r)")
    (auto dest!: size_member [OF sym] size_nth_opt [OF sym])

declare walk.simps [simp del]

definition changes :: "json \<Rightarrow> json \<Rightarrow> change list" where
  "changes l r = walk [] l r"

end
