(* ===== verification/Saml_Types.thy ===== *)
theory Saml_Types
  imports Json
begin

text \<open>
  The data model of the SAML side: locations, roles, entity stubs, exported
  certificates and key pairs (\<open>src/src/saml/spec.rs\<close>, \<open>metadata.rs\<close>, \<open>pem.rs\<close>), secret
  mappings (\<open>src/src/secretmap/api.rs\<close>), the documents a certificate rotation reads and the
  plans it makes (\<open>src/src/saml/rotate/spec.rs\<close>, \<open>journal.rs\<close>), and the errors of all of
  them (\<open>src/src/error.rs\<close>).

  An error whose text the code builds with \<open>format!\<close> is a constructor that carries the values
  the text interpolates; the prose itself is not modelled.
\<close>

section \<open>Entities and certificates\<close>

datatype location = Hosted | Remote

datatype role = Idp | Sp

definition location_str :: "location \<Rightarrow> string" where
  "location_str l = (case l of Hosted \<Rightarrow> ''hosted'' | Remote \<Rightarrow> ''remote'')"

definition wire :: "role \<Rightarrow> string" where
  "wire r = (case r of Idp \<Rightarrow> ''identityProvider'' | Sp \<Rightarrow> ''serviceProvider'')"

definition cli_word :: "role \<Rightarrow> string" where
  "cli_word r = (case r of Idp \<Rightarrow> ''idp'' | Sp \<Rightarrow> ''sp'')"

definition SIGNING_USE :: string where
  "SIGNING_USE = ''signing''"

definition role_descriptor :: "role \<Rightarrow> string" where
  "role_descriptor r = (case r of Idp \<Rightarrow> ''IDPSSODescriptor'' | Sp \<Rightarrow> ''SPSSODescriptor'')"

record entity_stub =
  stub_id64 :: string
  stub_entity_id :: string
  stub_location :: location
  stub_roles :: "string list"

record cert_ref =
  descriptor :: string
  key_use :: "string option"
  key_name :: "string option"
  cert_sha256 :: string

record key_pair =
  kp_value :: string
  kp_certificate_der :: "nat list"
  kp_sha256 :: string

record mapping =
  map_secret_id :: string
  map_alias :: "string option"

lemma wire_inject [simp]: "wire a = wire b \<longleftrightarrow> a = b"
  by (cases a; cases b) (simp_all add: wire_def)

lemma role_descriptor_inject [simp]: "role_descriptor a = role_descriptor b \<longleftrightarrow> a = b"
  by (cases a; cases b) (simp_all add: role_descriptor_def)

lemma location_str_inject [simp]: "location_str a = location_str b \<longleftrightarrow> a = b"
  by (cases a; cases b) (simp_all add: location_str_def)

section \<open>What a rotation reads\<close>

record staged_record =
  rec_tenant :: string
  rec_realm :: string
  rec_entity_id :: string
  rec_role :: string
  rec_identifier :: string
  rec_secret_id :: string
  rec_version :: string
  rec_sha256 :: string
  rec_staged_at :: string

record secret_facts =
  sf_id :: string
  sf_encoding :: string
  sf_use_in_placeholders :: bool
  sf_loaded :: bool
  sf_active_version :: string
  sf_loaded_version :: string

record secret_version =
  sv_version :: string
  sv_status :: string
  sv_create_date :: string

record rotation_state =
  rs_tenant :: string
  rs_realm :: string
  rs_entity_id :: string
  rs_location :: location
  rs_role :: role
  rs_identifier :: "string option"
  rs_mapped_alias :: "string option"
  rs_secret :: "secret_facts option"
  rs_versions :: "secret_version list"
  rs_certs :: "cert_ref list"
  rs_record :: "staged_record option"

text \<open>Why a secret cannot back a rotation, and why the reads do not agree.\<close>

datatype unusable = NotPem string string | InPlaceholders string

datatype disagreement = EqualCounts nat nat | UnequalCounts nat nat

datatype phase =
    Unconfigured
  | Unmapped
  | Dangling string
  | Unusable unusable
  | Settled
  | Staged
  | Inconsistent disagreement

section \<open>What a consumer survey reads and finds\<close>

record consumer =
  con_realm :: string
  con_entity_id :: string
  con_location :: location
  con_role :: role
  con_label :: string

record entity_identifiers =
  ei_entity_id :: string
  ei_location :: location
  ei_identifiers :: "(role \<times> string) list"

record realm_survey =
  sur_realm :: string
  sur_mappings :: "mapping list"
  sur_entities :: "entity_identifiers list"

record unclaimed_label =
  ul_realm :: string
  ul_label :: string

record consumers =
  cs_realms :: "string list"
  cs_unsurveyed :: "string list"
  cs_secret_id :: "string option"
  cs_mine :: consumer
  cs_others :: "consumer list"
  cs_unclaimed_labels :: "unclaimed_label list"

section \<open>What a rotation plans\<close>

text \<open>Two documents a \<open>stage\<close> or a \<open>complete\<close> decides from; the sets are ordered.\<close>

record rollover_inputs =
  ri_enabled :: "string list"
  ri_published :: "string list"

record rollover_recheck =
  rr_identifier :: "string option"
  rr_alias :: "string option"
  rr_versions :: "secret_version list"
  rr_published :: "string list"
  rr_survey :: "realm_survey list"

record init_recheck =
  ir_entity :: json
  ir_mapping :: "string option"
  ir_published :: "string list"
  ir_survey :: "realm_survey list"

datatype init_step = SetIdentifier | CreateSecret | MapLabel

datatype init_stop = StopRecheck | StopResurvey init_step | StopStep init_step

record stage_plan =
  sp_secret_id :: string
  sp_retained :: string
  sp_retained_version :: string
  sp_incoming :: string
  sp_expected :: "string list"

datatype version_choice = Recorded | Named

record complete_plan =
  cp_secret_id :: string
  cp_disable_version :: string
  cp_chosen_by :: version_choice
  cp_retain :: string
  cp_expected_drop :: "string option"
  cp_moves_signer :: bool

record init_plan =
  ip_identifier :: string
  ip_label :: string
  ip_secret_id :: string
  ip_set_identifier :: bool
  ip_create_secret :: bool
  ip_map_label :: bool
  ip_certificate :: "string option"

text \<open>
  Proofs and permits have one private field in the code and are made by one function each;
  here they are one-element types whose constructor only that function uses.
\<close>

datatype exclusivity_proof = ExclusivityProof

datatype stage_permit = StagePermit

datatype complete_permit = CompletePermit

datatype init_permit = InitPermit

datatype adoption = Applied | AlreadyDone

datatype adoption_line =
    PublishesLine string role "string list"
  | SuppliedAmong string string
  | SuppliedMissing string string
  | AdoptionCaveat

section \<open>Errors\<close>

datatype broken_target =
    NamesNoIdentifier
  | MapsToNothing string string
  | MapsElsewhere string string string

datatype moved_input =
    EnabledMoved string "string list" "string list"
  | PublishedMoved "string list" "string list"

datatype (plugins only: code size) input_refusal =
    IdentifierEmpty
  | IdentifierPadded string
  | IdentifierBadChar string char
  | SecretIdInvalid string
  | MappingIdInvalid string

datatype (plugins only: code size) entity_refusal =
    NoRoleBlocks
  | OtherRoleOnly role role
  | RoleAmbiguous
  | EntityNotObject
  | NoRoleBlock role
  | NotAGroup role string string
  | NoSuchEntity string string
  | InBothCollections string string "location list"
  | EntityDiffers string string string "string list"
  | ExportRefused string

datatype (plugins only: code size) moved_refusal =
    IdentifierMoved role "string option" "string option"
  | RolloverMoved string "moved_input list"
  | TargetMoved string string broken_target
  | PublicationMoved "string list" "string list"
  | LabelMoved string string "string option" "string option"
  | NotExclusive string consumers

datatype (plugins only: code size) plan_refusal =
    AlreadyStaged string role
  | AlreadyPublished string string
  | NotReady string string role "string option" phase
  | NothingStaged string role
  | RetainNotPublished string nat
  | NamedNotEnabled string string "string list"
  | NewestVersion string string string
  | PointsElsewhere string role string
  | LabelTaken string string string string
  | SecretUnusable unusable
  | KeyRequired string
  | PublishesNothing string role string adoption

datatype (plugins only: code size) pairing_refusal =
    ContradictsRecord staged_record string string string string
  | StaleRecord string "string list"
  | NoPairing string role
  | JournalUnreadable

datatype (plugins only: code size) consent_refusal =
    StageUnconfirmed stage_plan string role
  | CompleteUnconfirmed complete_plan string role
  | InitUnconfirmed init_plan string role "string list"

datatype refusal =
    BadInput input_refusal
  | BadEntity entity_refusal
  | Moved moved_refusal
  | NoPlan plan_refusal
  | NoPair pairing_refusal
  | Unconfirmed consent_refusal
  | Said string

text \<open>\<open>Panic\<close> is not an error the code returns: it is an \<open>expect\<close> that fails, which the
  theorems show unreachable.\<close>

datatype error =
    Panic
  | Config refusal
  | ReadBackFailed string error
  | Api nat string
  | Auth string
  | AuthRequired
  | ProdConfirmRequired
  | OtherError string

end
