(* ===== verification/Saml_Entity.thy ===== *)
theory Saml_Entity
  imports Saml_Types "HOL-Library.Sublist"
begin

text \<open>
  Entity documents: finding the collection an entity lives in (\<open>src/src/saml/spec.rs\<close>), and the
  part of \<open>src/src/saml/rotate/spec.rs\<close> that reads and writes the secret-label pointer of a role
  block, names the labels minted from it, and compares a written document with the one read back.
\<close>

section \<open>Stubs\<close>

datatype located = In location | NotFound | Ambiguous "location list"

definition has_role :: "entity_stub \<Rightarrow> role \<Rightarrow> bool" where
  "has_role stub r = list_ex (\<lambda>held. held = wire r) (stub_roles stub)"

fun locate_loop :: "string \<Rightarrow> entity_stub list \<Rightarrow> location list \<Rightarrow> location list" where
  "locate_loop wanted [] found = found"
| "locate_loop wanted (stub # stubs) found =
     locate_loop wanted stubs
       (if trim (stub_entity_id stub) = wanted \<and> stub_location stub \<notin> set found
        then found @ [stub_location stub] else found)"

definition locate :: "string \<Rightarrow> entity_stub list \<Rightarrow> located" where
  "locate entity_id stubs =
     (let found = locate_loop (trim entity_id) stubs []
      in case found of [] \<Rightarrow> NotFound | [l] \<Rightarrow> In l | _ \<Rightarrow> Ambiguous found)"

section \<open>Labels and identifiers\<close>

definition LABEL_PREFIX :: string where
  "LABEL_PREFIX = ''am.applications.federation.entity.providers.saml2.''"

definition identifier_path :: "location \<Rightarrow> string list" where
  "identifier_path l =
     (case l of
        Hosted \<Rightarrow> [''assertionContent'', ''signingAndEncryption'', ''secretIdAndAlgorithms'',
                   ''secretIdIdentifier'']
      | Remote \<Rightarrow> [''assertionContent'', ''secrets'', ''secretIdIdentifier''])"

definition signing_label :: "string \<Rightarrow> string" where
  "signing_label identifier = LABEL_PREFIX @ identifier @ ''.'' @ SIGNING_USE"

definition validate_identifier :: "string \<Rightarrow> error + string" where
  "validate_identifier identifier =
     (let trimmed = trim identifier
      in if trimmed = [] then Inl (Config (BadInput IdentifierEmpty))
         else if trimmed \<noteq> identifier then Inl (Config (BadInput (IdentifierPadded identifier)))
         else case find (\<lambda>c. \<not> is_ascii_alphanumeric c) trimmed of
                Some bad \<Rightarrow> Inl (Config (BadInput (IdentifierBadChar identifier bad)))
              | None \<Rightarrow> Inr trimmed)"

definition secret_id_body_ok :: "string \<Rightarrow> bool" where
  "secret_id_body_ok body =
     (1 \<le> length body \<and> length body \<le> 124 \<and>
      list_all (\<lambda>c. is_ascii_lower c \<or> is_digit c \<or> c = CHR ''_'' \<or> c = CHR ''-'') body)"

definition validate_secret_id :: "string \<Rightarrow> error + string" where
  "validate_secret_id secret_id =
     ok_or (Config (BadInput (SecretIdInvalid secret_id)))
       (map_option (\<lambda>_. secret_id) (opt_filter secret_id_body_ok (strip_prefix ''esv-'' secret_id)))"

definition label_parts :: "string \<Rightarrow> (string \<times> string) option" where
  "label_parts label =
     Option.bind (strip_prefix LABEL_PREFIX label) (\<lambda>rest.
       opt_filter (\<lambda>(identifier, key_use). identifier \<noteq> [] \<and> key_use \<noteq> [])
         (rsplit_once CHR ''.'' rest))"

section \<open>Role blocks\<close>

definition choose_role :: "json \<Rightarrow> role option \<Rightarrow> error + role" where
  "choose_role entity requested =
     (let held = filter (\<lambda>r. case json_get entity (wire r) of None \<Rightarrow> False | Some b \<Rightarrow> is_object b)
                   [Idp, Sp]
      in case (held, requested) of
           ([], _) \<Rightarrow> Inl (Config (BadEntity NoRoleBlocks))
         | ([only], None) \<Rightarrow> Inr only
         | ([only], Some asked) \<Rightarrow>
             if only = asked then Inr only else Inl (Config (BadEntity (OtherRoleOnly asked only)))
         | (_, Some asked) \<Rightarrow> Inr asked
         | (_, None) \<Rightarrow> Inl (Config (BadEntity RoleAmbiguous)))"

definition leaf :: "json \<Rightarrow> string list \<Rightarrow> string option" where
  "leaf v path =
     Option.bind (json_at v path) (\<lambda>cursor.
       Option.bind (as_str cursor) (\<lambda>s.
         let text = trim s in if text = [] then None else Some text))"

definition current_identifier :: "json \<Rightarrow> role \<Rightarrow> string option" where
  "current_identifier entity r =
     Option.bind (json_get entity (wire r)) (\<lambda>block.
       find_map (\<lambda>l. leaf block (identifier_path l)) [Hosted, Remote])"

definition entity_identifiers :: "string \<Rightarrow> location \<Rightarrow> json \<Rightarrow> entity_identifiers" where
  "entity_identifiers entity_id l document =
     \<lparr>ei_entity_id = entity_id, ei_location = l,
      ei_identifiers =
        List.map_filter (\<lambda>r. map_option (\<lambda>i. (r, i)) (current_identifier document r)) [Idp, Sp]\<rparr>"

definition kind_of :: "json \<Rightarrow> string" where
  "kind_of v =
     (case v of JNull \<Rightarrow> ''null'' | JBool _ \<Rightarrow> ''a boolean'' | JNum _ \<Rightarrow> ''a number''
      | JStr _ \<Rightarrow> ''a string'' | JArr _ \<Rightarrow> ''an array'' | JObj _ \<Rightarrow> ''an object'')"

text \<open>
  The loop over the groups of the path: a missing group is created empty, anything that is not
  an object stops the write, and the leaf is inserted into the last group.
\<close>

fun write_leaf :: "role \<Rightarrow> string list \<Rightarrow> string \<Rightarrow> string \<Rightarrow> json_map \<Rightarrow> error + json_map" where
  "write_leaf r [] lf identifier obj = Inr (obj_insert lf (JStr identifier) obj)"
| "write_leaf r (g # gs) lf identifier obj =
     (let next = (case map_of obj g of None \<Rightarrow> JObj [] | Some v \<Rightarrow> v)
      in case as_object next of
           None \<Rightarrow> Inl (Config (BadEntity (NotAGroup r g (kind_of next))))
         | Some sub \<Rightarrow>
             res_bind (write_leaf r gs lf identifier sub)
               (\<lambda>sub'. Inr (obj_insert g (JObj sub') obj)))"

definition set_secret_identifier :: "json \<Rightarrow> location \<Rightarrow> role \<Rightarrow> string \<Rightarrow> error + json" where
  "set_secret_identifier entity l r identifier =
     res_bind (ok_or (Config (BadEntity EntityNotObject)) (as_object entity)) (\<lambda>object.
     res_bind (ok_or (Config (BadEntity (NoRoleBlock r)))
                 (Option.bind (map_of object (wire r)) as_object)) (\<lambda>block.
     res_bind (write_leaf r (butlast (identifier_path l)) (last (identifier_path l)) identifier block)
       (\<lambda>block'. Inr (JObj (obj_insert (wire r) (JObj block') object)))))"

section \<open>Comparing a written document with the one read back\<close>

fun strip_rev :: "json \<Rightarrow> json" where
  "strip_rev (JArr vs) = JArr (map strip_rev vs)"
| "strip_rev (JObj kvs) =
     JObj (map (\<lambda>(k, v). (k, strip_rev v)) (filter (\<lambda>(k, v). k \<noteq> ''_rev'') kvs))"
| "strip_rev v = v"

definition or_null :: "json option \<Rightarrow> json" where
  "or_null m = (case m of None \<Rightarrow> JNull | Some v \<Rightarrow> v)"

lemma size_or_null [termination_simp]:
  "size (or_null (map_of kvs k)) < Suc (size_list (size_prod (\<lambda>_. 0) size) kvs)"
  by (auto simp: or_null_def split: option.splits dest: size_member)

lemma size_or_null_pair:
  "size (or_null (map_of a k)) + size (or_null (map_of b k)) <
   Suc (Suc (size_list (size_prod (\<lambda>_. 0) size) a + size_list (size_prod (\<lambda>_. 0) size) b))"
  using size_or_null [of a k] size_or_null [of b k] by linarith

function diff_into :: "json \<Rightarrow> json \<Rightarrow> string \<Rightarrow> string list" where
  "diff_into a b path =
     (if a = b then []
      else case (a, b) of
        (JObj left, JObj right) \<Rightarrow>
          concat (map (\<lambda>key.
            diff_into (or_null (map_of left key)) (or_null (map_of right key)) (path @ ''/'' @ key))
            (btree_set (map fst left @ map fst right)))
      | _ \<Rightarrow> [if path = [] then ''/'' else path])"
  by pat_completeness auto
termination
  by (relation "measure (\<lambda>(a, b, path). size a + size b)")
    (auto simp: size_or_null_pair)

declare diff_into.simps [simp del]

definition entity_write_differences :: "json \<Rightarrow> json \<Rightarrow> string list" where
  "entity_write_differences intended after = sort (diff_into (strip_rev intended) (strip_rev after) [])"

section \<open>Facts about locating and labelling\<close>

lemma locate_loop_set:
  "set (locate_loop wanted stubs found) =
   set found \<union> {stub_location stub |stub. stub \<in> set stubs \<and> trim (stub_entity_id stub) = wanted}"
  by (induction wanted stubs found rule: locate_loop.induct) (auto split: if_splits)

lemma locate_loop_distinct: "distinct found \<Longrightarrow> distinct (locate_loop wanted stubs found)"
  by (induction wanted stubs found rule: locate_loop.induct) auto

lemma label_parts_signing_label:
  assumes "i \<noteq> []"
  shows "label_parts (signing_label i) = Some (i, SIGNING_USE)"
proof -
  have "rsplit_once CHR ''.'' (i @ CHR ''.'' # SIGNING_USE) = Some (i, SIGNING_USE)"
    by (rule rsplit_once_snoc) (simp add: SIGNING_USE_def)
  then show ?thesis
    using assms by (simp add: label_parts_def signing_label_def SIGNING_USE_def)
qed

lemma label_parts_Some:
  assumes "label_parts label = Some (i, u)"
  shows "label = LABEL_PREFIX @ i @ ''.'' @ u" and "CHR ''.'' \<notin> set u" and "i \<noteq> []" and "u \<noteq> []"
  using assms rsplit_once_Some
  by (auto simp: label_parts_def strip_prefix_Some Option.bind_eq_Some_conv)

lemma signing_label_inject [simp]: "signing_label i = signing_label j \<longleftrightarrow> i = j"
  by (simp add: signing_label_def)

lemma validate_identifier_Inr:
  "validate_identifier s = Inr i \<longleftrightarrow> i = s \<and> s \<noteq> [] \<and> list_all is_ascii_alphanumeric s"
proof (cases "list_all is_ascii_alphanumeric s")
  case True
  then have "trim s = s" and "find (\<lambda>c. \<not> is_ascii_alphanumeric c) s = None"
    by (auto intro!: trim_ident simp: alphanumeric_not_whitespace list_all_iff find_None_iff)
  with True show ?thesis by (auto simp: validate_identifier_def Let_def)
next
  case False
  then have "find (\<lambda>c. \<not> is_ascii_alphanumeric c) s \<noteq> None"
    by (auto simp: find_None_iff list_all_iff)
  with False show ?thesis by (auto simp: validate_identifier_def Let_def)
qed

lemma validate_secret_id_Inr:
  "validate_secret_id s = Inr i \<longleftrightarrow> i = s \<and> (\<exists>body. s = ''esv-'' @ body \<and> secret_id_body_ok body)"
  by (auto simp: validate_secret_id_def strip_prefix_Some)

section \<open>Facts about the write body\<close>

lemma write_leaf_at:
  "write_leaf r gs lf i obj = Inr obj' \<Longrightarrow> json_at (JObj obj') (gs @ [lf]) = Some (JStr i)"
  by (induction r gs lf i obj arbitrary: obj' rule: write_leaf.induct)
    (auto simp: Let_def res_bind_Inr_iff split: option.splits)

lemma json_at_empty: "json_at (JObj []) (k # ks) = None"
  by simp

text \<open>A path that neither leads to the written leaf nor starts with it reads the same value.\<close>

lemma write_leaf_frame:
  assumes "write_leaf r gs lf i obj = Inr obj'"
    and "\<And>q. gs @ [lf] \<noteq> p @ q" and "\<And>q. p \<noteq> gs @ lf # q"
  shows "json_at (JObj obj') p = json_at (JObj obj) p"
  using assms
proof (induction r gs lf i obj arbitrary: obj' p rule: write_leaf.induct)
  case (1 r lf i obj)
  then obtain k ks where p: "p = k # ks" by (cases p) auto
  with "1.prems"(3) [of ks] have "k \<noteq> lf" by auto
  with "1.prems"(1) show ?case by (auto simp: p)
next
  case (2 r g gs lf i obj)
  from "2.prems"(2) [of "(g # gs) @ [lf]"] obtain k ks where p: "p = k # ks" by (cases p) auto
  from "2.prems"(1) obtain sub sub' where
    sub: "as_object (case map_of obj g of None \<Rightarrow> JObj [] | Some v \<Rightarrow> v) = Some sub"
    and w: "write_leaf r gs lf i sub = Inr sub'"
    and obj': "obj' = obj_insert g (JObj sub') obj"
    by (auto simp: Let_def res_bind_Inr_iff split: option.splits)
  show ?case
  proof (cases "k = g")
    case False
    then show ?thesis by (simp add: p obj')
  next
    case True
    have q1: "gs @ [lf] \<noteq> ks @ q" and q2: "ks \<noteq> gs @ lf # q" for q
      using "2.prems"(2,3) [of q] by (auto simp: p True)
    have "json_at (JObj sub') ks = json_at (JObj sub) ks"
      by (rule "2.IH" [OF refl sub w q1 q2])
    moreover have "ks \<noteq> []" using q1 [of "gs @ [lf]"] by auto
    ultimately show ?thesis
      using sub by (cases ks) (auto simp: p obj' True split: option.splits json.splits elim: as_object.elims)
  qed
qed

lemma json_wf_as_object: "json_wf v \<Longrightarrow> as_object v = Some kvs \<Longrightarrow> json_wf (JObj kvs)"
  by (cases v) auto

lemma write_leaf_wf:
  "write_leaf r gs lf i obj = Inr obj' \<Longrightarrow> json_wf (JObj obj) \<Longrightarrow> json_wf (JObj obj')"
proof (induction r gs lf i obj arbitrary: obj' rule: write_leaf.induct)
  case (1 r lf i obj)
  then show ?case by (auto simp del: json_wf.simps(1) intro!: json_wf_obj_insert)
next
  case (2 r g gs lf i obj)
  let ?next = "case map_of obj g of None \<Rightarrow> JObj [] | Some v \<Rightarrow> v"
  from "2.prems"(1) obtain sub sub' where sub: "as_object ?next = Some sub"
    and w: "write_leaf r gs lf i sub = Inr sub'" and obj': "obj' = obj_insert g (JObj sub') obj"
    by (auto simp: Let_def res_bind_Inr_iff split: option.splits)
  have "json_wf ?next"
    using json_wf_get [OF "2.prems"(2), of g] by (auto split: option.splits)
  then have "json_wf (JObj sub)" using sub by (rule json_wf_as_object)
  then have "json_wf (JObj sub')" by (rule "2.IH" [OF refl sub w])
  with "2.prems"(2) show ?case unfolding obj' by (rule json_wf_obj_insert)
qed

lemma set_secret_identifier_Inr:
  "set_secret_identifier e l r i = Inr d \<longleftrightarrow>
   (\<exists>object block block'. e = JObj object \<and> map_of object (wire r) = Some (JObj block) \<and>
      write_leaf r (butlast (identifier_path l)) (last (identifier_path l)) i block = Inr block' \<and>
      d = JObj (obj_insert (wire r) (JObj block') object))"
  by (cases e; cases "map_of (the (as_object e)) (wire r)")
    (auto simp: set_secret_identifier_def res_bind_Inr_iff Option.bind_eq_Some_conv
      elim!: as_object.elims)

lemma identifier_path_snoc: "butlast (identifier_path l) @ [last (identifier_path l)] = identifier_path l"
  by (cases l) (simp_all add: identifier_path_def)

section \<open>Facts about the comparison\<close>

text \<open>
  What the comparison cannot see: a member whose value is \<open>null\<close> on one side and absent on the
  other. \<open>null_norm\<close> drops such members of nested objects (not inside arrays, which are compared
  whole).
\<close>

fun null_norm :: "json \<Rightarrow> json" where
  "null_norm (JObj kvs) = JObj (filter (\<lambda>(k, v). v \<noteq> JNull) (map (\<lambda>(k, v). (k, null_norm v)) kvs))"
| "null_norm v = v"

lemma null_norm_JNull [simp]: "null_norm v = JNull \<longleftrightarrow> v = JNull"
  by (cases v) auto

lemma map_of_null_norm:
  "map_of (filter (\<lambda>(k, v). v \<noteq> JNull) (map (\<lambda>(k, v). (k, null_norm v)) kvs)) k =
   (case map_of kvs k of None \<Rightarrow> None | Some v \<Rightarrow> if v = JNull then None else Some (null_norm v))"
  if "distinct (map fst kvs)" for kvs
  using that
proof (induction kvs)
  case Nil
  then show ?case by simp
next
  case (Cons kv kvs)
  then show ?case
    by (cases kv) (auto split: option.splits simp: rev_image_eqI dest!: map_of_SomeD)
qed

lemma map_of_null_norm_not_null:
  "map_of (filter (\<lambda>(k, v). v \<noteq> JNull) (map (\<lambda>(k, v). (k, null_norm v)) kvs)) k \<noteq> Some JNull"
  by (auto dest!: map_of_SomeD)

lemma map_of_null_norm_default:
  assumes "distinct (map fst kvs)"
  shows "or_null (map_of (filter (\<lambda>(k, v). v \<noteq> JNull) (map (\<lambda>(k, v). (k, null_norm v)) kvs)) k) =
    null_norm (or_null (map_of kvs k))"
  using map_of_null_norm [OF assms, of k] by (auto simp: or_null_def split: option.splits)

lemma strict_filter_map:
  assumes "sorted (map fst kvs)" and "distinct (map fst kvs)"
  shows "sorted (map fst (filter P (map (\<lambda>(k, v). (k, f v)) kvs))) \<and>
    distinct (map fst (filter P (map (\<lambda>(k, v). (k, f v)) kvs)))"
  using assms by (induction kvs) (auto simp: image_iff split: prod.splits) 

lemma null_norm_obj_eq_iff:
  assumes "json_wf (JObj a)" and "json_wf (JObj b)"
  shows "null_norm (JObj a) = null_norm (JObj b) \<longleftrightarrow>
    (\<forall>k. null_norm (or_null (map_of a k)) = null_norm (or_null (map_of b k)))"
proof -
  let ?n = "\<lambda>kvs. filter (\<lambda>(k, v). v \<noteq> JNull) (map (\<lambda>(k, v). (k, null_norm v)) kvs)"
  from assms have s: "sorted (map fst a)" "distinct (map fst a)" "sorted (map fst b)" "distinct (map fst b)"
    by auto
  have inj: "or_null (map_of (?n a) k) = or_null (map_of (?n b) k) \<longleftrightarrow>
      map_of (?n a) k = map_of (?n b) k" for k
    using map_of_null_norm_not_null [of a k] map_of_null_norm_not_null [of b k]
    by (cases "map_of (?n a) k"; cases "map_of (?n b) k") (auto simp: or_null_def)
  have "null_norm (JObj a) = null_norm (JObj b) \<longleftrightarrow> ?n a = ?n b" by simp
  also have "\<dots> \<longleftrightarrow> map_of (?n a) = map_of (?n b)"
    using strict_map_of_eqI [of "?n a" "?n b"] strict_filter_map [OF s(1,2)]
      strict_filter_map [OF s(3,4)] by metis
  also have "\<dots> \<longleftrightarrow> (\<forall>k. or_null (map_of (?n a) k) = or_null (map_of (?n b) k))"
    by (simp add: fun_eq_iff inj)
  finally show ?thesis
    using s by (simp add: map_of_null_norm_default)
qed

lemma json_wf_or_null: "json_wf (JObj kvs) \<Longrightarrow> json_wf (or_null (map_of kvs k))"
  using json_wf_get [of "JObj kvs" k] by (auto simp: or_null_def split: option.splits)

lemma diff_into_Nil_iff:
  assumes "json_wf a" and "json_wf b"
  shows "diff_into a b path = [] \<longleftrightarrow> null_norm a = null_norm b"
  using assms
proof (induction a b path rule: diff_into.induct)
  case (1 a b path)
  show ?case
  proof (cases "a = b")
    case True
    then show ?thesis by (simp add: diff_into.simps)
  next
    case neq: False
    show ?thesis
    proof (cases "\<exists>left right. a = JObj left \<and> b = JObj right")
      case True
      then obtain left right where ab: "a = JObj left" "b = JObj right" by blast
      let ?keys = "btree_set (map fst left @ map fst right)"
      let ?l = "\<lambda>k. or_null (map_of left k)" and ?r = "\<lambda>k. or_null (map_of right k)"
      have outside: "?l k = JNull \<and> ?r k = JNull" if "k \<notin> set ?keys" for k
        using that by (auto simp: or_null_def dest!: map_of_SomeD split: option.splits) force+
      have "diff_into a b path = [] \<longleftrightarrow>
          (\<forall>k \<in> set ?keys. diff_into (?l k) (?r k) (path @ ''/'' @ k) = [])"
        using neq by (subst diff_into.simps) (simp add: ab)
      also have "\<dots> \<longleftrightarrow> (\<forall>k \<in> set ?keys. null_norm (?l k) = null_norm (?r k))"
        using "1.prems" by (intro ball_cong refl "1.IH" [OF neq refl]) (simp_all add: ab json_wf_or_null del: json_wf.simps)
      also have "\<dots> \<longleftrightarrow> (\<forall>k. null_norm (?l k) = null_norm (?r k))"
        using outside by metis
      also have "\<dots> \<longleftrightarrow> null_norm a = null_norm b"
        using null_norm_obj_eq_iff [of left right] "1.prems" by (simp add: ab)
      finally show ?thesis .
    next
      case False
      then have "diff_into a b path \<noteq> []"
        using neq by (subst diff_into.simps) (auto split: json.splits)
      moreover have "null_norm a \<noteq> null_norm b"
        using False neq by (cases a; cases b) auto
      ultimately show ?thesis by simp
    qed
  qed
qed

lemma json_wf_strip_rev: "json_wf v \<Longrightarrow> json_wf (strip_rev v)"
proof (induction v rule: strip_rev.induct)
  case (2 kvs)
  have "map (\<lambda>(k, v). (k, strip_rev v)) (filter (\<lambda>(k, v). k \<noteq> ''_rev'') kvs) =
      filter (\<lambda>(k, v). k \<noteq> ''_rev'') (map (\<lambda>(k, v). (k, strip_rev v)) kvs)"
    by (induction kvs) auto
  with 2 show ?case
    using strict_filter_map [of kvs "\<lambda>(k, v). k \<noteq> ''_rev''" strip_rev] by fastforce
qed auto

section \<open>Properties\<close>

text \<open>a label names the identifier it was minted from. For every identifier \<open>init\<close> accepts,
  the only label that parses back to it with the signing use is the one \<open>signing_label\<close> mints.\<close>

theorem signing_label_round_trip:
  assumes "validate_identifier s = Inr i"
  shows "label_parts lbl = Some (i, SIGNING_USE) \<longleftrightarrow> lbl = signing_label i"
proof
  assume "label_parts lbl = Some (i, SIGNING_USE)"
  then show "lbl = signing_label i" using label_parts_Some(1) by (simp add: signing_label_def)
next
  assume "lbl = signing_label i"
  with assms show "label_parts lbl = Some (i, SIGNING_USE)"
    by (simp add: validate_identifier_Inr label_parts_signing_label)
qed

theorem signing_label_round_trip_witness:
  "label_parts ''am.applications.federation.entity.providers.saml2.acme.signing'' =
   Some (''acme'', SIGNING_USE)"
proof -
  have "validate_identifier ''acme'' = Inr ''acme''"
    by (simp add: validate_identifier_Inr is_ascii_alphanumeric_def is_ascii_lower_def)
  from signing_label_round_trip [OF this] show ?thesis
    by (simp add: signing_label_def LABEL_PREFIX_def SIGNING_USE_def)
qed

text \<open>C38: the body of an identifier write sets the pointer of the one role block, keeps the document
  well formed, and changes no other path of it: a path that neither leads to the pointer nor goes
  through it reads what it read before. The pointer then reads back as the identifier.\<close>

theorem set_secret_identifier_writes_one_leaf:
  assumes "set_secret_identifier e l r i = Inr d" and "json_wf e" and "validate_identifier s = Inr i"
  shows "json_wf d \<and> json_at d (wire r # identifier_path l) = Some (JStr i) \<and>
    Option.bind (json_get d (wire r)) (\<lambda>block. leaf block (identifier_path l)) = Some i \<and>
    (\<forall>p. parallel p (wire r # identifier_path l) \<longrightarrow> json_at d p = json_at e p)"
proof -
  let ?b = "butlast (identifier_path l)" and ?f = "last (identifier_path l)"
  from assms(1) obtain object block block' where e: "e = JObj object"
    and b: "map_of object (wire r) = Some (JObj block)"
    and w: "write_leaf r ?b ?f i block = Inr block'"
    and d: "d = JObj (obj_insert (wire r) (JObj block') object)"
    by (auto simp: set_secret_identifier_Inr)
  have "json_wf (JObj block)" using json_wf_get [OF assms(2), of "wire r"] b by (simp add: e)
  then have "json_wf d"
    using write_leaf_wf [OF w] json_wf_obj_insert assms(2) unfolding d e by blast
  moreover have at_leaf: "json_at (JObj block') (identifier_path l) = Some (JStr i)"
    using write_leaf_at [OF w] by (simp add: identifier_path_snoc)
  moreover from assms(3) have "trim i = i \<and> i \<noteq> []"
    by (auto simp: validate_identifier_Inr list_all_iff alphanumeric_not_whitespace intro!: trim_ident)
  moreover have "json_at d p = json_at e p" if "parallel p (wire r # identifier_path l)" for p
  proof -
    from that obtain k ks where p: "p = k # ks" by (cases p) auto
    show ?thesis
    proof (cases "k = wire r")
      case True
      with that have "parallel ks (?b @ [?f])" by (simp add: p identifier_path_snoc parallel_def)
      then have "json_at (JObj block') ks = json_at (JObj block) ks"
        by (intro write_leaf_frame [OF w]) (auto simp: prefix_def)
      then show ?thesis by (simp add: p d e b True)
    qed (simp add: p d e)
  qed
  ultimately show ?thesis by (simp add: d leaf_def)
qed

theorem set_secret_identifier_writes_one_leaf_witness:
  "json_at (JObj [(''identityProvider'',
      JObj [(''assertionContent'', JObj [(''secrets'', JObj [(''secretIdIdentifier'', JStr ''acme'')])])])])
    [''identityProvider'', ''assertionContent'', ''secrets'', ''secretIdIdentifier''] = Some (JStr ''acme'')"
proof -
  have v: "validate_identifier ''acme'' = Inr ''acme''"
    by (simp add: validate_identifier_Inr is_ascii_alphanumeric_def is_ascii_lower_def)
  have w: "set_secret_identifier (JObj [(''identityProvider'', JObj [])]) Remote Idp ''acme'' =
      Inr (JObj [(''identityProvider'', JObj [(''assertionContent'',
        JObj [(''secrets'', JObj [(''secretIdIdentifier'', JStr ''acme'')])])])])"
    by (simp add: set_secret_identifier_def identifier_path_def wire_def)
  from set_secret_identifier_writes_one_leaf [OF w _ v]
  show ?thesis by (simp add: identifier_path_def wire_def)
qed

text \<open>what the read-back comparison of an entity write accepts. It reports no difference exactly
  when the two documents agree up to every \<open>_rev\<close> and up to object members that are \<open>null\<close> on one
  side and absent on the other: it detects every other change, and cannot detect that one.\<close>

theorem entity_write_differences_complete:
  assumes "json_wf intended" and "json_wf after"
  shows "entity_write_differences intended after = [] \<longleftrightarrow>
    null_norm (strip_rev intended) = null_norm (strip_rev after)"
  using diff_into_Nil_iff [OF json_wf_strip_rev json_wf_strip_rev, OF assms]
  by (simp add: entity_write_differences_def) (metis length_0_conv length_sort)

theorem entity_write_differences_complete_witness:
  "entity_write_differences
     (JObj [(''_rev'', JStr ''1''), (''a'', JNull), (''b'', JStr ''x'')])
     (JObj [(''_rev'', JStr ''2''), (''b'', JStr ''x'')]) = []"
  by (subst entity_write_differences_complete) (simp_all add: less_char_def)

end
