(* ===== verification/Statefile.thy ===== *)
theory Statefile
  imports Prelude
begin

text \<open>
  The lock-and-rename files of \<open>src/src/statefile.rs\<close>: a document, the lock beside it and the
  temporary in which a change is assembled.

  \<open>load\<close> and \<open>update\<close> are one process's view. \<open>fstep\<close> is every process at once: each step of
  \<open>statefile::update\<close> (take the lock, read, assemble the temporary, sync it, rename it over the
  document, drop the lock) is one rule, and a process may die or fail at any of them. The rename
  is atomic and the kernel releases a dead process's lock, as POSIX has it. How the entries are
  written as JSON is serde's; it is the parameter pair \<open>enc\<close>, \<open>dec\<close>, of which only
  \<open>codec_ok\<close> is assumed where it is needed.
\<close>

section \<open>One process\<close>

record files =
  doc_file :: "string option"
  temp_file :: "string option"

definition load :: "(string \<Rightarrow> 'r list option) \<Rightarrow> 'e \<Rightarrow> string option \<Rightarrow> 'e + 'r list" where
  "load dec unreadable file =
     (case file of
        None \<Rightarrow> Inr []
      | Some bytes \<Rightarrow> if bytes = [] then Inr [] else ok_or unreadable (dec bytes))"

definition install :: "string \<Rightarrow> files \<Rightarrow> files" where
  "install body fs = fs\<lparr>doc_file := Some body, temp_file := None\<rparr>"

definition update ::
  "('r list \<Rightarrow> string) \<Rightarrow> (string \<Rightarrow> 'r list option) \<Rightarrow> 'e \<Rightarrow>
   ('r list \<Rightarrow> 'r list) \<Rightarrow> files \<Rightarrow> ('e + unit) \<times> files" where
  "update enc dec unreadable change fs =
     (case load dec unreadable (doc_file fs) of
        Inl e \<Rightarrow> (Inl e, fs)
      | Inr entries \<Rightarrow> (Inr (), install (enc (change entries)) fs))"

definition codec_ok :: "('r list \<Rightarrow> string) \<Rightarrow> (string \<Rightarrow> 'r list option) \<Rightarrow> bool" where
  "codec_ok enc dec = (\<forall>rs. dec (enc rs) = Some rs \<and> enc rs \<noteq> [])"

lemma load_enc: "codec_ok enc dec \<Longrightarrow> load dec e (Some (enc rs)) = Inr rs"
  by (simp add: codec_ok_def load_def)

lemma load_absent [simp]: "load dec e None = Inr []" "load dec e (Some []) = Inr []"
  by (simp_all add: load_def)

lemma update_load:
  assumes "codec_ok enc dec" and "update enc dec e change fs = (Inr (), fs')"
  shows "\<exists>rs. load dec e (doc_file fs) = Inr rs \<and> load dec e (doc_file fs') = Inr (change rs)"
  using assms by (auto simp: update_def install_def load_enc split: sum.splits)

lemma update_unreadable: "update enc dec e change fs = (Inl e', fs') \<Longrightarrow> fs' = fs"
  by (auto simp: update_def split: sum.splits)

section \<open>Many processes\<close>

datatype 'r pc = Idle | Holding | Loaded "'r list" | Assembling "'r list" | Synced "'r list" | Installed

record 'r fsys =
  disk :: files
  holder :: "nat option"
  pcs :: "nat \<Rightarrow> 'r pc"
  committed :: "nat list"

inductive fstep ::
  "('r list \<Rightarrow> string) \<Rightarrow> (string \<Rightarrow> 'r list option) \<Rightarrow> (nat \<Rightarrow> 'r list \<Rightarrow> 'r list) \<Rightarrow>
   'r fsys \<Rightarrow> 'r fsys \<Rightarrow> bool"
  for enc dec change where
  acquire: "pcs s i = Idle \<Longrightarrow> holder s = None \<Longrightarrow>
    fstep enc dec change s (s\<lparr>pcs := (pcs s)(i := Holding), holder := Some i\<rparr>)"
| read_ok: "pcs s i = Holding \<Longrightarrow> load dec () (doc_file (disk s)) = Inr rs \<Longrightarrow>
    fstep enc dec change s (s\<lparr>pcs := (pcs s)(i := Loaded rs)\<rparr>)"
| assemble: "pcs s i = Loaded rs \<Longrightarrow>
    fstep enc dec change s
      (s\<lparr>pcs := (pcs s)(i := Assembling (change i rs)),
         disk := (disk s)\<lparr>temp_file := Some (take n (enc (change i rs)))\<rparr>\<rparr>)"
| sync: "pcs s i = Assembling rs \<Longrightarrow>
    fstep enc dec change s
      (s\<lparr>pcs := (pcs s)(i := Synced rs), disk := (disk s)\<lparr>temp_file := Some (enc rs)\<rparr>\<rparr>)"
| rename: "pcs s i = Synced rs \<Longrightarrow> temp_file (disk s) = Some body \<Longrightarrow>
    fstep enc dec change s
      (s\<lparr>pcs := (pcs s)(i := Installed), disk := install body (disk s),
         committed := committed s @ [i]\<rparr>)"
| unlock: "pcs s i = Installed \<Longrightarrow>
    fstep enc dec change s (s\<lparr>pcs := (pcs s)(i := Idle), holder := None\<rparr>)"
| die: "pcs s i \<noteq> Idle \<Longrightarrow>
    fstep enc dec change s (s\<lparr>pcs := (pcs s)(i := Idle), holder := None\<rparr>)"

inductive freach ::
  "('r list \<Rightarrow> string) \<Rightarrow> (string \<Rightarrow> 'r list option) \<Rightarrow> (nat \<Rightarrow> 'r list \<Rightarrow> 'r list) \<Rightarrow> files \<Rightarrow>
   'r fsys \<Rightarrow> bool"
  for enc dec change start where
  started: "freach enc dec change start
    \<lparr>disk = start, holder = None, pcs = (\<lambda>_. Idle), committed = []\<rparr>"
| more: "freach enc dec change start s \<Longrightarrow> fstep enc dec change s t \<Longrightarrow> freach enc dec change start t"

text \<open>The entries a sequence of committed changes leaves, in commit order.\<close>

definition applied :: "(nat \<Rightarrow> 'r list \<Rightarrow> 'r list) \<Rightarrow> nat list \<Rightarrow> 'r list \<Rightarrow> 'r list" where
  "applied change is rs = fold change is rs"

definition finv ::
  "('r list \<Rightarrow> string) \<Rightarrow> (string \<Rightarrow> 'r list option) \<Rightarrow> (nat \<Rightarrow> 'r list \<Rightarrow> 'r list) \<Rightarrow> 'r list \<Rightarrow>
   'r fsys \<Rightarrow> bool" where
  "finv enc dec change rs0 s \<longleftrightarrow>
     (\<forall>i. (pcs s i \<noteq> Idle) = (holder s = Some i)) \<and>
     load dec () (doc_file (disk s)) = Inr (applied change (committed s) rs0) \<and>
     (\<forall>i rs. pcs s i = Loaded rs \<longrightarrow> rs = applied change (committed s) rs0) \<and>
     (\<forall>i rs. pcs s i = Assembling rs \<longrightarrow> rs = change i (applied change (committed s) rs0)) \<and>
     (\<forall>i rs. pcs s i = Synced rs \<longrightarrow>
        rs = change i (applied change (committed s) rs0) \<and> temp_file (disk s) = Some (enc rs))"

lemma finv_excl: "finv enc dec change rs0 s \<Longrightarrow> pcs s i \<noteq> Idle \<Longrightarrow> pcs s j \<noteq> Idle \<Longrightarrow> i = j"
  by (metis finv_def option.inject)

lemma finv_step:
  assumes codec: "codec_ok enc dec" and "fstep enc dec change s t" and inv: "finv enc dec change rs0 s"
  shows "finv enc dec change rs0 t"
  using assms(2)
proof cases
  case (acquire i)
  with inv show ?thesis by (auto simp: finv_def)
next
  case (read_ok i rs)
  with inv show ?thesis by (auto simp: finv_def)
next
  case (assemble i rs n)
  then have "pcs s j = Idle" if "j \<noteq> i" for j
    using finv_excl [OF inv, of i j] that by auto
  with inv assemble show ?thesis by (auto simp: finv_def)
next
  case (sync i rs)
  then have "pcs s j = Idle" if "j \<noteq> i" for j
    using finv_excl [OF inv, of i j] that by auto
  with inv sync show ?thesis by (auto simp: finv_def)
next
  case (rename i rs body)
  then have idle: "pcs s j = Idle" if "j \<noteq> i" for j
    using finv_excl [OF inv, of i j] that by auto
  from inv rename have "body = enc (change i (applied change (committed s) rs0))"
    by (auto simp: finv_def)
  with inv rename idle codec show ?thesis
    by (auto simp: finv_def install_def load_enc applied_def)
next
  case (unlock i)
  then have "pcs s j = Idle" if "j \<noteq> i" for j
    using finv_excl [OF inv, of i j] that by auto
  with inv unlock show ?thesis by (auto simp: finv_def)
next
  case (die i)
  then have "pcs s j = Idle" if "j \<noteq> i" for j
    using finv_excl [OF inv, of i j] that by auto
  with inv die show ?thesis by (auto simp: finv_def)
qed

lemma freach_finv:
  assumes codec: "codec_ok enc dec" and start: "load dec () (doc_file start) = Inr rs0"
  shows "freach enc dec change start s \<Longrightarrow> finv enc dec change rs0 s"
proof (induction rule: freach.induct)
  case started
  with start show ?case by (simp add: finv_def applied_def)
next
  case (more s t)
  then show ?case by (blast intro: finv_step [OF codec])
qed

section \<open>Properties\<close>

text \<open>C35: no update is lost and no reader sees a torn document. In every state that any number of
  processes can reach, with any of them dying or failing between any two steps, the document on
  disk decodes, and what it decodes to is exactly the committed changes applied one after another
  to what was there at the start; and at most one process is inside \<open>update\<close>.\<close>

theorem no_lost_update:
  assumes "codec_ok enc dec" and "load dec () (doc_file start) = Inr rs0"
    and "freach enc dec change start s"
  shows "load dec () (doc_file (disk s)) = Inr (fold change (committed s) rs0) \<and>
    (\<forall>i j. pcs s i \<noteq> Idle \<and> pcs s j \<noteq> Idle \<longrightarrow> i = j)"
proof -
  from assms have inv: "finv enc dec change rs0 s" by (blast intro: freach_finv)
  then have "load dec () (doc_file (disk s)) = Inr (fold change (committed s) rs0)"
    by (simp add: finv_def applied_def)
  with finv_excl [OF inv] show ?thesis by blast
qed

text \<open>A one-line encoding and a run of it: process 0 commits, process 1 dies while assembling.\<close>

definition line_enc :: "string \<Rightarrow> string" where
  "line_enc rs = CHR ''['' # rs"

definition line_dec :: "string \<Rightarrow> string option" where
  "line_dec s = (case s of [] \<Rightarrow> None | c # rs \<Rightarrow> if c = CHR ''['' then Some rs else None)"

definition line_change :: "nat \<Rightarrow> string \<Rightarrow> string" where
  "line_change i rs = rs @ [if i = 0 then CHR ''a'' else CHR ''b'']"

lemma line_codec: "codec_ok line_enc line_dec"
  by (simp add: codec_ok_def line_enc_def line_dec_def)

definition line_start :: files where
  "line_start = \<lparr>doc_file = None, temp_file = None\<rparr>"

lemma line_run:
  "\<exists>s. freach line_enc line_dec line_change line_start s \<and> committed s = [0] \<and>
     temp_file (disk s) = Some ''[''"
proof -
  note go = freach.more [where enc = line_enc and dec = line_dec and change = line_change]
  let ?s0 = "\<lparr>disk = line_start, holder = None, pcs = (\<lambda>_. Idle), committed = []\<rparr> :: char fsys"
  have "freach line_enc line_dec line_change line_start ?s0" by (rule freach.started)
  note r1 = go [OF this fstep.acquire [where i = 0]]
  note r2 = go [OF r1 fstep.read_ok [where i = 0 and rs = "[]"]]
  note r3 = go [OF r2 fstep.assemble [where i = 0 and rs = "[]" and n = 0]]
  note r4 = go [OF r3 fstep.sync [where i = 0 and rs = "''a''"]]
  note r5 = go [OF r4 fstep.rename [where i = 0 and rs = "''a''" and body = "''[a''"]]
  note r6 = go [OF r5 fstep.unlock [where i = 0]]
  note r7 = go [OF r6 fstep.acquire [where i = 1]]
  note r8 = go [OF r7 fstep.read_ok [where i = 1 and rs = "''a''"]]
  note r9 = go [OF r8 fstep.assemble [where i = 1 and rs = "''a''" and n = 1]]
  note r10 = go [OF r9 fstep.die [where i = 1]]
  show ?thesis
    by (rule exI, rule conjI, rule r10)
      (simp_all add: line_start_def line_change_def line_enc_def line_dec_def load_def install_def)
qed

theorem no_lost_update_witness:
  "\<exists>s. freach line_enc line_dec line_change line_start s \<and> committed s = [0] \<and>
     load line_dec () (doc_file (disk s)) = Inr ''a''"
proof -
  from line_run obtain s where s: "freach line_enc line_dec line_change line_start s" "committed s = [0]"
    by blast
  have "load line_dec () (doc_file line_start) = Inr []" by (simp add: line_start_def)
  from no_lost_update [OF line_codec this s(1)] s show ?thesis by (auto simp: line_change_def)
qed

end
