(* ===== verification/Journal.thy ===== *)
theory Journal
  imports Saml_Types Statefile
begin

text \<open>
  The rotation journal of \<open>src/src/saml/rotate/journal.rs\<close>: one record per staged rollover, keyed
  by tenant, realm, entity and role, kept in a file of \<open>Statefile\<close>.

  The locale \<open>keyed_store\<close> is what its readers and writers rely on: which record a lookup
  finds after a change. The interpretation at the end proves it of the journal's own functions.
\<close>

section \<open>The interface of a keyed record store\<close>

locale keyed_store =
  fixes key_of :: "'r \<Rightarrow> 'k"
    and find :: "'r list \<Rightarrow> 'k \<Rightarrow> 'r option"
    and put :: "'r \<Rightarrow> 'r list \<Rightarrow> 'r list"
    and clear :: "'k \<Rightarrow> 'r list \<Rightarrow> 'r list"
  assumes find_nil: "find [] k = None"
    and find_key: "find rs k = Some r \<Longrightarrow> key_of r = k"
    and find_put: "find (put r rs) k = (if k = key_of r then Some r else find rs k)"
    and find_clear: "find (clear k rs) k' = (if k' = k then None else find rs k')"
begin

lemma put_found: "find (put r rs) (key_of r) = Some r"
  by (simp add: find_put)

lemma clear_absent: "find (clear k rs) k = None"
  by (simp add: find_clear)

lemma put_overwrites: "key_of r = key_of r' \<Longrightarrow> find (put r (put r' rs)) = find (put r rs)"
  by (auto simp: find_put fun_eq_iff)

lemma put_commutes:
  "key_of r \<noteq> key_of r' \<Longrightarrow> find (put r (put r' rs)) = find (put r' (put r rs))"
  by (auto simp: find_put fun_eq_iff)

lemma clear_put: "find (clear (key_of r) (put r rs)) = find (clear (key_of r) rs)"
  by (auto simp: find_put find_clear fun_eq_iff)

text \<open>A lookup after a run of writes is decided by the last write to its key.\<close>

lemma find_fold_put:
  "find (fold put ws rs) k =
   (case filter (\<lambda>r. key_of r = k) ws of [] \<Rightarrow> find rs k | _ # _ \<Rightarrow>
      Some (last (filter (\<lambda>r. key_of r = k) ws)))"
  by (induction ws arbitrary: rs) (auto simp: find_put split: list.splits)

end

section \<open>The journal\<close>

record key =
  key_tenant :: string
  key_realm :: string
  key_entity_id :: string
  key_role :: string

definition matches :: "key \<Rightarrow> staged_record \<Rightarrow> bool" where
  "matches k r =
     (rec_tenant r = key_tenant k \<and> rec_realm r = key_realm k \<and>
      rec_entity_id r = key_entity_id k \<and> rec_role r = key_role k)"

definition key_of :: "staged_record \<Rightarrow> key" where
  "key_of r =
     \<lparr>key_tenant = rec_tenant r, key_realm = rec_realm r, key_entity_id = rec_entity_id r,
      key_role = rec_role r\<rparr>"

definition find_in :: "staged_record list \<Rightarrow> key \<Rightarrow> staged_record option" where
  "find_in entries k = find (matches k) entries"

definition record_entry :: "staged_record \<Rightarrow> staged_record list \<Rightarrow> staged_record list" where
  "record_entry entry entries =
     filter (\<lambda>existing. \<not> matches (key_of entry) existing) entries @ [entry]"

definition clear_key :: "key \<Rightarrow> staged_record list \<Rightarrow> staged_record list" where
  "clear_key k entries = filter (\<lambda>existing. \<not> matches k existing) entries"

definition clear_entity ::
  "string \<Rightarrow> string \<Rightarrow> string \<Rightarrow> staged_record list \<Rightarrow> staged_record list" where
  "clear_entity tenant realm entity_id entries =
     filter (\<lambda>existing. \<not> (rec_tenant existing = tenant \<and> rec_realm existing = realm \<and>
                             rec_entity_id existing = entity_id)) entries"

text \<open>\<open>find\<close>, \<open>record\<close> and \<open>clear\<close> on the journal file.\<close>

type_synonym journal_decoder = "string \<Rightarrow> staged_record list option"

type_synonym journal_encoder = "staged_record list \<Rightarrow> string"

definition load_at :: "journal_decoder \<Rightarrow> string option \<Rightarrow> error + staged_record list" where
  "load_at dec file = load dec (Config (NoPair JournalUnreadable)) file"

definition find_record :: "journal_decoder \<Rightarrow> files \<Rightarrow> key \<Rightarrow> error + staged_record option" where
  "find_record dec fs k =
     res_bind (load_at dec (doc_file fs)) (\<lambda>entries. Inr (find_in entries k))"

definition update_at ::
  "journal_encoder \<Rightarrow> journal_decoder \<Rightarrow> (staged_record list \<Rightarrow> staged_record list) \<Rightarrow> files \<Rightarrow>
   (error + unit) \<times> files" where
  "update_at enc dec change fs = update enc dec (Config (NoPair JournalUnreadable)) change fs"

definition record_staged ::
  "journal_encoder \<Rightarrow> journal_decoder \<Rightarrow> staged_record \<Rightarrow> stage_permit \<Rightarrow> files \<Rightarrow>
   (error + unit) \<times> files" where
  "record_staged enc dec entry permit fs = update_at enc dec (record_entry entry) fs"

definition clear_staged ::
  "journal_encoder \<Rightarrow> journal_decoder \<Rightarrow> key \<Rightarrow> files \<Rightarrow> (error + unit) \<times> files" where
  "clear_staged enc dec k fs = update_at enc dec (clear_key k) fs"

definition clear_entity_at ::
  "journal_encoder \<Rightarrow> journal_decoder \<Rightarrow> string \<Rightarrow> string \<Rightarrow> string \<Rightarrow> files \<Rightarrow>
   (error + unit) \<times> files" where
  "clear_entity_at enc dec tenant realm entity_id fs =
     update_at enc dec (clear_entity tenant realm entity_id) fs"

lemma matches_iff: "matches k r \<longleftrightarrow> key_of r = k"
  by (cases k) (auto simp: matches_def key_of_def)

lemma matches_eq: "matches k = (\<lambda>r. key_of r = k)"
  by (simp add: fun_eq_iff matches_iff)

lemma find_filter_not:
  "find P (filter (\<lambda>x. \<not> Q x) xs) = find (\<lambda>x. P x \<and> \<not> Q x) xs"
  by (induction xs) auto

lemma find_append:
  "find P (xs @ ys) = (case find P xs of None \<Rightarrow> find P ys | Some x \<Rightarrow> Some x)"
  by (induction xs) auto

lemma find_False [simp]: "find (\<lambda>x. False) xs = None"
  by (induction xs) auto

lemma find_in_other:
  "k' \<noteq> k \<Longrightarrow> find (\<lambda>x. key_of x = k' \<and> key_of x \<noteq> k) xs = find (\<lambda>x. key_of x = k') xs"
  by (induction xs) auto

interpretation journal: keyed_store key_of find_in record_entry clear_key
proof unfold_locales
  show "find_in [] k = None" for k by (simp add: find_in_def)
  show "key_of r = k" if "find_in rs k = Some r" for rs k r
    using that by (auto simp: find_in_def find_Some_iff matches_iff)
  show "find_in (record_entry r rs) k = (if k = key_of r then Some r else find_in rs k)" for r rs k
    by (auto simp: find_in_def record_entry_def matches_eq find_append find_filter_not find_in_other
        split: option.splits)
  show "find_in (clear_key k rs) k' = (if k' = k then None else find_in rs k')" for k rs k'
    by (auto simp: find_in_def clear_key_def matches_eq find_filter_not find_in_other)
qed

lemma find_in_clear_entity:
  "find_in (clear_entity t r e rs) k =
   (if key_tenant k = t \<and> key_realm k = r \<and> key_entity_id k = e then None else find_in rs k)"
  by (induction rs) (auto simp: find_in_def clear_entity_def matches_def)

section \<open>Properties\<close>

text \<open>A concrete encoding of the journal, for the witnesses: nine terminated strings per record.\<close>

fun enc_strs :: "string list \<Rightarrow> string" where
  "enc_strs [] = []"
| "enc_strs (s # ss) = concat (map (\<lambda>c. [CHR ''='', c]) s) @ CHR '';'' # enc_strs ss"

fun dec_strs :: "string \<Rightarrow> string \<Rightarrow> string list" where
  "dec_strs acc [] = []"
| "dec_strs acc [x] = (if x = CHR '';'' then [rev acc] else [])"
| "dec_strs acc (x # c # t) =
     (if x = CHR '';'' then rev acc # dec_strs [] (c # t) else dec_strs (c # acc) t)"

fun of_strs :: "string list \<Rightarrow> staged_record list" where
  "of_strs (a # b # c # d # e # f # g # h # i # ss) =
     \<lparr>rec_tenant = a, rec_realm = b, rec_entity_id = c, rec_role = d, rec_identifier = e,
      rec_secret_id = f, rec_version = g, rec_sha256 = h, rec_staged_at = i\<rparr> # of_strs ss"
| "of_strs _ = []"

definition to_strs :: "staged_record \<Rightarrow> string list" where
  "to_strs r =
     [rec_tenant r, rec_realm r, rec_entity_id r, rec_role r, rec_identifier r, rec_secret_id r,
      rec_version r, rec_sha256 r, rec_staged_at r]"

definition plain_enc :: journal_encoder where
  "plain_enc rs = CHR ''j'' # enc_strs (concat (map to_strs rs))"

definition plain_dec :: journal_decoder where
  "plain_dec s = (case s of [] \<Rightarrow> None | _ # t \<Rightarrow> Some (of_strs (dec_strs [] t)))"

lemma dec_strs_one:
  "dec_strs acc (concat (map (\<lambda>c. [CHR ''='', c]) s) @ CHR '';'' # t) = (rev acc @ s) # dec_strs [] t"
  by (induction s arbitrary: acc; cases t) simp_all

lemma plain_codec: "codec_ok plain_enc plain_dec"
proof -
  have "dec_strs [] (enc_strs ss) = ss" for ss
    by (induction ss) (simp_all add: dec_strs_one)
  moreover have "of_strs (concat (map to_strs rs)) = rs" for rs
    by (induction rs) (simp_all add: to_strs_def)
  ultimately show ?thesis by (simp add: codec_ok_def plain_enc_def plain_dec_def)
qed

definition sample_record :: staged_record where
  "sample_record =
     \<lparr>rec_tenant = ''t'', rec_realm = ''alpha'', rec_entity_id = ''e'', rec_role = ''idp'',
      rec_identifier = ''acme'', rec_secret_id = ''esv-k'', rec_version = ''2'',
      rec_sha256 = ''b'', rec_staged_at = ''now''\<rparr>"

definition no_files :: files where
  "no_files = \<lparr>doc_file = None, temp_file = None\<rparr>"

text \<open>a staged rollover is found again. After \<open>record\<close> succeeds, a lookup under the entry's own
  key finds exactly that entry, whatever was recorded there before, and every other key finds what
  it found before.\<close>

theorem recorded_is_found:
  assumes "codec_ok enc dec" and "record_staged enc dec entry permit fs = (Inr (), fs')"
  shows "find_record dec fs' k =
    (if k = key_of entry then Inr (Some entry) else find_record dec fs k)"
proof -
  obtain rs where "load_at dec (doc_file fs) = Inr rs"
    and "load_at dec (doc_file fs') = Inr (record_entry entry rs)"
    using update_load [OF assms(1)] assms(2)
    unfolding record_staged_def update_at_def load_at_def by metis
  then show ?thesis by (simp add: find_record_def journal.find_put)
qed

theorem recorded_is_found_witness:
  "find_record plain_dec (snd (record_staged plain_enc plain_dec sample_record StagePermit no_files))
     \<lparr>key_tenant = ''t'', key_realm = ''alpha'', key_entity_id = ''e'', key_role = ''idp''\<rparr> =
   Inr (Some sample_record)"
proof -
  obtain fs' where fs': "record_staged plain_enc plain_dec sample_record StagePermit no_files = (Inr (), fs')"
    by (simp add: record_staged_def update_at_def update_def no_files_def)
  from recorded_is_found [OF plain_codec fs'] show ?thesis
    by (simp add: fs' key_of_def) (simp add: sample_record_def)
qed

text \<open>clearing forgets exactly one rollover. After \<open>clear\<close> succeeds its key finds nothing and
  every other key, of another role of the same entity included, finds what it found before; and when the
  journal cannot be read, nothing on disk changes.\<close>

theorem cleared_is_forgotten:
  assumes "codec_ok enc dec" and "clear_staged enc dec k fs = (res, fs')"
  shows "(res = Inr () \<and>
      (\<forall>k'. find_record dec fs' k' = (if k' = k then Inr None else find_record dec fs k'))) \<or>
    (res = Inl (Config (NoPair JournalUnreadable)) \<and> fs' = fs)"
proof (cases res)
  case (Inl e)
  with assms(2) show ?thesis
    by (auto simp: clear_staged_def update_at_def update_def load_def ok_or_def
        split: sum.splits option.splits if_splits)
next
  case (Inr u)
  with assms(2) obtain rs where "load_at dec (doc_file fs) = Inr rs"
    and "load_at dec (doc_file fs') = Inr (clear_key k rs)"
    using update_load [OF assms(1)] unfolding clear_staged_def update_at_def load_at_def
    by (metis old.unit.exhaust)
  with Inr show ?thesis by (simp add: find_record_def journal.find_clear)
qed

theorem cleared_is_forgotten_witness:
  "find_record plain_dec
     (snd (clear_staged plain_enc plain_dec (key_of sample_record)
       \<lparr>doc_file = Some (plain_enc [sample_record, sample_record\<lparr>rec_role := ''sp''\<rparr>]), temp_file = None\<rparr>))
     (key_of (sample_record\<lparr>rec_role := ''sp''\<rparr>)) =
   Inr (Some (sample_record\<lparr>rec_role := ''sp''\<rparr>))"
proof -
  let ?fs = "\<lparr>doc_file = Some (plain_enc [sample_record, sample_record\<lparr>rec_role := ''sp''\<rparr>]), temp_file = None\<rparr>"
  obtain fs' where fs': "clear_staged plain_enc plain_dec (key_of sample_record) ?fs = (Inr (), fs')"
    using plain_codec by (simp add: clear_staged_def update_at_def update_def load_enc)
  from cleared_is_forgotten [OF plain_codec fs']
  have "find_record plain_dec fs' (key_of (sample_record\<lparr>rec_role := ''sp''\<rparr>)) =
      find_record plain_dec ?fs (key_of (sample_record\<lparr>rec_role := ''sp''\<rparr>))"
    by (simp add: key_of_def sample_record_def)
  also have "\<dots> = Inr (Some (sample_record\<lparr>rec_role := ''sp''\<rparr>))"
    using plain_codec
    by (simp add: find_record_def load_at_def load_enc find_in_def matches_def key_of_def sample_record_def)
  finally show ?thesis by (simp add: fs')
qed

end
