(* ===== verification/Rotation_State.thy ===== *)
theory Rotation_State
  imports Saml_Entity Journal
begin

text \<open>
  What the four reads of a rotation mean together (\<open>src/src/saml/rotate/spec.rs\<close>): parsing the
  secret and its versions, which certificates the role publishes, which versions are ENABLED,
  the phase of the rotation, and whether the local record still pairs a certificate with a version.
\<close>

section \<open>Secrets and versions\<close>

definition parse_secret_facts :: "string \<Rightarrow> json \<Rightarrow> secret_facts" where
  "parse_secret_facts ident secret =
     \<lparr>sf_id = ident, sf_encoding = str_or_default secret ''encoding'',
      sf_use_in_placeholders = bool_or_false secret ''useInPlaceholders'',
      sf_loaded = bool_or_false secret ''loaded'',
      sf_active_version = str_or_default secret ''activeVersion'',
      sf_loaded_version = str_or_default secret ''loadedVersion''\<rparr>"

definition enabled :: "secret_version \<Rightarrow> bool" where
  "enabled v = (sv_status v = ''ENABLED'')"

definition number :: "secret_version \<Rightarrow> nat option" where
  "number v = parse_u64 (sv_version v)"

definition parse_versions :: "json list \<Rightarrow> secret_version list" where
  "parse_versions versions =
     map (\<lambda>v. \<lparr>sv_version = str_or_default v ''version'', sv_status = str_or_default v ''status'',
               sv_create_date = str_or_default v ''createDate''\<rparr>) versions"

definition enabled_in :: "secret_version list \<Rightarrow> secret_version list" where
  "enabled_in versions = sort_key number (filter enabled versions)"

section \<open>The state of a rotation\<close>

definition publishes_signing :: "role \<Rightarrow> cert_ref \<Rightarrow> bool" where
  "publishes_signing r c = (descriptor c = role_descriptor r \<and> key_use c = Some SIGNING_USE)"

definition published :: "rotation_state \<Rightarrow> cert_ref list" where
  "published s = filter (publishes_signing (rs_role s)) (rs_certs s)"

definition published_fingerprints :: "rotation_state \<Rightarrow> string list" where
  "published_fingerprints s = btree_set (map cert_sha256 (published s))"

definition enabled_versions :: "rotation_state \<Rightarrow> secret_version list" where
  "enabled_versions s = enabled_in (rs_versions s)"

definition latest_version :: "rotation_state \<Rightarrow> secret_version option" where
  "latest_version s = max_by_key number (rs_versions s)"

definition label :: "rotation_state \<Rightarrow> string option" where
  "label s = map_option signing_label (rs_identifier s)"

definition consumer_of :: "rotation_state \<Rightarrow> consumer option" where
  "consumer_of s =
     map_option (\<lambda>l. \<lparr>con_realm = rs_realm s, con_entity_id = rs_entity_id s,
                      con_location = rs_location s, con_role = rs_role s, con_label = l\<rparr>) (label s)"

definition unusable_reason :: "secret_facts \<Rightarrow> unusable option" where
  "unusable_reason secret =
     (if sf_encoding secret \<noteq> ''pem'' then Some (NotPem (sf_id secret) (sf_encoding secret))
      else if sf_use_in_placeholders secret then Some (InPlaceholders (sf_id secret))
      else None)"

definition phase :: "rotation_state \<Rightarrow> phase" where
  "phase s =
     (case rs_identifier s of None \<Rightarrow> Unconfigured | Some _ \<Rightarrow>
      case rs_mapped_alias s of None \<Rightarrow> Unmapped | Some alias \<Rightarrow>
      case rs_secret s of None \<Rightarrow> Dangling alias | Some secret \<Rightarrow>
      case unusable_reason secret of Some reason \<Rightarrow> Unusable reason | None \<Rightarrow>
        (let e = length (enabled_versions s); p = length (published s)
         in if e = 1 \<and> p = 1 then Settled
            else if e = 2 \<and> p = 2 then Staged
            else if e = p then Inconsistent (EqualCounts e p)
            else Inconsistent (UnequalCounts e p)))"

definition actionable :: "phase \<Rightarrow> bool" where
  "actionable p = (p = Settled \<or> p = Staged)"

section \<open>The local record\<close>

definition usable_pairing :: "rotation_state \<Rightarrow> staged_record option" where
  "usable_pairing s =
     Option.bind (rs_record s) (\<lambda>record.
     Option.bind (rs_secret s) (\<lambda>secret.
       if rec_sha256 record \<in> set (published_fingerprints s) \<and>
          rs_identifier s = Some (rec_identifier record) \<and>
          sf_id secret = rec_secret_id record \<and>
          list_ex (\<lambda>v. sv_version v = rec_version record \<and> enabled v) (rs_versions s)
       then Some record else None))"

section \<open>Settlement\<close>

definition settled_on :: "string list \<Rightarrow> string list \<Rightarrow> bool" where
  "settled_on seen expected = (seen = expected)"

definition settlement_gap :: "string list \<Rightarrow> string list \<Rightarrow> string list \<times> string list" where
  "settlement_gap seen expected = (set_difference expected seen, set_difference seen expected)"

definition rollover_inputs_from :: "secret_version list \<Rightarrow> string list \<Rightarrow> rollover_inputs" where
  "rollover_inputs_from versions seen =
     \<lparr>ri_enabled = map sv_version (enabled_in versions), ri_published = seen\<rparr>"

definition rollover_inputs :: "rotation_state \<Rightarrow> rollover_inputs" where
  "rollover_inputs s = rollover_inputs_from (rs_versions s) (published_fingerprints s)"

section \<open>Facts\<close>

lemma set_enabled_in [simp]: "set (enabled_in vs) = {v \<in> set vs. enabled v}"
  by (auto simp: enabled_in_def)

lemma sorted_enabled_in: "sorted (map number (enabled_in vs))"
  by (simp add: enabled_in_def)

lemma length_enabled_in: "length (enabled_in vs) = length (filter enabled vs)"
  by (simp add: enabled_in_def)

lemma latest_version_max:
  "latest_version s = Some v \<Longrightarrow> v \<in> set (rs_versions s) \<and> (\<forall>w \<in> set (rs_versions s). number w \<le> number v)"
  unfolding latest_version_def using max_by_key_in max_by_key_max by metis

lemma phase_Settled_iff:
  "phase s = Settled \<longleftrightarrow>
   rs_identifier s \<noteq> None \<and> rs_mapped_alias s \<noteq> None \<and>
   (\<exists>secret. rs_secret s = Some secret \<and> unusable_reason secret = None) \<and>
   length (enabled_versions s) = 1 \<and> length (published s) = 1"
  by (auto simp: phase_def Let_def split: option.splits)

lemma phase_Staged_iff:
  "phase s = Staged \<longleftrightarrow>
   rs_identifier s \<noteq> None \<and> rs_mapped_alias s \<noteq> None \<and>
   (\<exists>secret. rs_secret s = Some secret \<and> unusable_reason secret = None) \<and>
   length (enabled_versions s) = 2 \<and> length (published s) = 2"
  by (auto simp: phase_def Let_def split: option.splits)

lemma unusable_reason_None_iff:
  "unusable_reason secret = None \<longleftrightarrow> sf_encoding secret = ''pem'' \<and> \<not> sf_use_in_placeholders secret"
  by (simp add: unusable_reason_def)

lemma usable_pairing_iff:
  "usable_pairing s = Some r \<longleftrightarrow>
   rs_record s = Some r \<and>
   (\<exists>secret. rs_secret s = Some secret \<and> sf_id secret = rec_secret_id r) \<and>
   rec_sha256 r \<in> set (published_fingerprints s) \<and>
   rs_identifier s = Some (rec_identifier r) \<and>
   (\<exists>v \<in> set (rs_versions s). sv_version v = rec_version r \<and> enabled v)"
  by (auto simp: usable_pairing_def Option.bind_eq_Some_conv list_ex_iff)

lemma settlement_gap_empty:
  assumes "settlement_gap seen expected = ([], [])"
  shows "set seen = set expected"
  using assms by (auto simp: settlement_gap_def set_difference_def filter_empty_conv)

lemma set_published_fingerprints: "set (published_fingerprints s) = cert_sha256 ` set (published s)"
  by (simp add: published_fingerprints_def)

lemma length_published_fingerprints: "length (published_fingerprints s) \<le> length (published s)"
  by (metis card_length length_btree_set length_map published_fingerprints_def)

lemma btree_published_fingerprints [simp]: "btree_set (published_fingerprints s) = published_fingerprints s"
  by (simp add: published_fingerprints_def)

end
