(* ===== verification/Survey.thy ===== *)
theory Survey
  imports Rotation_State
begin

text \<open>
  Who resolves a key through an ESV secret (\<open>survey_consumers\<close> and \<open>exclusive_ok\<close> of
  \<open>src/src/saml/rotate/spec.rs\<close>). \<open>resolves\<close> says it without the loop: the lemmas show that the
  survey lists exactly the consumers it describes, and that exclusivity is what it claims.
\<close>

section \<open>The survey\<close>

definition SURVEYED_REALMS :: "string list" where
  "SURVEYED_REALMS = [''alpha'', ''bravo'']"

definition surveyed_labels :: "consumer \<Rightarrow> string option \<Rightarrow> realm_survey \<Rightarrow> string list" where
  "surveyed_labels mine secret_id surveyed =
     btree_set
       (map map_secret_id
          (filter (\<lambda>m. secret_id \<noteq> None \<and> map_alias m = secret_id) (sur_mappings surveyed)) @
        (if sur_realm surveyed = con_realm mine then [con_label mine] else []))"

definition claimants :: "realm_survey \<Rightarrow> string \<Rightarrow> consumer list" where
  "claimants surveyed lbl =
     (case label_parts lbl of
        None \<Rightarrow> []
      | Some (identifier, _) \<Rightarrow>
          concat (map (\<lambda>entity.
            map (\<lambda>(r, _). \<lparr>con_realm = sur_realm surveyed, con_entity_id = ei_entity_id entity,
                           con_location = ei_location entity, con_role = r, con_label = lbl\<rparr>)
              (filter (\<lambda>(_, named). named = identifier) (ei_identifiers entity)))
            (sur_entities surveyed)))"

definition survey_label ::
  "consumer \<Rightarrow> realm_survey \<Rightarrow> string \<Rightarrow> consumer list \<times> unclaimed_label list" where
  "survey_label mine surveyed lbl =
     (let cl = claimants surveyed lbl
      in (filter (\<lambda>c. c \<noteq> mine) cl,
          if cl = [] \<and> \<not> (sur_realm surveyed = con_realm mine \<and> lbl = con_label mine)
          then [\<lparr>ul_realm = sur_realm surveyed, ul_label = lbl\<rparr>] else []))"

definition survey_realm ::
  "consumer \<Rightarrow> string option \<Rightarrow> realm_survey \<Rightarrow> (consumer list \<times> unclaimed_label list) list" where
  "survey_realm mine secret_id surveyed =
     map (survey_label mine surveyed) (surveyed_labels mine secret_id surveyed)"

definition sort_order :: "consumer \<Rightarrow> string \<times> string \<times> string \<times> string" where
  "sort_order c = (con_realm c, con_entity_id c, location_str (con_location c), con_label c)"

definition survey_consumers :: "consumer \<Rightarrow> string option \<Rightarrow> realm_survey list \<Rightarrow> consumers" where
  "survey_consumers mine secret_id realms =
     (let found = concat (map (survey_realm mine secret_id) realms);
          covered = btree_set (map sur_realm realms)
      in \<lparr>cs_realms = covered,
          cs_unsurveyed =
            btree_set (filter (\<lambda>r. r \<notin> set covered) (SURVEYED_REALMS @ [con_realm mine])),
          cs_secret_id = secret_id,
          cs_mine = mine,
          cs_others = sort_key sort_order (concat (map fst found)),
          cs_unclaimed_labels = concat (map snd found)\<rparr>)"

definition exclusive :: "consumers \<Rightarrow> bool" where
  "exclusive c = (cs_others c = [] \<and> cs_unclaimed_labels c = [] \<and> cs_unsurveyed c = [])"

definition subject :: "consumers \<Rightarrow> string" where
  "subject c = (case cs_secret_id c of None \<Rightarrow> con_label (cs_mine c) | Some s \<Rightarrow> s)"

definition exclusive_ok :: "string \<Rightarrow> consumers \<Rightarrow> error + exclusivity_proof" where
  "exclusive_ok verb c =
     (if exclusive c then Inr ExclusivityProof else Inl (Config (Moved (NotExclusive verb c))))"

section \<open>What the survey is about\<close>

text \<open>A label is mapped onto the secret in a surveyed realm, or is the role's own.\<close>

definition mapped_label :: "consumer \<Rightarrow> string option \<Rightarrow> realm_survey \<Rightarrow> string \<Rightarrow> bool" where
  "mapped_label mine secret_id surveyed lbl \<longleftrightarrow>
     (secret_id \<noteq> None \<and>
        (\<exists>m \<in> set (sur_mappings surveyed). map_alias m = secret_id \<and> map_secret_id m = lbl)) \<or>
     (sur_realm surveyed = con_realm mine \<and> lbl = con_label mine)"

text \<open>A role of an entity names the identifier such a label was minted from.\<close>

definition resolves :: "consumer \<Rightarrow> string option \<Rightarrow> realm_survey list \<Rightarrow> consumer \<Rightarrow> bool" where
  "resolves mine secret_id realms c \<longleftrightarrow>
     (\<exists>surveyed \<in> set realms. con_realm c = sur_realm surveyed \<and>
        mapped_label mine secret_id surveyed (con_label c) \<and>
        (\<exists>entity \<in> set (sur_entities surveyed).
           con_entity_id c = ei_entity_id entity \<and> con_location c = ei_location entity \<and>
           (\<exists>i u. label_parts (con_label c) = Some (i, u) \<and>
              (con_role c, i) \<in> set (ei_identifiers entity))))"

lemma set_surveyed_labels:
  "lbl \<in> set (surveyed_labels mine secret_id surveyed) \<longleftrightarrow> mapped_label mine secret_id surveyed lbl"
  by (auto simp: surveyed_labels_def mapped_label_def)

lemma in_claimants:
  "c \<in> set (claimants surveyed lbl) \<longleftrightarrow>
   con_realm c = sur_realm surveyed \<and> con_label c = lbl \<and>
   (\<exists>entity \<in> set (sur_entities surveyed).
      con_entity_id c = ei_entity_id entity \<and> con_location c = ei_location entity \<and>
      (\<exists>i u. label_parts lbl = Some (i, u) \<and> (con_role c, i) \<in> set (ei_identifiers entity)))"
proof (cases "label_parts lbl")
  case None
  then show ?thesis by (simp add: claimants_def)
next
  case (Some parts)
  obtain i u where parts: "parts = (i, u)" by (cases parts)
  have "c \<in> set (claimants surveyed lbl) \<longleftrightarrow>
      (\<exists>entity \<in> set (sur_entities surveyed). \<exists>r. (r, i) \<in> set (ei_identifiers entity) \<and>
         c = \<lparr>con_realm = sur_realm surveyed, con_entity_id = ei_entity_id entity,
              con_location = ei_location entity, con_role = r, con_label = lbl\<rparr>)"
    by (auto simp: claimants_def Some parts image_iff)
  then show ?thesis by (cases c) (auto simp: Some parts)
qed

lemma resolves_iff:
  "resolves mine secret_id realms c \<longleftrightarrow>
   (\<exists>surveyed \<in> set realms. mapped_label mine secret_id surveyed (con_label c) \<and>
      c \<in> set (claimants surveyed (con_label c)))"
  unfolding resolves_def in_claimants by blast

lemma survey_others:
  "set (cs_others (survey_consumers mine secret_id realms)) =
   {c. resolves mine secret_id realms c \<and> c \<noteq> mine}"
proof -
  have "con_label c = lbl" if "c \<in> set (claimants surveyed lbl)" for c surveyed lbl
    using that by (simp add: in_claimants)
  moreover have "set (cs_others (survey_consumers mine secret_id realms)) =
      (\<Union>surveyed \<in> set realms. \<Union>lbl \<in> set (surveyed_labels mine secret_id surveyed).
         {c \<in> set (claimants surveyed lbl). c \<noteq> mine})"
    by (simp add: survey_consumers_def survey_realm_def survey_label_def Let_def)
  ultimately show ?thesis
    unfolding resolves_iff set_surveyed_labels [symmetric] by blast
qed

lemma survey_unclaimed:
  "set (cs_unclaimed_labels (survey_consumers mine secret_id realms)) =
   {\<lparr>ul_realm = sur_realm surveyed, ul_label = lbl\<rparr> |surveyed lbl.
      surveyed \<in> set realms \<and> mapped_label mine secret_id surveyed lbl \<and>
      claimants surveyed lbl = [] \<and> \<not> (sur_realm surveyed = con_realm mine \<and> lbl = con_label mine)}"
  by (auto simp: survey_consumers_def Let_def survey_realm_def survey_label_def set_surveyed_labels)

lemma survey_unsurveyed:
  "set (cs_unsurveyed (survey_consumers mine secret_id realms)) =
   (set SURVEYED_REALMS \<union> {con_realm mine}) - sur_realm ` set realms"
  by (auto simp: survey_consumers_def Let_def)

lemma survey_projections [simp]:
  "cs_mine (survey_consumers mine secret_id realms) = mine"
  "cs_secret_id (survey_consumers mine secret_id realms) = secret_id"
  by (simp_all add: survey_consumers_def Let_def)

lemma exclusive_iff:
  "exclusive (survey_consumers mine secret_id realms) \<longleftrightarrow>
   (\<forall>c. resolves mine secret_id realms c \<longrightarrow> c = mine) \<and>
   (\<forall>surveyed \<in> set realms. \<forall>lbl. mapped_label mine secret_id surveyed lbl \<longrightarrow>
      claimants surveyed lbl \<noteq> [] \<or> sur_realm surveyed = con_realm mine \<and> lbl = con_label mine) \<and>
   set SURVEYED_REALMS \<union> {con_realm mine} \<subseteq> sur_realm ` set realms"
proof -
  let ?s = "survey_consumers mine secret_id realms"
  have "cs_others ?s = [] \<longleftrightarrow> (\<forall>c. resolves mine secret_id realms c \<longrightarrow> c = mine)"
    using survey_others [of mine secret_id realms] by (metis (mono_tags, lifting) empty_Collect_eq set_empty)
  moreover have "cs_unclaimed_labels ?s = [] \<longleftrightarrow>
      (\<forall>surveyed \<in> set realms. \<forall>lbl. mapped_label mine secret_id surveyed lbl \<longrightarrow>
         claimants surveyed lbl \<noteq> [] \<or> sur_realm surveyed = con_realm mine \<and> lbl = con_label mine)"
    unfolding set_empty [symmetric] survey_unclaimed by blast
  moreover have "cs_unsurveyed ?s = [] \<longleftrightarrow>
      set SURVEYED_REALMS \<union> {con_realm mine} \<subseteq> sur_realm ` set realms"
    unfolding set_empty [symmetric] survey_unsurveyed by blast
  ultimately show ?thesis by (simp add: exclusive_def)
qed

lemma exclusive_ok_Inr: "exclusive_ok verb c = Inr p \<longleftrightarrow> exclusive c"
  by (cases p) (simp add: exclusive_ok_def)

text \<open>
  In an exclusive survey every label on the secret, in every surveyed realm, is the role's own
  or is one that only this same role names.
\<close>

lemma exclusive_labels:
  assumes "exclusive (survey_consumers mine secret_id realms)"
    and "surveyed \<in> set realms" and "mapped_label mine secret_id surveyed lbl"
  shows "sur_realm surveyed = con_realm mine \<and> lbl = con_label mine"
proof (rule ccontr)
  assume other: "\<not> ?thesis"
  with assms have "claimants surveyed lbl \<noteq> []" unfolding exclusive_iff by blast
  then obtain c where c: "c \<in> set (claimants surveyed lbl)" by (cases "claimants surveyed lbl") auto
  with assms(2,3) have "resolves mine secret_id realms c"
    by (auto simp: in_claimants resolves_def)
  with assms(1) have "c = mine" unfolding exclusive_iff by blast
  with c other show False by (simp add: in_claimants)
qed

section \<open>Properties\<close>

lemma mapped_labels_iff:
  "(\<forall>surveyed \<in> set realms. \<forall>m \<in> set (sur_mappings surveyed).
      secret_id \<noteq> None \<and> map_alias m = secret_id \<longrightarrow>
      sur_realm surveyed = con_realm mine \<and> map_secret_id m = con_label mine) \<longleftrightarrow>
   (\<forall>surveyed \<in> set realms. \<forall>lbl. mapped_label mine secret_id surveyed lbl \<longrightarrow>
      sur_realm surveyed = con_realm mine \<and> lbl = con_label mine)"
  by (auto simp: mapped_label_def)

text \<open>C34: an exclusivity proof means what it says. It is given exactly when both application realms
  and the role's own were surveyed, no other role in any of them resolves a key through the secret,
  and the only label mapped onto the secret anywhere is the role's own.\<close>

theorem exclusive_ok_means_alone:
  "exclusive_ok verb (survey_consumers mine secret_id realms) = Inr ExclusivityProof \<longleftrightarrow>
   {''alpha'', ''bravo'', con_realm mine} \<subseteq> sur_realm ` set realms \<and>
   (\<forall>c. resolves mine secret_id realms c \<longrightarrow> c = mine) \<and>
   (\<forall>surveyed \<in> set realms. \<forall>m \<in> set (sur_mappings surveyed).
      secret_id \<noteq> None \<and> map_alias m = secret_id \<longrightarrow>
      sur_realm surveyed = con_realm mine \<and> map_secret_id m = con_label mine)"
proof (rule iffI)
  assume "exclusive_ok verb (survey_consumers mine secret_id realms) = Inr ExclusivityProof"
  then have ex: "exclusive (survey_consumers mine secret_id realms)" by (simp only: exclusive_ok_Inr)
  show "{''alpha'', ''bravo'', con_realm mine} \<subseteq> sur_realm ` set realms \<and>
     (\<forall>c. resolves mine secret_id realms c \<longrightarrow> c = mine) \<and>
     (\<forall>surveyed \<in> set realms. \<forall>m \<in> set (sur_mappings surveyed).
        secret_id \<noteq> None \<and> map_alias m = secret_id \<longrightarrow>
        sur_realm surveyed = con_realm mine \<and> map_secret_id m = con_label mine)"
    unfolding mapped_labels_iff
  proof (intro conjI ballI allI impI)
    show "{''alpha'', ''bravo'', con_realm mine} \<subseteq> sur_realm ` set realms"
      using ex by (simp add: exclusive_iff SURVEYED_REALMS_def)
    show "c = mine" if "resolves mine secret_id realms c" for c
      using ex that by (simp add: exclusive_iff)
    show "sur_realm surveyed = con_realm mine" "lbl = con_label mine"
      if "surveyed \<in> set realms" "mapped_label mine secret_id surveyed lbl" for surveyed lbl
      using exclusive_labels [OF ex that] by simp_all
  qed
next
  assume alone: "{''alpha'', ''bravo'', con_realm mine} \<subseteq> sur_realm ` set realms \<and>
     (\<forall>c. resolves mine secret_id realms c \<longrightarrow> c = mine) \<and>
     (\<forall>surveyed \<in> set realms. \<forall>m \<in> set (sur_mappings surveyed).
        secret_id \<noteq> None \<and> map_alias m = secret_id \<longrightarrow>
        sur_realm surveyed = con_realm mine \<and> map_secret_id m = con_label mine)"
  then have labels: "sur_realm surveyed = con_realm mine \<and> lbl = con_label mine"
    if "surveyed \<in> set realms" "mapped_label mine secret_id surveyed lbl" for surveyed lbl
    using that unfolding mapped_labels_iff by blast
  have "set SURVEYED_REALMS \<union> {con_realm mine} \<subseteq> sur_realm ` set realms"
    using alone by (simp add: SURVEYED_REALMS_def)
  with alone labels have "exclusive (survey_consumers mine secret_id realms)"
    by (simp add: exclusive_iff)
  then show "exclusive_ok verb (survey_consumers mine secret_id realms) = Inr ExclusivityProof"
    by (simp only: exclusive_ok_Inr)
qed

text \<open>One entity of \<open>alpha\<close> names \<open>acme\<close>, whose label is mapped onto the secret; \<open>bravo\<close> is empty.\<close>

definition sample_consumer :: consumer where
  "sample_consumer =
     \<lparr>con_realm = ''alpha'', con_entity_id = ''e'', con_location = Hosted, con_role = Idp,
      con_label = signing_label ''acme''\<rparr>"

definition sample_survey :: "realm_survey list" where
  "sample_survey =
     [\<lparr>sur_realm = ''alpha'',
       sur_mappings = [\<lparr>map_secret_id = signing_label ''acme'', map_alias = Some ''esv-k''\<rparr>],
       sur_entities = [\<lparr>ei_entity_id = ''e'', ei_location = Hosted, ei_identifiers = [(Idp, ''acme'')]\<rparr>]\<rparr>,
      \<lparr>sur_realm = ''bravo'', sur_mappings = [], sur_entities = []\<rparr>]"

lemma resolves_sample:
  "resolves sample_consumer (Some ''esv-k'') sample_survey c \<Longrightarrow> c = sample_consumer"
  by (cases c)
    (auto simp: resolves_def sample_survey_def sample_consumer_def mapped_label_def
      label_parts_signing_label)

lemma exclusive_sample: "exclusive (survey_consumers sample_consumer (Some ''esv-k'') sample_survey)"
  using resolves_sample
  by (simp add: exclusive_iff SURVEYED_REALMS_def mapped_label_def sample_survey_def sample_consumer_def)

theorem exclusive_ok_means_alone_witness:
  "exclusive_ok ''stage'' (survey_consumers sample_consumer (Some ''esv-k'') sample_survey) =
   Inr ExclusivityProof"
  unfolding exclusive_ok_means_alone
  using resolves_sample by (simp add: sample_survey_def sample_consumer_def)

end
