(* ===== verification/Rotation_Guards.thy ===== *)
theory Rotation_Guards
  imports Survey
begin

text \<open>
  The checks a rotation makes immediately before it writes (\<open>src/src/saml/rotate/spec.rs\<close>): is
  what the plan was decided from still what the tenant shows? Every one of them has the same
  contract, the locale \<open>freshness_guard\<close>: the write goes ahead exactly when the fresh reading shows
  what the plan saw, and otherwise the refusal says what moved. Two guards one after the other
  are again a guard (\<open>guard_pair\<close>), which is how \<open>init\<close> checks its two targets.
\<close>

section \<open>The contract\<close>

locale freshness_guard =
  fixes planned :: "'p \<Rightarrow> 'v"
    and fresh :: "'f \<Rightarrow> 'v"
    and check :: "'p \<Rightarrow> 'f \<Rightarrow> error + unit"
  assumes passes: "planned p = fresh f \<Longrightarrow> check p f = Inr ()"
    and refuses: "planned p \<noteq> fresh f \<Longrightarrow> \<exists>m. check p f = Inl (Config (Moved m))"
begin

lemma check_iff: "check p f = Inr () \<longleftrightarrow> planned p = fresh f"
  using passes refuses by (metis Inl_Inr_False)

lemma check_error: "check p f = Inl e \<Longrightarrow> \<exists>m. e = Config (Moved m)"
  using passes refuses by (metis Inl_Inr_False Inl_inject)

text \<open>A write behind the guard happens only over the value the plan was made from.\<close>

lemma guarded_write:
  "res_bind (check p f) (\<lambda>_. Inr (w x)) = Inr y \<longleftrightarrow> planned p = fresh f \<and> y = w x"
  by (auto simp: res_bind_Inr_iff check_iff)

text \<open>Of two writers that planned from different values, at most one passes a given reading.\<close>

lemma writers_exclude: "planned p \<noteq> planned q \<Longrightarrow> check p f = Inr () \<Longrightarrow> check q f \<noteq> Inr ()"
  by (auto simp: check_iff)

end

locale guard_pair =
  first: freshness_guard planned1 fresh1 check1 + second: freshness_guard planned2 fresh2 check2
  for planned1 :: "'p1 \<Rightarrow> 'v1" and fresh1 :: "'f1 \<Rightarrow> 'v1" and check1
    and planned2 :: "'p2 \<Rightarrow> 'v2" and fresh2 :: "'f2 \<Rightarrow> 'v2" and check2

sublocale guard_pair \<subseteq> both: freshness_guard
  "\<lambda>(p, q). (planned1 p, planned2 q)" "\<lambda>(f, g). (fresh1 f, fresh2 g)"
  "\<lambda>(p, q) (f, g). res_bind (check1 p f) (\<lambda>_. check2 q g)"
proof
  fix p :: "'p1 \<times> 'p2" and f :: "'f1 \<times> 'f2"
  assume "(\<lambda>(p, q). (planned1 p, planned2 q)) p = (\<lambda>(f, g). (fresh1 f, fresh2 g)) f"
  then show "(\<lambda>(p, q) (f, g). res_bind (check1 p f) (\<lambda>_. check2 q g)) p f = Inr ()"
    by (auto simp: first.passes second.passes split: prod.splits)
next
  fix p :: "'p1 \<times> 'p2" and f :: "'f1 \<times> 'f2"
  assume "(\<lambda>(p, q). (planned1 p, planned2 q)) p \<noteq> (\<lambda>(f, g). (fresh1 f, fresh2 g)) f"
  then show "\<exists>m. (\<lambda>(p, q) (f, g). res_bind (check1 p f) (\<lambda>_. check2 q g)) p f = Inl (Config (Moved m))"
    using first.refuses second.refuses first.passes
    by (cases p; cases f; cases "planned1 (fst p) = fresh1 (fst f)") fastforce+
qed

section \<open>The checks\<close>

definition identifier_write_ok :: "string option \<Rightarrow> json \<Rightarrow> role \<Rightarrow> error + unit" where
  "identifier_write_ok planned_from fresh r =
     (let now = current_identifier fresh r
      in if now = planned_from then Inr ()
         else Inl (Config (Moved (IdentifierMoved r planned_from now))))"

definition mapping_write_ok ::
  "string \<Rightarrow> string \<Rightarrow> string option \<Rightarrow> string option \<Rightarrow> error + unit" where
  "mapping_write_ok lbl secret_id planned_from fresh =
     (if planned_from = fresh then Inr ()
      else Inl (Config (Moved (LabelMoved lbl secret_id planned_from fresh))))"

definition moved_inputs :: "string \<Rightarrow> rollover_inputs \<Rightarrow> rollover_inputs \<Rightarrow> moved_input list" where
  "moved_inputs secret_id planned_from fresh =
     (if ri_enabled planned_from \<noteq> ri_enabled fresh
      then [EnabledMoved secret_id (ri_enabled planned_from) (ri_enabled fresh)] else []) @
     (if ri_published planned_from \<noteq> ri_published fresh
      then [PublishedMoved (ri_published planned_from) (ri_published fresh)] else [])"

definition rollover_write_ok ::
  "string \<Rightarrow> string \<Rightarrow> rollover_inputs \<Rightarrow> rollover_inputs \<Rightarrow> error + unit" where
  "rollover_write_ok verb secret_id planned_from fresh =
     (if planned_from = fresh then Inr ()
      else Inl (Config (Moved (RolloverMoved verb (moved_inputs secret_id planned_from fresh)))))"

definition rollover_target_ok ::
  "string \<Rightarrow> string \<Rightarrow> string option \<Rightarrow> string option \<Rightarrow> error + unit" where
  "rollover_target_ok verb secret_id identifier alias =
     (case (identifier, alias) of
        (None, _) \<Rightarrow> Inl (Config (Moved (TargetMoved verb secret_id NamesNoIdentifier)))
      | (Some i, None) \<Rightarrow>
          Inl (Config (Moved (TargetMoved verb secret_id (MapsToNothing i (signing_label i)))))
      | (Some i, Some a) \<Rightarrow>
          if a = secret_id then Inr ()
          else Inl (Config (Moved (TargetMoved verb secret_id (MapsElsewhere i (signing_label i) a)))))"

definition init_publication_ok :: "rotation_state \<Rightarrow> string list \<Rightarrow> error + unit" where
  "init_publication_ok s seen =
     (if published_fingerprints s = seen then Inr ()
      else Inl (Config (Moved (PublicationMoved (published_fingerprints s) seen))))"

definition init_target_ok ::
  "rotation_state \<Rightarrow> init_plan \<Rightarrow> string option \<Rightarrow> json \<Rightarrow> string option \<Rightarrow> error + unit" where
  "init_target_ok s plan planned_mapping entity mapping =
     res_bind (identifier_write_ok (rs_identifier s) entity (rs_role s))
       (\<lambda>_. mapping_write_ok (ip_label plan) (ip_secret_id plan) planned_mapping mapping)"

section \<open>The decisions made of them\<close>

definition consumer_at :: "rotation_state \<Rightarrow> string \<Rightarrow> consumer" where
  "consumer_at s lbl =
     \<lparr>con_realm = rs_realm s, con_entity_id = rs_entity_id s, con_location = rs_location s,
      con_role = rs_role s, con_label = lbl\<rparr>"

definition rollover_pre_write_ok ::
  "string \<Rightarrow> string \<Rightarrow> rotation_state \<Rightarrow> rollover_recheck \<Rightarrow> error + exclusivity_proof" where
  "rollover_pre_write_ok verb secret_id s fresh =
     res_bind (rollover_target_ok verb secret_id (rr_identifier fresh) (rr_alias fresh)) (\<lambda>_.
     res_bind (ok_or Panic (rr_identifier fresh)) (\<lambda>identifier.
     res_bind (exclusive_ok verb
                 (survey_consumers (consumer_at s (signing_label identifier)) (Some secret_id)
                    (rr_survey fresh))) (\<lambda>minted.
     res_bind (rollover_write_ok verb secret_id (rollover_inputs s)
                 (rollover_inputs_from (rr_versions fresh) (rr_published fresh))) (\<lambda>_.
       Inr minted))))"

definition init_exclusive ::
  "rotation_state \<Rightarrow> init_plan \<Rightarrow> realm_survey list \<Rightarrow> error + exclusivity_proof" where
  "init_exclusive s plan survey =
     exclusive_ok ''init''
       (survey_consumers (consumer_at s (ip_label plan)) (Some (ip_secret_id plan)) survey)"

definition init_pre_write_ok ::
  "rotation_state \<Rightarrow> init_plan \<Rightarrow> string option \<Rightarrow> init_recheck \<Rightarrow> error + exclusivity_proof" where
  "init_pre_write_ok s plan planned_mapping fresh =
     res_bind (init_target_ok s plan planned_mapping (ir_entity fresh) (ir_mapping fresh)) (\<lambda>_.
     res_bind (init_publication_ok s (ir_published fresh)) (\<lambda>_.
       init_exclusive s plan (ir_survey fresh)))"

section \<open>Every check keeps the contract\<close>

interpretation identifier_guard: freshness_guard
  "\<lambda>p. p" "\<lambda>(entity, r). current_identifier entity r"
  "\<lambda>p (entity, r). identifier_write_ok p entity r"
  by unfold_locales (auto simp: identifier_write_ok_def Let_def)

interpretation mapping_guard: freshness_guard "\<lambda>p. p" "\<lambda>f. f" "mapping_write_ok lbl secret_id"
  for lbl secret_id
  by unfold_locales (auto simp: mapping_write_ok_def)

interpretation rollover_guard: freshness_guard "\<lambda>p. p" "\<lambda>f. f" "rollover_write_ok verb secret_id"
  for verb secret_id
  by unfold_locales (auto simp: rollover_write_ok_def)

interpretation publication_guard: freshness_guard published_fingerprints "\<lambda>f. f" init_publication_ok
  by unfold_locales (auto simp: init_publication_ok_def)

interpretation init_targets: guard_pair
  "\<lambda>p. p" "\<lambda>(entity, r). current_identifier entity r"
  "\<lambda>p (entity, r). identifier_write_ok p entity r"
  "\<lambda>p. p" "\<lambda>f. f" "mapping_write_ok lbl secret_id" for lbl secret_id
  by unfold_locales

lemma init_target_ok_both:
  "init_target_ok s plan planned_mapping entity mapping =
   (\<lambda>(p, q) (f, g). res_bind ((\<lambda>p (entity, r). identifier_write_ok p entity r) p f)
      (\<lambda>_. mapping_write_ok (ip_label plan) (ip_secret_id plan) q g))
     (rs_identifier s, planned_mapping) ((entity, rs_role s), mapping)"
  by (simp add: init_target_ok_def)

lemma init_target_ok_Inr:
  "init_target_ok s plan planned_mapping entity mapping = Inr () \<longleftrightarrow>
   rs_identifier s = current_identifier entity (rs_role s) \<and> planned_mapping = mapping"
  unfolding init_target_ok_both init_targets.both.check_iff by simp

lemma rollover_target_ok_Inr:
  "rollover_target_ok verb secret_id identifier alias = Inr () \<longleftrightarrow>
   identifier \<noteq> None \<and> alias = Some secret_id"
  by (auto simp: rollover_target_ok_def split: option.splits)

lemma rollover_pre_write_ok_Inr:
  "rollover_pre_write_ok verb secret_id s fresh = Inr p \<longleftrightarrow>
   (\<exists>i. rr_identifier fresh = Some i \<and> rr_alias fresh = Some secret_id \<and>
      exclusive (survey_consumers (consumer_at s (signing_label i)) (Some secret_id) (rr_survey fresh))) \<and>
   rollover_inputs s = rollover_inputs_from (rr_versions fresh) (rr_published fresh)"
  by (cases p)
    (auto simp: rollover_pre_write_ok_def res_bind_Inr_iff rollover_target_ok_Inr
      exclusive_ok_Inr rollover_guard.check_iff)

lemma init_pre_write_ok_Inr:
  "init_pre_write_ok s plan planned_mapping fresh = Inr p \<longleftrightarrow>
   rs_identifier s = current_identifier (ir_entity fresh) (rs_role s) \<and>
   planned_mapping = ir_mapping fresh \<and>
   published_fingerprints s = ir_published fresh \<and>
   exclusive (survey_consumers (consumer_at s (ip_label plan)) (Some (ip_secret_id plan)) (ir_survey fresh))"
  by (cases p)
    (auto simp: init_pre_write_ok_def init_exclusive_def res_bind_Inr_iff init_target_ok_Inr
      exclusive_ok_Inr publication_guard.check_iff)

lemma rollover_pre_write_no_panic: "rollover_pre_write_ok verb secret_id s fresh \<noteq> Inl Panic"
  using rollover_guard.check_error [of verb secret_id]
  by (auto simp: rollover_pre_write_ok_def res_bind_Inl_iff rollover_target_ok_def exclusive_ok_def
      split: option.splits if_splits)

section \<open>Properties\<close>

text \<open>the check before a version is added or disabled. It passes exactly when, in the fresh reading,
  the role still names an identifier whose label maps onto this very secret, the survey shows no
  other consumer of it, and the ENABLED versions and the published certificates are the ones
  the plan was decided from.\<close>

theorem rollover_pre_write_ok_iff:
  "rollover_pre_write_ok verb secret_id s fresh = Inr ExclusivityProof \<longleftrightarrow>
   (\<exists>i. rr_identifier fresh = Some i \<and> rr_alias fresh = Some secret_id \<and>
      exclusive (survey_consumers (consumer_at s (signing_label i)) (Some secret_id) (rr_survey fresh))) \<and>
   map sv_version (enabled_in (rr_versions fresh)) = map sv_version (enabled_versions s) \<and>
   rr_published fresh = published_fingerprints s"
  by (auto simp: rollover_pre_write_ok_Inr rollover_inputs_def rollover_inputs_from_def enabled_versions_def)

text \<open>the check before \<open>init\<close> sends anything. It passes exactly when the fresh reading shows
  the identifier and the mapping the plan saw, the certificates the plan saw published, and a
  secret no other consumer resolves; a refusal is always one of the \<open>what moved\<close> errors.\<close>

theorem init_pre_write_ok_iff:
  "(init_pre_write_ok s plan planned_mapping fresh = Inr ExclusivityProof \<longleftrightarrow>
     current_identifier (ir_entity fresh) (rs_role s) = rs_identifier s \<and>
     ir_mapping fresh = planned_mapping \<and> ir_published fresh = published_fingerprints s \<and>
     exclusive (survey_consumers (consumer_at s (ip_label plan)) (Some (ip_secret_id plan))
       (ir_survey fresh))) \<and>
   (init_pre_write_ok s plan planned_mapping fresh = Inr ExclusivityProof \<or>
    (\<exists>m. init_pre_write_ok s plan planned_mapping fresh = Inl (Config (Moved m))))"
proof -
  have "\<exists>m. init_pre_write_ok s plan planned_mapping fresh = Inl (Config (Moved m))"
    if "init_pre_write_ok s plan planned_mapping fresh = Inl e" for e
    using that
    by (auto simp: init_pre_write_ok_def res_bind_Inl_iff init_exclusive_def exclusive_ok_def
        init_target_ok_def identifier_write_ok_def mapping_write_ok_def init_publication_ok_def
        Let_def split: if_splits)
  moreover have "init_pre_write_ok s plan planned_mapping fresh = Inr p \<Longrightarrow> p = ExclusivityProof" for p
    by (cases p) simp
  ultimately have "init_pre_write_ok s plan planned_mapping fresh = Inr ExclusivityProof \<or>
      (\<exists>m. init_pre_write_ok s plan planned_mapping fresh = Inl (Config (Moved m)))"
    by (cases "init_pre_write_ok s plan planned_mapping fresh") auto
  then show ?thesis by (auto simp: init_pre_write_ok_Inr)
qed

end
