(* ===== verification/Write_Outcome.thy ===== *)
theory Write_Outcome
  imports Saml_Types
begin

text \<open>
  What a SAML write may claim about itself (\<open>src/src/saml/write.rs\<close>): the decision between a
  preview and a permit, the operator's consent, and on which side of the send a write failed.
  The prompt is a function of the world \<open>'w\<close> that it reads and changes, so that a run which must
  not prompt is one that leaves the world alone.
\<close>

datatype 'p decision = Preview | Send 'p

definition consent ::
  "bool \<Rightarrow> bool \<Rightarrow> ('w \<Rightarrow> ('e + bool) \<times> 'w) \<Rightarrow> 'w \<Rightarrow> ('e + bool) \<times> 'w" where
  "consent forced prompt_available ask w =
     (if forced then (Inr True, w)
      else if \<not> prompt_available then (Inr False, w)
      else ask w)"

datatype write_status = Refused | AcceptedUnverified | Unknown

record measured_refusal =
  mr_status :: nat
  mr_message :: string

record write_failure =
  wf_status :: write_status
  wf_source :: error

definition before_send :: "error \<Rightarrow> write_failure" where
  "before_send source = \<lparr>wf_status = Refused, wf_source = source\<rparr>"

definition from_send :: "error \<Rightarrow> measured_refusal list \<Rightarrow> write_failure" where
  "from_send source measured =
     \<lparr>wf_status =
        (case source of
           ProdConfirmRequired \<Rightarrow> Refused
         | AuthRequired \<Rightarrow> Refused
         | Api status body \<Rightarrow>
             if list_ex (\<lambda>r. mr_status r = status \<and> str_contains body (mr_message r)) measured
             then Refused else Unknown
         | _ \<Rightarrow> Unknown),
      wf_source = source\<rparr>"

definition unverified :: "error \<Rightarrow> write_failure" where
  "unverified source = \<lparr>wf_status = AcceptedUnverified, wf_source = source\<rparr>"

text \<open>
  \<open>WriteFailure::message\<close>: the source alone for a refusal; otherwise the sentence about the
  status, the remedy, and the source.
\<close>

datatype message = SourceOnly error | MayHaveLanded write_status string string error

definition failure_message :: "write_failure \<Rightarrow> string \<Rightarrow> string \<Rightarrow> message" where
  "failure_message f what remedy =
     (case wf_status f of
        Refused \<Rightarrow> SourceOnly (wf_source f)
      | st \<Rightarrow> MayHaveLanded st what remedy (wf_source f))"

definition SECRET_ALREADY_EXISTS :: measured_refusal where
  "SECRET_ALREADY_EXISTS =
     \<lparr>mr_status = 400, mr_message = ''Failed to create secret, the secret already exists''\<rparr>"

definition CANNOT_DISABLE_LATEST :: measured_refusal where
  "CANNOT_DISABLE_LATEST =
     \<lparr>mr_status = 400, mr_message = ''Cannot disable latest secret version''\<rparr>"

lemma consent_silent: "forced \<or> \<not> prompt_available \<Longrightarrow> snd (consent forced prompt_available ask w) = w"
  by (auto simp: consent_def)

lemma consent_granted:
  "fst (consent forced prompt_available ask w) = Inr True \<longleftrightarrow>
   forced \<or> prompt_available \<and> fst (ask w) = Inr True"
  by (auto simp: consent_def)

lemma wf_status_before_send [simp]: "wf_status (before_send e) = Refused"
  by (simp add: before_send_def)

lemma wf_status_unverified [simp]: "wf_status (unverified e) = AcceptedUnverified"
  by (simp add: unverified_def)

lemma from_send_Refused:
  "wf_status (from_send source measured) = Refused \<longleftrightarrow>
   source = ProdConfirmRequired \<or> source = AuthRequired \<or>
   (\<exists>status body r. source = Api status body \<and> r \<in> set measured \<and> mr_status r = status \<and>
      str_contains body (mr_message r))"
  by (cases source) (auto simp: from_send_def list_ex_iff)

lemma from_send_not_accepted: "wf_status (from_send source measured) \<noteq> AcceptedUnverified"
  by (cases source) (auto simp: from_send_def)

lemma from_send_unmeasured: "wf_status (from_send (Api status body) []) = Unknown"
  by (simp add: from_send_def)

section \<open>Properties\<close>

text \<open>a failed write is reported as \<open>nothing was sent or applied\<close> only when that is proved: the
  failure came before the send, or the production gate or a missing session stopped it, or the
  tenant answered with a status and message measured to be a refusal of that call. Every other
  failure of a send names the write as possibly applied.\<close>

theorem plain_failure_is_proven:
  "failure_message (from_send source measured) what remedy = SourceOnly e \<longleftrightarrow>
   e = source \<and>
   (source = ProdConfirmRequired \<or> source = AuthRequired \<or>
    (\<exists>status body r. source = Api status body \<and> r \<in> set measured \<and> mr_status r = status \<and>
       str_contains body (mr_message r)))"
proof -
  have "wf_source (from_send source measured) = source" by (simp add: from_send_def)
  then have "failure_message (from_send source measured) what remedy = SourceOnly e \<longleftrightarrow>
      e = source \<and> wf_status (from_send source measured) = Refused"
    by (auto simp: failure_message_def split: write_status.splits)
  then show ?thesis by (simp add: from_send_Refused)
qed

end
