(* ===== verification/Rotation_Plans.thy ===== *)
theory Rotation_Plans
  imports Rotation_Guards Write_Outcome
begin

text \<open>
  What \<open>stage\<close>, \<open>complete\<close> and \<open>init\<close> would do, worked out before anything is sent
  (\<open>src/src/saml/rotate/spec.rs\<close>): the plans, the refusals, the consent each verb asks for and the
  permit it ends in.
\<close>

section \<open>stage\<close>

definition not_ready :: "string \<Rightarrow> rotation_state \<Rightarrow> phase \<Rightarrow> error" where
  "not_ready verb s p = Config (NoPlan (NotReady verb (rs_entity_id s) (rs_role s) (label s) p))"

definition plan_stage :: "rotation_state \<Rightarrow> key_pair \<Rightarrow> error + stage_plan" where
  "plan_stage s incoming =
     (case (phase s, rs_secret s) of
        (Settled, Some secret) \<Rightarrow>
          (let seen = published_fingerprints s
           in res_bind (ok_or Panic (head_opt seen)) (\<lambda>retained.
              if kp_sha256 incoming \<in> set seen
              then Inl (Config (NoPlan (AlreadyPublished (rs_entity_id s) (kp_sha256 incoming))))
              else res_bind (ok_or Panic (head_opt (enabled_versions s))) (\<lambda>v.
                Inr \<lparr>sp_secret_id = sf_id secret, sp_retained = retained,
                     sp_retained_version = sv_version v, sp_incoming = kp_sha256 incoming,
                     sp_expected = btree_set (kp_sha256 incoming # seen)\<rparr>)))
      | (Staged, _) \<Rightarrow> Inl (Config (NoPlan (AlreadyStaged (rs_entity_id s) (rs_role s))))
      | (other, _) \<Rightarrow> Inl (not_ready ''stage'' s other))"

definition stage_ok :: "bool \<Rightarrow> stage_plan \<Rightarrow> rotation_state \<Rightarrow> error + unit" where
  "stage_ok forced plan s =
     (if forced then Inr ()
      else Inl (Config (Unconfirmed (StageUnconfirmed plan (rs_entity_id s) (rs_role s)))))"

definition authorize_stage :: "bool \<Rightarrow> exclusivity_proof \<Rightarrow> stage_permit decision" where
  "authorize_stage dry_run p = (if dry_run then Preview else Send StagePermit)"

section \<open>complete\<close>

definition no_pairing :: "rotation_state \<Rightarrow> error" where
  "no_pairing s = Config (NoPair (NoPairing (rs_entity_id s) (rs_role s)))"

definition contradicted_pairing ::
  "staged_record \<Rightarrow> string \<Rightarrow> string \<Rightarrow> string \<Rightarrow> string \<Rightarrow> error" where
  "contradicted_pairing record derived named retain secret_id =
     Config (NoPair (ContradictsRecord record derived named retain secret_id))"

definition version_from_record ::
  "staged_record \<Rightarrow> secret_version list \<Rightarrow> string \<Rightarrow> error + string" where
  "version_from_record record es retain =
     (let stale = Config (NoPair (StaleRecord (rec_version record) (map sv_version es)))
      in if rec_sha256 record = retain then
           (case filter (\<lambda>v. sv_version v \<noteq> rec_version record) es of
              [only] \<Rightarrow> Inr (sv_version only)
            | _ \<Rightarrow> Inl stale)
         else if list_ex (\<lambda>v. sv_version v = rec_version record) es then Inr (rec_version record)
         else Inl stale)"

text \<open>The trimmed value of a flag, with a blank one counted as absent.\<close>

definition given :: "string option \<Rightarrow> string option" where
  "given flag = opt_filter (\<lambda>v. v \<noteq> []) (map_option trim flag)"

definition choose_retain ::
  "rotation_state \<Rightarrow> staged_record option \<Rightarrow> string option \<Rightarrow> error + string" where
  "choose_retain s pairing retain =
     (case given retain of
        Some r \<Rightarrow> Inr (to_lowercase r)
      | None \<Rightarrow> res_bind (ok_or (no_pairing s) pairing) (\<lambda>record. Inr (rec_sha256 record)))"

definition choose_version ::
  "rotation_state \<Rightarrow> string \<Rightarrow> staged_record option \<Rightarrow> secret_version list \<Rightarrow> string \<Rightarrow>
   string option \<Rightarrow> error + string \<times> version_choice" where
  "choose_version s secret_id pairing es retain named =
     (let from_flag = (\<lambda>failure.
            res_bind (ok_or failure named) (\<lambda>n.
              if \<not> list_ex (\<lambda>v. sv_version v = n) es
              then Inl (Config (NoPlan (NamedNotEnabled n secret_id (map sv_version es))))
              else Inr (n, Named)))
      in case pairing of
           None \<Rightarrow> from_flag (no_pairing s)
         | Some record \<Rightarrow>
             (case version_from_record record es retain of
                Inr derived \<Rightarrow>
                  (case opt_filter (\<lambda>n. n \<noteq> derived) named of
                     Some n \<Rightarrow> Inl (contradicted_pairing record derived n retain secret_id)
                   | None \<Rightarrow> Inr (derived, Recorded))
              | Inl failure \<Rightarrow> from_flag failure))"

definition expected_drop ::
  "staged_record option \<Rightarrow> string \<Rightarrow> string \<Rightarrow> string list \<Rightarrow> string option" where
  "expected_drop pairing disable retain seen =
     Option.bind pairing (\<lambda>record.
       if rec_version record = disable then Some (rec_sha256 record)
       else if rec_sha256 record = retain then find (\<lambda>c. c \<noteq> retain) seen
       else None)"

definition plan_complete ::
  "rotation_state \<Rightarrow> string option \<Rightarrow> string option \<Rightarrow> error + complete_plan" where
  "plan_complete s retain_flag disable_flag =
     (case (phase s, rs_secret s) of
        (Staged, Some secret) \<Rightarrow>
          (let seen = published_fingerprints s;
               pairing = usable_pairing s;
               es = enabled_versions s
           in res_bind (choose_retain s pairing retain_flag) (\<lambda>retain.
              if retain \<notin> set seen
              then Inl (Config (NoPlan (RetainNotPublished retain (length seen))))
              else res_bind (choose_version s (sf_id secret) pairing es retain (given disable_flag))
                (\<lambda>(disable, chosen).
                  if map_option sv_version (latest_version s) = Some disable
                  then Inl (Config (NoPlan (NewestVersion disable retain (sf_id secret))))
                  else Inr \<lparr>cp_secret_id = sf_id secret, cp_disable_version = disable,
                            cp_chosen_by = chosen, cp_retain = retain,
                            cp_expected_drop = expected_drop pairing disable retain seen,
                            cp_moves_signer =
                              (map_option sv_version (last_opt es) = Some disable)\<rparr>)))
      | (Settled, _) \<Rightarrow> Inl (Config (NoPlan (NothingStaged (rs_entity_id s) (rs_role s))))
      | (other, _) \<Rightarrow> Inl (not_ready ''complete'' s other))"

definition complete_ok :: "bool \<Rightarrow> complete_plan \<Rightarrow> rotation_state \<Rightarrow> error + unit" where
  "complete_ok forced plan s =
     (if forced then Inr ()
      else Inl (Config (Unconfirmed (CompleteUnconfirmed plan (rs_entity_id s) (rs_role s)))))"

definition authorize_complete :: "bool \<Rightarrow> exclusivity_proof \<Rightarrow> complete_permit decision" where
  "authorize_complete dry_run p = (if dry_run then Preview else Send CompletePermit)"

section \<open>init\<close>

definition is_noop :: "init_plan \<Rightarrow> bool" where
  "is_noop plan = (\<not> ip_set_identifier plan \<and> \<not> ip_create_secret plan \<and> \<not> ip_map_label plan)"

definition steps :: "init_plan \<Rightarrow> init_step list" where
  "steps plan =
     map snd (filter fst
       [(ip_set_identifier plan, SetIdentifier), (ip_create_secret plan, CreateSecret),
        (ip_map_label plan, MapLabel)])"

definition activating_step :: "init_plan \<Rightarrow> init_step option" where
  "activating_step plan = last_opt (steps plan)"

definition resurveys_before :: "init_plan \<Rightarrow> init_step \<Rightarrow> bool" where
  "resurveys_before plan st =
     (activating_step plan = Some st \<and> head_opt (steps plan) \<noteq> Some st)"

definition plan_init ::
  "rotation_state \<Rightarrow> string \<Rightarrow> string \<Rightarrow> string option \<Rightarrow> secret_facts option \<Rightarrow>
   key_pair option \<Rightarrow> error + init_plan" where
  "plan_init s identifier_flag secret_flag label_mapping existing_secret key =
     res_bind (validate_identifier identifier_flag) (\<lambda>identifier.
     res_bind (validate_secret_id secret_flag) (\<lambda>secret_id.
       let lbl = signing_label identifier in
       case opt_filter (\<lambda>current. current \<noteq> identifier) (rs_identifier s) of
         Some current \<Rightarrow>
           Inl (Config (NoPlan (PointsElsewhere (rs_entity_id s) (rs_role s) current)))
       | None \<Rightarrow>
       case opt_filter (\<lambda>alias. alias \<noteq> secret_id) label_mapping of
         Some alias \<Rightarrow>
           Inl (Config (NoPlan (LabelTaken lbl alias secret_id (rs_realm s))))
       | None \<Rightarrow>
       case Option.bind existing_secret unusable_reason of
         Some reason \<Rightarrow> Inl (Config (NoPlan (SecretUnusable reason)))
       | None \<Rightarrow>
         let create_secret = (existing_secret = None) in
         if create_secret \<and> key = None then Inl (Config (NoPlan (KeyRequired secret_id)))
         else Inr \<lparr>ip_identifier = identifier, ip_label = lbl, ip_secret_id = secret_id,
                   ip_set_identifier = (rs_identifier s = None), ip_create_secret = create_secret,
                   ip_map_label = (label_mapping = None),
                   ip_certificate = map_option kp_sha256 key\<rparr>))"

definition init_ok :: "bool \<Rightarrow> init_plan \<Rightarrow> rotation_state \<Rightarrow> error + unit" where
  "init_ok forced plan s =
     (if forced then Inr ()
      else Inl (Config (Unconfirmed
             (InitUnconfirmed plan (rs_entity_id s) (rs_role s) (published_fingerprints s)))))"

definition authorize_init :: "bool \<Rightarrow> exclusivity_proof \<Rightarrow> init_permit decision" where
  "authorize_init dry_run p = (if dry_run then Preview else Send InitPermit)"

text \<open>Which certificate \<open>init\<close> brings in: known only when this run writes it.\<close>

definition init_incoming :: "init_plan \<Rightarrow> string option" where
  "init_incoming plan = (if ip_create_secret plan then ip_certificate plan else None)"

definition adoption_outcome ::
  "rotation_state \<Rightarrow> string \<Rightarrow> string list \<Rightarrow> string option \<Rightarrow> adoption \<Rightarrow>
   error + adoption_line list" where
  "adoption_outcome s secret_id seen supplied did =
     (if seen = []
      then Inl (Config (NoPlan (PublishesNothing (rs_entity_id s) (rs_role s) secret_id did)))
      else Inr ([PublishesLine (rs_entity_id s) (rs_role s) seen] @
                (case supplied of
                   None \<Rightarrow> []
                 | Some sha \<Rightarrow>
                     [if sha \<in> set seen then SuppliedAmong sha secret_id
                      else SuppliedMissing sha secret_id]) @
                [AdoptionCaveat]))"

end
