(* ===== verification/Rotation_Plan_Facts.thy ===== *)
theory Rotation_Plan_Facts
  imports Rotation_Plans
begin

text \<open>
  What the plans of \<open>Rotation_Plans\<close> guarantee: the contract every write verb's gate keeps
  (\<open>write_verb\<close>), when each plan is made and what it says, that none of the \<open>expect\<close>s in them can
  fail, and that a version derived from the record is never the one holding the retained
  certificate.
\<close>

section \<open>The gates\<close>

locale write_verb =
  fixes ok :: "bool \<Rightarrow> 'plan \<Rightarrow> rotation_state \<Rightarrow> error + unit"
    and authorize :: "bool \<Rightarrow> exclusivity_proof \<Rightarrow> 'permit decision"
  assumes ok_forced: "ok True plan s = Inr ()"
    and ok_unforced: "\<exists>c. ok False plan s = Inl (Config (Unconfirmed c))"
    and preview: "authorize True p = Preview"
    and send: "\<exists>permit. authorize False p = Send permit"
begin

lemma ok_iff: "ok forced plan s = Inr () \<longleftrightarrow> forced"
  using ok_forced ok_unforced by (cases forced) (auto, metis Inl_Inr_False)

lemma sends_iff: "authorize dry_run p = Send permit \<Longrightarrow> \<not> dry_run"
  using preview by (cases dry_run) auto

text \<open>
  The verb's tail: an answered prompt or \<open>--force\<close>, then the gate, then the permit. A permit is
  reached only by a run that is not a dry run and has consent.
\<close>

lemma permit_needs_consent:
  assumes "fst (consent forced prompt_available ask w) = Inr granted"
    and "res_bind (ok granted plan s) (\<lambda>_. Inr (authorize dry_run p)) = Inr (Send permit)"
  shows "\<not> dry_run \<and> (forced \<or> prompt_available \<and> fst (ask w) = Inr True)"
proof -
  from assms(2) have "granted" and "authorize dry_run p = Send permit"
    by (auto simp: res_bind_Inr_iff ok_iff)
  with assms(1) show ?thesis
    using consent_granted [of forced prompt_available ask w] sends_iff by auto
qed

end

interpretation stage_verb: write_verb stage_ok authorize_stage
  by unfold_locales (auto simp: stage_ok_def authorize_stage_def)

interpretation complete_verb: write_verb complete_ok authorize_complete
  by unfold_locales (auto simp: complete_ok_def authorize_complete_def)

interpretation init_verb: write_verb init_ok authorize_init
  by unfold_locales (auto simp: init_ok_def authorize_init_def)

section \<open>stage\<close>

lemma one_published:
  assumes "length (published s) = 1"
  obtains c where "published s = [c]" and "published_fingerprints s = [cert_sha256 c]"
  using assms by (auto simp: length_Suc_conv published_fingerprints_def btree_set_def)

lemma plan_stage_Inr:
  assumes "plan_stage s incoming = Inr p"
  obtains c v secret where
    "phase s = Settled" and "rs_secret s = Some secret"
    and "published s = [c]" and "enabled_versions s = [v]"
    and "p = \<lparr>sp_secret_id = sf_id secret, sp_retained = cert_sha256 c,
             sp_retained_version = sv_version v, sp_incoming = kp_sha256 incoming,
             sp_expected = btree_set [kp_sha256 incoming, cert_sha256 c]\<rparr>"
    and "kp_sha256 incoming \<noteq> cert_sha256 c"
proof -
  from assms have settled: "phase s = Settled"
    by (auto simp: plan_stage_def split: phase.splits option.splits)
  then obtain secret where secret: "rs_secret s = Some secret" by (auto simp: phase_Settled_iff)
  from settled have "length (published s) = 1" and "length (enabled_versions s) = 1"
    by (simp_all add: phase_Settled_iff)
  then obtain v where v: "enabled_versions s = [v]" by (auto simp: length_Suc_conv)
  obtain c where c: "published s = [c]" "published_fingerprints s = [cert_sha256 c]"
    by (rule one_published [OF \<open>length (published s) = 1\<close>])
  show thesis
    by (rule that [of secret c v])
      (use assms settled secret c v in \<open>auto simp: plan_stage_def head_opt_def split: if_splits\<close>)
qed

lemma plan_stage_no_panic: "plan_stage s incoming \<noteq> Inl Panic"
proof (cases "phase s = Settled")
  case True
  then have "length (published s) = 1" and "length (enabled_versions s) = 1"
    by (simp_all add: phase_Settled_iff)
  moreover from this obtain v where "enabled_versions s = [v]" by (auto simp: length_Suc_conv)
  moreover obtain c where "published s = [c]" "published_fingerprints s = [cert_sha256 c]"
    by (rule one_published [OF \<open>length (published s) = 1\<close>])
  ultimately have "published_fingerprints s = [cert_sha256 c]" by simp
  with True \<open>enabled_versions s = [v]\<close> show ?thesis
    by (auto simp: plan_stage_def head_opt_def not_ready_def split: option.splits)
next
  case False
  then show ?thesis
    by (auto simp: plan_stage_def not_ready_def split: phase.splits option.splits)
qed

section \<open>complete\<close>

lemma plan_complete_Inr:
  assumes "plan_complete s retain_flag disable_flag = Inr p"
  obtains secret where
    "phase s = Staged" and "rs_secret s = Some secret" and "cp_secret_id p = sf_id secret"
    and "choose_retain s (usable_pairing s) retain_flag = Inr (cp_retain p)"
    and "cp_retain p \<in> set (published_fingerprints s)"
    and "choose_version s (sf_id secret) (usable_pairing s) (enabled_versions s) (cp_retain p)
           (given disable_flag) = Inr (cp_disable_version p, cp_chosen_by p)"
    and "map_option sv_version (latest_version s) \<noteq> Some (cp_disable_version p)"
    and "cp_expected_drop p = expected_drop (usable_pairing s) (cp_disable_version p) (cp_retain p)
           (published_fingerprints s)"
    and "cp_moves_signer p =
           (map_option sv_version (last_opt (enabled_versions s)) = Some (cp_disable_version p))"
  using assms
  by (auto simp: plan_complete_def Let_def res_bind_Inr_iff
      split: phase.splits option.splits if_splits prod.splits)

lemma version_from_record_Inl:
  "version_from_record record es retain = Inl e \<Longrightarrow> \<exists>v named. e = Config (NoPair (StaleRecord v named))"
  by (auto simp: version_from_record_def Let_def split: if_splits list.splits)

lemma version_from_record_enabled:
  "version_from_record record es retain = Inr n \<Longrightarrow> n \<in> sv_version ` set es"
proof (cases "rec_sha256 record = retain")
  case True
  assume "version_from_record record es retain = Inr n"
  with True obtain only where "filter (\<lambda>v. sv_version v \<noteq> rec_version record) es = [only]"
    and n: "n = sv_version only"
    by (auto simp: version_from_record_def Let_def split: list.splits)
  then have "only \<in> set (filter (\<lambda>v. sv_version v \<noteq> rec_version record) es)" by simp
  with n show ?thesis by auto
next
  case False
  assume "version_from_record record es retain = Inr n"
  with False show ?thesis
    by (auto simp: version_from_record_def Let_def list_ex_iff image_iff split: if_splits)
      (metis)
qed

lemma choose_version_no_panic: "choose_version s secret_id pairing es retain named \<noteq> Inl Panic"
  by (cases pairing)
    (auto simp: choose_version_def res_bind_Inl_iff ok_or_Inl_iff contradicted_pairing_def
      no_pairing_def split: sum.splits if_splits option.splits dest: version_from_record_Inl)

lemma plan_complete_no_panic: "plan_complete s retain_flag disable_flag \<noteq> Inl Panic"
  using choose_version_no_panic
  by (fastforce simp: plan_complete_def Let_def res_bind_Inl_iff ok_or_Inl_iff choose_retain_def
      no_pairing_def not_ready_def split: phase.splits option.splits if_splits)

lemma choose_version_enabled:
  assumes "choose_version s secret_id pairing es retain named = Inr (n, chosen)"
  shows "n \<in> sv_version ` set es"
  using assms
  by (cases pairing)
    (auto simp: choose_version_def Let_def res_bind_Inr_iff list_ex_iff
      split: option.splits sum.splits if_splits dest!: version_from_record_enabled)

lemma choose_version_Recorded:
  "choose_version s secret_id pairing es retain named = Inr (n, Recorded) \<longleftrightarrow>
   (\<exists>record. pairing = Some record \<and> version_from_record record es retain = Inr n \<and>
      (named = None \<or> named = Some n))"
  by (auto simp: choose_version_def Let_def res_bind_Inr_iff opt_filter_def
      split: option.splits sum.splits if_splits)

lemma choose_version_Named:
  "choose_version s secret_id pairing es retain named = Inr (n, Named) \<longleftrightarrow>
   named = Some n \<and> n \<in> sv_version ` set es \<and>
   (\<forall>record. pairing = Some record \<longrightarrow> \<not> is_ok (version_from_record record es retain))"
  by (auto simp: choose_version_def Let_def res_bind_Inr_iff opt_filter_def list_ex_iff
      split: option.splits sum.splits if_splits)

text \<open>
  What is true of the tenant but cannot be read from it: \<open>holds\<close> says which certificate each
  version holds. Every ENABLED version publishes its certificate, no two of them hold the same one,
  and nothing else is published.
\<close>

definition vault_truth :: "(string \<Rightarrow> string) \<Rightarrow> rotation_state \<Rightarrow> bool" where
  "vault_truth holds s =
     (distinct (map sv_version (rs_versions s)) \<and>
      inj_on holds (sv_version ` set (enabled_versions s)) \<and>
      set (published_fingerprints s) = holds ` sv_version ` set (enabled_versions s))"

definition record_true :: "(string \<Rightarrow> string) \<Rightarrow> rotation_state \<Rightarrow> bool" where
  "record_true holds s =
     (case usable_pairing s of None \<Rightarrow> True | Some r \<Rightarrow> holds (rec_version r) = rec_sha256 r)"

lemma version_from_record_pairs:
  assumes enabled: "es = [a, b]" and names: "sv_version a \<noteq> sv_version b"
    and inj: "holds (sv_version a) \<noteq> holds (sv_version b)"
    and rec_enabled: "rec_version r \<in> {sv_version a, sv_version b}"
    and rec_true: "holds (rec_version r) = rec_sha256 r"
    and retain: "retain \<in> {holds (sv_version a), holds (sv_version b)}"
    and derived: "version_from_record r es retain = Inr n"
  obtains "n = sv_version a" "holds (sv_version a) \<noteq> retain" "holds (sv_version b) = retain"
  | "n = sv_version b" "holds (sv_version b) \<noteq> retain" "holds (sv_version a) = retain"
proof (cases "rec_version r = sv_version a")
  case True
  then have "n = (if rec_sha256 r = retain then sv_version b else sv_version a)"
    using derived names by (simp add: enabled version_from_record_def Let_def split: if_splits)
  moreover have "rec_sha256 r = holds (sv_version a)" using True rec_true by simp
  ultimately show thesis using that inj retain by (simp split: if_splits)
next
  case False
  with rec_enabled have b: "rec_version r = sv_version b" by simp
  then have "n = (if rec_sha256 r = retain then sv_version a else sv_version b)"
    using derived names by (simp add: enabled version_from_record_def Let_def split: if_splits)
  moreover have "rec_sha256 r = holds (sv_version b)" using b rec_true by simp
  ultimately show thesis using that inj retain by (simp split: if_splits)
qed

lemma enabled_versions_distinct:
  assumes "distinct (map sv_version (rs_versions s))"
  shows "distinct (map sv_version (enabled_versions s))"
proof -
  from assms have "distinct (filter enabled (rs_versions s))"
    and "inj_on sv_version (set (rs_versions s))"
    by (auto simp: distinct_map)
  then show ?thesis
    by (auto simp: distinct_map enabled_versions_def enabled_in_def intro: inj_on_subset)
qed

lemma find_other_of_two:
  assumes "set xs = {x, y}" and "x \<noteq> y"
  shows "find (\<lambda>c. c \<noteq> y) xs = Some x"
proof (cases "find (\<lambda>c. c \<noteq> y) xs")
  case None
  with assms show ?thesis by (auto simp: find_None_iff)
next
  case (Some c)
  then have "c \<in> set xs" and "c \<noteq> y" by (auto simp: find_Some_iff)
  with Some assms show ?thesis by auto
qed

lemma expected_drop_of_two:
  assumes "rec_version r = d \<Longrightarrow> rec_sha256 r = x" and "rec_version r \<noteq> d \<Longrightarrow> rec_sha256 r = y"
    and "set seen = {x, y}" and "x \<noteq> y"
  shows "expected_drop (Some r) d y seen = Some x"
  using assms by (cases "rec_version r = d") (simp_all add: expected_drop_def find_other_of_two)

lemma recorded_choice_safe:
  assumes plan: "plan_complete s retain_flag disable_flag = Inr p"
    and chosen: "cp_chosen_by p = Recorded"
    and truth: "vault_truth holds s" and rec: "record_true holds s"
  shows "holds ` (sv_version ` set (enabled_versions s) - {cp_disable_version p}) = {cp_retain p}"
    and "cp_expected_drop p = Some (holds (cp_disable_version p))"
proof -
  from plan obtain secret :: secret_facts where staged: "phase s = Staged"
    and retain: "cp_retain p \<in> set (published_fingerprints s)"
    and ver: "choose_version s (sf_id secret) (usable_pairing s) (enabled_versions s) (cp_retain p)
           (given disable_flag) = Inr (cp_disable_version p, cp_chosen_by p)"
    and dropped: "cp_expected_drop p = expected_drop (usable_pairing s) (cp_disable_version p)
           (cp_retain p) (published_fingerprints s)"
    by (rule plan_complete_Inr)
  from staged have "length (enabled_versions s) = 2" by (simp add: phase_Staged_iff)
  then obtain a b where es: "enabled_versions s = [a, b]"
    by (auto simp: numeral_2_eq_2 length_Suc_conv)
  with truth have names: "sv_version a \<noteq> sv_version b"
    using enabled_versions_distinct [of s] by (auto simp: vault_truth_def)
  with truth es have inj: "holds (sv_version a) \<noteq> holds (sv_version b)"
    by (auto simp: vault_truth_def)
  from truth es have seen: "set (published_fingerprints s) = {holds (sv_version a), holds (sv_version b)}"
    by (auto simp: vault_truth_def)
  from ver chosen obtain r where r: "usable_pairing s = Some r"
    and derived: "version_from_record r (enabled_versions s) (cp_retain p) = Inr (cp_disable_version p)"
    by (auto simp: choose_version_Recorded)
  from r have "\<exists>v \<in> set (enabled_versions s). sv_version v = rec_version r"
    by (auto simp: usable_pairing_iff enabled_versions_def)
  then have rec_enabled: "rec_version r \<in> {sv_version a, sv_version b}" by (auto simp: es)
  from rec r have rec_true: "holds (rec_version r) = rec_sha256 r" by (simp add: record_true_def)
  from retain seen have kept: "cp_retain p \<in> {holds (sv_version a), holds (sv_version b)}" by simp
  have vs: "sv_version ` set (enabled_versions s) = {sv_version a, sv_version b}" by (simp add: es)
  from version_from_record_pairs [OF es names inj rec_enabled rec_true kept derived]
  show "holds ` (sv_version ` set (enabled_versions s) - {cp_disable_version p}) = {cp_retain p}"
    unfolding vs by cases (simp_all add: insert_Diff_if names names [symmetric])
  from version_from_record_pairs [OF es names inj rec_enabled rec_true kept derived]
  show "cp_expected_drop p = Some (holds (cp_disable_version p))"
  proof cases
    case 1
    with rec_enabled rec_true names seen show ?thesis
      unfolding dropped r by (intro expected_drop_of_two) auto
  next
    case 2
    with rec_enabled rec_true names seen show ?thesis
      unfolding dropped r by (intro expected_drop_of_two) auto
  qed
qed

section \<open>init\<close>

lemma is_noop_iff: "is_noop plan \<longleftrightarrow> steps plan = []"
  by (auto simp: is_noop_def steps_def)

lemma set_steps:
  "SetIdentifier \<in> set (steps plan) \<longleftrightarrow> ip_set_identifier plan"
  "CreateSecret \<in> set (steps plan) \<longleftrightarrow> ip_create_secret plan"
  "MapLabel \<in> set (steps plan) \<longleftrightarrow> ip_map_label plan"
  by (auto simp: steps_def)

lemma distinct_steps: "distinct (steps plan)"
  by (auto simp: steps_def)

lemma plan_init_Inr:
  "plan_init s identifier_flag secret_flag label_mapping existing_secret key = Inr p \<longleftrightarrow>
   validate_identifier identifier_flag = Inr (ip_identifier p) \<and>
   validate_secret_id secret_flag = Inr (ip_secret_id p) \<and>
   ip_label p = signing_label (ip_identifier p) \<and>
   rs_identifier s \<in> {None, Some (ip_identifier p)} \<and>
   label_mapping \<in> {None, Some (ip_secret_id p)} \<and>
   Option.bind existing_secret unusable_reason = None \<and>
   (existing_secret = None \<longrightarrow> key \<noteq> None) \<and>
   ip_set_identifier p = (rs_identifier s = None) \<and>
   ip_create_secret p = (existing_secret = None) \<and>
   ip_map_label p = (label_mapping = None) \<and>
   ip_certificate p = map_option kp_sha256 key"
  by (cases p, cases "rs_identifier s"; cases label_mapping; cases existing_secret)
    (auto simp: plan_init_def res_bind_Inr_iff Let_def opt_filter_def split: option.splits if_splits)

text \<open>
  What a plan is made from, and what each step leaves of it. \<open>created\<close> is the secret as the tenant
  describes it once it has been created.
\<close>

type_synonym init_view = "rotation_state \<times> string option \<times> secret_facts option"

fun after_step :: "init_plan \<Rightarrow> secret_facts \<Rightarrow> init_step \<Rightarrow> init_view \<Rightarrow> init_view" where
  "after_step p created SetIdentifier (s, m, e) = (s\<lparr>rs_identifier := Some (ip_identifier p)\<rparr>, m, e)"
| "after_step p created CreateSecret (s, m, e) = (s, m, Some created)"
| "after_step p created MapLabel (s, m, e) = (s, Some (ip_secret_id p), e)"

definition plan_from :: "string \<Rightarrow> string \<Rightarrow> key_pair option \<Rightarrow> init_view \<Rightarrow> error + init_plan" where
  "plan_from identifier_flag secret_flag key v =
     plan_init (fst v) identifier_flag secret_flag (fst (snd v)) (snd (snd v)) key"

lemma plan_from_step:
  assumes plan: "plan_from idf secf key v = Inr p"
    and st: "steps p = st # rest" and usable: "unusable_reason created = None"
    and same: "ip_identifier q = ip_identifier p" "ip_secret_id q = ip_secret_id p"
  shows "\<exists>p'. plan_from idf secf key (after_step q created st v) = Inr p' \<and> steps p' = rest \<and>
    ip_identifier p' = ip_identifier p \<and> ip_secret_id p' = ip_secret_id p"
proof -
  obtain s m e where v: "v = (s, m, e)" by (cases v)
  show ?thesis
  proof (cases st)
    case SetIdentifier
    with plan st same show ?thesis
      by (intro exI [of _ "p\<lparr>ip_set_identifier := False\<rparr>"])
        (auto simp: v plan_from_def plan_init_Inr steps_def split: if_splits)
  next
    case CreateSecret
    with plan st same usable show ?thesis
      by (intro exI [of _ "p\<lparr>ip_create_secret := False\<rparr>"])
        (auto simp: v plan_from_def plan_init_Inr steps_def split: if_splits)
  next
    case MapLabel
    with plan st same show ?thesis
      by (intro exI [of _ "p\<lparr>ip_map_label := False\<rparr>"])
        (auto simp: v plan_from_def plan_init_Inr steps_def split: if_splits)
  qed
qed

lemma plan_from_resumes:
  assumes "plan_from idf secf key v = Inr p" and "unusable_reason created = None"
    and "ip_identifier q = ip_identifier p" "ip_secret_id q = ip_secret_id p"
  shows "\<exists>p'. plan_from idf secf key (fold (after_step q created) (take k (steps p)) v) = Inr p' \<and>
    steps p' = drop k (steps p)"
  using assms
proof (induction k arbitrary: v p)
  case 0
  then show ?case by auto
next
  case (Suc k)
  show ?case
  proof (cases "steps p")
    case Nil
    with Suc.prems show ?thesis by auto
  next
    case (Cons st rest)
    from plan_from_step [OF Suc.prems(1) Cons Suc.prems(2-4)]
    obtain p' where p': "plan_from idf secf key (after_step q created st v) = Inr p'"
      "steps p' = rest" "ip_identifier q = ip_identifier p'" "ip_secret_id q = ip_secret_id p'"
      using Suc.prems by auto
    from Suc.IH [OF p'(1) Suc.prems(2) p'(3,4)] show ?thesis by (simp add: Cons p'(2))
  qed
qed

lemma activating_step_iff:
  "activating_step p = Some st \<longleftrightarrow> (\<exists>before. steps p = before @ [st])"
  by (auto simp: activating_step_def last_opt_def) (metis append_butlast_last_id)

lemma resurveys_before_iff:
  "resurveys_before p st \<longleftrightarrow> (\<exists>first before. steps p = first # before @ [st])"
proof
  assume "resurveys_before p st"
  then obtain before where "steps p = before @ [st]" "head_opt (steps p) \<noteq> Some st"
    by (auto simp: resurveys_before_def activating_step_iff)
  then show "\<exists>first before. steps p = first # before @ [st]"
    by (cases before) (auto simp: head_opt_def)
next
  assume "\<exists>first before. steps p = first # before @ [st]"
  then obtain first before where st: "steps p = first # before @ [st]" by blast
  then have "first \<noteq> st" using distinct_steps [of p] by auto
  moreover have "activating_step p = Some st"
    unfolding activating_step_iff by (rule exI [of _ "first # before"]) (simp add: st)
  ultimately show "resurveys_before p st"
    by (simp add: resurveys_before_def head_opt_def st)
qed

section \<open>A whole rollover\<close>

text \<open>
  The tenant after the version a stage plan adds has been accepted and its certificate published,
  with the record \<open>stage\<close> then writes; and after the version a complete plan disables has stopped
  publishing.
\<close>

definition after_stage ::
  "rotation_state \<Rightarrow> stage_plan \<Rightarrow> secret_version \<Rightarrow> cert_ref \<Rightarrow> staged_record \<Rightarrow> rotation_state" where
  "after_stage s p v c record =
     s\<lparr>rs_versions := rs_versions s @ [v], rs_certs := rs_certs s @ [c], rs_record := Some record\<rparr>"

definition staged_by ::
  "rotation_state \<Rightarrow> stage_plan \<Rightarrow> secret_version \<Rightarrow> cert_ref \<Rightarrow> staged_record \<Rightarrow> bool" where
  "staged_by s p v c record =
     (enabled v \<and> (\<forall>w \<in> set (rs_versions s). number w < number v) \<and>
      publishes_signing (rs_role s) c \<and> cert_sha256 c = sp_incoming p \<and>
      rec_version record = sv_version v \<and> rec_sha256 record = sp_incoming p \<and>
      rec_secret_id record = sp_secret_id p \<and> Some (rec_identifier record) = rs_identifier s)"

definition after_complete :: "rotation_state \<Rightarrow> complete_plan \<Rightarrow> rotation_state" where
  "after_complete s p =
     s\<lparr>rs_versions := map (\<lambda>v. if sv_version v = cp_disable_version p then v\<lparr>sv_status := ''DISABLED''\<rparr>
                            else v) (rs_versions s),
       rs_certs := filter (\<lambda>c. Some (cert_sha256 c) \<noteq> cp_expected_drop p) (rs_certs s)\<rparr>"

lemma sorted_last_ge: "sorted (map f xs) \<Longrightarrow> x \<in> set xs \<Longrightarrow> f x \<le> f (last xs)"
  by (induction xs) auto

lemma insort_key_snoc: "f x \<le> f y \<Longrightarrow> insort_key f x (zs @ [y]) = insort_key f x zs @ [y]"
  by (induction zs) auto

lemma sort_key_append_max:
  "(\<And>x. x \<in> set xs \<Longrightarrow> f x < f y) \<Longrightarrow> sort_key f (xs @ [y]) = sort_key f xs @ [y]"
  by (induction xs) (simp_all add: insort_key_snoc less_imp_le)

lemma max_by_key_snoc: "(\<And>x. x \<in> set xs \<Longrightarrow> k x < k y) \<Longrightarrow> max_by_key k (xs @ [y]) = Some y"
  by (induction xs) (auto dest: less_asym)

lemma enabled_after_complete:
  "enabled_versions (after_complete s q) =
   filter (\<lambda>v. sv_version v \<noteq> cp_disable_version q) (enabled_versions s)"
proof -
  have "filter enabled (map (\<lambda>v. if sv_version v = d then v\<lparr>sv_status := ''DISABLED''\<rparr> else v) vs) =
      filter (\<lambda>v. sv_version v \<noteq> d) (filter enabled vs)" for vs d
    by (induction vs) (auto simp: enabled_def)
  then show ?thesis
    by (simp add: enabled_versions_def enabled_in_def after_complete_def filter_sort)
qed

lemma published_after_complete:
  "published (after_complete s q) =
   filter (\<lambda>c. Some (cert_sha256 c) \<noteq> cp_expected_drop q) (published s)"
  by (simp add: published_def after_complete_def conj_commute)

lemma after_stage_reads:
  assumes plan: "plan_stage s incoming = Inr p" and by_plan: "staged_by s p v c record"
  obtains c0 v0 secret where "rs_secret s = Some secret" and "sp_secret_id p = sf_id secret"
    and "published s = [c0]" and "cert_sha256 c0 = sp_retained p"
    and "enabled_versions s = [v0]" and "sv_version v0 = sp_retained_version p" and "number v0 < number v"
    and "sp_incoming p = kp_sha256 incoming" and "sp_incoming p \<noteq> sp_retained p"
    and "published (after_stage s p v c record) = [c0, c]"
    and "enabled_versions (after_stage s p v c record) = [v0, v]"
    and "latest_version (after_stage s p v c record) = Some v"
    and "phase (after_stage s p v c record) = Staged"
    and "usable_pairing (after_stage s p v c record) = Some record"
proof -
  let ?t = "after_stage s p v c record"
  obtain c0 v0 secret where settled: "phase s = Settled" and secret: "rs_secret s = Some secret"
    and c0: "published s = [c0]" and v0: "enabled_versions s = [v0]"
    and p: "p = \<lparr>sp_secret_id = sf_id secret, sp_retained = cert_sha256 c0,
             sp_retained_version = sv_version v0, sp_incoming = kp_sha256 incoming,
             sp_expected = btree_set [kp_sha256 incoming, cert_sha256 c0]\<rparr>"
    and new: "kp_sha256 incoming \<noteq> cert_sha256 c0"
    by (rule plan_stage_Inr [OF plan])
  from by_plan have pub: "published ?t = [c0, c]"
    using c0 by (simp add: published_def after_stage_def staged_by_def)
  have "sort_key number (filter enabled (rs_versions s) @ [v]) =
      sort_key number (filter enabled (rs_versions s)) @ [v]"
    by (rule sort_key_append_max) (use by_plan in \<open>simp add: staged_by_def\<close>)
  then have "enabled_versions ?t = enabled_versions s @ [v]"
    using by_plan by (simp add: enabled_versions_def enabled_in_def after_stage_def staged_by_def)
  then have en: "enabled_versions ?t = [v0, v]" by (simp add: v0)
  have latest: "latest_version ?t = Some v"
    using by_plan by (simp add: latest_version_def after_stage_def staged_by_def max_by_key_snoc)
  have "v0 \<in> set (enabled_versions s)" by (simp add: v0)
  then have "number v0 < number v" using by_plan by (simp add: enabled_versions_def staged_by_def)
  moreover have "phase ?t = Staged"
    using settled en pub unfolding phase_Settled_iff phase_Staged_iff by (simp add: after_stage_def)
  moreover have "usable_pairing ?t = Some record"
    using by_plan secret pub
    by (auto simp: usable_pairing_iff set_published_fingerprints) (auto simp: after_stage_def staged_by_def p)
  ultimately show thesis using that secret c0 v0 new pub en latest by (simp add: p)
qed

section \<open>Properties\<close>

text \<open>what \<open>stage\<close> plans. A plan is made only for a settled rotation; it retains the one published
  certificate and the one ENABLED version there are, brings in a different certificate, and
  will wait for exactly those two to be published.\<close>

theorem plan_stage_expects_two:
  assumes "plan_stage s incoming = Inr p"
  shows "phase s = Settled \<and>
    (\<exists>c v. published s = [c] \<and> sp_retained p = cert_sha256 c \<and>
       enabled_versions s = [v] \<and> sp_retained_version p = sv_version v) \<and>
    map_option sf_id (rs_secret s) = Some (sp_secret_id p) \<and>
    sp_incoming p = kp_sha256 incoming \<and> sp_incoming p \<noteq> sp_retained p \<and>
    set (sp_expected p) = {sp_retained p, sp_incoming p} \<and> length (sp_expected p) = 2"
  using assms by (rule plan_stage_Inr) (auto simp: length_btree_set)

definition sample_secret :: secret_facts where
  "sample_secret =
     \<lparr>sf_id = ''esv-k'', sf_encoding = ''pem'', sf_use_in_placeholders = False, sf_loaded = True,
      sf_active_version = ''1'', sf_loaded_version = ''1''\<rparr>"

definition sample_version :: "string \<Rightarrow> string \<Rightarrow> secret_version" where
  "sample_version n status = \<lparr>sv_version = n, sv_status = status, sv_create_date = []\<rparr>"

definition sample_cert :: "string \<Rightarrow> cert_ref" where
  "sample_cert sha =
     \<lparr>descriptor = ''IDPSSODescriptor'', key_use = Some ''signing'', key_name = None, cert_sha256 = sha\<rparr>"

definition sample_settled :: rotation_state where
  "sample_settled =
     \<lparr>rs_tenant = ''t'', rs_realm = ''alpha'', rs_entity_id = ''e'', rs_location = Hosted, rs_role = Idp,
      rs_identifier = Some ''acme'', rs_mapped_alias = Some ''esv-k'', rs_secret = Some sample_secret,
      rs_versions = [sample_version ''1'' ''ENABLED''], rs_certs = [sample_cert ''a''],
      rs_record = None\<rparr>"

definition sample_pair :: key_pair where
  "sample_pair = \<lparr>kp_value = ''pem'', kp_certificate_der = [], kp_sha256 = ''b''\<rparr>"

definition sample_stage :: stage_plan where
  "sample_stage =
     \<lparr>sp_secret_id = ''esv-k'', sp_retained = ''a'', sp_retained_version = ''1'',
      sp_incoming = ''b'', sp_expected = [''a'', ''b'']\<rparr>"

definition sample_staged :: rotation_state where
  "sample_staged =
     after_stage sample_settled sample_stage (sample_version ''2'' ''ENABLED'') (sample_cert ''b'')
       sample_record"

lemmas sample_defs =
  sample_settled_def sample_secret_def sample_version_def sample_cert_def sample_pair_def
  sample_stage_def sample_record_def

lemma sample_plan_stage: "plan_stage sample_settled sample_pair = Inr sample_stage"
  by (simp add: sample_defs plan_stage_def phase_def unusable_reason_def enabled_versions_def
      enabled_in_def enabled_def published_def publishes_signing_def role_descriptor_def
      SIGNING_USE_def published_fingerprints_def head_opt_def btree_set_def Let_def)

lemma sample_numbers: "number (sample_version ''1'' st) = Some 1" "number (sample_version ''2'' st) = Some 2"
  by (simp_all add: sample_version_def number_def parse_u64_def digits_value_def is_digit_def)

lemma sample_staged_by:
  "staged_by sample_settled sample_stage (sample_version ''2'' ''ENABLED'') (sample_cert ''b'') sample_record"
  using sample_numbers
  by (simp add: staged_by_def enabled_def publishes_signing_def role_descriptor_def
      SIGNING_USE_def) (simp add: sample_defs)

theorem plan_stage_expects_two_witness:
  "phase sample_settled = Settled \<and> set (sp_expected sample_stage) = {''a'', ''b''}"
  using plan_stage_expects_two [OF sample_plan_stage] by (simp add: sample_stage_def)

text \<open>planning never panics. None of the \<open>expect\<close>s of the two rollover plans and of the check
  before their write can fail, whatever the tenant returned, whatever the flags say.\<close>

theorem plans_never_panic:
  "plan_stage s incoming \<noteq> Inl Panic \<and> plan_complete s retain_flag disable_flag \<noteq> Inl Panic \<and>
   rollover_pre_write_ok verb secret_id s fresh \<noteq> Inl Panic"
  by (simp add: plan_stage_no_panic plan_complete_no_panic rollover_pre_write_no_panic)

text \<open>C3: a whole rollover. Once the version \<open>stage\<close> planned is there, its certificate published and the
  record written, the rotation is staged; \<open>complete\<close> without any flag then plans to keep
  the incoming certificate, to disable the version that was there before and to see its
  certificate go, without moving the signer; and the rotation is then settled again on the
  incoming certificate alone.\<close>

theorem rollover_completes:
  assumes "plan_stage s incoming = Inr p" and "staged_by s p v c record"
  shows "phase (after_stage s p v c record) = Staged \<and>
    (\<exists>q. plan_complete (after_stage s p v c record) None None = Inr q \<and>
       cp_retain q = sp_incoming p \<and> cp_disable_version q = sp_retained_version p \<and>
       cp_expected_drop q = Some (sp_retained p) \<and> \<not> cp_moves_signer q \<and>
       phase (after_complete (after_stage s p v c record) q) = Settled \<and>
       published_fingerprints (after_complete (after_stage s p v c record) q) = [sp_incoming p])"
proof -
  let ?t = "after_stage s p v c record"
  obtain c0 v0 secret where secret: "rs_secret s = Some secret" and id: "sp_secret_id p = sf_id secret"
    and c0: "published s = [c0]" "cert_sha256 c0 = sp_retained p"
    and v0: "enabled_versions s = [v0]" "sv_version v0 = sp_retained_version p" "number v0 < number v"
    and new: "sp_incoming p \<noteq> sp_retained p"
    and pub: "published ?t = [c0, c]" and en: "enabled_versions ?t = [v0, v]"
    and latest: "latest_version ?t = Some v" and ph: "phase ?t = Staged"
    and pair: "usable_pairing ?t = Some record"
    by (rule after_stage_reads [OF assms(1,2)])
  from assms(2) have rcd: "rec_sha256 record = sp_incoming p" "rec_version record = sv_version v"
    and c: "cert_sha256 c = sp_incoming p" by (simp_all add: staged_by_def)
  from v0(3) have names: "sv_version v0 \<noteq> sv_version v" by (auto simp: number_def)
  have fps: "set (published_fingerprints ?t) = {sp_retained p, sp_incoming p}"
    using pub c0 c by (auto simp: set_published_fingerprints)
  let ?q = "\<lparr>cp_secret_id = sf_id secret, cp_disable_version = sv_version v0, cp_chosen_by = Recorded,
    cp_retain = sp_incoming p, cp_expected_drop = Some (sp_retained p), cp_moves_signer = False\<rparr>"
  have "expected_drop (Some record) (sv_version v0) (sp_incoming p) (published_fingerprints ?t) =
      Some (sp_retained p)"
    by (rule expected_drop_of_two) (use rcd names fps new in auto)
  moreover have "version_from_record record [v0, v] (sp_incoming p) = Inr (sv_version v0)"
    using rcd names by (simp add: version_from_record_def Let_def)
  moreover have "rs_secret ?t = Some secret" using secret by (simp add: after_stage_def)
  ultimately have plan: "plan_complete ?t None None = Inr ?q"
    using ph pair en latest names fps rcd
    by (simp add: plan_complete_def choose_retain_def given_def choose_version_def Let_def last_opt_def
        opt_filter_def)
  let ?u = "after_complete ?t ?q"
  have "enabled_versions ?u = [v]" and pub': "published ?u = [c]"
    using names new c0 c by (simp_all add: enabled_after_complete en published_after_complete pub)
  then have "phase ?u = Settled"
    using ph unfolding phase_Settled_iff phase_Staged_iff by (simp add: after_complete_def)
  moreover have "published_fingerprints ?u = [sp_incoming p]"
    using pub' c by (simp add: published_fingerprints_def btree_set_def)
  ultimately show ?thesis
    using ph plan v0(2) by (intro conjI exI [of _ ?q]) simp_all
qed

theorem rollover_completes_witness:
  "\<exists>q. plan_complete sample_staged None None = Inr q \<and> cp_retain q = ''b'' \<and> cp_disable_version q = ''1''"
  using rollover_completes [OF sample_plan_stage sample_staged_by]
  by (auto simp: sample_staged_def sample_stage_def)

text \<open>what \<open>complete\<close> may disable. A plan is made only for a staged rotation; it keeps a certificate
  that is published now, disables a version that is ENABLED now and is never the newest one (which
  the tenant refuses), and moves the signer only when the newest version is not ENABLED.\<close>

theorem plan_complete_spares_newest:
  assumes "plan_complete s retain_flag disable_flag = Inr p"
    and "inj_on number (set (rs_versions s))"
  shows "phase s = Staged \<and> cp_retain p \<in> set (published_fingerprints s) \<and>
    cp_disable_version p \<in> sv_version ` set (enabled_versions s) \<and>
    (\<exists>newest. latest_version s = Some newest \<and> sv_version newest \<noteq> cp_disable_version p \<and>
       (cp_moves_signer p \<longrightarrow> \<not> enabled newest))"
proof -
  obtain secret :: secret_facts where staged: "phase s = Staged" and retain: "cp_retain p \<in> set (published_fingerprints s)"
    and ver: "choose_version s (sf_id secret) (usable_pairing s) (enabled_versions s) (cp_retain p)
           (given disable_flag) = Inr (cp_disable_version p, cp_chosen_by p)"
    and latest: "map_option sv_version (latest_version s) \<noteq> Some (cp_disable_version p)"
    and moves: "cp_moves_signer p =
           (map_option sv_version (last_opt (enabled_versions s)) = Some (cp_disable_version p))"
    by (rule plan_complete_Inr [OF assms(1)])
  have en: "cp_disable_version p \<in> sv_version ` set (enabled_versions s)"
    by (rule choose_version_enabled [OF ver])
  then have "enabled_versions s \<noteq> []" by auto
  from en have "rs_versions s \<noteq> []" by (auto simp: enabled_versions_def)
  then obtain newest where newest: "latest_version s = Some newest"
    by (cases "max_by_key number (rs_versions s)") (auto simp: latest_version_def)
  have top: "newest \<in> set (rs_versions s)" "\<And>w. w \<in> set (rs_versions s) \<Longrightarrow> number w \<le> number newest"
    using latest_version_max [OF newest] by auto
  have "last (enabled_versions s) = newest" if "enabled newest"
  proof -
    from that top have "newest \<in> set (enabled_versions s)" by (simp add: enabled_versions_def)
    then have "number newest \<le> number (last (enabled_versions s))"
      using sorted_enabled_in [of "rs_versions s"] by (intro sorted_last_ge) (simp_all add: enabled_versions_def)
    moreover have "last (enabled_versions s) \<in> set (rs_versions s)"
      using \<open>enabled_versions s \<noteq> []\<close> last_in_set [of "enabled_versions s"]
      by (simp add: enabled_versions_def)
    ultimately show ?thesis using top assms(2) by (meson antisym inj_onD)
  qed
  with latest newest moves have "cp_moves_signer p \<longrightarrow> \<not> enabled newest"
    by (auto simp: last_opt_def split: if_splits)
  with staged retain en latest newest show ?thesis by auto
qed

lemma sample_versions: "rs_versions sample_staged = [sample_version ''1'' ''ENABLED'', sample_version ''2'' ''ENABLED'']"
  by (simp add: sample_staged_def after_stage_def sample_settled_def)

lemma sample_inj: "inj_on number (set (rs_versions sample_staged))"
  using sample_numbers by (auto simp: sample_versions)

definition sample_complete :: complete_plan where
  "sample_complete =
     \<lparr>cp_secret_id = ''esv-k'', cp_disable_version = ''1'', cp_chosen_by = Recorded, cp_retain = ''b'',
      cp_expected_drop = Some ''a'', cp_moves_signer = False\<rparr>"

lemma sample_enabled: "enabled_versions sample_staged = [sample_version ''1'' ''ENABLED'', sample_version ''2'' ''ENABLED'']"
proof -
  have "number (sample_version ''1'' ''ENABLED'') \<le> number (sample_version ''2'' ''ENABLED'')"
    using sample_numbers by simp
  then show ?thesis
    by (simp add: enabled_versions_def enabled_in_def sample_versions) (simp add: enabled_def sample_version_def)
qed

lemma sample_fingerprints: "published_fingerprints sample_staged = [''a'', ''b'']"
  by (simp add: published_fingerprints_def published_def sample_staged_def after_stage_def
      publishes_signing_def role_descriptor_def SIGNING_USE_def sample_settled_def sample_cert_def
      btree_set_def less_char_def)

lemma sample_pairing: "usable_pairing sample_staged = Some sample_record"
  by (simp add: usable_pairing_iff sample_fingerprints sample_versions)
    (simp add: sample_staged_def after_stage_def enabled_def sample_defs)

lemma sample_staged_parts:
  "rs_secret sample_staged = Some sample_secret" "sf_id sample_secret = ''esv-k''"
  "latest_version sample_staged = Some (sample_version ''2'' ''ENABLED'')"
  using sample_numbers
  by (simp_all add: latest_version_def sample_versions)
    (simp_all add: sample_staged_def after_stage_def sample_defs)

lemma sample_phase: "phase sample_staged = Staged"
  using rollover_completes [OF sample_plan_stage sample_staged_by] by (simp add: sample_staged_def)

lemma sample_plan_complete: "plan_complete sample_staged None None = Inr sample_complete"
  by (simp add: plan_complete_def sample_phase sample_staged_parts sample_pairing sample_enabled
      sample_fingerprints choose_retain_def given_def choose_version_def version_from_record_def
      expected_drop_def last_opt_def opt_filter_def Let_def sample_complete_def sample_record_def
      sample_version_def)

theorem plan_complete_spares_newest_witness:
  "cp_disable_version sample_complete \<in> sv_version ` set (enabled_versions sample_staged)"
  using plan_complete_spares_newest [OF sample_plan_complete sample_inj] by simp

text \<open>C2: the local record never makes \<open>complete\<close> disable the wrong version. If the record is true
  (the version it names holds the certificate it names) and the tenant publishes exactly the
  certificates its ENABLED versions hold, then whatever \<open>--retain\<close> says, a version the plan derived
  from the record leaves exactly the retained certificate behind, and the certificate it is
  expected to drop is the one the disabled version holds.\<close>

theorem recorded_completion_is_safe:
  assumes "plan_complete s retain_flag disable_flag = Inr p" and "cp_chosen_by p = Recorded"
    and "vault_truth holds s" and "record_true holds s"
  shows "holds ` (sv_version ` set (enabled_versions s) - {cp_disable_version p}) = {cp_retain p} \<and>
    cp_expected_drop p = Some (holds (cp_disable_version p)) \<and>
    holds (cp_disable_version p) \<noteq> cp_retain p"
proof -
  note safe = recorded_choice_safe [OF assms]
  obtain secret :: secret_facts where
    "choose_version s (sf_id secret) (usable_pairing s) (enabled_versions s) (cp_retain p)
      (given disable_flag) = Inr (cp_disable_version p, cp_chosen_by p)"
    by (rule plan_complete_Inr [OF assms(1)])
  then have "cp_disable_version p \<in> sv_version ` set (enabled_versions s)"
    by (rule choose_version_enabled)
  moreover have "cp_retain p \<in> holds ` (sv_version ` set (enabled_versions s) - {cp_disable_version p})"
    unfolding safe(1) by (rule singletonI)
  then obtain other where "other \<in> sv_version ` set (enabled_versions s) - {cp_disable_version p}"
    and "cp_retain p = holds other" by (elim imageE)
  moreover have "inj_on holds (sv_version ` set (enabled_versions s))"
    using assms(3) by (simp only: vault_truth_def)
  ultimately have "holds (cp_disable_version p) \<noteq> cp_retain p" by (metis DiffE inj_onD singletonI)
  with safe show ?thesis by simp
qed

theorem recorded_completion_is_safe_witness:
  "cp_expected_drop sample_complete = Some ''a''"
proof -
  let ?holds = "\<lambda>v. if v = ''1'' then ''a'' else ''b''"
  have truth: "vault_truth ?holds sample_staged"
    by (simp add: vault_truth_def sample_versions sample_enabled sample_fingerprints sample_version_def
        insert_commute)
  have rcd: "record_true ?holds sample_staged"
    by (simp add: record_true_def sample_pairing sample_record_def)
  have chosen: "cp_chosen_by sample_complete = Recorded" by (simp add: sample_complete_def)
  from recorded_completion_is_safe [OF sample_plan_complete chosen truth rcd]
  show ?thesis by (simp add: sample_complete_def)
qed

text \<open>without a usable record \<open>complete\<close> takes nothing on itself. It needs both flags, keeps and
  disables exactly what they name (the fingerprint in lower case), says the choice was the operator's and
  claims to know no certificate that will go.\<close>

theorem unpaired_completion_needs_flags:
  assumes "plan_complete s retain_flag disable_flag = Inr p" and "usable_pairing s = None"
  shows "map_option to_lowercase (given retain_flag) = Some (cp_retain p) \<and>
    given disable_flag = Some (cp_disable_version p) \<and> cp_chosen_by p = Named \<and>
    cp_expected_drop p = None"
  using assms(1)
  by (rule plan_complete_Inr)
    (auto simp: assms(2) choose_retain_def choose_version_def Let_def expected_drop_def res_bind_Inr_iff
      split: option.splits if_splits)

lemma sample_unrecorded:
  "phase (s\<lparr>rs_record := r\<rparr>) = phase s" "rs_secret (s\<lparr>rs_record := r\<rparr>) = rs_secret s"
  "published_fingerprints (s\<lparr>rs_record := r\<rparr>) = published_fingerprints s"
  "enabled_versions (s\<lparr>rs_record := r\<rparr>) = enabled_versions s"
  "latest_version (s\<lparr>rs_record := r\<rparr>) = latest_version s"
  "usable_pairing (s\<lparr>rs_record := None\<rparr>) = None"
  by (simp_all add: phase_def published_fingerprints_def published_def enabled_versions_def
      latest_version_def usable_pairing_def cong: option.case_cong)

theorem unpaired_completion_needs_flags_witness:
  "\<exists>p. plan_complete (sample_staged\<lparr>rs_record := None\<rparr>) (Some ''B'') (Some ''1'') = Inr p \<and>
     cp_retain p = ''b'' \<and> cp_disable_version p = ''1'' \<and> cp_expected_drop p = None"
proof -
  let ?s = "sample_staged\<lparr>rs_record := None\<rparr>"
  have given: "given (Some ''B'') = Some ''B''" "given (Some ''1'') = Some ''1''"
    by (simp_all add: given_def trim_def is_whitespace_def opt_filter_def)
  have low: "to_lowercase ''B'' = ''b''" by code_simp
  have "\<exists>p. plan_complete ?s (Some ''B'') (Some ''1'') = Inr p"
    by (simp add: plan_complete_def sample_unrecorded sample_phase sample_staged_parts sample_enabled
        sample_fingerprints choose_retain_def given low choose_version_def Let_def sample_version_def)
  then obtain p where p: "plan_complete ?s (Some ''B'') (Some ''1'') = Inr p" ..
  with unpaired_completion_needs_flags [OF p] show ?thesis by (simp add: sample_unrecorded given low)
qed

text \<open>\<open>init\<close> can be run again after any interruption. However many of its planned steps have been
  done, planning again from the tenant as it then is, with the same flags, succeeds and plans
  exactly the steps that are left; after all of them it plans nothing.\<close>

theorem init_resumes:
  assumes "plan_init s identifier_flag secret_flag label_mapping existing key = Inr p"
    and "unusable_reason created = None"
  shows "\<exists>p'. plan_from identifier_flag secret_flag key
        (fold (after_step p created) (take k (steps p)) (s, label_mapping, existing)) = Inr p' \<and>
      steps p' = drop k (steps p) \<and> (length (steps p) \<le> k \<longrightarrow> is_noop p')"
proof -
  have "plan_from identifier_flag secret_flag key (s, label_mapping, existing) = Inr p"
    by (simp add: plan_from_def assms(1))
  from plan_from_resumes [OF this assms(2) refl refl, of k] show ?thesis by (auto simp: is_noop_iff)
qed

definition sample_init :: init_plan where
  "sample_init =
     \<lparr>ip_identifier = ''acme'', ip_label = signing_label ''acme'', ip_secret_id = ''esv-k'',
      ip_set_identifier = True, ip_create_secret = True, ip_map_label = True,
      ip_certificate = Some ''b''\<rparr>"

lemma sample_plan_init:
  "plan_init (sample_settled\<lparr>rs_identifier := None\<rparr>) ''acme'' ''esv-k'' None None (Some sample_pair) =
   Inr sample_init"
proof -
  have "validate_identifier ''acme'' = Inr ''acme''"
    by (simp add: validate_identifier_Inr is_ascii_alphanumeric_def is_ascii_lower_def)
  moreover have "validate_secret_id ''esv-k'' = Inr ''esv-k''" by code_simp
  ultimately show ?thesis by (simp add: plan_init_Inr sample_init_def sample_pair_def)
qed

theorem init_resumes_witness:
  "\<exists>p'. plan_from ''acme'' ''esv-k'' (Some sample_pair)
        (sample_settled\<lparr>rs_identifier := Some ''acme''\<rparr>, None, Some sample_secret) = Inr p' \<and>
      steps p' = [MapLabel]"
proof -
  have "unusable_reason sample_secret = None" by (simp add: unusable_reason_def sample_secret_def)
  from init_resumes [OF sample_plan_init this, of 2] show ?thesis
    by (auto simp: sample_init_def steps_def)
qed

end
