(* ===== verification/Io.thy ===== *)
theory Io
  imports Prelude
begin

text \<open>
  Effects as explicit state passing. A computation takes a session and returns a result and the
  session after it; the session holds the outside world \<open>'w\<close>, which only the functions that stand
  for it can change, and the events \<open>'v\<close> sent to it so far, oldest first. The log is what the
  theorems about ordering are stated over: no modelled code reads it.
\<close>

record ('w, 'v) sess =
  world :: 'w
  sent :: "'v list"

type_synonym ('w, 'v, 'e, 'a) io = "('w, 'v) sess \<Rightarrow> ('e + 'a) \<times> ('w, 'v) sess"

definition io_return :: "'a \<Rightarrow> ('w, 'v, 'e, 'a) io" where
  "io_return x s = (Inr x, s)"

definition io_fail :: "'e \<Rightarrow> ('w, 'v, 'e, 'a) io" where
  "io_fail e s = (Inl e, s)"

definition io_bind :: "('w, 'v, 'e, 'a) io \<Rightarrow> ('a \<Rightarrow> ('w, 'v, 'e, 'b) io) \<Rightarrow> ('w, 'v, 'e, 'b) io" where
  "io_bind m f s = (case m s of (Inl e, s') \<Rightarrow> (Inl e, s') | (Inr x, s') \<Rightarrow> f x s')"

text \<open>\<open>Result::map_err\<close>, and lifting a result or an effect-free check into a computation.\<close>

definition io_map_err :: "('e \<Rightarrow> 'f) \<Rightarrow> ('w, 'v, 'e, 'a) io \<Rightarrow> ('w, 'v, 'f, 'a) io" where
  "io_map_err g m s = (case m s of (r, s') \<Rightarrow> (map_err g r, s'))"

definition io_lift :: "'e + 'a \<Rightarrow> ('w, 'v, 'e, 'a) io" where
  "io_lift r s = (r, s)"

text \<open>A result looked at as a value, as a \<open>match\<close> on a \<open>Result\<close> does.\<close>

definition io_try :: "('w, 'v, 'e, 'a) io \<Rightarrow> ('w, 'v, 'f, 'e + 'a) io" where
  "io_try m s = (case m s of (r, s') \<Rightarrow> (Inr r, s'))"

text \<open>One event, answered by the world.\<close>

definition io_call :: "'v \<Rightarrow> ('w \<Rightarrow> ('e + 'a) \<times> 'w) \<Rightarrow> ('w, 'v, 'e, 'a) io" where
  "io_call ev answer s =
     (case answer (world s) of (r, w') \<Rightarrow> (r, s\<lparr>world := w', sent := sent s @ [ev]\<rparr>))"

text \<open>A look at the world that sends nothing (a clock, a lock state).\<close>

definition io_look :: "('w \<Rightarrow> ('e + 'a) \<times> 'w) \<Rightarrow> ('w, 'v, 'e, 'a) io" where
  "io_look answer s = (case answer (world s) of (r, w') \<Rightarrow> (r, s\<lparr>world := w'\<rparr>))"

fun io_mapM :: "('a \<Rightarrow> ('w, 'v, 'e, 'b) io) \<Rightarrow> 'a list \<Rightarrow> ('w, 'v, 'e, 'b list) io" where
  "io_mapM f [] = io_return []"
| "io_mapM f (x # xs) =
     io_bind (f x) (\<lambda>y. io_bind (io_mapM f xs) (\<lambda>ys. io_return (y # ys)))"

section \<open>What a computation sends\<close>

text \<open>Every event a computation adds to the log satisfies \<open>P\<close>, and it removes none.\<close>

definition emits :: "('v \<Rightarrow> bool) \<Rightarrow> ('w, 'v, 'e, 'a) io \<Rightarrow> bool" where
  "emits P m \<longleftrightarrow> (\<forall>s. \<exists>es. sent (snd (m s)) = sent s @ es \<and> list_all P es)"

named_theorems emits_intros \<open>rules for what a computation sends\<close>

lemma emits_return [emits_intros]: "emits P (io_return x)"
  by (simp add: emits_def io_return_def)

lemma emits_fail [emits_intros]: "emits P (io_fail e)"
  by (simp add: emits_def io_fail_def)

lemma emits_lift [emits_intros]: "emits P (io_lift r)"
  by (simp add: emits_def io_lift_def)

lemma emits_look [emits_intros]: "emits P (io_look f)"
  by (simp add: emits_def io_look_def split: prod.splits)

lemma emits_call [emits_intros]: "P ev \<Longrightarrow> emits P (io_call ev f)"
  by (auto simp: emits_def io_call_def split: prod.splits)

lemma emits_bind_dep:
  assumes "emits P m" and "\<And>x s s'. m s = (Inr x, s') \<Longrightarrow> emits P (f x)"
  shows "emits P (io_bind m f)"
  unfolding emits_def
proof
  fix s
  obtain r s' where m: "m s = (r, s')" by (cases "m s")
  from assms(1) m obtain es where es: "sent s' = sent s @ es" "list_all P es"
    unfolding emits_def by (metis snd_conv)
  show "\<exists>es. sent (snd (io_bind m f s)) = sent s @ es \<and> list_all P es"
  proof (cases r)
    case (Inl e)
    with m es show ?thesis by (simp add: io_bind_def)
  next
    case (Inr x)
    with assms(2) m obtain es' where "sent (snd (f x s')) = sent s' @ es'" "list_all P es'"
      unfolding emits_def by metis
    with m es Inr show ?thesis by (auto simp: io_bind_def)
  qed
qed

lemma emits_bind [emits_intros]:
  "emits P m \<Longrightarrow> (\<And>x. emits P (f x)) \<Longrightarrow> emits P (io_bind m f)"
  by (rule emits_bind_dep)

lemma emits_map_err [emits_intros]: "emits P m \<Longrightarrow> emits P (io_map_err g m)"
  unfolding emits_def io_map_err_def by (metis (mono_tags, lifting) case_prod_unfold snd_conv)

lemma emits_try [emits_intros]: "emits P m \<Longrightarrow> emits P (io_try m)"
  unfolding emits_def io_try_def by (metis (mono_tags, lifting) case_prod_unfold snd_conv)

lemma emits_mapM [emits_intros]: "(\<And>x. emits P (f x)) \<Longrightarrow> emits P (io_mapM f xs)"
  by (induction xs) (auto intro!: emits_intros)

lemma emits_mono: "emits P m \<Longrightarrow> (\<And>e. P e \<Longrightarrow> Q e) \<Longrightarrow> emits Q m"
  unfolding emits_def by (metis list_all_iff)

lemma emits_log: "emits P m \<Longrightarrow> m s = (r, s') \<Longrightarrow> \<exists>es. sent s' = sent s @ es \<and> list_all P es"
  unfolding emits_def by (metis snd_conv)

text \<open>What a computation returns, when it returns, satisfies \<open>P\<close>.\<close>

definition yields :: "('a \<Rightarrow> bool) \<Rightarrow> ('w, 'v, 'e, 'a) io \<Rightarrow> bool" where
  "yields P m \<longleftrightarrow> (\<forall>s x s'. m s = (Inr x, s') \<longrightarrow> P x)"

named_theorems yields_intros \<open>rules for what a computation returns\<close>

lemma yieldsD: "yields P m \<Longrightarrow> m s = (Inr x, s') \<Longrightarrow> P x"
  unfolding yields_def by blast

lemma yields_return [yields_intros]: "P x \<Longrightarrow> yields P (io_return x)"
  by (simp add: yields_def io_return_def)

lemma yields_fail [yields_intros]: "yields P (io_fail e)"
  by (simp add: yields_def io_fail_def)

lemma yields_lift: "(\<And>x. r = Inr x \<Longrightarrow> P x) \<Longrightarrow> yields P (io_lift r)"
  by (simp add: yields_def io_lift_def)

lemma yields_bind:
  "yields Q m \<Longrightarrow> (\<And>x. Q x \<Longrightarrow> yields P (f x)) \<Longrightarrow> yields P (io_bind m f)"
  unfolding yields_def io_bind_def by (fastforce split: prod.splits sum.splits)

lemma yields_bind_any [yields_intros]: "(\<And>x. yields P (f x)) \<Longrightarrow> yields P (io_bind m f)"
  by (rule yields_bind [where Q = "\<lambda>_. True"]) (simp_all add: yields_def)

lemma yields_map_err [yields_intros]: "yields P m \<Longrightarrow> yields P (io_map_err g m)"
  unfolding yields_def io_map_err_def by (fastforce split: prod.splits)

text \<open>Between two sessions only events with \<open>P\<close> were sent.\<close>

definition quiet_to :: "('v \<Rightarrow> bool) \<Rightarrow> ('w, 'v) sess \<Rightarrow> ('w, 'v) sess \<Rightarrow> bool" where
  "quiet_to P s t \<longleftrightarrow> (\<exists>es. sent t = sent s @ es \<and> list_all P es)"

lemma quiet_to_refl [simp, intro]: "quiet_to P s s"
  by (simp add: quiet_to_def)

lemma quiet_to_trans: "quiet_to P s t \<Longrightarrow> quiet_to P t u \<Longrightarrow> quiet_to P s u"
  by (auto simp: quiet_to_def)

lemma quiet_to_emits: "emits P m \<Longrightarrow> m s = (r, s') \<Longrightarrow> quiet_to P s s'"
  unfolding quiet_to_def by (rule emits_log)

lemma quiet_to_bind:
  assumes "quiet_to P s0 s" and "io_bind m f s = (r, s')" and "emits P m"
  obtains (stopped) e where "m s = (Inl e, s')" "r = Inl e" "quiet_to P s0 s'"
  | (went_on) x t where "m s = (Inr x, t)" "quiet_to P s0 t" "f x t = (r, s')"
proof (cases "m s")
  case (Pair q t)
  with assms(1,3) have "quiet_to P s0 t" by (blast intro: quiet_to_trans quiet_to_emits)
  with Pair assms(2) stopped went_on show thesis by (cases q) (auto simp: io_bind_def)
qed

text \<open>At most \<open>n\<close> of the events a computation adds to the log satisfy \<open>P\<close>.\<close>

definition at_most :: "nat \<Rightarrow> ('v \<Rightarrow> bool) \<Rightarrow> ('w, 'v, 'e, 'a) io \<Rightarrow> bool" where
  "at_most n P m \<longleftrightarrow> (\<forall>s. \<exists>es. sent (snd (m s)) = sent s @ es \<and> length (filter P es) \<le> n)"

lemma at_most_0: "at_most 0 P m \<longleftrightarrow> emits (\<lambda>e. \<not> P e) m"
  by (simp add: at_most_def emits_def list_all_iff filter_empty_conv)

lemma at_most_mono: "at_most n P m \<Longrightarrow> n \<le> k \<Longrightarrow> at_most k P m"
  unfolding at_most_def by (meson le_trans)

lemma at_most_call: "at_most 1 P (io_call ev f)"
  by (auto simp: at_most_def io_call_def split: prod.splits)

lemma at_most_map_err: "at_most n P m \<Longrightarrow> at_most n P (io_map_err g m)"
  unfolding at_most_def io_map_err_def by (metis (mono_tags, lifting) case_prod_unfold snd_conv)

lemma at_most_bind:
  assumes "at_most n P m" and "\<And>x. at_most k P (f x)"
  shows "at_most (n + k) P (io_bind m f)"
  unfolding at_most_def
proof
  fix s
  obtain r s' where m: "m s = (r, s')" by (cases "m s")
  from assms(1) m obtain es where es: "sent s' = sent s @ es" "length (filter P es) \<le> n"
    unfolding at_most_def by (metis snd_conv)
  show "\<exists>es. sent (snd (io_bind m f s)) = sent s @ es \<and> length (filter P es) \<le> n + k"
  proof (cases r)
    case (Inl e)
    with m es show ?thesis by (auto simp: io_bind_def)
  next
    case (Inr x)
    from assms(2) obtain es' where "sent (snd (f x s')) = sent s' @ es'"
      "length (filter P es') \<le> k"
      unfolding at_most_def by metis
    with m es Inr show ?thesis by (auto simp: io_bind_def intro!: exI [of _ "es @ es'"])
  qed
qed

section \<open>Running\<close>

lemma io_bind_Inr:
  "io_bind m f s = (Inr y, s') \<longleftrightarrow> (\<exists>x t. m s = (Inr x, t) \<and> f x t = (Inr y, s'))"
  by (auto simp: io_bind_def split: prod.splits sum.splits)

lemma io_bind_Inl:
  "io_bind m f s = (Inl e, s') \<longleftrightarrow>
   m s = (Inl e, s') \<or> (\<exists>x t. m s = (Inr x, t) \<and> f x t = (Inl e, s'))"
  by (auto simp: io_bind_def split: prod.splits sum.splits)

lemma io_bind_Pair:
  "io_bind m f s = (r, s') \<longleftrightarrow>
   (\<exists>e. m s = (Inl e, s') \<and> r = Inl e) \<or> (\<exists>x t. m s = (Inr x, t) \<and> f x t = (r, s'))"
  by (auto simp: io_bind_def split: prod.splits sum.splits)

lemma io_run_simps [simp]:
  "io_return x s = (r, s') \<longleftrightarrow> r = Inr x \<and> s' = s"
  "io_fail e s = (q, s') \<longleftrightarrow> q = Inl e \<and> s' = s"
  "io_lift p s = (p', s') \<longleftrightarrow> p' = p \<and> s' = s"
  by (auto simp: io_return_def io_fail_def io_lift_def)

lemma io_map_err_Pair:
  "io_map_err g m s = (r, s') \<longleftrightarrow> (\<exists>q. m s = (q, s') \<and> r = map_err g q)"
  by (auto simp: io_map_err_def split: prod.splits)

lemma io_try_Pair: "io_try m s = (r, s') \<longleftrightarrow> (\<exists>q. m s = (q, s') \<and> r = Inr q)"
  by (auto simp: io_try_def split: prod.splits)

lemma io_call_Pair:
  "io_call ev f s = (r, s') \<longleftrightarrow>
   (\<exists>w'. f (world s) = (r, w') \<and> s' = s\<lparr>world := w', sent := sent s @ [ev]\<rparr>)"
  by (auto simp: io_call_def split: prod.splits)

lemma io_look_Pair:
  "io_look f s = (r, s') \<longleftrightarrow> (\<exists>w'. f (world s) = (r, w') \<and> s' = s\<lparr>world := w'\<rparr>)"
  by (auto simp: io_look_def split: prod.splits)

lemmas io_pairs = io_bind_Pair io_map_err_Pair io_try_Pair io_call_Pair io_look_Pair

end
