(* ===== verification/Transport.thy ===== *)
theory Transport
  imports Io Saml_Types
begin

text \<open>
  How a call reaches the tenant. A frontend assembles an \<open>ApiCall\<close> (\<open>src/src/aic/api.rs\<close>) and
  sends its envelope to the agent; the agent's \<open>do_api_call\<close> (\<open>src/src/agent/daemon.rs\<close>) hands it to
  the tenant's \<open>AicClient\<close> (\<open>src/src/aic/mod.rs\<close>), which mints a bearer (\<open>src/src/aic/auth.rs\<close>),
  applies the production gate and sends the HTTP request. Tenants are those of
  \<open>src/src/config/tenant.rs\<close>.

  Not under \<open>src/\<close>, hence parameters (record \<open>http\<close>): the HTTP library (a request is answered
  with a status and a body, or fails with a message), the JSON parser, the URL parser, and the
  signing of the assertion a bearer is minted with.
\<close>

section \<open>Tenants\<close>

datatype tenant_theme = Sandbox | Development | Staging | Production

definition theme_label :: "tenant_theme \<Rightarrow> string" where
  "theme_label t =
     (case t of Sandbox \<Rightarrow> ''sandbox'' | Development \<Rightarrow> ''development''
      | Staging \<Rightarrow> ''staging'' | Production \<Rightarrow> ''production'')"

definition allows_static_content :: "tenant_theme \<Rightarrow> bool" where
  "allows_static_content t = (t = Sandbox \<or> t = Development)"

datatype credential_source = Created | External

record provenance =
  pv_service_account :: "credential_source option"
  pv_log_key :: "credential_source option"

definition provenance_is_unknown :: "provenance \<Rightarrow> bool" where
  "provenance_is_unknown p = (pv_service_account p = None \<and> pv_log_key p = None)"

record tenant =
  ten_name :: string
  ten_base_url :: string
  ten_theme :: tenant_theme
  ten_sa_id :: "string option"
  ten_scopes :: "string list"
  ten_provenance :: provenance

definition trim_end_char :: "char \<Rightarrow> string \<Rightarrow> string" where
  "trim_end_char c s = rev (dropWhile (\<lambda>x. x = c) (rev s))"

definition same_identity :: "tenant \<Rightarrow> tenant \<Rightarrow> bool" where
  "same_identity a b =
     (eq_ignore_ascii_case (trim_end_char CHR ''/'' (ten_base_url a))
        (trim_end_char CHR ''/'' (ten_base_url b)) \<and>
      ten_sa_id a = ten_sa_id b)"

definition is_prod :: "tenant \<Rightarrow> bool" where
  "is_prod t = (ten_theme t = Production)"

definition allows_secret_mappings :: "tenant \<Rightarrow> bool" where
  "allows_secret_mappings t = allows_static_content (ten_theme t)"

definition tenant_file_name :: "string \<Rightarrow> string" where
  "tenant_file_name t =
     map (\<lambda>c. if is_ascii_alphanumeric c \<or> c \<in> set ''-_.'' then c else CHR ''_'') t"

text \<open>\<open>prod_write_ok\<close> of \<open>src/src/cli/mod.rs\<close>: the confirmation a write carries on.\<close>

definition prod_write_ok :: "tenant_theme \<Rightarrow> bool \<Rightarrow> error + bool" where
  "prod_write_ok theme yes =
     (if theme = Production \<and> \<not> yes
      then Inl (Config (Said ''tenant is production - re-run with --yes to confirm the write''))
      else Inr yes)"

section \<open>The envelope\<close>

definition FORM_CONTENT_TYPE :: string where
  "FORM_CONTENT_TYPE = ''application/x-www-form-urlencoded''"

text \<open>\<open>ApiCall\<close>, and the \<open>ApiCallRequest\<close> of the same fields it is sent as.\<close>

record api_call =
  ac_tenant :: string
  ac_method :: string
  ac_path :: string
  ac_body :: "json option"
  ac_confirmed_prod :: bool
  ac_content_type :: "string option"
  ac_api_version :: "string option"
  ac_if_match :: "string option"
  ac_transaction_id :: "string option"

definition new_call :: "string \<Rightarrow> string \<Rightarrow> string \<Rightarrow> api_call" where
  "new_call tenant verb path =
     \<lparr>ac_tenant = tenant, ac_method = verb, ac_path = path, ac_body = None,
      ac_confirmed_prod = False, ac_content_type = None, ac_api_version = None,
      ac_if_match = None, ac_transaction_id = None\<rparr>"

definition with_confirmed_prod :: "bool \<Rightarrow> api_call \<Rightarrow> api_call" where
  "with_confirmed_prod yes c = c\<lparr>ac_confirmed_prod := yes\<rparr>"

definition read_only_action :: "string \<Rightarrow> string \<Rightarrow> api_call" where
  "read_only_action tenant path = with_confirmed_prod True (new_call tenant ''POST'' path)"

definition with_body :: "json \<Rightarrow> api_call \<Rightarrow> api_call" where
  "with_body body c = c\<lparr>ac_body := Some body, ac_content_type := None\<rparr>"

definition with_form_body :: "string \<Rightarrow> api_call \<Rightarrow> api_call" where
  "with_form_body body c =
     c\<lparr>ac_body := Some (JStr body), ac_content_type := Some FORM_CONTENT_TYPE\<rparr>"

definition with_api_version :: "string \<Rightarrow> api_call \<Rightarrow> api_call" where
  "with_api_version v c = c\<lparr>ac_api_version := Some v\<rparr>"

definition with_if_match :: "string \<Rightarrow> api_call \<Rightarrow> api_call" where
  "with_if_match revision c = c\<lparr>ac_if_match := Some revision\<rparr>"

definition with_transaction_id :: "string \<Rightarrow> api_call \<Rightarrow> api_call" where
  "with_transaction_id ident c = c\<lparr>ac_transaction_id := Some ident\<rparr>"

datatype response =
    RespJson json
  | RespLocked
  | RespProdConfirmRequired
  | RespApiError nat string
  | RespError string
  | RespOther

definition decode_response :: "response \<Rightarrow> error + json" where
  "decode_response r =
     (case r of
        RespJson value \<Rightarrow> Inr value
      | RespLocked \<Rightarrow> Inl (Auth ''agent is locked'')
      | RespProdConfirmRequired \<Rightarrow> Inl ProdConfirmRequired
      | RespApiError status body \<Rightarrow> Inl (Api status body)
      | RespError msg \<Rightarrow> Inl (Config (Said msg))
      | RespOther \<Rightarrow> Inl (Config (Said ''unexpected agent reply'')))"

section \<open>HTTP\<close>

datatype http_body = NoBody | JsonBody json | TextBody string

record http_request =
  hr_method :: string
  hr_url :: string
  hr_authorization :: "string option"
  hr_accept_api_version :: "string option"
  hr_content_type :: "string option"
  hr_if_match :: "string option"
  hr_transaction_id :: "string option"
  hr_body :: http_body
  hr_redirects :: bool

text \<open>A body that cannot be read back is a message; \<open>None\<close> for the transaction id is a fresh one.\<close>

record http_reply =
  hp_status :: nat
  hp_body :: "string + string"

datatype http_event = Sent http_request | Slept nat

record claims =
  cl_iss :: string
  cl_aud :: string
  cl_iat :: int
  cl_exp :: int

record 'w http =
  http_send :: "http_request \<Rightarrow> 'w \<Rightarrow> (string + http_reply) \<times> 'w"
  http_parse :: "string \<Rightarrow> string + json"
  http_url :: "string \<Rightarrow> (string \<times> bool) option"
  http_sign :: "tenant \<Rightarrow> claims \<Rightarrow> 'w \<Rightarrow> (string + string) \<times> 'w"
  http_now :: "'w \<Rightarrow> int"
  http_cached :: "string \<Rightarrow> 'w \<Rightarrow> (string \<times> int) option"
  http_store :: "string \<Rightarrow> string \<times> int \<Rightarrow> 'w \<Rightarrow> 'w"

type_synonym ('w, 'a) http_io = "('w, http_event, error, 'a) io"

definition send_http :: "'w http \<Rightarrow> http_request \<Rightarrow> ('w, http_reply) http_io" where
  "send_http h rq = io_map_err OtherError (io_call (Sent rq) (http_send h rq))"

definition is_success :: "nat \<Rightarrow> bool" where
  "is_success status = (200 \<le> status \<and> status < 300)"

definition text_or_default :: "string + string \<Rightarrow> string" where
  "text_or_default b = (case b of Inl _ \<Rightarrow> [] | Inr t \<Rightarrow> t)"

definition check_response :: "'w http \<Rightarrow> http_reply \<Rightarrow> error + json" where
  "check_response h resp =
     (if is_success (hp_status resp) then
        res_bind (map_err OtherError (hp_body resp)) (\<lambda>bytes.
          if bytes = [] then Inr JNull else map_err OtherError (http_parse h bytes))
      else Inl (Api (hp_status resp) (text_or_default (hp_body resp))))"

section \<open>Bearers\<close>

definition ISSUED_TOKEN_TTL :: int where
  "ISSUED_TOKEN_TTL = 898"

definition MIN_TTL_FOR_OUR_OWN_REQUEST :: int where
  "MIN_TTL_FOR_OUR_OWN_REQUEST = 60"

definition get_with_min_ttl :: "(string \<times> int) option \<Rightarrow> int \<Rightarrow> int \<Rightarrow> string option" where
  "get_with_min_ttl cached now min_ttl =
     (case cached of None \<Rightarrow> None
      | Some (tok, expires_at) \<Rightarrow> if expires_at > now + min_ttl then Some tok else None)"

definition as_i64 :: "json \<Rightarrow> int option" where
  "as_i64 v =
     (case v of JNum (NInt i) \<Rightarrow> if - (2 ^ 63) \<le> i \<and> i < 2 ^ 63 then Some i else None | _ \<Rightarrow> None)"

definition mint_token :: "'w http \<Rightarrow> tenant \<Rightarrow> ('w, string \<times> int) http_io" where
  "mint_token h t =
     (case ten_sa_id t of
        None \<Rightarrow> io_fail (Auth (''tenant '' @ ten_name t @ '' is log-only''))
      | Some sa_id \<Rightarrow>
          io_bind (io_look (\<lambda>w. (Inr (http_now h w), w))) (\<lambda>now.
          let aud = ten_base_url t @ ''/am/oauth2/access_token'' in
          io_bind
            (io_map_err Auth
              (io_look (http_sign h t \<lparr>cl_iss = sa_id, cl_aud = aud, cl_iat = now, cl_exp = now + 300\<rparr>)))
            (\<lambda>body.
          io_bind
            (send_http h
               \<lparr>hr_method = ''POST'', hr_url = aud, hr_authorization = None,
                hr_accept_api_version = None, hr_content_type = Some FORM_CONTENT_TYPE,
                hr_if_match = None, hr_transaction_id = None, hr_body = TextBody body,
                hr_redirects = True\<rparr>) (\<lambda>resp.
          if \<not> is_success (hp_status resp)
          then io_fail (Api (hp_status resp) (text_or_default (hp_body resp)))
          else
          io_bind (io_lift (map_err OtherError (res_bind (hp_body resp) (http_parse h)))) (\<lambda>doc.
          io_bind (io_lift (ok_or (Auth ''no access_token in response'') (get_str doc ''access_token'')))
            (\<lambda>access_token.
          let expires_in =
            (case Option.bind (json_get doc ''expires_in'') as_i64 of
               None \<Rightarrow> ISSUED_TOKEN_TTL | Some n \<Rightarrow> n)
          in io_return (access_token, now + expires_in)))))))"

definition bearer_with_min_ttl :: "'w http \<Rightarrow> tenant \<Rightarrow> int \<Rightarrow> ('w, string) http_io" where
  "bearer_with_min_ttl h t min_ttl =
     io_bind
       (io_look (\<lambda>w. (Inr (get_with_min_ttl (http_cached h (ten_name t) w) (http_now h w) min_ttl), w)))
       (\<lambda>cached.
          case cached of
            Some tok \<Rightarrow> io_return tok
          | None \<Rightarrow>
              io_bind (mint_token h t) (\<lambda>(tok, expires_at).
              io_bind (io_look (\<lambda>w. (Inr (), http_store h (ten_name t) (tok, expires_at) w))) (\<lambda>_.
                io_return tok)))"

definition bearer :: "'w http \<Rightarrow> tenant \<Rightarrow> ('w, string) http_io" where
  "bearer h t = bearer_with_min_ttl h t MIN_TTL_FOR_OUR_OWN_REQUEST"

section \<open>The client\<close>

definition url :: "tenant \<Rightarrow> string \<Rightarrow> string" where
  "url t path = ten_base_url t @ path"

definition json_request ::
  "tenant \<Rightarrow> string \<Rightarrow> string \<Rightarrow> json \<Rightarrow> string \<Rightarrow> string option \<Rightarrow> string option \<Rightarrow> string option \<Rightarrow>
   http_request" where
  "json_request t verb path body tok api_version if_match transaction_id =
     \<lparr>hr_method = verb, hr_url = url t path, hr_authorization = Some (''Bearer '' @ tok),
      hr_accept_api_version =
        Some (case api_version of None \<Rightarrow> ''resource=1.0'' | Some v \<Rightarrow> v),
      hr_content_type = Some ''application/json'', hr_if_match = if_match,
      hr_transaction_id = transaction_id, hr_body = JsonBody body, hr_redirects = True\<rparr>"

definition form_request :: "tenant \<Rightarrow> string \<Rightarrow> string \<Rightarrow> string \<Rightarrow> string option \<Rightarrow> http_request" where
  "form_request t verb path body authorization =
     \<lparr>hr_method = verb, hr_url = url t path, hr_authorization = authorization,
      hr_accept_api_version = None, hr_content_type = Some FORM_CONTENT_TYPE, hr_if_match = None,
      hr_transaction_id = None, hr_body = TextBody body, hr_redirects = True\<rparr>"

definition get_request :: "tenant \<Rightarrow> string \<Rightarrow> string \<Rightarrow> string option \<Rightarrow> http_request" where
  "get_request t path tok api_version =
     \<lparr>hr_method = ''GET'', hr_url = url t path, hr_authorization = Some (''Bearer '' @ tok),
      hr_accept_api_version =
        Some (case api_version of None \<Rightarrow> ''resource=1.0'' | Some v \<Rightarrow> v),
      hr_content_type = None, hr_if_match = None, hr_transaction_id = None, hr_body = NoBody,
      hr_redirects = True\<rparr>"

definition ensure_write_allowed :: "tenant \<Rightarrow> bool \<Rightarrow> error + unit" where
  "ensure_write_allowed t confirmed_prod =
     (if ten_theme t = Production \<and> \<not> confirmed_prod then Inl ProdConfirmRequired else Inr ())"

definition write_json ::
  "'w http \<Rightarrow> tenant \<Rightarrow> string \<Rightarrow> string \<Rightarrow> json \<Rightarrow> bool \<Rightarrow> string option \<Rightarrow> string option \<Rightarrow>
   string option \<Rightarrow> ('w, json) http_io" where
  "write_json h t verb path body confirmed_prod api_version if_match transaction_id =
     io_bind (io_lift (ensure_write_allowed t confirmed_prod)) (\<lambda>_.
     io_bind (bearer h t) (\<lambda>tok.
     io_bind (send_http h (json_request t verb path body tok api_version if_match transaction_id))
       (\<lambda>resp. io_lift (check_response h resp))))"

definition write_form_with_authorization ::
  "'w http \<Rightarrow> tenant \<Rightarrow> string \<Rightarrow> string \<Rightarrow> string \<Rightarrow> bool \<Rightarrow> string option \<Rightarrow> ('w, json) http_io" where
  "write_form_with_authorization h t verb path body confirmed_prod authorization =
     io_bind (io_lift (ensure_write_allowed t confirmed_prod)) (\<lambda>_.
     io_bind (send_http h (form_request t verb path body authorization))
       (\<lambda>resp. io_lift (check_response h resp)))"

definition write_form ::
  "'w http \<Rightarrow> tenant \<Rightarrow> string \<Rightarrow> string \<Rightarrow> string \<Rightarrow> bool \<Rightarrow> ('w, json) http_io" where
  "write_form h t verb path body confirmed_prod =
     write_form_with_authorization h t verb path body confirmed_prod None"

definition get_text_unauthenticated :: "'w http \<Rightarrow> tenant \<Rightarrow> string \<Rightarrow> ('w, string) http_io" where
  "get_text_unauthenticated h t path =
     io_bind
       (send_http h
          \<lparr>hr_method = ''GET'', hr_url = url t path, hr_authorization = None,
           hr_accept_api_version = None, hr_content_type = None, hr_if_match = None,
           hr_transaction_id = None, hr_body = NoBody, hr_redirects = False\<rparr>) (\<lambda>resp.
     io_bind (io_lift (map_err OtherError (hp_body resp))) (\<lambda>body.
       if is_success (hp_status resp) then io_return body
       else io_fail (Api (hp_status resp) body)))"

subsection \<open>Retrying a read\<close>

definition RETRY_READS :: "string list" where
  "RETRY_READS =
     [''/openidm/config/'', ''/openidm/schema/'', ''/am/json/'', ''/environment/'',
      ''/monitoring/'', ''/openidm/info/'']"

definition starts_with :: "string \<Rightarrow> string \<Rightarrow> bool" where
  "starts_with s p = (take (length p) s = p)"

definition retry_safe :: "'w http \<Rightarrow> string \<Rightarrow> bool" where
  "retry_safe h path =
     (let route = takeWhile (\<lambda>c. c \<noteq> CHR ''?'') path
      in case http_url h path of
           None \<Rightarrow> False
         | Some (sent_path, action) \<Rightarrow>
             if CHR ''%'' \<in> set route \<or> sent_path \<noteq> route then False
             else \<not> action \<and>
               list_ex (\<lambda>prefix. route = trim_end_char CHR ''/'' prefix \<or> starts_with route prefix)
                 RETRY_READS)"

definition DELAYS_MS :: "nat list" where
  "DELAYS_MS = [250, 750]"

definition gateway_retry_delay :: "nat \<Rightarrow> nat \<Rightarrow> nat option" where
  "gateway_retry_delay status attempt =
     (if attempt < length DELAYS_MS
      then (if 502 \<le> status \<and> status \<le> 504 then Some (DELAYS_MS ! attempt) else None)
      else None)"

lemma io_bind_cong [fundef_cong]:
  "m = m' \<Longrightarrow> (\<And>x. f x = f' x) \<Longrightarrow> io_bind m f = io_bind m' f'"
  by (metis ext)

function get_loop ::
  "'w http \<Rightarrow> tenant \<Rightarrow> string \<Rightarrow> string option \<Rightarrow> bool \<Rightarrow> nat \<Rightarrow> ('w, json) http_io" where
  "get_loop h t path api_version retryable attempt =
     io_bind (bearer h t) (\<lambda>tok.
     io_bind (send_http h (get_request t path tok api_version)) (\<lambda>resp.
       case (if retryable then gateway_retry_delay (hp_status resp) attempt else None) of
         Some delay \<Rightarrow>
           io_bind (io_call (Slept delay) (\<lambda>w. (Inr (), w))) (\<lambda>_.
             get_loop h t path api_version retryable (Suc attempt))
       | None \<Rightarrow> io_lift (check_response h resp)))"
  by pat_completeness auto

termination
  by (relation "measure (\<lambda>(h, t, path, api_version, retryable, attempt). length DELAYS_MS - attempt)")
    (auto simp: gateway_retry_delay_def split: if_splits)

declare get_loop.simps [simp del]

definition get :: "'w http \<Rightarrow> tenant \<Rightarrow> string \<Rightarrow> string option \<Rightarrow> ('w, json) http_io" where
  "get h t path api_version = get_loop h t path api_version (retry_safe h path) 0"

section \<open>The agent\<close>

text \<open>
  What the agent reads of its own state: is it unlocked, the key cache, the tenant's client. The
  last two fail with a message that is only ever shown.
\<close>

record 'w agent =
  ag_unlocked :: "'w \<Rightarrow> bool"
  ag_refresh :: "'w \<Rightarrow> (string + unit) \<times> 'w"
  ag_client :: "string \<Rightarrow> 'w \<Rightarrow> (string + tenant) \<times> 'w"

definition dispatch :: "'w http \<Rightarrow> tenant \<Rightarrow> api_call \<Rightarrow> ('w, json) http_io" where
  "dispatch h t c =
     (let send_json =
        write_json h t (ac_method c) (ac_path c)
          (case ac_body c of None \<Rightarrow> JNull | Some b \<Rightarrow> b) (ac_confirmed_prod c)
          (ac_api_version c) (ac_if_match c) (ac_transaction_id c)
      in if ac_method c = ''GET'' then get h t (ac_path c) (ac_api_version c)
         else if ac_method c = ''POST'' \<and> ac_content_type c = Some FORM_CONTENT_TYPE then
           (case Option.bind (ac_body c) as_str of
              None \<Rightarrow> io_fail (Config (Said ''form request body must be a JSON string''))
            | Some body \<Rightarrow> write_form h t ''POST'' (ac_path c) body (ac_confirmed_prod c))
         else if ac_method c \<in> {''POST'', ''PUT'', ''PATCH'', ''DELETE''} then send_json
         else io_fail (Config (Said (''unsupported method: '' @ ac_method c))))"

definition do_api_call :: "'w http \<Rightarrow> 'w agent \<Rightarrow> api_call \<Rightarrow> ('w, json option) http_io" where
  "do_api_call h a c =
     io_bind (io_look (\<lambda>w. (Inr (ag_unlocked a w), w))) (\<lambda>unlocked.
     if \<not> unlocked then io_return None
     else
     io_bind (io_map_err OtherError (io_look (ag_refresh a))) (\<lambda>_.
     io_bind (io_look (\<lambda>w. (Inr (ag_unlocked a w), w))) (\<lambda>still.
     if \<not> still then io_return None
     else
     io_bind (io_map_err OtherError (io_look (ag_client a (ac_tenant c)))) (\<lambda>t.
     io_bind (dispatch h t c) (\<lambda>value. io_return (Some value))))))"

definition show_error :: "error \<Rightarrow> string" where
  "show_error e = (case e of OtherError m \<Rightarrow> m | Auth m \<Rightarrow> m | Config (Said m) \<Rightarrow> m | _ \<Rightarrow> ''error'')"

definition agent_reply :: "error + json option \<Rightarrow> response" where
  "agent_reply r =
     (case r of
        Inr (Some value) \<Rightarrow> RespJson value
      | Inr None \<Rightarrow> RespLocked
      | Inl ProdConfirmRequired \<Rightarrow> RespProdConfirmRequired
      | Inl (Api status body) \<Rightarrow> RespApiError status body
      | Inl e \<Rightarrow> RespError (show_error e))"

definition handle_api_call ::
  "'w http \<Rightarrow> 'w agent \<Rightarrow> api_call \<Rightarrow> ('w, http_event) sess \<Rightarrow> response \<times> ('w, http_event) sess" where
  "handle_api_call h a c s = (case do_api_call h a c s of (r, s') \<Rightarrow> (agent_reply r, s'))"

end
