(* ===== verification/Transport_Facts.thy ===== *)
theory Transport_Facts
  imports Transport Write_Outcome
begin

text \<open>
  What the transport guarantees: every request stays on the tenant's host, an unconfirmed write
  to a production tenant sends nothing, the gate's refusal is only ever given before anything was
  sent, a write is sent once and a read at most three times, and a form or an export carries no
  bearer.
\<close>

section \<open>Where requests go\<close>

text \<open>\<open>sends_to t P\<close>: every request goes to \<open>t\<close>'s host and satisfies \<open>P\<close>.\<close>

definition request_ok :: "(http_request \<Rightarrow> bool) \<Rightarrow> http_event \<Rightarrow> bool" where
  "request_ok P ev = (case ev of Sent rq \<Rightarrow> P rq | Slept _ \<Rightarrow> True)"

definition on_host :: "tenant \<Rightarrow> http_request \<Rightarrow> bool" where
  "on_host t rq = starts_with (hr_url rq) (ten_base_url t)"

definition is_sent :: "http_event \<Rightarrow> bool" where
  "is_sent ev = (case ev of Sent _ \<Rightarrow> True | Slept _ \<Rightarrow> False)"

lemma on_host_url [simp]: "starts_with (url t path) (ten_base_url t)"
  by (simp add: url_def starts_with_def)

lemma starts_with_append [simp]: "starts_with (p @ r) p"
  by (simp add: starts_with_def)

lemma emits_send_http [emits_intros]: "P rq \<Longrightarrow> emits (request_ok P) (send_http h rq)"
  unfolding send_http_def by (intro emits_intros) (simp add: request_ok_def)

lemma emits_mint_token:
  assumes "\<And>rq. hr_authorization rq = None \<Longrightarrow> on_host t rq \<Longrightarrow> P rq"
  shows "emits (request_ok P) (mint_token h t)"
  unfolding mint_token_def Let_def
  by (cases "ten_sa_id t") (auto intro!: emits_intros assms simp: on_host_def)

lemma emits_bearer [emits_intros]:
  assumes "\<And>rq. hr_authorization rq = None \<Longrightarrow> on_host t rq \<Longrightarrow> P rq"
  shows "emits (request_ok P) (bearer h t)"
  unfolding bearer_def bearer_with_min_ttl_def
  by (rule emits_bind) (auto intro!: emits_intros emits_mint_token assms split: option.splits prod.splits)

lemma emits_get_loop:
  "emits (request_ok (on_host t)) (get_loop h t path v retryable attempt)"
proof (induction h t path v retryable attempt rule: get_loop.induct)
  case (1 h t path v retryable attempt)
  have "emits (request_ok (on_host t))
      (case if retryable then gateway_retry_delay (hp_status resp) attempt else None of
         Some delay \<Rightarrow>
           io_bind (io_call (Slept delay) (\<lambda>w. (Inr (), w))) (\<lambda>_.
             get_loop h t path v retryable (Suc attempt))
       | None \<Rightarrow> io_lift (check_response h resp))" for resp
  proof (cases "if retryable then gateway_retry_delay (hp_status resp) attempt else None")
    case None
    then show ?thesis by (auto intro!: emits_intros split: if_splits)
  next
    case (Some delay)
    from 1 [OF Some] show ?thesis
      unfolding Some option.case
      by (intro emits_bind emits_call) (simp add: request_ok_def)
  qed
  note rest = this
  show ?case
    unfolding get_loop.simps [of h t path v retryable attempt]
    by (intro emits_bind emits_bearer emits_send_http rest)
      (simp_all add: on_host_def get_request_def)
qed

lemma emits_write_json:
  "emits (request_ok (on_host t)) (write_json h t verb path body yes v m x)"
  unfolding write_json_def
  by (intro emits_bind emits_lift emits_bearer emits_send_http)
    (simp_all add: on_host_def json_request_def)

lemma emits_write_form:
  "emits (request_ok (\<lambda>rq. on_host t rq \<and> hr_authorization rq = None))
     (write_form h t verb path body yes)"
  unfolding write_form_def write_form_with_authorization_def
  by (intro emits_bind emits_lift emits_send_http) (simp_all add: on_host_def form_request_def)

lemma emits_dispatch: "emits (request_ok (on_host t)) (dispatch h t c)"
proof -
  have form: "emits (request_ok (on_host t)) (write_form h t verb path body yes)" for verb path body yes
    by (rule emits_mono [OF emits_write_form]) (auto simp: request_ok_def split: http_event.splits)
  show ?thesis
    unfolding dispatch_def Let_def get_def
    by (auto intro!: emits_intros emits_get_loop emits_write_json form split: option.splits)
qed

section \<open>The production gate\<close>

definition gated :: "api_call \<Rightarrow> bool" where
  "gated c = (ac_method c \<noteq> ''GET'' \<and> \<not> ac_confirmed_prod c)"

lemma bind_lift_Inl [simp]: "io_bind (io_lift (Inl e)) f = io_fail e"
  by (simp add: io_bind_def io_lift_def io_fail_def fun_eq_iff)

lemma dispatch_gated:
  assumes "ten_theme t = Production" and "gated c"
  shows "\<exists>e. dispatch h t c = io_fail e"
  using assms
  by (auto simp: dispatch_def gated_def Let_def write_json_def write_form_def
      write_form_with_authorization_def ensure_write_allowed_def split: option.splits)

lemma do_api_call_gated:
  assumes "\<And>w t w'. ag_client a (ac_tenant c) w = (Inr t, w') \<Longrightarrow> ten_theme t = Production"
    and "gated c"
  shows "emits (\<lambda>_. False) (do_api_call h a c)"
proof -
  have "emits (\<lambda>_. False) (dispatch h t c)"
    if client: "io_map_err OtherError (io_look (ag_client a (ac_tenant c))) s = (Inr t, s')" for s t s'
  proof -
    from client have "ten_theme t = Production"
      by (auto simp: io_pairs intro: assms(1))
    from dispatch_gated [OF this assms(2), of h] obtain e where "dispatch h t c = io_fail e" ..
    then show ?thesis by (auto intro!: emits_intros)
  qed
  then show ?thesis
    unfolding do_api_call_def
    by (auto intro!: emits_bind emits_bind_dep [OF emits_map_err [OF emits_look]] emits_intros)
qed

text \<open>Nothing past the gate fails with the gate's error.\<close>

definition never_prod :: "('w, 'v, error, 'a) io \<Rightarrow> bool" where
  "never_prod m \<longleftrightarrow> (\<forall>s s'. m s \<noteq> (Inl ProdConfirmRequired, s'))"

lemma never_prod_bind: "never_prod m \<Longrightarrow> (\<And>x. never_prod (f x)) \<Longrightarrow> never_prod (io_bind m f)"
  by (auto simp: never_prod_def io_bind_Pair)

lemma never_prod_simps [simp]:
  "never_prod (io_return x)"
  "never_prod (io_lift r) \<longleftrightarrow> r \<noteq> Inl ProdConfirmRequired"
  "never_prod (io_fail e) \<longleftrightarrow> e \<noteq> ProdConfirmRequired"
  by (auto simp: never_prod_def)

lemma never_prod_map_err: "(\<And>e. g e \<noteq> ProdConfirmRequired) \<Longrightarrow> never_prod (io_map_err g m)"
  by (auto simp: never_prod_def io_map_err_Pair map_err_def split: sum.splits) metis

lemma never_prod_look: "(\<And>w e w'. f w \<noteq> (Inl e, w')) \<Longrightarrow> never_prod (io_look f)"
  by (auto simp: never_prod_def io_look_Pair)

lemma check_response_not_prod: "check_response h resp \<noteq> Inl ProdConfirmRequired"
  by (auto simp: check_response_def res_bind_Inl_iff map_err_def split: if_splits sum.splits)

lemma never_prod_send_http: "never_prod (send_http h rq)"
  unfolding send_http_def by (rule never_prod_map_err) simp

lemma never_prod_mint_token: "never_prod (mint_token h t)"
  unfolding mint_token_def Let_def
  by (cases "ten_sa_id t")
    (auto intro!: never_prod_bind never_prod_look never_prod_map_err never_prod_send_http
      simp: ok_or_Inl_iff map_err_def split: sum.splits)

lemma never_prod_bearer: "never_prod (bearer h t)"
  unfolding bearer_def bearer_with_min_ttl_def
  by (rule never_prod_bind)
    (auto intro!: never_prod_bind never_prod_look never_prod_mint_token split: option.splits)

lemma never_prod_call: "(\<And>w e w'. f w \<noteq> (Inl e, w')) \<Longrightarrow> never_prod (io_call ev f)"
  by (auto simp: never_prod_def io_call_Pair)

lemma never_prod_check [simp]: "never_prod (io_lift (check_response h resp))"
  using check_response_not_prod by simp

lemma never_prod_get_loop: "never_prod (get_loop h t path v retryable attempt)"
proof (induction h t path v retryable attempt rule: get_loop.induct)
  case (1 h t path v retryable attempt)
  have "never_prod
      (case if retryable then gateway_retry_delay (hp_status resp) attempt else None of
         Some delay \<Rightarrow>
           io_bind (io_call (Slept delay) (\<lambda>w. (Inr (), w))) (\<lambda>_.
             get_loop h t path v retryable (Suc attempt))
       | None \<Rightarrow> io_lift (check_response h resp))" for resp
  proof (cases "if retryable then gateway_retry_delay (hp_status resp) attempt else None")
    case None
    then show ?thesis by (simp del: never_prod_simps(2) split: if_splits)
  next
    case (Some delay)
    from 1 [OF Some] show ?thesis
      unfolding Some option.case by (intro never_prod_bind never_prod_call) simp_all
  qed
  then show ?case
    unfolding get_loop.simps [of h t path v retryable attempt]
    by (intro never_prod_bind never_prod_bearer never_prod_send_http)
qed

lemma never_prod_sent:
  "never_prod (io_bind (send_http h rq) (\<lambda>resp. io_lift (check_response h resp)))"
  by (intro never_prod_bind never_prod_send_http never_prod_check)

lemma write_json_prod:
  assumes "write_json h t verb path body yes v m x s = (Inl ProdConfirmRequired, s')"
  shows "s' = s"
proof (cases "ensure_write_allowed t yes")
  case (Inl e)
  with assms show ?thesis by (simp add: write_json_def)
next
  case (Inr u)
  have "never_prod (io_bind (bearer h t) (\<lambda>tok. io_bind
      (send_http h (json_request t verb path body tok v m x)) (\<lambda>resp. io_lift (check_response h resp))))"
    by (intro never_prod_bind never_prod_bearer never_prod_sent)
  with assms Inr show ?thesis
    by (auto simp: write_json_def io_bind_Pair [of "io_lift _"] never_prod_def)
qed

lemma write_form_prod:
  assumes "write_form h t verb path body yes s = (Inl ProdConfirmRequired, s')"
  shows "s' = s"
  using assms never_prod_sent [of h "form_request t verb path body None"]
  by (auto simp: write_form_def write_form_with_authorization_def io_bind_Pair [of "io_lift _"]
      never_prod_def)

lemma dispatch_prod: "dispatch h t c s = (Inl ProdConfirmRequired, s') \<Longrightarrow> s' = s"
  using never_prod_get_loop [of h t "ac_path c" "ac_api_version c" "retry_safe h (ac_path c)" 0]
  by (auto simp: dispatch_def Let_def get_def never_prod_def
      dest: write_json_prod write_form_prod split: if_splits option.splits)

lemma do_api_call_prod:
  assumes "do_api_call h a c s = (Inl ProdConfirmRequired, s')"
  shows "sent s' = sent s"
  using assms
  by (auto simp: do_api_call_def io_pairs dest!: dispatch_prod split: if_splits)

section \<open>How often\<close>

definition gets :: "tenant \<Rightarrow> string \<Rightarrow> http_event \<Rightarrow> bool" where
  "gets t path ev =
     (case ev of Sent rq \<Rightarrow> hr_method rq = ''GET'' \<and> hr_url rq = url t path | Slept _ \<Rightarrow> False)"

definition sends_json :: "http_event \<Rightarrow> bool" where
  "sends_json ev = (case ev of Sent rq \<Rightarrow> (\<exists>b. hr_body rq = JsonBody b) | Slept _ \<Rightarrow> False)"

lemma bearer_no_gets: "at_most 0 (gets t path) (bearer h t)"
  unfolding at_most_0 bearer_def bearer_with_min_ttl_def mint_token_def send_http_def Let_def
  by (auto intro!: emits_intros simp: gets_def split: option.splits prod.splits)

lemma bearer_no_json: "at_most 0 sends_json (bearer h t)"
  unfolding at_most_0 bearer_def bearer_with_min_ttl_def mint_token_def send_http_def Let_def
  by (auto intro!: emits_intros simp: sends_json_def split: option.splits prod.splits)

lemma at_most_lift: "at_most 0 P (io_lift r)"
  by (simp add: at_most_0 emits_lift)

lemma at_most_send_http: "at_most 1 P (send_http h rq)"
  unfolding send_http_def by (intro at_most_map_err at_most_call)

lemma write_json_once: "at_most 1 sends_json (write_json h t verb path body yes v m x)"
proof -
  have "at_most (0 + (0 + (1 + 0))) sends_json (write_json h t verb path body yes v m x)"
    unfolding write_json_def
    by (intro at_most_bind at_most_lift bearer_no_json at_most_send_http)
  then show ?thesis by simp
qed

lemma get_loop_bounded:
  "at_most (if retryable then Suc (length DELAYS_MS - attempt) else 1) (gets t path)
     (get_loop h t path v retryable attempt)"
proof (induction h t path v retryable attempt rule: get_loop.induct)
  case (1 h t path v retryable attempt)
  let ?k = "if retryable then length DELAYS_MS - attempt else 0"
  have rest: "at_most ?k (gets t path)
      (case if retryable then gateway_retry_delay (hp_status resp) attempt else None of
         Some delay \<Rightarrow>
           io_bind (io_call (Slept delay) (\<lambda>w. (Inr (), w))) (\<lambda>_.
             get_loop h t path v retryable (Suc attempt))
       | None \<Rightarrow> io_lift (check_response h resp))" for resp
  proof (cases "if retryable then gateway_retry_delay (hp_status resp) attempt else None")
    case None
    then show ?thesis by (auto intro: at_most_mono [OF at_most_lift])
  next
    case (Some delay)
    then have r: "retryable" and lt: "attempt < length DELAYS_MS"
      by (auto simp: gateway_retry_delay_def split: if_splits)
    have call: "at_most 0 (gets t path) (io_call (Slept delay) (\<lambda>w. (Inr (), w)))"
      unfolding at_most_0 by (intro emits_call) (simp add: gets_def)
    have "at_most (Suc (length DELAYS_MS - Suc attempt)) (gets t path)
        (get_loop h t path v retryable (Suc attempt))"
      using 1 [OF Some] r by simp
    from at_most_bind [OF call this] show ?thesis
      unfolding Some option.case using r lt by (simp add: Suc_diff_Suc)
  qed
  have "at_most (0 + (1 + ?k)) (gets t path) (get_loop h t path v retryable attempt)"
    unfolding get_loop.simps [of h t path v retryable attempt]
    by (intro at_most_bind bearer_no_gets at_most_send_http rest)
  then show ?case by (cases retryable) simp_all
qed

section \<open>A locked agent\<close>

lemma do_api_call_locked:
  "\<not> ag_unlocked a (world s) \<Longrightarrow> do_api_call h a c s = (Inr None, s)"
  by (simp add: do_api_call_def io_bind_def io_look_def io_return_def)

section \<open>Properties\<close>

text \<open>A concrete agent for the witnesses: one production tenant, a server that answers everything.\<close>

definition prod_tenant :: tenant where
  "prod_tenant =
     \<lparr>ten_name = ''p'', ten_base_url = ''https://p'', ten_theme = Production, ten_sa_id = Some ''sa'',
      ten_scopes = [], ten_provenance = \<lparr>pv_service_account = None, pv_log_key = None\<rparr>\<rparr>"

definition open_http :: "unit http" where
  "open_http =
     \<lparr>http_send = (\<lambda>rq w. (Inr \<lparr>hp_status = 200, hp_body = Inr []\<rparr>, w)), http_parse = (\<lambda>s. Inr JNull),
      http_url = (\<lambda>p. None), http_sign = (\<lambda>t c w. (Inr [], w)), http_now = (\<lambda>w. 0),
      http_cached = (\<lambda>n w. Some (''tok'', 1000)), http_store = (\<lambda>n c w. w)\<rparr>"

definition open_agent :: "unit agent" where
  "open_agent =
     \<lparr>ag_unlocked = (\<lambda>w. True), ag_refresh = (\<lambda>w. (Inr (), w)),
      ag_client = (\<lambda>n w. (Inr prod_tenant, w))\<rparr>"

text \<open>C36: the production gate. A call that is neither a GET nor confirmed, to a tenant that is a
  production one, sends nothing at all: no request and not even a token exchange; and the caller
  never gets a value for it.\<close>

theorem unconfirmed_prod_write_sends_nothing:
  assumes "\<And>w t w'. ag_client a (ac_tenant c) w = (Inr t, w') \<Longrightarrow> ten_theme t = Production"
    and "ac_method c \<noteq> ''GET''" and "\<not> ac_confirmed_prod c"
  shows "sent (snd (handle_api_call h a c s)) = sent s \<and>
    \<not> is_ok (decode_response (fst (handle_api_call h a c s)))"
proof -
  have gated: "gated c" using assms(2,3) by (simp add: gated_def)
  obtain r s' where run: "do_api_call h a c s = (r, s')" by (cases "do_api_call h a c s")
  have "emits (\<lambda>_. False) (do_api_call h a c)"
    by (rule do_api_call_gated [OF _ gated]) (rule assms(1))
  from emits_log [OF this run] have "sent s' = sent s" by (auto simp: list_all_iff)
  moreover have "r \<noteq> Inr (Some v)" for v
  proof
    assume "r = Inr (Some v)"
    with run obtain t s1 w w' where "ag_client a (ac_tenant c) w = (Inr t, w')"
      and ran: "dispatch h t c s1 = (Inr v, s')"
      by (auto simp: do_api_call_def io_pairs split: if_splits)
    with dispatch_gated [OF _ gated] assms(1) obtain e where "dispatch h t c = io_fail e" by metis
    with ran show False by simp
  qed
  ultimately show ?thesis
    by (auto simp: handle_api_call_def run agent_reply_def decode_response_def
        split: sum.splits option.splits error.splits)
qed

theorem unconfirmed_prod_write_sends_nothing_witness:
  "sent (snd (handle_api_call open_http open_agent (new_call ''p'' ''PUT'' ''/x'') \<lparr>world = (), sent = []\<rparr>)) = []"
  using unconfirmed_prod_write_sends_nothing
    [of open_agent "new_call ''p'' ''PUT'' ''/x''" open_http "\<lparr>world = (), sent = []\<rparr>"]
  by (simp add: open_agent_def prod_tenant_def new_call_def)

text \<open>the gate's refusal is proof that nothing was sent. Whatever the call, an agent reply that
  asks for the production confirmation is only ever given before any request.\<close>

theorem prod_confirm_reply_sent_nothing:
  assumes "handle_api_call h a c s = (RespProdConfirmRequired, s')"
  shows "sent s' = sent s"
proof -
  from assms obtain r where run: "do_api_call h a c s = (r, s')" and "agent_reply r = RespProdConfirmRequired"
    by (auto simp: handle_api_call_def split: prod.splits)
  then have "r = Inl ProdConfirmRequired"
    by (auto simp: agent_reply_def split: sum.splits option.splits error.splits)
  with run show ?thesis by (auto intro: do_api_call_prod)
qed

theorem prod_confirm_reply_sent_nothing_witness:
  "sent (snd (handle_api_call open_http open_agent (new_call ''p'' ''PUT'' ''/x'') \<lparr>world = (), sent = [Slept 1]\<rparr>)) =
   [Slept 1]"
proof -
  have "handle_api_call open_http open_agent (new_call ''p'' ''PUT'' ''/x'') \<lparr>world = (), sent = [Slept 1]\<rparr> =
      (RespProdConfirmRequired, \<lparr>world = (), sent = [Slept 1]\<rparr>)"
    by (simp add: handle_api_call_def do_api_call_def dispatch_def write_json_def ensure_write_allowed_def
        io_bind_def io_look_def io_map_err_def io_lift_def io_fail_def open_agent_def prod_tenant_def
        new_call_def agent_reply_def Let_def)
  from prod_confirm_reply_sent_nothing [OF this] show ?thesis
    by (simp add: handle_api_call_def do_api_call_def dispatch_def write_json_def ensure_write_allowed_def
        io_bind_def io_look_def io_map_err_def io_lift_def io_fail_def open_agent_def prod_tenant_def
        new_call_def Let_def)
qed

text \<open>requests stay on the tenant. Every request the agent sends for a call, the token exchange
  and every retry included, goes to a URL under the tenant's own base URL; and a form body is
  sent without the tenant's bearer.\<close>

theorem requests_stay_on_tenant:
  "(\<exists>es. sent (snd (dispatch h t c s)) = sent s @ es \<and> list_all (request_ok (on_host t)) es) \<and>
   (\<exists>es. sent (snd (write_form h t verb path body yes s)) = sent s @ es \<and>
      list_all (request_ok (\<lambda>rq. on_host t rq \<and> hr_authorization rq = None)) es)"
  using emits_dispatch [of t h c] emits_write_form [of t h verb path body yes]
  unfolding emits_def by blast

text \<open>how often a call is sent. A read is sent at most three times, and once when its path is not
  on the list of reads that are safe to repeat; a JSON write is never sent twice.\<close>

theorem calls_are_bounded:
  "(\<exists>es. sent (snd (get h t path v s)) = sent s @ es \<and>
      length (filter (gets t path) es) \<le> (if retry_safe h path then 3 else 1)) \<and>
   (\<exists>es. sent (snd (write_json h t verb path body yes v m x s)) = sent s @ es \<and>
      length (filter sends_json es) \<le> 1)"
  using get_loop_bounded [of "retry_safe h path" 0 t path h v] write_json_once [of h t verb path body yes v m x]
  unfolding at_most_def get_def by (auto simp: DELAYS_MS_def numeral_3_eq_3 split: if_splits)

text \<open>C39: a locked agent. It answers without sending anything, and a frontend that was sending a
  write is told so by an authentication error, for which the write's status is unknown, not refused.\<close>

theorem locked_agent_leaves_status_unknown:
  assumes "\<not> ag_unlocked a (world s)"
  shows "handle_api_call h a c s = (RespLocked, s) \<and>
    (\<exists>e. decode_response RespLocked = Inl e \<and> wf_status (from_send e measured) = Unknown)"
  using do_api_call_locked [OF assms, of h c]
  by (simp add: handle_api_call_def agent_reply_def decode_response_def from_send_def)

theorem locked_agent_leaves_status_unknown_witness:
  "handle_api_call open_http (open_agent\<lparr>ag_unlocked := \<lambda>w. False\<rparr>) (new_call ''p'' ''PUT'' ''/x'')
     \<lparr>world = (), sent = []\<rparr> = (RespLocked, \<lparr>world = (), sent = []\<rparr>)"
  using locked_agent_leaves_status_unknown [of "open_agent\<lparr>ag_unlocked := \<lambda>w. False\<rparr>"
      "\<lparr>world = (), sent = []\<rparr>" open_http "new_call ''p'' ''PUT'' ''/x''" "[]"]
  by simp

end
