(* ===== verification/Tenant_Api.thy ===== *)
theory Tenant_Api
  imports Transport_Facts Journal
begin

text \<open>
  The endpoint wrappers a SAML rotation calls: entity providers and their metadata export
  (\<open>src/src/saml/api.rs\<close>, \<open>spec.rs\<close>, \<open>export.rs\<close>), secret mappings (\<open>src/src/secretmap/api.rs\<close>)
  and ESV variables and secrets (\<open>src/src/esv/api.rs\<close>). Each builds an \<open>api_call\<close> and reads the
  answer; \<open>env_agent\<close> is the connection to the agent of \<open>Transport\<close>.

  The other fields of \<open>env\<close> stand for what is not under \<open>src/\<close> or not modelled: the XML scanner
  behind \<open>metadata::cert_refs\<close> and \<open>validate_export_document\<close>, the encoders of base64, of query
  strings and of one form value, the clock, the prompt, and the file system the journal lives in.
\<close>

section \<open>The environment\<close>

record 'w env =
  env_agent :: "api_call \<Rightarrow> 'w \<Rightarrow> (error + response) \<times> 'w"
  env_export :: "tenant \<Rightarrow> string \<Rightarrow> 'w \<Rightarrow> (error + string) \<times> 'w"
  env_is_document :: "string \<Rightarrow> bool"
  env_unescape :: "string \<Rightarrow> string"
  env_cert_refs :: "string \<Rightarrow> error + cert_ref list"
  env_base64 :: "string \<Rightarrow> string"
  env_base64url :: "string \<Rightarrow> string"
  env_query :: "(string \<times> string) list \<Rightarrow> string"
  env_urlencode :: "string \<Rightarrow> string"
  env_now :: "'w \<Rightarrow> nat"
  env_sleep :: "nat \<Rightarrow> 'w \<Rightarrow> 'w"
  env_ask :: "'w \<Rightarrow> (error + bool) \<times> 'w"
  env_prompt_available :: bool
  env_timestamp :: "'w \<Rightarrow> string"
  env_files :: "'w \<Rightarrow> files"
  env_put_files :: "files \<Rightarrow> 'w \<Rightarrow> 'w"
  env_decode :: journal_decoder
  env_encode :: journal_encoder

text \<open>What a command does that someone else can see.\<close>

datatype (plugins only: code size) event =
    Called api_call
  | Exported tenant string
  | Waited nat
  | Asked
  | Completed init_step
  | JournalPut staged_record
  | JournalCleared key

type_synonym ('w, 'a) op = "('w, event, error, 'a) io"

type_synonym ('w, 'a) wop = "('w, event, write_failure, 'a) io"

text \<open>\<open>ApiCall::send\<close>.\<close>

definition send :: "'w env \<Rightarrow> api_call \<Rightarrow> ('w, json) op" where
  "send env c = io_bind (io_call (Called c) (env_agent env c)) (\<lambda>resp. io_lift (decode_response resp))"

definition api_get :: "'w env \<Rightarrow> string \<Rightarrow> string \<Rightarrow> ('w, json) op" where
  "api_get env tenant path = send env (new_call tenant ''GET'' path)"

definition get_versioned :: "'w env \<Rightarrow> string \<Rightarrow> string \<Rightarrow> string \<Rightarrow> ('w, json) op" where
  "get_versioned env tenant path version =
     send env (with_api_version version (new_call tenant ''GET'' path))"

definition api_put :: "'w env \<Rightarrow> string \<Rightarrow> string \<Rightarrow> json \<Rightarrow> bool \<Rightarrow> ('w, json) op" where
  "api_put env tenant path body confirmed =
     send env (with_confirmed_prod confirmed (with_body body (new_call tenant ''PUT'' path)))"

definition api_post :: "'w env \<Rightarrow> string \<Rightarrow> string \<Rightarrow> json \<Rightarrow> bool \<Rightarrow> ('w, json) op" where
  "api_post env tenant path body confirmed =
     send env (with_confirmed_prod confirmed (with_body body (new_call tenant ''POST'' path)))"

definition api_delete :: "'w env \<Rightarrow> string \<Rightarrow> string \<Rightarrow> bool \<Rightarrow> ('w, json) op" where
  "api_delete env tenant path confirmed =
     send env (with_confirmed_prod confirmed (new_call tenant ''DELETE'' path))"

definition is_not_found :: "error \<Rightarrow> bool" where
  "is_not_found e = (case e of Api status _ \<Rightarrow> status = 404 | _ \<Rightarrow> False)"

section \<open>Entity providers\<close>

definition SAML_API_VERSION :: string where
  "SAML_API_VERSION = ''protocol=2.1,resource=1.0''"

record saml_request =
  sq_method :: string
  sq_path :: string
  sq_body :: "json option"
  sq_confirmed_prod :: bool

definition saml_get :: "string \<Rightarrow> saml_request" where
  "saml_get path = \<lparr>sq_method = ''GET'', sq_path = path, sq_body = None, sq_confirmed_prod = False\<rparr>"

definition saml_call :: "saml_request \<Rightarrow> string \<Rightarrow> api_call" where
  "saml_call rq tenant =
     (let c = with_confirmed_prod (sq_confirmed_prod rq)
                (with_api_version SAML_API_VERSION (new_call tenant (sq_method rq) (sq_path rq)))
      in case sq_body rq of None \<Rightarrow> c | Some body \<Rightarrow> with_body body c)"

definition saml_send :: "'w env \<Rightarrow> saml_request \<Rightarrow> string \<Rightarrow> ('w, json) op" where
  "saml_send env rq tenant = send env (saml_call rq tenant)"

definition realm_path :: "string \<Rightarrow> string" where
  "realm_path realm = ''/am/json/realms/root/realms/'' @ realm"

definition entities_path :: "string \<Rightarrow> string" where
  "entities_path realm = realm_path realm @ ''/realm-config/saml2''"

definition list_request :: "string \<Rightarrow> saml_request" where
  "list_request realm = saml_get (entities_path realm @ ''?_queryFilter=true'')"

definition entity_id64 :: "'w env \<Rightarrow> string \<Rightarrow> string" where
  "entity_id64 env entity_id = env_base64url env (trim entity_id)"

definition entity_path :: "'w env \<Rightarrow> string \<Rightarrow> location \<Rightarrow> string \<Rightarrow> string" where
  "entity_path env realm loc entity_id =
     entities_path realm @ ''/'' @ location_str loc @ ''/'' @ entity_id64 env entity_id"

definition read_request :: "'w env \<Rightarrow> string \<Rightarrow> location \<Rightarrow> string \<Rightarrow> saml_request" where
  "read_request env realm loc entity_id = saml_get (entity_path env realm loc entity_id)"

definition update_entity_request ::
  "'w env \<Rightarrow> string \<Rightarrow> location \<Rightarrow> string \<Rightarrow> json \<Rightarrow> bool \<Rightarrow> saml_request" where
  "update_entity_request env realm loc entity_id body confirmed =
     \<lparr>sq_method = ''PUT'', sq_path = entity_path env realm loc entity_id, sq_body = Some body,
      sq_confirmed_prod = confirmed\<rparr>"

definition parse_location :: "string \<Rightarrow> location option" where
  "parse_location s =
     (if s = ''hosted'' then Some Hosted else if s = ''remote'' then Some Remote else None)"

fun all_strings :: "json list \<Rightarrow> string list option" where
  "all_strings [] = Some []"
| "all_strings (v # vs) =
     (case as_str v of None \<Rightarrow> None | Some s \<Rightarrow> map_option (\<lambda>ss. s # ss) (all_strings vs))"

text \<open>What \<open>serde\<close> makes of a stub: \<open>roles\<close> defaults, the other members are required.\<close>

definition parse_stub :: "json \<Rightarrow> entity_stub option" where
  "parse_stub v =
     Option.bind (get_str v ''_id'') (\<lambda>id64.
     Option.bind (get_str v ''entityId'') (\<lambda>entity_id.
     Option.bind (Option.bind (get_str v ''location'') parse_location) (\<lambda>loc.
     map_option
       (\<lambda>roles. \<lparr>stub_id64 = id64, stub_entity_id = entity_id, stub_location = loc, stub_roles = roles\<rparr>)
       (case json_get v ''roles'' of
          None \<Rightarrow> Some []
        | Some r \<Rightarrow> Option.bind (as_array r) all_strings))))"

definition list_entities :: "'w env \<Rightarrow> string \<Rightarrow> string \<Rightarrow> ('w, entity_stub list) op" where
  "list_entities env tenant realm =
     io_bind (saml_send env (list_request realm) tenant) (\<lambda>body.
       io_lift
         (res_bind (ok_or (Api 0 ''unexpected SAML entity list shape'') (get_array body ''result''))
            (res_mapM (\<lambda>stub. ok_or (Api 0 ''unexpected SAML entity stub'') (parse_stub stub)))))"

definition read_entity ::
  "'w env \<Rightarrow> string \<Rightarrow> string \<Rightarrow> location \<Rightarrow> string \<Rightarrow> ('w, json) op" where
  "read_entity env tenant realm loc entity_id =
     saml_send env (read_request env realm loc entity_id) tenant"

definition update_entity ::
  "'w env \<Rightarrow> string \<Rightarrow> string \<Rightarrow> location \<Rightarrow> string \<Rightarrow> json \<Rightarrow> bool \<Rightarrow> init_permit \<Rightarrow> ('w, json) op" where
  "update_entity env tenant realm loc entity_id body confirmed permit =
     saml_send env (update_entity_request env realm loc entity_id body confirmed) tenant"

section \<open>The metadata export\<close>

datatype export_outcome = Metadata | TenantError string | Unrecognised string bool

definition ERROR_PREFIX :: string where
  "ERROR_PREFIX = ''ERROR''"

definition EXCERPT_LIMIT :: nat where
  "EXCERPT_LIMIT = 200"

lemma length_dropWhile_Suc [termination_simp]: "length (dropWhile P s) < Suc (length s)"
  by (simp add: length_dropWhile_le less_Suc_eq_le)

fun split_whitespace :: "string \<Rightarrow> string list" where
  "split_whitespace [] = []"
| "split_whitespace (c # s) =
     (if is_whitespace c then split_whitespace s
      else (c # takeWhile (\<lambda>x. \<not> is_whitespace x) s) #
           split_whitespace (dropWhile (\<lambda>x. \<not> is_whitespace x) s))"

text \<open>The flag says that the excerpt was cut, which the code shows with an ellipsis.\<close>

definition excerpt :: "string \<Rightarrow> string \<times> bool" where
  "excerpt body =
     (if body = [] then (''<empty body>'', False)
      else let single_line = join '' '' (split_whitespace body)
           in if length single_line > EXCERPT_LIMIT then (take EXCERPT_LIMIT single_line, True)
              else (single_line, False))"

definition trim_start :: "string \<Rightarrow> string" where
  "trim_start s = dropWhile is_whitespace s"

definition unescape_message :: "'w env \<Rightarrow> string \<Rightarrow> string" where
  "unescape_message env msg = env_unescape env (env_unescape env msg)"

definition classify_export :: "'w env \<Rightarrow> string \<Rightarrow> export_outcome" where
  "classify_export env body =
     (let trimmed = trim body
      in case strip_prefix ERROR_PREFIX trimmed of
           Some rest \<Rightarrow>
             TenantError (unescape_message env (trim (dropWhile (\<lambda>c. c = CHR '':'') (trim_start rest))))
         | None \<Rightarrow>
             if env_is_document env body then Metadata
             else (case excerpt trimmed of (shown, was_cut) \<Rightarrow> Unrecognised shown was_cut))"

definition export_path :: "'w env \<Rightarrow> string \<Rightarrow> string \<Rightarrow> string" where
  "export_path env entity_id realm =
     ''/am/saml2/jsp/exportmetadata.jsp?'' @
     env_query env [(''entityid'', trim entity_id), (''realm'', ''/'' @ realm)]"

definition export_metadata :: "'w env \<Rightarrow> tenant \<Rightarrow> string \<Rightarrow> string \<Rightarrow> ('w, string) op" where
  "export_metadata env t realm entity_id =
     (let path = export_path env entity_id realm in io_call (Exported t path) (env_export env t path))"

definition export_read :: "'w env \<Rightarrow> tenant \<Rightarrow> string \<Rightarrow> string \<Rightarrow> ('w, string) op" where
  "export_read env t realm entity_id =
     io_bind (export_metadata env t realm entity_id) (\<lambda>body.
       io_lift
         (case classify_export env body of
            Metadata \<Rightarrow> Inr body
          | TenantError m \<Rightarrow> Inl (Config (BadEntity (ExportRefused m)))
          | Unrecognised shown was_cut \<Rightarrow> Inl (Config (BadEntity (ExportRefused shown)))))"

definition cert_refs :: "'w env \<Rightarrow> tenant \<Rightarrow> string \<Rightarrow> string \<Rightarrow> ('w, cert_ref list) op" where
  "cert_refs env t realm entity_id =
     io_bind (export_read env t realm entity_id) (\<lambda>body. io_lift (env_cert_refs env body))"

subsection \<open>Waiting for it\<close>

record settle =
  settle_timeout :: nat
  settle_interval :: nat

text \<open>In milliseconds.\<close>

definition SETTLE :: settle where
  "SETTLE = \<lparr>settle_timeout = 45000, settle_interval = 3000\<rparr>"

definition clock :: "'w env \<Rightarrow> ('w, nat) op" where
  "clock env = io_look (\<lambda>w. (Inr (env_now env w), w))"

text \<open>
  The loop of \<open>poll\<close>, with fuel for the reads it makes. Running out is a panic the code does not
  have; \<open>poll_enough\<close> shows that the fuel given it is never used up.
\<close>

fun poll_loop ::
  "nat \<Rightarrow> 'w env \<Rightarrow> settle \<Rightarrow> nat \<Rightarrow> ('w, 'a) op \<Rightarrow> ('a \<Rightarrow> bool) \<Rightarrow> ('w, 'a) op" where
  "poll_loop 0 env st deadline reader settled = io_fail Panic"
| "poll_loop (Suc fuel) env st deadline reader settled =
     io_bind reader (\<lambda>seen.
     io_bind (clock env) (\<lambda>now.
       if settled seen \<or> now \<ge> deadline then io_return seen
       else io_bind (io_call (Waited (settle_interval st)) (\<lambda>w. (Inr (), env_sleep env (settle_interval st) w)))
              (\<lambda>_. poll_loop fuel env st deadline reader settled)))"

definition poll_fuel :: "settle \<Rightarrow> nat" where
  "poll_fuel st = settle_timeout st div settle_interval st + 2"

definition poll :: "'w env \<Rightarrow> settle \<Rightarrow> ('w, 'a) op \<Rightarrow> ('a \<Rightarrow> bool) \<Rightarrow> ('w, 'a) op" where
  "poll env st reader settled =
     io_bind (clock env) (\<lambda>now.
       poll_loop (poll_fuel st) env st (now + settle_timeout st) reader settled)"

section \<open>Secret mappings\<close>

definition MAPPING_API_VERSION :: string where
  "MAPPING_API_VERSION = ''protocol=2.0,resource=1.0''"

definition store_path :: "string \<Rightarrow> string" where
  "store_path realm =
     ''/am/json/realms/root/realms/'' @ realm @
     ''/realm-config/secrets/stores/GoogleSecretManagerSecretStoreProvider/ESV''"

definition mappings_path :: "string \<Rightarrow> string" where
  "mappings_path realm = store_path realm @ ''/mappings''"

definition mapping_call ::
  "string \<Rightarrow> string \<Rightarrow> string \<Rightarrow> json option \<Rightarrow> bool \<Rightarrow> api_call" where
  "mapping_call tenant verb path body confirmed =
     (let c = with_api_version MAPPING_API_VERSION
                (with_confirmed_prod confirmed (new_call tenant verb path))
      in case body of None \<Rightarrow> c | Some b \<Rightarrow> with_body b c)"

text \<open>\<open>validate_secret_id\<close> of \<open>secretmap/api.rs\<close>; \<open>/\<close> is the only separator on the supported systems.\<close>

definition validate_mapping_id :: "string \<Rightarrow> error + unit" where
  "validate_mapping_id secret_id =
     (if CHR ''/'' \<in> set secret_id then Inl (Config (BadInput (MappingIdInvalid secret_id)))
      else Inr ())"

definition parse_mapping :: "json \<Rightarrow> mapping" where
  "parse_mapping v =
     \<lparr>map_secret_id = str_or_default v ''secretId'',
      map_alias = Option.bind (Option.bind (get_array v ''aliases'') head_opt) as_str\<rparr>"

definition parse_mappings :: "json \<Rightarrow> mapping list" where
  "parse_mappings v =
     sort_key map_secret_id
       (case get_array v ''result'' of None \<Rightarrow> [] | Some ms \<Rightarrow> map parse_mapping ms)"

definition list_mappings :: "'w env \<Rightarrow> string \<Rightarrow> string \<Rightarrow> ('w, mapping list) op" where
  "list_mappings env tenant realm =
     io_bind (get_versioned env tenant (mappings_path realm @ ''?_queryFilter=true'') MAPPING_API_VERSION)
       (\<lambda>body.
          if get_array body ''result'' = None
          then io_fail (Api 0 ''unexpected secret mapping list shape'')
          else io_return (parse_mappings body))"

definition read_mapping :: "'w env \<Rightarrow> string \<Rightarrow> string \<Rightarrow> string \<Rightarrow> ('w, json) op" where
  "read_mapping env tenant realm secret_id =
     io_bind (io_lift (validate_mapping_id secret_id)) (\<lambda>_.
       get_versioned env tenant (mappings_path realm @ ''/'' @ secret_id) MAPPING_API_VERSION)"

definition set_mapping ::
  "'w env \<Rightarrow> string \<Rightarrow> string \<Rightarrow> string \<Rightarrow> string \<Rightarrow> bool \<Rightarrow> ('w, json) op" where
  "set_mapping env tenant realm secret_id alias confirmed =
     io_bind (io_lift (validate_mapping_id secret_id)) (\<lambda>_.
       send env
         (mapping_call tenant ''PUT'' (mappings_path realm @ ''/'' @ secret_id)
            (Some (JObj [(''aliases'', JArr [JStr alias]), (''secretId'', JStr secret_id)])) confirmed))"

definition delete_mapping_confirmed ::
  "'w env \<Rightarrow> string \<Rightarrow> string \<Rightarrow> string \<Rightarrow> bool \<Rightarrow> ('w, unit) op" where
  "delete_mapping_confirmed env tenant realm secret_id confirmed =
     io_bind (io_lift (validate_mapping_id secret_id)) (\<lambda>_.
     io_bind
       (send env (mapping_call tenant ''DELETE'' (mappings_path realm @ ''/'' @ secret_id) None confirmed))
       (\<lambda>_. io_return ()))"

definition mapping_content :: "json \<Rightarrow> json" where
  "mapping_content v =
     (let secret_id = Option.bind (case json_get v ''secretId'' of
                        Some s \<Rightarrow> Some s | None \<Rightarrow> json_get v ''_id'') as_str
      in JObj [(''aliases'', JArr (case get_array v ''aliases'' of None \<Rightarrow> [] | Some vs \<Rightarrow> vs)),
               (''secretId'', JStr (case secret_id of None \<Rightarrow> [] | Some s \<Rightarrow> s))])"

fun strip_revs :: "json \<Rightarrow> json" where
  "strip_revs (JArr vs) = JArr (map strip_revs vs)"
| "strip_revs (JObj kvs) =
     JObj (map (\<lambda>(k, v). (k, strip_revs v)) (filter (\<lambda>(k, v). k \<noteq> ''_rev'') kvs))"
| "strip_revs v = v"

definition mapping_content_equal :: "json \<Rightarrow> json \<Rightarrow> bool" where
  "mapping_content_equal a b = (strip_revs (mapping_content a) = strip_revs (mapping_content b))"

section \<open>ESV secrets\<close>

definition secret_path :: "string \<Rightarrow> string" where
  "secret_path ident = ''/environment/secrets/'' @ ident"

definition get_secret :: "'w env \<Rightarrow> string \<Rightarrow> string \<Rightarrow> ('w, json) op" where
  "get_secret env tenant ident = api_get env tenant (secret_path ident)"

definition create_secret ::
  "'w env \<Rightarrow> string \<Rightarrow> string \<Rightarrow> string \<Rightarrow> bool \<Rightarrow> string \<Rightarrow> string \<Rightarrow> bool \<Rightarrow> ('w, json) op" where
  "create_secret env tenant ident encoding use_in_placeholders value_base64 description confirmed =
     api_put env tenant (secret_path ident)
       (JObj [(''description'', JStr description), (''encoding'', JStr encoding),
              (''useInPlaceholders'', JBool use_in_placeholders), (''valueBase64'', JStr value_base64)])
       confirmed"

definition set_secret_description ::
  "'w env \<Rightarrow> string \<Rightarrow> string \<Rightarrow> string \<Rightarrow> bool \<Rightarrow> ('w, json) op" where
  "set_secret_description env tenant ident description confirmed =
     api_post env tenant (secret_path ident @ ''?_action=setDescription'')
       (JObj [(''description'', JStr description)]) confirmed"

definition delete_secret :: "'w env \<Rightarrow> string \<Rightarrow> string \<Rightarrow> bool \<Rightarrow> ('w, json) op" where
  "delete_secret env tenant ident confirmed = api_delete env tenant (secret_path ident) confirmed"

definition list_secret_versions :: "'w env \<Rightarrow> string \<Rightarrow> string \<Rightarrow> ('w, json list) op" where
  "list_secret_versions env tenant ident =
     io_bind (api_get env tenant (secret_path ident @ ''/versions'')) (\<lambda>body.
       io_lift
         (case body of JArr vs \<Rightarrow> Inr vs
          | _ \<Rightarrow> Inl (Api 0 ''unexpected secret-versions response shape'')))"

definition create_secret_version ::
  "'w env \<Rightarrow> string \<Rightarrow> string \<Rightarrow> string \<Rightarrow> bool \<Rightarrow> ('w, json) op" where
  "create_secret_version env tenant ident value_base64 confirmed =
     api_post env tenant (secret_path ident @ ''/versions?_action=create'')
       (JObj [(''valueBase64'', JStr value_base64)]) confirmed"

definition change_version_status ::
  "'w env \<Rightarrow> string \<Rightarrow> string \<Rightarrow> string \<Rightarrow> string \<Rightarrow> bool \<Rightarrow> ('w, json) op" where
  "change_version_status env tenant ident version status confirmed =
     api_post env tenant (secret_path ident @ ''/versions/'' @ version @ ''?_action=changestatus'')
       (JObj [(''status'', JStr status)]) confirmed"

definition destroy_secret_version ::
  "'w env \<Rightarrow> string \<Rightarrow> string \<Rightarrow> string \<Rightarrow> bool \<Rightarrow> ('w, json) op" where
  "destroy_secret_version env tenant ident version confirmed =
     api_delete env tenant (secret_path ident @ ''/versions/'' @ version) confirmed"

end
