(* ===== verification/Tenant_Facts.thy ===== *)
theory Tenant_Facts
  imports Tenant_Api Write_Outcome
begin

text \<open>
  What every command over the tenant shares: which calls only read, the prompt as an event, the
  permission a write needs, and computations under which the clock does not run backwards, so that
  a poll ends within its fuel.
\<close>

section \<open>Reads and writes\<close>

definition is_write :: "event \<Rightarrow> bool" where
  "is_write ev = (case ev of Called c \<Rightarrow> ac_method c \<noteq> ''GET'' | _ \<Rightarrow> False)"

text \<open>A computation that reads: it sends no write, and it completes no step.\<close>

definition is_read :: "event \<Rightarrow> bool" where
  "is_read ev =
     (case ev of Called c \<Rightarrow> ac_method c = ''GET'' | Exported _ _ \<Rightarrow> True | Waited _ \<Rightarrow> True | _ \<Rightarrow> False)"

lemma is_read_not_write: "is_read ev \<Longrightarrow> \<not> is_write ev"
  by (simp add: is_read_def is_write_def split: event.splits)

lemma method_of [simp]:
  "ac_method (new_call t m p) = m"
  "ac_method (with_api_version v c) = ac_method c"
  "ac_method (with_confirmed_prod y c) = ac_method c"
  "ac_method (with_body b c) = ac_method c"
  by (simp_all add: new_call_def with_api_version_def with_confirmed_prod_def with_body_def)

lemma method_saml_call [simp]: "ac_method (saml_call rq t) = sq_method rq"
  by (simp add: saml_call_def Let_def split: option.splits)

lemma method_mapping_call [simp]: "ac_method (mapping_call t m p b y) = m"
  by (simp add: mapping_call_def Let_def split: option.splits)

lemma emits_send: "P (Called c) \<Longrightarrow> emits P (send env c)"
  unfolding send_def by (intro emits_intros)

lemma emits_send_read [emits_intros]: "ac_method c = ''GET'' \<Longrightarrow> emits is_read (send env c)"
  by (rule emits_send) (simp add: is_read_def)

lemma reads_api:
  "emits is_read (read_entity env t realm loc e)"
  "emits is_read (list_entities env t realm)"
  "emits is_read (read_mapping env t realm lbl)"
  "emits is_read (list_mappings env t realm)"
  "emits is_read (get_secret env t ident)"
  "emits is_read (list_secret_versions env t ident)"
  unfolding read_entity_def list_entities_def read_mapping_def list_mappings_def get_secret_def
    list_secret_versions_def saml_send_def get_versioned_def api_get_def
  by (auto intro!: emits_intros
      simp: read_request_def list_request_def saml_get_def split: json.splits)

lemma reads_export: "emits is_read (cert_refs env t realm e)"
  unfolding cert_refs_def export_read_def export_metadata_def Let_def
  by (auto intro!: emits_intros simp: is_read_def)

section \<open>Permission\<close>

text \<open>The consent of \<open>Write_Outcome\<close>, with the prompt as an event.\<close>

definition ask_consent :: "'w env \<Rightarrow> bool \<Rightarrow> ('w, bool) op" where
  "ask_consent env forced s =
     consent forced (env_prompt_available env) (io_call Asked (env_ask env)) s"

text \<open>
  The permission every write needs: not a dry run, consent given by \<open>--force\<close> or at a prompt, and
  on a production tenant \<open>--yes\<close>.
\<close>

definition permitted :: "'w env \<Rightarrow> tenant \<Rightarrow> bool \<Rightarrow> bool \<Rightarrow> bool \<Rightarrow> bool" where
  "permitted env t dry_run yes forced =
     (\<not> dry_run \<and>
      (forced \<or> env_prompt_available env \<and> (\<exists>w. fst (env_ask env w) = Inr True)) \<and>
      (ten_theme t = Production \<longrightarrow> yes))"


definition harmless :: "event \<Rightarrow> bool" where
  "harmless ev = (is_read ev \<or> ev = Asked)"

lemma emits_reads_harmless: "emits is_read m \<Longrightarrow> emits harmless m"
  by (erule emits_mono) (simp add: harmless_def)

lemma emits_ask: "emits harmless (ask_consent env forced)"
  unfolding emits_def ask_consent_def consent_def
  by (auto simp: io_call_def harmless_def split: prod.splits)

lemma ask_consent_Inr:
  "ask_consent env forced s = (Inr True, s') \<Longrightarrow>
   forced \<or> env_prompt_available env \<and> (\<exists>w. fst (env_ask env w) = Inr True)"
  by (auto simp: ask_consent_def consent_def io_call_Pair split: if_splits) (metis fst_conv)

section \<open>Time\<close>

definition keeps_time :: "'w env \<Rightarrow> ('w, 'a) op \<Rightarrow> bool" where
  "keeps_time env m \<longleftrightarrow>
     (\<forall>s r s'. m s = (r, s') \<longrightarrow> env_now env (world s) \<le> env_now env (world s') \<and> r \<noteq> Inl Panic)"

lemma keeps_timeD:
  "keeps_time env m \<Longrightarrow> m s = (r, s') \<Longrightarrow>
   env_now env (world s) \<le> env_now env (world s') \<and> r \<noteq> Inl Panic"
  unfolding keeps_time_def by blast

lemma keeps_time_bind:
  assumes "keeps_time env m" and "\<And>x. keeps_time env (f x)"
  shows "keeps_time env (io_bind m f)"
  unfolding keeps_time_def
proof (intro allI impI)
  fix s r s'
  assume run: "io_bind m f s = (r, s')"
  obtain q s1 where m: "m s = (q, s1)" by (cases "m s")
  note first = keeps_timeD [OF assms(1) m]
  show "env_now env (world s) \<le> env_now env (world s') \<and> r \<noteq> Inl Panic"
  proof (cases q)
    case (Inl e)
    with run m first show ?thesis by (auto simp: io_bind_def)
  next
    case (Inr x)
    with run m have "f x s1 = (r, s')" by (simp add: io_bind_def)
    from keeps_timeD [OF assms(2) this] first show ?thesis by auto
  qed
qed

lemma keeps_time_pure:
  "keeps_time env (io_return x)"
  "r \<noteq> Inl Panic \<Longrightarrow> keeps_time env (io_lift r)"
  by (auto simp: keeps_time_def)

lemma poll_loop_enough:
  assumes sleep: "\<And>n w. env_now env w + n \<le> env_now env (env_sleep env n w)"
    and reader: "keeps_time env reader"
    and "deadline \<le> env_now env (world s) + k * settle_interval st" and "k < fuel"
    and run: "poll_loop fuel env st deadline reader settled s = (r, s')"
  shows "r \<noteq> Inl Panic"
  using assms(3-)
proof (induction fuel arbitrary: s k)
  case 0
  then show ?case by simp
next
  case (Suc fuel)
  obtain q s1 where rd: "reader s = (q, s1)" by (cases "reader s")
  from keeps_timeD [OF reader rd]
  have mono: "env_now env (world s) \<le> env_now env (world s1)" and "q \<noteq> Inl Panic" by auto
  show ?case
  proof (cases q)
    case (Inl e)
    with Suc.prems rd \<open>q \<noteq> Inl Panic\<close> show ?thesis by (auto simp: io_bind_Pair)
  next
    case (Inr seen)
    show ?thesis
    proof (cases "settled seen \<or> env_now env (world s1) \<ge> deadline")
      case True
      with Suc.prems rd Inr show ?thesis
        by (auto simp: io_bind_def clock_def io_look_def io_return_def split: if_splits)
    next
      case False
      let ?s2 = "s1\<lparr>world := env_sleep env (settle_interval st) (world s1),
          sent := sent s1 @ [Waited (settle_interval st)]\<rparr>"
      from False Suc.prems(3) rd Inr
      have run: "poll_loop fuel env st deadline reader settled ?s2 = (r, s')"
        by (auto simp: io_bind_def clock_def io_look_def io_call_def split: if_splits)
      from False mono Suc.prems(1) obtain k' where k: "k = Suc k'" by (cases k) auto
      have "deadline \<le> env_now env (world ?s2) + k' * settle_interval st"
        using Suc.prems(1) mono sleep [of "world s1" "settle_interval st"] by (simp add: k)
      from Suc.IH [OF this _ run] Suc.prems(2) k show ?thesis by simp
    qed
  qed
qed

lemma poll_enough:
  assumes "\<And>n w. env_now env w + n \<le> env_now env (env_sleep env n w)"
    and "keeps_time env reader" and "settle_interval st > 0"
    and run: "poll env st reader settled s = (r, s')"
  shows "r \<noteq> Inl Panic"
proof -
  let ?k = "Suc (settle_timeout st div settle_interval st)"
  have run': "poll_loop (poll_fuel st) env st (env_now env (world s) + settle_timeout st) reader settled s = (r, s')"
    using run by (simp add: poll_def io_bind_def clock_def io_look_def)
  have "settle_timeout st \<le> ?k * settle_interval st"
    using div_mult_mod_eq [of "settle_timeout st" "settle_interval st"]
      mod_less_divisor [OF assms(3), of "settle_timeout st"] by (simp, linarith)
  then show ?thesis
    by (intro poll_loop_enough [OF assms(1,2) _ _ run', where k = ?k]) (simp_all add: poll_fuel_def)
qed

end
