(* ===== verification/Rotation_Ops.thy ===== *)
theory Rotation_Ops
  imports Rotation_Plan_Facts Tenant_Facts
begin

text \<open>
  The tenant side of a rotation (\<open>src/src/saml/rotate/ops.rs\<close>): the four reads and what they are
  read into, the consumer survey, the waits on the export, the rechecks in front of each write,
  and the writes. \<open>init\<close>'s step loop and what it reports when it stops partway are those of
  \<open>src/src/saml/rotate/spec.rs\<close>.
\<close>

section \<open>Reading\<close>

text \<open>A 404 is an absence; any other error is an error.\<close>

definition absent_if_not_found :: "('w, 'a) op \<Rightarrow> ('w, 'a option) op" where
  "absent_if_not_found m =
     io_bind (io_try m) (\<lambda>r.
       case r of
         Inr x \<Rightarrow> io_return (Some x)
       | Inl e \<Rightarrow> if is_not_found e then io_return None else io_fail e)"

definition mapping_alias :: "'w env \<Rightarrow> string \<Rightarrow> string \<Rightarrow> string \<Rightarrow> ('w, string option) op" where
  "mapping_alias env tenant realm lbl =
     io_bind (absent_if_not_found (read_mapping env tenant realm lbl)) (\<lambda>document.
       io_return (Option.bind document (\<lambda>d. map_alias (parse_mapping d))))"

definition secret_facts :: "'w env \<Rightarrow> string \<Rightarrow> string \<Rightarrow> ('w, secret_facts option) op" where
  "secret_facts env tenant secret_id =
     io_bind (absent_if_not_found (get_secret env tenant secret_id)) (\<lambda>document.
       io_return (map_option (parse_secret_facts secret_id) document))"

definition read_entities ::
  "'w env \<Rightarrow> string \<Rightarrow> string \<Rightarrow> entity_stub list \<Rightarrow> ('w, entity_identifiers list) op" where
  "read_entities env tenant realm stubs =
     io_bind
       (io_mapM (\<lambda>stub.
          io_bind
            (absent_if_not_found
               (read_entity env tenant realm (stub_location stub) (stub_entity_id stub)))
            (\<lambda>document.
               io_return (map_option (entity_identifiers (stub_entity_id stub) (stub_location stub)) document)))
          stubs)
       (\<lambda>found. io_return (map the (filter (\<lambda>f. f \<noteq> None) found)))"

definition read_realm_survey :: "'w env \<Rightarrow> string \<Rightarrow> string \<Rightarrow> ('w, realm_survey) op" where
  "read_realm_survey env tenant realm =
     io_bind (list_mappings env tenant realm) (\<lambda>mappings.
     io_bind (list_entities env tenant realm) (\<lambda>stubs.
     io_bind (read_entities env tenant realm stubs) (\<lambda>entities.
       io_return \<lparr>sur_realm = realm, sur_mappings = mappings, sur_entities = entities\<rparr>)))"

definition survey_all :: "'w env \<Rightarrow> string \<Rightarrow> ('w, realm_survey list) op" where
  "survey_all env tenant = io_mapM (read_realm_survey env tenant) SURVEYED_REALMS"

definition read_consumers ::
  "'w env \<Rightarrow> string \<Rightarrow> consumer \<Rightarrow> string option \<Rightarrow> ('w, consumers) op" where
  "read_consumers env tenant mine secret_id =
     io_bind (survey_all env tenant) (\<lambda>realms. io_return (survey_consumers mine secret_id realms))"

definition resolve_location :: "'w env \<Rightarrow> string \<Rightarrow> string \<Rightarrow> string \<Rightarrow> ('w, location) op" where
  "resolve_location env tenant realm entity_id =
     io_bind (list_entities env tenant realm) (\<lambda>stubs.
       io_lift
         (case locate entity_id stubs of
            In l \<Rightarrow> Inr l
          | NotFound \<Rightarrow> Inl (Config (BadEntity (NoSuchEntity entity_id realm)))
          | Ambiguous ls \<Rightarrow> Inl (Config (BadEntity (InBothCollections entity_id realm ls)))))"

definition find_journal :: "'w env \<Rightarrow> key \<Rightarrow> ('w, staged_record option) op" where
  "find_journal env k =
     io_look (\<lambda>w. (find_record (env_decode env) (env_files env w) k, w))"

definition read_state ::
  "'w env \<Rightarrow> tenant \<Rightarrow> string \<Rightarrow> string \<Rightarrow> location option \<Rightarrow> role option \<Rightarrow> ('w, rotation_state) op" where
  "read_state env t realm entity_id location_flag requested_role =
     io_bind
       (case location_flag of
          Some l \<Rightarrow> io_return l
        | None \<Rightarrow> resolve_location env (ten_name t) realm entity_id) (\<lambda>loc.
     io_bind (read_entity env (ten_name t) realm loc entity_id) (\<lambda>entity.
     io_bind (io_lift (choose_role entity requested_role)) (\<lambda>r.
     let identifier = current_identifier entity r in
     io_bind
       (case identifier of
          None \<Rightarrow> io_return (None, None, [])
        | Some i \<Rightarrow>
            io_bind (mapping_alias env (ten_name t) realm (signing_label i)) (\<lambda>mapped_alias.
            case mapped_alias of
              None \<Rightarrow> io_return (None, None, [])
            | Some alias \<Rightarrow>
                io_bind (secret_facts env (ten_name t) alias) (\<lambda>secret.
                if secret = None then io_return (mapped_alias, None, [])
                else
                  io_bind (list_secret_versions env (ten_name t) alias) (\<lambda>vs.
                    io_return (mapped_alias, secret, parse_versions vs)))))
       (\<lambda>(mapped_alias, secret, versions).
     io_bind (cert_refs env t realm entity_id) (\<lambda>certs.
     io_bind
       (find_journal env
          \<lparr>key_tenant = ten_name t, key_realm = realm, key_entity_id = entity_id,
           key_role = wire r\<rparr>) (\<lambda>rec.
       io_return
         \<lparr>rs_tenant = ten_name t, rs_realm = realm, rs_entity_id = entity_id, rs_location = loc,
          rs_role = r, rs_identifier = identifier, rs_mapped_alias = mapped_alias,
          rs_secret = secret, rs_versions = versions, rs_certs = certs, rs_record = rec\<rparr>))))))"

section \<open>Waiting for the export\<close>

text \<open>The signing fingerprints a role publishes.\<close>

definition role_signing :: "cert_ref list \<Rightarrow> role \<Rightarrow> string list" where
  "role_signing certs r = btree_set (map cert_sha256 (filter (publishes_signing r) certs))"

definition poll_signing_certs ::
  "'w env \<Rightarrow> tenant \<Rightarrow> string \<Rightarrow> string \<Rightarrow> role \<Rightarrow> (string list \<Rightarrow> bool) \<Rightarrow> ('w, string list) op" where
  "poll_signing_certs env t realm entity_id r settled =
     poll env SETTLE
       (io_bind (cert_refs env t realm entity_id) (\<lambda>certs. io_return (role_signing certs r))) settled"

datatype settlement = SettledOn | TimedOut "string list" "string list"

definition wait_for_export ::
  "'w env \<Rightarrow> tenant \<Rightarrow> string \<Rightarrow> string \<Rightarrow> role \<Rightarrow> string list \<Rightarrow> ('w, settlement) op" where
  "wait_for_export env t realm entity_id r expected =
     io_bind (poll_signing_certs env t realm entity_id r (\<lambda>seen. settled_on seen expected))
       (\<lambda>seen.
          if settled_on seen expected then io_return SettledOn
          else (case settlement_gap seen expected of
                  (missing, unexpected) \<Rightarrow> io_return (TimedOut missing unexpected)))"

definition wait_for_any_cert ::
  "'w env \<Rightarrow> tenant \<Rightarrow> string \<Rightarrow> string \<Rightarrow> role \<Rightarrow> ('w, string list) op" where
  "wait_for_any_cert env t realm entity_id r =
     poll_signing_certs env t realm entity_id r (\<lambda>seen. seen \<noteq> [])"

section \<open>The rechecks\<close>

definition recheck ::
  "'w env \<Rightarrow> tenant \<Rightarrow> rotation_state \<Rightarrow> string \<Rightarrow> string \<Rightarrow> ('w, exclusivity_proof) op" where
  "recheck env t st verb secret_id =
     io_bind (read_entity env (ten_name t) (rs_realm st) (rs_location st) (rs_entity_id st)) (\<lambda>entity.
     let identifier = current_identifier entity (rs_role st) in
     io_bind
       (case identifier of
          Some i \<Rightarrow> mapping_alias env (ten_name t) (rs_realm st) (signing_label i)
        | None \<Rightarrow> io_return None) (\<lambda>alias.
     io_bind (io_lift (rollover_target_ok verb secret_id identifier alias)) (\<lambda>_.
     io_bind (list_secret_versions env (ten_name t) secret_id) (\<lambda>vs.
     io_bind (cert_refs env t (rs_realm st) (rs_entity_id st)) (\<lambda>certs.
     io_bind (survey_all env (ten_name t)) (\<lambda>survey.
       io_lift
         (rollover_pre_write_ok verb secret_id st
            \<lparr>rr_identifier = identifier, rr_alias = alias, rr_versions = parse_versions vs,
             rr_published = role_signing certs (rs_role st), rr_survey = survey\<rparr>)))))))"

record init_inputs =
  in_mine :: consumer
  in_key :: "key_pair option"
  in_description :: string
  in_planned_mapping :: "string option"

definition init_recheck ::
  "'w env \<Rightarrow> tenant \<Rightarrow> rotation_state \<Rightarrow> init_plan \<Rightarrow> init_inputs \<Rightarrow> ('w, exclusivity_proof) op" where
  "init_recheck env t st plan inputs =
     io_bind (read_entity env (ten_name t) (rs_realm st) (rs_location st) (rs_entity_id st)) (\<lambda>entity.
     io_bind (mapping_alias env (ten_name t) (rs_realm st) (ip_label plan)) (\<lambda>mapping.
     io_bind (io_lift (init_target_ok st plan (in_planned_mapping inputs) entity mapping)) (\<lambda>_.
     io_bind (cert_refs env t (rs_realm st) (rs_entity_id st)) (\<lambda>certs.
     let seen = role_signing certs (rs_role st) in
     io_bind (io_lift (init_publication_ok st seen)) (\<lambda>_.
     io_bind (survey_all env (ten_name t)) (\<lambda>survey.
       io_lift
         (init_pre_write_ok st plan (in_planned_mapping inputs)
            \<lparr>ir_entity = entity, ir_mapping = mapping, ir_published = seen,
             ir_survey = survey\<rparr>)))))))"

definition activation_recheck ::
  "'w env \<Rightarrow> string \<Rightarrow> rotation_state \<Rightarrow> init_plan \<Rightarrow> ('w, exclusivity_proof) op" where
  "activation_recheck env tenant st plan =
     io_bind (survey_all env tenant) (\<lambda>survey. io_lift (init_exclusive st plan survey))"

section \<open>The writes\<close>

definition set_identifier ::
  "'w env \<Rightarrow> rotation_state \<Rightarrow> string \<Rightarrow> bool \<Rightarrow> init_permit \<Rightarrow> exclusivity_proof \<Rightarrow> ('w, json) wop" where
  "set_identifier env st identifier confirmed permit minted =
     (let tenant = rs_tenant st; realm = rs_realm st; entity_id = rs_entity_id st;
          loc = rs_location st; r = rs_role st in
     io_bind (io_map_err before_send (read_entity env tenant realm loc entity_id)) (\<lambda>before.
     io_bind (io_lift (map_err before_send (identifier_write_ok (rs_identifier st) before r))) (\<lambda>_.
     io_bind (io_lift (map_err before_send (set_secret_identifier before loc r identifier)))
       (\<lambda>intended.
     io_bind
       (io_map_err (\<lambda>e. from_send e [])
          (update_entity env tenant realm loc entity_id intended confirmed permit)) (\<lambda>_.
     io_bind
       (io_map_err (\<lambda>e. unverified (ReadBackFailed entity_id e))
          (read_entity env tenant realm loc entity_id)) (\<lambda>after.
       let differences = entity_write_differences intended after in
       if differences = [] then io_return after
       else io_fail
              (unverified (Config (BadEntity (EntityDiffers tenant realm entity_id differences))))))))))"

definition create_key_secret ::
  "'w env \<Rightarrow> string \<Rightarrow> string \<Rightarrow> string \<Rightarrow> string \<Rightarrow> bool \<Rightarrow> init_permit \<Rightarrow> exclusivity_proof \<Rightarrow>
   ('w, json) wop" where
  "create_key_secret env tenant secret_id value description confirmed permit minted =
     io_map_err (\<lambda>e. from_send e [SECRET_ALREADY_EXISTS])
       (create_secret env tenant secret_id ''pem'' False (env_base64 env value) description confirmed)"

definition map_label ::
  "'w env \<Rightarrow> string \<Rightarrow> consumer \<Rightarrow> string \<Rightarrow> string option \<Rightarrow> bool \<Rightarrow> init_permit \<Rightarrow>
   exclusivity_proof \<Rightarrow> ('w, json) wop" where
  "map_label env tenant mine secret_id planned_from confirmed permit minted =
     io_bind (io_map_err before_send (mapping_alias env tenant (con_realm mine) (con_label mine))) (\<lambda>fresh.
     io_bind (io_lift (map_err before_send
       (mapping_write_ok (con_label mine) secret_id planned_from fresh))) (\<lambda>_.
       io_map_err (\<lambda>e. from_send e [])
         (set_mapping env tenant (con_realm mine) (con_label mine) secret_id confirmed)))"

definition send_version ::
  "'w env \<Rightarrow> tenant \<Rightarrow> stage_plan \<Rightarrow> string \<Rightarrow> bool \<Rightarrow> stage_permit \<Rightarrow> exclusivity_proof \<Rightarrow>
   ('w, json) wop" where
  "send_version env t plan value confirmed permit minted =
     io_map_err (\<lambda>e. from_send e [])
       (create_secret_version env (ten_name t) (sp_secret_id plan) (env_base64 env value) confirmed)"

definition add_version ::
  "'w env \<Rightarrow> tenant \<Rightarrow> rotation_state \<Rightarrow> stage_plan \<Rightarrow> string \<Rightarrow> bool \<Rightarrow> stage_permit \<Rightarrow> ('w, json) wop" where
  "add_version env t st plan value confirmed permit =
     io_bind (io_map_err before_send (recheck env t st ''stage'' (sp_secret_id plan)))
       (send_version env t plan value confirmed permit)"

definition send_disable ::
  "'w env \<Rightarrow> tenant \<Rightarrow> complete_plan \<Rightarrow> bool \<Rightarrow> complete_permit \<Rightarrow> exclusivity_proof \<Rightarrow> ('w, json) wop" where
  "send_disable env t plan confirmed permit minted =
     io_map_err (\<lambda>e. from_send e [CANNOT_DISABLE_LATEST])
       (change_version_status env (ten_name t) (cp_secret_id plan) (cp_disable_version plan)
          ''DISABLED'' confirmed)"

definition disable_version ::
  "'w env \<Rightarrow> tenant \<Rightarrow> rotation_state \<Rightarrow> complete_plan \<Rightarrow> bool \<Rightarrow> complete_permit \<Rightarrow> ('w, json) wop" where
  "disable_version env t st plan confirmed permit =
     io_bind (io_map_err before_send (recheck env t st ''complete'' (cp_secret_id plan)))
       (send_disable env t plan confirmed permit)"

section \<open>init\<close>

record init_apply_error =
  ia_completed :: "init_step list"
  ia_stopped_at :: init_stop
  ia_status :: write_status
  ia_activating :: bool
  ia_total :: nat
  ia_state :: rotation_state
  ia_source :: error

text \<open>\<open>InitApplyError::new\<close>; the completed steps are kept as steps, not as their sentences.\<close>

definition init_apply_error_new ::
  "rotation_state \<Rightarrow> init_plan \<Rightarrow> init_step list \<Rightarrow> init_stop \<Rightarrow> write_failure \<Rightarrow> init_apply_error" where
  "init_apply_error_new st plan completed stop failure =
     \<lparr>ia_completed = completed, ia_stopped_at = stop,
      ia_status = (case stop of StopStep _ \<Rightarrow> wf_status failure | _ \<Rightarrow> Refused),
      ia_activating =
        (case stop of StopStep step \<Rightarrow> activating_step plan = Some step | _ \<Rightarrow> False),
      ia_total = length (steps plan), ia_state = st, ia_source = wf_source failure\<rparr>"

text \<open>\<open>run_init_steps\<close>: the loop over the remaining steps, with those completed so far.\<close>

fun init_loop ::
  "rotation_state \<Rightarrow> init_plan \<Rightarrow> exclusivity_proof \<Rightarrow>
   (init_step \<Rightarrow> ('w, event, error, exclusivity_proof) io) \<Rightarrow>
   (init_step \<Rightarrow> exclusivity_proof \<Rightarrow> ('w, event, write_failure, 'a) io) \<Rightarrow>
   init_step list \<Rightarrow> init_step list \<Rightarrow> ('w, event, init_apply_error, unit) io" where
  "init_loop st plan upfront check run_one completed [] = io_return ()"
| "init_loop st plan upfront check run_one completed (step # rest) =
     io_bind
       (if resurveys_before plan step
        then io_map_err
               (\<lambda>e. init_apply_error_new st plan completed (StopResurvey step) (before_send e))
               (check step)
        else io_return upfront) (\<lambda>minted.
     io_bind
       (io_map_err (\<lambda>f. init_apply_error_new st plan completed (StopStep step) f)
          (run_one step minted)) (\<lambda>_.
     io_bind (io_call (Completed step) (\<lambda>w. (Inr (), w))) (\<lambda>_.
       init_loop st plan upfront check run_one (completed @ [step]) rest)))"

definition run_init_steps ::
  "rotation_state \<Rightarrow> init_plan \<Rightarrow> exclusivity_proof \<Rightarrow>
   (init_step \<Rightarrow> ('w, event, error, exclusivity_proof) io) \<Rightarrow>
   (init_step \<Rightarrow> exclusivity_proof \<Rightarrow> ('w, event, write_failure, 'a) io) \<Rightarrow>
   ('w, event, init_apply_error, unit) io" where
  "run_init_steps st plan upfront check run_one =
     init_loop st plan upfront check run_one [] (steps plan)"

definition run_step ::
  "'w env \<Rightarrow> string \<Rightarrow> rotation_state \<Rightarrow> init_plan \<Rightarrow> init_inputs \<Rightarrow> init_step \<Rightarrow> bool \<Rightarrow> init_permit \<Rightarrow>
   exclusivity_proof \<Rightarrow> ('w, json) wop" where
  "run_step env tenant st plan inputs step confirmed permit minted =
     (case step of
        SetIdentifier \<Rightarrow> set_identifier env st (ip_identifier plan) confirmed permit minted
      | CreateSecret \<Rightarrow>
          (case in_key inputs of
             None \<Rightarrow> io_fail (before_send Panic)
           | Some k \<Rightarrow>
               create_key_secret env tenant (ip_secret_id plan) (kp_value k) (in_description inputs)
                 confirmed permit minted)
      | MapLabel \<Rightarrow>
          map_label env tenant (in_mine inputs) (ip_secret_id plan) (in_planned_mapping inputs)
            confirmed permit minted)"

definition apply_init ::
  "'w env \<Rightarrow> tenant \<Rightarrow> rotation_state \<Rightarrow> init_plan \<Rightarrow> init_inputs \<Rightarrow> bool \<Rightarrow> init_permit \<Rightarrow>
   ('w, event, init_apply_error, unit) io" where
  "apply_init env t st plan inputs confirmed permit =
     io_bind
       (io_map_err (\<lambda>e. init_apply_error_new st plan [] StopRecheck (before_send e))
          (init_recheck env t st plan inputs)) (\<lambda>upfront.
       run_init_steps st plan upfront
         (\<lambda>_. activation_recheck env (ten_name t) st plan)
         (\<lambda>step minted. run_step env (ten_name t) st plan inputs step confirmed permit minted))"

section \<open>Rows for \<open>status\<close>\<close>

definition version_rows :: "secret_version list \<Rightarrow> string list list" where
  "version_rows versions =
     map (\<lambda>v. [sv_version v, sv_status v, sv_create_date v])
       (rev (sort_key number (rev versions)))"

end
