(* ===== verification/Init_Facts.thy ===== *)
theory Init_Facts
  imports Rotation_Run_Facts
begin

text \<open>
  \<open>init\<close> as a batch of writes. \<open>init_trace\<close> says, without the loop or the tenant calls, what may be
  sent and reported: a prefix of the steps, each followed by its completion, a survey in front of
  the step that activates the chain, and a stop that names what completed. \<open>apply_init\<close> refines it.
\<close>

section \<open>The phases of a step\<close>

text \<open>
  Every step is: reads that lead to one call, that call, and for the identifier a read-back. The
  call of each step, and the reads that lead to it, are written out here on their own, without the
  classification of errors; \<open>run_step_phases\<close> shows that \<open>run_step\<close> is made of these phases.
\<close>

definition put_entity_call ::
  "'w env \<Rightarrow> rotation_state \<Rightarrow> json \<Rightarrow> bool \<Rightarrow> api_call" where
  "put_entity_call env st body confirmed =
     saml_call (update_entity_request env (rs_realm st) (rs_location st) (rs_entity_id st) body confirmed)
       (rs_tenant st)"

definition create_key_call ::
  "'w env \<Rightarrow> string \<Rightarrow> init_plan \<Rightarrow> string \<Rightarrow> key_pair \<Rightarrow> bool \<Rightarrow> api_call" where
  "create_key_call env tenant plan description k confirmed =
     with_confirmed_prod confirmed
       (with_body
          (JObj [(''description'', JStr description), (''encoding'', JStr ''pem''),
                 (''useInPlaceholders'', JBool False), (''valueBase64'', JStr (env_base64 env (kp_value k)))])
          (new_call tenant ''PUT'' (secret_path (ip_secret_id plan))))"

definition map_label_call :: "string \<Rightarrow> consumer \<Rightarrow> string \<Rightarrow> bool \<Rightarrow> api_call" where
  "map_label_call tenant mine secret_id confirmed =
     mapping_call tenant ''PUT'' (mappings_path (con_realm mine) @ ''/'' @ con_label mine)
       (Some (JObj [(''aliases'', JArr [JStr secret_id]), (''secretId'', JStr (con_label mine))])) confirmed"

lemma step_calls_write [simp]:
  "ac_method (put_entity_call env st body confirmed) = ''PUT''"
  "ac_method (create_key_call env tenant plan description k confirmed) = ''PUT''"
  "ac_method (map_label_call tenant mine secret_id confirmed) = ''PUT''"
  by (simp_all add: put_entity_call_def update_entity_request_def create_key_call_def map_label_call_def)

text \<open>The one call that is a step's own.\<close>

definition step_call ::
  "'w env \<Rightarrow> string \<Rightarrow> rotation_state \<Rightarrow> init_plan \<Rightarrow> init_inputs \<Rightarrow> bool \<Rightarrow> init_step \<Rightarrow> api_call \<Rightarrow> bool" where
  "step_call env tenant st plan inputs confirmed step c \<longleftrightarrow>
     (case step of
        SetIdentifier \<Rightarrow>
          (\<exists>before body. current_identifier before (rs_role st) = rs_identifier st \<and>
             set_secret_identifier before (rs_location st) (rs_role st) (ip_identifier plan) = Inr body \<and>
             c = put_entity_call env st body confirmed)
      | CreateSecret \<Rightarrow>
          (\<exists>k. in_key inputs = Some k \<and>
             c = create_key_call env tenant plan (in_description inputs) k confirmed)
      | MapLabel \<Rightarrow> c = map_label_call tenant (in_mine inputs) (ip_secret_id plan) confirmed)"

text \<open>The reads in front of it: they answer with the call to send, or with the error that stops the step.\<close>

definition step_prepare ::
  "'w env \<Rightarrow> string \<Rightarrow> rotation_state \<Rightarrow> init_plan \<Rightarrow> init_inputs \<Rightarrow> bool \<Rightarrow> init_step \<Rightarrow> ('w, api_call) op" where
  "step_prepare env tenant st plan inputs confirmed step =
     (case step of
        SetIdentifier \<Rightarrow>
          io_bind (read_entity env (rs_tenant st) (rs_realm st) (rs_location st) (rs_entity_id st)) (\<lambda>before.
          io_bind (io_lift (identifier_write_ok (rs_identifier st) before (rs_role st))) (\<lambda>_.
          io_bind (io_lift (set_secret_identifier before (rs_location st) (rs_role st) (ip_identifier plan)))
            (\<lambda>body. io_return (put_entity_call env st body confirmed))))
      | CreateSecret \<Rightarrow>
          (case in_key inputs of
             None \<Rightarrow> io_fail Panic
           | Some k \<Rightarrow> io_return (create_key_call env tenant plan (in_description inputs) k confirmed))
      | MapLabel \<Rightarrow>
          io_bind (mapping_alias env tenant (con_realm (in_mine inputs)) (con_label (in_mine inputs))) (\<lambda>fresh.
          io_bind (io_lift (mapping_write_ok (con_label (in_mine inputs)) (ip_secret_id plan)
                              (in_planned_mapping inputs) fresh)) (\<lambda>_.
            io_return (map_label_call tenant (in_mine inputs) (ip_secret_id plan) confirmed))))"

lemma put_entity_body [simp]: "ac_body (put_entity_call env st body confirmed) = Some body"
  by (simp add: put_entity_call_def update_entity_request_def saml_call_def with_body_def Let_def)

lemma update_entity_is_send:
  "update_entity env (rs_tenant st) (rs_realm st) (rs_location st) (rs_entity_id st) body confirmed permit =
     send env (put_entity_call env st body confirmed)"
  by (simp add: update_entity_def saml_send_def put_entity_call_def)

lemma create_key_is_send:
  "create_key_secret env tenant (ip_secret_id plan) (kp_value k) description confirmed permit minted =
     io_map_err (\<lambda>e. from_send e [SECRET_ALREADY_EXISTS])
       (send env (create_key_call env tenant plan description k confirmed))"
  by (simp add: create_key_secret_def create_secret_def api_put_def create_key_call_def)

lemma mapping_alias_id_ok:
  assumes "mapping_alias env t realm lbl s = (Inr x, s')"
  shows "validate_mapping_id lbl = Inr ()"
proof (cases "validate_mapping_id lbl")
  case (Inl e)
  then have "e = Config (BadInput (MappingIdInvalid lbl))"
    by (simp add: validate_mapping_id_def split: if_splits)
  with Inl assms show ?thesis
    by (auto simp: mapping_alias_def absent_if_not_found_def read_mapping_def io_pairs is_not_found_def
        split: sum.splits)
qed simp

lemma set_mapping_is_send:
  "validate_mapping_id (con_label mine) = Inr () \<Longrightarrow>
   set_mapping env t (con_realm mine) (con_label mine) ident confirmed =
     send env (map_label_call t mine ident confirmed)"
  by (simp add: set_mapping_def map_label_call_def io_bind_def io_lift_def fun_eq_iff)

lemma reads_step_prepare: "emits is_read (step_prepare env tenant st plan inputs confirmed step)"
  unfolding step_prepare_def
  by (auto intro!: emits_intros reads split: init_step.splits option.splits)

lemma prepared_step_call:
  assumes "step_prepare env tenant st plan inputs confirmed step s = (Inr c, s')"
  shows "step_call env tenant st plan inputs confirmed step c"
proof (cases step)
  case SetIdentifier
  with assms obtain before body where
    "current_identifier before (rs_role st) = rs_identifier st"
    "set_secret_identifier before (rs_location st) (rs_role st) (ip_identifier plan) = Inr body"
    "c = put_entity_call env st body confirmed"
    by (auto simp: step_prepare_def io_bind_Inr identifier_write_ok_def Let_def dest: sym split: if_splits)
  with SetIdentifier show ?thesis by (auto simp: step_call_def)
qed (use assms in \<open>auto simp: step_prepare_def step_call_def io_bind_Inr split: option.splits\<close>)

text \<open>The measured refusals of a step: only the creation of the secret has one.\<close>

definition measured_of :: "init_step \<Rightarrow> measured_refusal list" where
  "measured_of step = (if step = CreateSecret then [SECRET_ALREADY_EXISTS] else [])"

text \<open>What follows an accepted call: for the identifier, the entity is read and compared with the body sent.\<close>

definition step_check ::
  "'w env \<Rightarrow> rotation_state \<Rightarrow> init_step \<Rightarrow> api_call \<Rightarrow> json \<Rightarrow> ('w, json) wop" where
  "step_check env st step c v =
     (if step = SetIdentifier
      then io_bind
        (io_map_err (\<lambda>e. unverified (ReadBackFailed (rs_entity_id st) e))
           (read_entity env (rs_tenant st) (rs_realm st) (rs_location st) (rs_entity_id st))) (\<lambda>after.
        let differences = entity_write_differences (the (ac_body c)) after in
        if differences = [] then io_return after
        else io_fail (unverified (Config (BadEntity
               (EntityDiffers (rs_tenant st) (rs_realm st) (rs_entity_id st) differences)))))
      else io_return v)"

lemma set_identifier_phases:
  "set_identifier env st (ip_identifier plan) confirmed permit minted =
     io_bind (io_map_err before_send (step_prepare env tenant st plan inputs confirmed SetIdentifier)) (\<lambda>c.
     io_bind (io_map_err (\<lambda>e. from_send e []) (send env c)) (step_check env st SetIdentifier c))"
  by (rule ext) (simp add: set_identifier_def step_prepare_def step_check_def update_entity_is_send Let_def
      io_bind_def io_map_err_def io_lift_def io_return_def split: prod.splits sum.splits)

lemma map_label_phases:
  "map_label env tenant (in_mine inputs) (ip_secret_id plan) (in_planned_mapping inputs) confirmed permit minted =
     io_bind (io_map_err before_send (step_prepare env tenant st plan inputs confirmed MapLabel)) (\<lambda>c.
     io_bind (io_map_err (\<lambda>e. from_send e []) (send env c)) (step_check env st MapLabel c))"
proof (rule ext)
  fix s
  let ?seen = "mapping_alias env tenant (con_realm (in_mine inputs)) (con_label (in_mine inputs))"
  show "map_label env tenant (in_mine inputs) (ip_secret_id plan) (in_planned_mapping inputs) confirmed
      permit minted s =
     io_bind (io_map_err before_send (step_prepare env tenant st plan inputs confirmed MapLabel)) (\<lambda>c.
     io_bind (io_map_err (\<lambda>e. from_send e []) (send env c)) (step_check env st MapLabel c)) s"
  proof (cases "?seen s")
    case (Pair q s1)
    show ?thesis
    proof (cases q)
      case (Inl e)
      with Pair show ?thesis
        by (simp add: map_label_def step_prepare_def io_bind_def io_map_err_def)
    next
      case (Inr fresh)
      with Pair have "validate_mapping_id (con_label (in_mine inputs)) = Inr ()"
        by (auto intro: mapping_alias_id_ok)
      note send = set_mapping_is_send [OF this]
      from Pair Inr show ?thesis
        by (simp add: send map_label_def step_prepare_def step_check_def io_bind_def io_map_err_def
            io_lift_def io_return_def split: prod.splits sum.splits)
    qed
  qed
qed

lemma run_step_phases:
  "run_step env tenant st plan inputs step confirmed permit minted =
     io_bind (io_map_err before_send (step_prepare env tenant st plan inputs confirmed step)) (\<lambda>c.
     io_bind (io_map_err (\<lambda>e. from_send e (measured_of step)) (send env c)) (step_check env st step c))"
proof (cases step)
  case SetIdentifier
  then show ?thesis by (simp add: run_step_def measured_of_def set_identifier_phases)
next
  case CreateSecret
  then show ?thesis
    by (auto simp: run_step_def step_prepare_def step_check_def measured_of_def create_key_is_send
        io_bind_def io_map_err_def io_fail_def io_return_def fun_eq_iff
        split: option.splits prod.splits sum.splits)
next
  case MapLabel
  then show ?thesis by (simp add: run_step_def measured_of_def map_label_phases)
qed

text \<open>The outcomes of a step, each with the sessions of its phases.\<close>

lemma run_step_cases:
  assumes "run_step env tenant st plan inputs step confirmed permit minted s = (r, s')"
  obtains
    (unsent) e where "step_prepare env tenant st plan inputs confirmed step s = (Inl e, s')"
      "r = Inl (before_send e)"
  | (failed) c s1 e where "step_prepare env tenant st plan inputs confirmed step s = (Inr c, s1)"
      "send env c s1 = (Inl e, s')" "r = Inl (from_send e (measured_of step))"
  | (checked) c s1 v s2 where "step_prepare env tenant st plan inputs confirmed step s = (Inr c, s1)"
      "send env c s1 = (Inr v, s2)" "step_check env st step c v s2 = (r, s')"
  using assms unfolding run_step_phases by (auto simp: io_pairs)


section \<open>What a step sends\<close>

text \<open>
  One attempt at a step's write: reads, the step's own call, and after an identifier's call the
  reads of its read-back. Nothing else is sent.
\<close>

definition attempt_log ::
  "'w env \<Rightarrow> string \<Rightarrow> rotation_state \<Rightarrow> init_plan \<Rightarrow> init_inputs \<Rightarrow> bool \<Rightarrow> init_step \<Rightarrow> event list \<Rightarrow> bool" where
  "attempt_log env tenant st plan inputs confirmed step ws \<longleftrightarrow>
     (\<exists>cs c rs. ws = cs @ [Called c] @ rs \<and> list_all is_read cs \<and> list_all is_read rs \<and>
        (step \<noteq> SetIdentifier \<longrightarrow> rs = []) \<and> step_call env tenant st plan inputs confirmed step c)"

lemma attempt_logI:
  "list_all is_read cs \<Longrightarrow> list_all is_read rs \<Longrightarrow> (step \<noteq> SetIdentifier \<Longrightarrow> rs = []) \<Longrightarrow>
   step_call env tenant st plan inputs confirmed step c \<Longrightarrow>
   attempt_log env tenant st plan inputs confirmed step (cs @ [Called c] @ rs)"
  unfolding attempt_log_def by blast

lemma attempt_log_reads:
  "list_all is_read cs \<Longrightarrow> attempt_log env tenant st plan inputs confirmed step ws \<Longrightarrow>
   attempt_log env tenant st plan inputs confirmed step (cs @ ws)"
  unfolding attempt_log_def by (metis append.assoc list_all_append)

lemma send_log: "send env c s = (r, s') \<Longrightarrow> sent s' = sent s @ [Called c]"
  by (auto simp: send_def io_pairs)

lemma step_check_log:
  assumes "step_check env st step c v s = (r, s')"
  shows "\<exists>rs. sent s' = sent s @ rs \<and> list_all is_read rs \<and> (step \<noteq> SetIdentifier \<longrightarrow> rs = [])"
proof (cases "step = SetIdentifier")
  case True
  have "emits is_read (step_check env st step c v)"
    unfolding step_check_def by (auto intro!: emits_intros reads simp: Let_def)
  from emits_log [OF this assms] True show ?thesis by auto
next
  case False
  with assms show ?thesis by (auto simp: step_check_def)
qed

lemma run_step_log:
  assumes "run_step env tenant st plan inputs step confirmed permit minted s = (r, s')"
  shows "\<exists>ws. sent s' = sent s @ ws \<and>
    (attempt_log env tenant st plan inputs confirmed step ws \<or> (\<exists>f. r = Inl f) \<and> list_all is_read ws)"
  using assms
proof (cases rule: run_step_cases)
  case (unsent e)
  from emits_log [OF reads_step_prepare unsent(1)] unsent(2) show ?thesis by auto
next
  case (failed c s1 e)
  from emits_log [OF reads_step_prepare failed(1)] obtain cs where
    "sent s1 = sent s @ cs" "list_all is_read cs" by blast
  with send_log [OF failed(2)] attempt_logI [OF _ _ _ prepared_step_call [OF failed(1)], of cs "[]"]
  show ?thesis by (intro exI [of _ "cs @ [Called c]"]) simp
next
  case (checked c s1 v s2)
  from emits_log [OF reads_step_prepare checked(1)] obtain cs where
    cs: "sent s1 = sent s @ cs" "list_all is_read cs" by blast
  from step_check_log [OF checked(3)] obtain rs where
    rs: "sent s' = sent s2 @ rs" "list_all is_read rs" "step \<noteq> SetIdentifier \<longrightarrow> rs = []" by blast
  from attempt_logI [OF cs(2) rs(2) _ prepared_step_call [OF checked(1)]] rs(3)
  have "attempt_log env tenant st plan inputs confirmed step (cs @ [Called c] @ rs)" by blast
  with send_log [OF checked(2)] cs(1) rs(1) show ?thesis
    by (intro exI [of _ "cs @ [Called c] @ rs"]) simp
qed

section \<open>The batch\<close>

definition list_mappings_call :: "string \<Rightarrow> string \<Rightarrow> api_call" where
  "list_mappings_call t realm =
     with_api_version MAPPING_API_VERSION (new_call t ''GET'' (mappings_path realm @ ''?_queryFilter=true''))"

text \<open>Both of a realm's collections have been listed, in every realm.\<close>

definition surveyed :: "string \<Rightarrow> event list \<Rightarrow> bool" where
  "surveyed t es \<longleftrightarrow>
     (\<forall>realm \<in> set SURVEYED_REALMS.
        Called (list_mappings_call t realm) \<in> set es \<and>
        Called (saml_call (list_request realm) t) \<in> set es)"

text \<open>
  The abstract batch: the log of completed steps, each its survey where one is due, its own single
  write with what leads to it, and then its completion, in the order of the plan.
\<close>

fun batch_log ::
  "(init_step \<Rightarrow> event list \<Rightarrow> bool) \<Rightarrow> (init_step \<Rightarrow> event list \<Rightarrow> bool) \<Rightarrow> init_step list \<Rightarrow> event list \<Rightarrow> bool" where
  "batch_log due wrote [] es \<longleftrightarrow> es = []"
| "batch_log due wrote (step # rest) es \<longleftrightarrow>
     (\<exists>cs ws es'. es = cs @ ws @ [Completed step] @ es' \<and> list_all is_read cs \<and> due step cs \<and>
        wrote step ws \<and> batch_log due wrote rest es')"

text \<open>
  A loop that stops, stops in front of the next step, on its survey, or inside it.
\<close>

definition stops_at ::
  "rotation_state \<Rightarrow> init_plan \<Rightarrow> exclusivity_proof \<Rightarrow>
   (init_step \<Rightarrow> ('w, event, error, exclusivity_proof) io) \<Rightarrow>
   (init_step \<Rightarrow> exclusivity_proof \<Rightarrow> ('w, event, write_failure, 'a) io) \<Rightarrow>
   init_step list \<Rightarrow> init_step \<Rightarrow> ('w, event) sess \<Rightarrow> init_apply_error \<Rightarrow> ('w, event) sess \<Rightarrow> bool" where
  "stops_at st plan upfront check run_one completed step u e s' \<longleftrightarrow>
     (\<exists>err. resurveys_before plan step \<and> check step u = (Inl err, s') \<and>
        e = init_apply_error_new st plan completed (StopResurvey step) (before_send err)) \<or>
     (\<exists>p u1 f. (if resurveys_before plan step then check step u = (Inr p, u1) else p = upfront \<and> u1 = u) \<and>
        run_one step p u1 = (Inl f, s') \<and>
        e = init_apply_error_new st plan completed (StopStep step) f)"

text \<open>The session after the first \<open>n\<close> steps is that of the same loop over these steps only.\<close>

lemma init_loop_stops:
  assumes "init_loop st plan upfront check run_one d rest s = (Inl e, s')"
  shows "\<exists>n u. n < length rest \<and> init_loop st plan upfront check run_one d (take n rest) s = (Inr (), u) \<and>
    stops_at st plan upfront check run_one (d @ take n rest) (rest ! n) u e s'"
  using assms
proof (induction rest arbitrary: d s)
  case Nil
  then show ?case by simp
next
  case (Cons step rest)
  let ?guard = "if resurveys_before plan step
        then io_map_err (\<lambda>e. init_apply_error_new st plan d (StopResurvey step) (before_send e)) (check step)
        else io_return upfront"
  from Cons.prems consider
    (guarded) "?guard s = (Inl e, s')"
  | (stepped) p u1 where "?guard s = (Inr p, u1)"
      "io_map_err (init_apply_error_new st plan d (StopStep step)) (run_one step p) u1 = (Inl e, s')"
  | (later) p u1 x u2 where "?guard s = (Inr p, u1)" "run_one step p u1 = (Inr x, u2)"
      "init_loop st plan upfront check run_one (d @ [step]) rest
         (u2\<lparr>sent := sent u2 @ [Completed step]\<rparr>) = (Inl e, s')"
    by (auto simp: io_bind_Inl io_map_err_Pair io_call_Pair)
  then show ?case
  proof cases
    case guarded
    then show ?thesis by (intro exI [of _ 0] exI [of _ s]) (auto simp: io_map_err_Pair stops_at_def split: if_splits)
  next
    case stepped
    then show ?thesis
      by (intro exI [of _ 0] exI [of _ s]) (fastforce simp: io_map_err_Pair stops_at_def split: if_splits)
  next
    case later
    from Cons.IH [OF later(3)] obtain n u where n: "n < length rest"
      and u: "init_loop st plan upfront check run_one (d @ [step]) (take n rest)
        (u2\<lparr>sent := sent u2 @ [Completed step]\<rparr>) = (Inr (), u)"
      and tail: "stops_at st plan upfront check run_one ((d @ [step]) @ take n rest) (rest ! n) u e s'"
      by blast
    have "init_loop st plan upfront check run_one d (take (Suc n) (step # rest)) s = (Inr (), u)"
      using later(1,2) u by (auto simp: io_bind_def io_map_err_def io_call_def)
    with n tail show ?thesis by (intro exI [of _ "Suc n"] exI [of _ u]) simp
  qed
qed

lemma init_loop_finishes:
  assumes "init_loop st plan upfront check run_one d rest s = (Inr x, s')"
    and survey: "\<And>step s p s'. resurveys_before plan step \<Longrightarrow> check step s = (Inr p, s') \<Longrightarrow>
      \<exists>cs. sent s' = sent s @ cs \<and> list_all is_read cs \<and> due step cs"
    and silent: "\<And>step. \<not> resurveys_before plan step \<Longrightarrow> due step []"
    and writes: "\<And>step p s v s'. run_one step p s = (Inr v, s') \<Longrightarrow>
      \<exists>ws. sent s' = sent s @ ws \<and> wrote step ws"
  shows "\<exists>es. sent s' = sent s @ es \<and> batch_log due wrote rest es"
  using assms(1)
proof (induction rest arbitrary: d s)
  case Nil
  then show ?case by simp
next
  case (Cons step rest)
  then obtain p u1 v u2 where
    guard: "if resurveys_before plan step then check step s = (Inr p, u1) else p = upfront \<and> u1 = s" and
    one: "run_one step p u1 = (Inr v, u2)" and
    rest: "init_loop st plan upfront check run_one (d @ [step]) rest
      (u2\<lparr>sent := sent u2 @ [Completed step]\<rparr>) = (Inr x, s')"
    by (auto simp: io_bind_Inr io_map_err_Pair io_call_Pair split: if_splits)
  from guard survey [of step s p u1] silent [of step]
  obtain cs where cs: "sent u1 = sent s @ cs" "list_all is_read cs" "due step cs"
    by (cases "resurveys_before plan step") auto
  from writes [OF one] obtain ws where ws: "sent u2 = sent u1 @ ws" "wrote step ws" by blast
  from Cons.IH [OF rest] obtain es' where
    "sent s' = sent u2 @ [Completed step] @ es'" "batch_log due wrote rest es'" by auto
  with cs ws show ?case
    by (intro exI [of _ "cs @ ws @ [Completed step] @ es'"]) auto
qed

section \<open>apply_init\<close>

lemma read_realm_survey_lists:
  assumes "read_realm_survey env t realm s = (Inr x, s')"
  shows "\<exists>es. sent s' = sent s @ es \<and> Called (list_mappings_call t realm) \<in> set es \<and>
    Called (saml_call (list_request realm) t) \<in> set es"
proof -
  from assms obtain ms s1 stubs s2 ents where
    m: "list_mappings env t realm s = (Inr ms, s1)" and
    l: "list_entities env t realm s1 = (Inr stubs, s2)" and
    e: "read_entities env t realm stubs s2 = (Inr ents, s')"
    by (auto simp: read_realm_survey_def io_bind_Inr)
  from m have "sent s1 = sent s @ [Called (list_mappings_call t realm)]"
    by (auto simp: list_mappings_def get_versioned_def send_def io_pairs list_mappings_call_def
        split: if_splits)
  moreover from l have "sent s2 = sent s1 @ [Called (saml_call (list_request realm) t)]"
    by (auto simp: list_entities_def saml_send_def send_def io_pairs)
  moreover have "emits is_read (read_entities env t realm stubs)"
    unfolding read_entities_def by (intro emits_intros reads)
  from emits_log [OF this e] obtain es where "sent s' = sent s2 @ es" by blast
  ultimately show ?thesis by (intro exI [of _ "[_] @ [_] @ es"]) auto
qed

lemma survey_all_surveyed:
  assumes "survey_all env t s = (Inr x, s')"
  shows "\<exists>es. sent s' = sent s @ es \<and> surveyed t es"
proof -
  from assms obtain xa sa xb where a: "read_realm_survey env t ''alpha'' s = (Inr xa, sa)"
    and b: "read_realm_survey env t ''bravo'' sa = (Inr xb, s')"
    by (auto simp: survey_all_def SURVEYED_REALMS_def io_bind_Inr)
  from read_realm_survey_lists [OF a] read_realm_survey_lists [OF b]
  show ?thesis by (force simp: surveyed_def SURVEYED_REALMS_def)
qed

lemma activation_recheck_surveyed:
  assumes "activation_recheck env t st plan s = (Inr p, s')"
  shows "\<exists>es. sent s' = sent s @ es \<and> surveyed t es"
proof -
  from assms obtain x where "survey_all env t s = (Inr x, s')"
    by (auto simp: activation_recheck_def io_bind_Inr)
  then show ?thesis by (rule survey_all_surveyed)
qed



text \<open>The steps of a batch, run from the proof the recheck minted.\<close>

abbreviation init_steps_run ::
  "'w env \<Rightarrow> tenant \<Rightarrow> rotation_state \<Rightarrow> init_plan \<Rightarrow> init_inputs \<Rightarrow> bool \<Rightarrow> init_permit \<Rightarrow> exclusivity_proof \<Rightarrow>
   init_step list \<Rightarrow> ('w, event, init_apply_error, unit) io" where
  "init_steps_run env t st plan inputs confirmed permit p xs \<equiv>
     init_loop st plan p (\<lambda>_. activation_recheck env (ten_name t) st plan)
       (\<lambda>step minted. run_step env (ten_name t) st plan inputs step confirmed permit minted) [] xs"

text \<open>The survey that is due in front of a step.\<close>

definition survey_due :: "string \<Rightarrow> init_plan \<Rightarrow> init_step \<Rightarrow> event list \<Rightarrow> bool" where
  "survey_due t plan step cs \<longleftrightarrow> (if resurveys_before plan step then surveyed t cs else cs = [])"

lemma apply_init_cases:
  assumes "apply_init env t st plan inputs confirmed permit s = (r, s')"
  obtains
    (recheck) err where "init_recheck env t st plan inputs s = (Inl err, s')"
      "r = Inl (init_apply_error_new st plan [] StopRecheck (before_send err))"
  | (loop) p s1 where "init_recheck env t st plan inputs s = (Inr p, s1)"
      "init_steps_run env t st plan inputs confirmed permit p (steps plan) s1 = (r, s')"
  using assms by (auto simp: apply_init_def run_init_steps_def io_pairs)

lemma steps_loop_log:
  assumes "init_steps_run env t st plan inputs confirmed permit p xs s = (Inr x, s')"
  shows "\<exists>es. sent s' = sent s @ es \<and>
    batch_log (survey_due (ten_name t) plan) (attempt_log env (ten_name t) st plan inputs confirmed) xs es"
proof (rule init_loop_finishes [OF assms])
  fix step s s' q
  assume due: "resurveys_before plan step" and run: "activation_recheck env (ten_name t) st plan s = (Inr q, s')"
  from emits_log [OF reads_activation_recheck run] activation_recheck_surveyed [OF run]
  show "\<exists>cs. sent s' = sent s @ cs \<and> list_all is_read cs \<and> survey_due (ten_name t) plan step cs"
    using due by (auto simp: survey_due_def)
next
  fix step s s' q v
  assume "run_step env (ten_name t) st plan inputs step confirmed permit q s = (Inr v, s')"
  from run_step_log [OF this] show "\<exists>ws. sent s' = sent s @ ws \<and> attempt_log env (ten_name t) st plan inputs confirmed step ws"
    by auto
qed (simp add: survey_due_def)


text \<open>The next step, stopped: its survey failed, or its own phases did, in the session they were reached in.\<close>

lemma steps_loop_stops:
  assumes "init_steps_run env t st plan inputs confirmed permit p (steps plan) s1 = (Inl e, s')"
  obtains n u where "n < length (steps plan)"
      "init_steps_run env t st plan inputs confirmed permit p (take n (steps plan)) s1 = (Inr (), u)"
      "stops_at st plan p (\<lambda>_. activation_recheck env (ten_name t) st plan)
        (\<lambda>step minted. run_step env (ten_name t) st plan inputs step confirmed permit minted)
        (take n (steps plan)) (steps plan ! n) u e s'"
  using init_loop_stops [OF assms] by auto

lemma stops_at_log:
  assumes "stops_at st plan p (\<lambda>_. activation_recheck env t st plan)
      (\<lambda>step minted. run_step env t st plan inputs step confirmed permit minted) d step u e s'"
  shows "\<exists>tail. sent s' = sent u @ tail \<and> ia_completed e = d \<and>
     (ia_stopped_at e = StopResurvey step \<and> resurveys_before plan step \<and> list_all is_read tail \<or>
      ia_stopped_at e = StopStep step \<and>
        (\<exists>cs ws. tail = cs @ ws \<and> list_all is_read cs \<and> survey_due t plan step cs \<and>
          (list_all is_read ws \<or> attempt_log env t st plan inputs confirmed step ws)))"
  using assms unfolding stops_at_def
proof (elim disjE exE conjE)
  fix err
  assume "resurveys_before plan step" "activation_recheck env t st plan u = (Inl err, s')"
    "e = init_apply_error_new st plan d (StopResurvey step) (before_send err)"
  with emits_log [OF reads_activation_recheck this(2)] show ?thesis
    by (auto simp: init_apply_error_new_def)
next
  fix q u1 f
  assume guard: "if resurveys_before plan step then activation_recheck env t st plan u = (Inr q, u1)
      else q = p \<and> u1 = u"
    and one: "run_step env t st plan inputs step confirmed permit q u1 = (Inl f, s')"
    and e: "e = init_apply_error_new st plan d (StopStep step) f"
  have "\<exists>cs. sent u1 = sent u @ cs \<and> list_all is_read cs \<and> survey_due t plan step cs"
  proof (cases "resurveys_before plan step")
    case True
    with guard have run: "activation_recheck env t st plan u = (Inr q, u1)" by simp
    from emits_log [OF reads_activation_recheck run] activation_recheck_surveyed [OF run] True
    show ?thesis by (auto simp: survey_due_def)
  next
    case False
    with guard show ?thesis by (simp add: survey_due_def)
  qed
  then obtain cs where cs: "sent u1 = sent u @ cs" "list_all is_read cs" "survey_due t plan step cs" by blast
  from run_step_log [OF one] obtain ws where ws: "sent s' = sent u1 @ ws"
    "list_all is_read ws \<or> attempt_log env t st plan inputs confirmed step ws" by blast
  from cs ws e show ?thesis
    by (intro exI [of _ "cs @ ws"]) (auto simp: init_apply_error_new_def)
qed

text \<open>What a step's error says, from the phase that failed, without \<open>from_send\<close>.\<close>

definition measured_source :: "init_step \<Rightarrow> error \<Rightarrow> bool" where
  "measured_source step source \<longleftrightarrow>
     source = ProdConfirmRequired \<or> source = AuthRequired \<or>
     step = CreateSecret \<and>
       (\<exists>body. source = Api 400 body \<and>
          str_contains body ''Failed to create secret, the secret already exists'')"

lemma from_send_status:
  "wf_status (from_send e (measured_of step)) = (if measured_source step e then Refused else Unknown)"
  by (cases e) (auto simp: from_send_def measured_of_def measured_source_def SECRET_ALREADY_EXISTS_def)

lemma step_check_fails:
  assumes "step_check env st step c v s = (Inl f, s')"
  shows "step = SetIdentifier \<and> wf_status f = AcceptedUnverified \<and>
    \<not> (\<exists>after. read_entity env (rs_tenant st) (rs_realm st) (rs_location st) (rs_entity_id st) s = (Inr after, s') \<and>
         entity_write_differences (the (ac_body c)) after = [])"
  using assms by (auto simp: step_check_def io_pairs Let_def map_err_Inl_iff split: if_splits)

text \<open>
  How a step that was run in \<open>u\<close> stopped in \<open>s'\<close>, with the status and the error it reports: in its
  reads, on the answer to its own call, which is the last event, or after the accepted call, on the read-back.
\<close>

definition step_stopped ::
  "'w env \<Rightarrow> string \<Rightarrow> rotation_state \<Rightarrow> init_plan \<Rightarrow> init_inputs \<Rightarrow> bool \<Rightarrow> init_step \<Rightarrow> ('w, event) sess \<Rightarrow>
   write_status \<Rightarrow> error \<Rightarrow> ('w, event) sess \<Rightarrow> bool" where
  "step_stopped env t st plan inputs confirmed x u status source s' \<longleftrightarrow>
     step_prepare env t st plan inputs confirmed x u = (Inl source, s') \<and> quiet_to is_read u s' \<and>
       status = Refused \<or>
     (\<exists>c u1. step_prepare env t st plan inputs confirmed x u = (Inr c, u1) \<and> quiet_to is_read u u1 \<and>
        step_call env t st plan inputs confirmed x c \<and>
        (send env c u1 = (Inl source, s') \<and> sent s' = sent u1 @ [Called c] \<and>
           status = (if measured_source x source then Refused else Unknown) \<or>
         (\<exists>v u2. x = SetIdentifier \<and> send env c u1 = (Inr v, u2) \<and> status = AcceptedUnverified \<and>
            \<not> (\<exists>after. read_entity env (rs_tenant st) (rs_realm st) (rs_location st) (rs_entity_id st) u2
                     = (Inr after, s') \<and> entity_write_differences (the (ac_body c)) after = []))))"

lemma run_step_stopped:
  assumes "run_step env t st plan inputs step confirmed permit q s = (Inl f, s')"
  shows "step_stopped env t st plan inputs confirmed step s (wf_status f) (wf_source f) s'"
  using assms
proof (cases rule: run_step_cases)
  case unsent
  with quiet_to_emits [OF reads_step_prepare unsent(1)] show ?thesis
    by (simp add: step_stopped_def before_send_def)
next
  case (failed c s1 e)
  have "f = from_send e (measured_of step)" using failed(3) by simp
  then have "wf_source f = e" "wf_status f = (if measured_source step e then Refused else Unknown)"
    by (simp_all add: from_send_status) (simp add: from_send_def)
  with failed(1,2) quiet_to_emits [OF reads_step_prepare failed(1)] prepared_step_call [OF failed(1)]
    send_log [OF failed(2)]
  show ?thesis unfolding step_stopped_def by blast
next
  case (checked c s1 v s2)
  with step_check_fails [OF checked(3)] quiet_to_emits [OF reads_step_prepare checked(1)]
    prepared_step_call [OF checked(1)]
  show ?thesis unfolding step_stopped_def by blast
qed

text \<open>The same of the step a loop stopped at, with the survey in front of it.\<close>

lemma stops_at_report:
  assumes "stops_at st plan p (\<lambda>_. activation_recheck env t st plan)
      (\<lambda>step minted. run_step env t st plan inputs step confirmed permit minted) d x u e s'"
  shows "ia_completed e = d \<and>
    (ia_stopped_at e = StopResurvey x \<and> ia_status e = Refused \<and> resurveys_before plan x \<and>
       activation_recheck env t st plan u = (Inl (ia_source e), s') \<or>
     ia_stopped_at e = StopStep x \<and>
       (\<exists>u1. (if resurveys_before plan x then \<exists>q. activation_recheck env t st plan u = (Inr q, u1) else u1 = u) \<and>
          step_stopped env t st plan inputs confirmed x u1 (ia_status e) (ia_source e) s'))"
  using assms unfolding stops_at_def
proof (elim disjE exE conjE)
  fix err
  assume "resurveys_before plan x" "activation_recheck env t st plan u = (Inl err, s')"
    "e = init_apply_error_new st plan d (StopResurvey x) (before_send err)"
  then show ?thesis by (simp add: init_apply_error_new_def before_send_def)
next
  fix q u1 f
  assume "if resurveys_before plan x then activation_recheck env t st plan u = (Inr q, u1) else q = p \<and> u1 = u"
    and one: "run_step env t st plan inputs x confirmed permit q u1 = (Inl f, s')"
    and e: "e = init_apply_error_new st plan d (StopStep x) f"
  with run_step_stopped [OF one] show ?thesis
    by (auto simp: init_apply_error_new_def split: if_splits)
qed

section \<open>Properties\<close>

text \<open>C32: \<open>init\<close> performs a prefix of its plan and says which. After the reads of its recheck the log is
  that of the abstract batch over the first \<open>n\<close> steps: for each in the plan's order a survey of every realm
  where one is due, then reads, exactly one write, which is the step's own call, a read-back of an identifier,
  and then the step's completion. Nothing follows when \<open>init\<close> succeeds, and then all steps were
  completed. Otherwise its error names as completed exactly these \<open>n\<close> steps, and as the stop the recheck, if that
  failed, or the
  survey in front of the next step, or the next step itself, of which the log holds at most the one
  attempt at its own write, after the survey due.\<close>

theorem apply_init_completes_a_prefix:
  "\<exists>q s1 pre es tail n. init_recheck env t st plan inputs s = (q, s1) \<and>
     sent s1 = sent s @ pre \<and> list_all is_read pre \<and>
     sent (snd (apply_init env t st plan inputs confirmed permit s)) = sent s1 @ es @ tail \<and>
     n \<le> length (steps plan) \<and>
     batch_log (survey_due (ten_name t) plan) (attempt_log env (ten_name t) st plan inputs confirmed)
       (take n (steps plan)) es \<and>
     (fst (apply_init env t st plan inputs confirmed permit s) = Inr () \<and> n = length (steps plan) \<and> tail = [] \<and>
        (\<exists>p. q = Inr p) \<or>
      (\<exists>e. fst (apply_init env t st plan inputs confirmed permit s) = Inl e \<and>
         ia_completed e = take n (steps plan) \<and>
         (ia_stopped_at e = StopRecheck \<and> n = 0 \<and> tail = [] \<and> (\<exists>err. q = Inl err) \<or>
          n < length (steps plan) \<and> (\<exists>p. q = Inr p) \<and>
            (ia_stopped_at e = StopResurvey (steps plan ! n) \<and> resurveys_before plan (steps plan ! n) \<and>
               list_all is_read tail \<or>
             ia_stopped_at e = StopStep (steps plan ! n) \<and>
               (\<exists>cs ws. tail = cs @ ws \<and> list_all is_read cs \<and>
                  survey_due (ten_name t) plan (steps plan ! n) cs \<and>
                  (list_all is_read ws \<or>
                   attempt_log env (ten_name t) st plan inputs confirmed (steps plan ! n) ws))))))"
proof -
  obtain r s' where run: "apply_init env t st plan inputs confirmed permit s = (r, s')"
    by (cases "apply_init env t st plan inputs confirmed permit s")
  then show ?thesis
  proof (cases rule: apply_init_cases)
    case (recheck err)
    from emits_log [OF reads_init_recheck recheck(1)] obtain pre where
      "sent s' = sent s @ pre" "list_all is_read pre" by blast
    with recheck run show ?thesis
      by (intro exI [of _ "Inl err"] exI [of _ s'] exI [of _ pre] exI [of _ "[]"] exI [of _ 0])
        (simp add: init_apply_error_new_def)
  next
    case (loop p s1)
    from emits_log [OF reads_init_recheck loop(1)] obtain pre where
      pre: "sent s1 = sent s @ pre" "list_all is_read pre" by blast
    show ?thesis
    proof (cases r)
      case (Inr x)
      from steps_loop_log [OF loop(2) [unfolded Inr]] obtain es where "sent s' = sent s1 @ es"
        "batch_log (survey_due (ten_name t) plan) (attempt_log env (ten_name t) st plan inputs confirmed)
           (steps plan) es" by blast
      with Inr run loop(1) pre show ?thesis
        by (intro exI [of _ "Inr p"] exI [of _ s1] exI [of _ pre] exI [of _ es] exI [of _ "[]"]
            exI [of _ "length (steps plan)"]) simp
    next
      case (Inl e)
      from loop(2) [unfolded Inl] show ?thesis
      proof (rule steps_loop_stops)
        fix n u
        assume n: "n < length (steps plan)"
          and u: "init_steps_run env t st plan inputs confirmed permit p (take n (steps plan)) s1 = (Inr (), u)"
          and stop: "stops_at st plan p (\<lambda>_. activation_recheck env (ten_name t) st plan)
            (\<lambda>step minted. run_step env (ten_name t) st plan inputs step confirmed permit minted)
            (take n (steps plan)) (steps plan ! n) u e s'"
        from steps_loop_log [OF u] obtain es where "sent u = sent s1 @ es"
          "batch_log (survey_due (ten_name t) plan) (attempt_log env (ten_name t) st plan inputs confirmed)
             (take n (steps plan)) es" by blast
        moreover from stops_at_log [OF stop] obtain tail where "sent s' = sent u @ tail"
          and "ia_completed e = take n (steps plan) \<and>
            (ia_stopped_at e = StopResurvey (steps plan ! n) \<and> resurveys_before plan (steps plan ! n) \<and>
               list_all is_read tail \<or>
             ia_stopped_at e = StopStep (steps plan ! n) \<and>
               (\<exists>cs ws. tail = cs @ ws \<and> list_all is_read cs \<and>
                  survey_due (ten_name t) plan (steps plan ! n) cs \<and>
                  (list_all is_read ws \<or>
                   attempt_log env (ten_name t) st plan inputs confirmed (steps plan ! n) ws)))"
          by blast
        ultimately show ?thesis
          using n Inl run loop(1) pre
          by (intro exI [of _ "Inr p"] exI [of _ s1] exI [of _ pre] exI [of _ es] exI [of _ tail]
              exI [of _ n]) simp
      qed
    qed
  qed
qed

text \<open>C33: what \<open>init\<close> says of the step it stopped at is what happened there. A refusal of the recheck or
  of the survey is the error of these reads. A step that stopped was run in the session \<open>u1\<close> reached by the
  completed steps and its survey: either its preparing reads failed, nothing was sent, and it says refused;
  or its own call was sent last, the error shown is the answer to this call, and it says refused exactly
  when that answer is the production gate's, the login's, or the tenant's measured \<open>already exists\<close> to a creation,
  and unknown otherwise; or the call was accepted, and it says accepted but unverified because
  the read-back failed or shows another document.\<close>

theorem apply_init_status_is_truthful:
  "fst (apply_init env t st plan inputs confirmed permit s) = Inr () \<or>
   (\<exists>e s'. apply_init env t st plan inputs confirmed permit s = (Inl e, s') \<and>
     (ia_stopped_at e = StopRecheck \<and> ia_status e = Refused \<and>
        init_recheck env t st plan inputs s = (Inl (ia_source e), s') \<or>
      (\<exists>p s1 n u x. init_recheck env t st plan inputs s = (Inr p, s1) \<and>
         n < length (steps plan) \<and> x = steps plan ! n \<and> ia_completed e = take n (steps plan) \<and>
         init_steps_run env t st plan inputs confirmed permit p (take n (steps plan)) s1 = (Inr (), u) \<and>
         (ia_stopped_at e = StopResurvey x \<and> ia_status e = Refused \<and> resurveys_before plan x \<and>
            activation_recheck env (ten_name t) st plan u = (Inl (ia_source e), s') \<or>
          ia_stopped_at e = StopStep x \<and>
            (\<exists>u1. (if resurveys_before plan x
                   then \<exists>q. activation_recheck env (ten_name t) st plan u = (Inr q, u1) else u1 = u) \<and>
               step_stopped env (ten_name t) st plan inputs confirmed x u1 (ia_status e) (ia_source e) s')))))"
proof -
  obtain r s' where run: "apply_init env t st plan inputs confirmed permit s = (r, s')"
    by (cases "apply_init env t st plan inputs confirmed permit s")
  then show ?thesis
  proof (cases rule: apply_init_cases)
    case (recheck err)
    with run show ?thesis by (simp add: init_apply_error_new_def before_send_def)
  next
    case (loop p s1)
    show ?thesis
    proof (cases r)
      case (Inr x)
      with run show ?thesis by simp
    next
      case (Inl e)
      from loop(2) [unfolded Inl] obtain n u where n: "n < length (steps plan)"
        and u: "init_steps_run env t st plan inputs confirmed permit p (take n (steps plan)) s1 = (Inr (), u)"
        and stop: "stops_at st plan p (\<lambda>_. activation_recheck env (ten_name t) st plan)
            (\<lambda>step minted. run_step env (ten_name t) st plan inputs step confirmed permit minted)
            (take n (steps plan)) (steps plan ! n) u e s'"
        by (rule steps_loop_stops)
      from stops_at_report [OF stop] run [unfolded Inl] loop(1) n u show ?thesis by blast
    qed
  qed
qed

end
