(* ===== verification/Wait_Facts.thy ===== *)
theory Wait_Facts
  imports Rotation_Run_Facts
begin

text \<open>
  The waits on the export: they end within their fuel on a clock that moves, and what they report
  is what the last read showed.
\<close>

section \<open>Termination\<close>

text \<open>
  Sleeping for \<open>n\<close> moves the clock on by at least \<open>n\<close>; an export takes no negative time; neither it
  nor the reading of its certificates panics.
\<close>

definition well_timed :: "'w env \<Rightarrow> bool" where
  "well_timed env \<longleftrightarrow>
     (\<forall>n w. env_now env w + n \<le> env_now env (env_sleep env n w)) \<and>
     (\<forall>t p w. env_now env w \<le> env_now env (snd (env_export env t p w)) \<and>
        fst (env_export env t p w) \<noteq> Inl Panic) \<and>
     (\<forall>b. env_cert_refs env b \<noteq> Inl Panic)"

lemma keeps_time_cert_refs: "well_timed env \<Longrightarrow> keeps_time env (cert_refs env t realm e)"
proof -
  assume wt: "well_timed env"
  have "keeps_time env (export_metadata env t realm e)"
    unfolding keeps_time_def export_metadata_def Let_def
  proof (intro allI impI)
    fix s r s'
    assume "io_call (Exported t (export_path env e realm)) (env_export env t (export_path env e realm)) s = (r, s')"
    then obtain w' where "env_export env t (export_path env e realm) (world s) = (r, w')" "world s' = w'"
      by (auto simp: io_call_Pair)
    with wt show "env_now env (world s) \<le> env_now env (world s') \<and> r \<noteq> Inl Panic"
      unfolding well_timed_def by (metis fst_conv snd_conv)
  qed
  with wt show ?thesis
    unfolding cert_refs_def export_read_def
    by (intro keeps_time_bind keeps_time_pure)
      (auto simp: well_timed_def split: export_outcome.splits)
qed

lemma poll_signing_no_panic:
  assumes "well_timed env" and "poll_signing_certs env t realm e r settled s = (q, s')"
  shows "q \<noteq> Inl Panic"
  using assms(2) unfolding poll_signing_certs_def
  by (rule poll_enough [rotated 3])
    (use assms(1) in \<open>auto simp: well_timed_def SETTLE_def
      intro!: keeps_time_bind keeps_time_cert_refs keeps_time_pure\<close>)

section \<open>What a wait reports\<close>

lemma poll_loop_last_read:
  "poll_loop fuel env st deadline reader settled s = (Inr x, s') \<Longrightarrow>
   \<exists>s1. reader s1 = (Inr x, s') \<and> (settled x \<or> deadline \<le> env_now env (world s'))"
proof (induction fuel arbitrary: s)
  case 0
  then show ?case by simp
next
  case (Suc fuel)
  obtain q s1 where rd: "reader s = (q, s1)" by (cases "reader s")
  with Suc.prems obtain seen where q: "q = Inr seen" by (cases q) (auto simp: io_bind_Pair)
  show ?case
  proof (cases "settled seen \<or> env_now env (world s1) \<ge> deadline")
    case True
    with Suc.prems rd q show ?thesis
      by (auto simp: io_bind_def clock_def io_look_def io_return_def split: if_splits)
  next
    case False
    from False Suc.prems rd q
    have "poll_loop fuel env st deadline reader settled
        (s1\<lparr>world := env_sleep env (settle_interval st) (world s1),
            sent := sent s1 @ [Waited (settle_interval st)]\<rparr>) = (Inr x, s')"
      by (auto simp: io_bind_def clock_def io_look_def io_call_def split: if_splits)
    from Suc.IH [OF this] show ?thesis .
  qed
qed

lemma poll_signing_last_read:
  assumes "poll_signing_certs env t realm e r settled s = (Inr seen, s')"
  shows "\<exists>s1 certs. cert_refs env t realm e s1 = (Inr certs, s') \<and> role_signing certs r = seen"
proof -
  from assms obtain s0 where
    "poll_loop (poll_fuel SETTLE) env SETTLE (env_now env (world s) + settle_timeout SETTLE)
       (io_bind (cert_refs env t realm e) (\<lambda>certs. io_return (role_signing certs r))) settled s0
     = (Inr seen, s')"
    by (auto simp: poll_signing_certs_def poll_def clock_def io_bind_def io_look_def)
  from poll_loop_last_read [OF this] show ?thesis by (auto simp: io_bind_Inr)
qed

lemma wait_for_export_SettledOn:
  assumes "wait_for_export env t realm e r expected s = (Inr SettledOn, s')"
  shows "\<exists>s1 certs. cert_refs env t realm e s1 = (Inr certs, s') \<and> role_signing certs r = expected"
  using assms
  by (auto simp: wait_for_export_def io_bind_Inr settled_on_def dest!: poll_signing_last_read
      split: if_splits prod.splits)

lemma wait_for_export_TimedOut:
  assumes "wait_for_export env t realm e r expected s = (Inr (TimedOut missing unexpected), s')"
  shows "\<exists>s1 certs. cert_refs env t realm e s1 = (Inr certs, s') \<and> role_signing certs r \<noteq> expected \<and>
    set missing = set expected - set (role_signing certs r) \<and>
    set unexpected = set (role_signing certs r) - set expected"
proof -
  from assms obtain seen where seen: "poll_signing_certs env t realm e r (\<lambda>seen. settled_on seen expected) s = (Inr seen, s')"
    and gap: "seen \<noteq> expected" "settlement_gap seen expected = (missing, unexpected)"
    by (auto simp: wait_for_export_def io_bind_Inr settled_on_def split: if_splits prod.splits)
  from poll_signing_last_read [OF seen] obtain s1 certs
    where "cert_refs env t realm e s1 = (Inr certs, s')" "seen = role_signing certs r" by blast
  with gap show ?thesis
    by (intro exI [of _ s1] exI [of _ certs]) (auto simp: settlement_gap_def set_difference_def)
qed

section \<open>Properties\<close>

text \<open>A clock in the world, a tenant that publishes the certificate \<open>a\<close> from time 4000 on.\<close>

definition clock_env :: "nat env" where
  "clock_env =
     \<lparr>env_agent = (\<lambda>c w. (Inr RespOther, w)),
      env_export = (\<lambda>t p w. (Inr (if w < 4000 then ''none'' else ''a''), w + 1)),
      env_is_document = (\<lambda>b. True), env_unescape = (\<lambda>s. s),
      env_cert_refs = (\<lambda>b. Inr (if b = ''a'' then [sample_cert ''a''] else [])),
      env_base64 = (\<lambda>s. s), env_base64url = (\<lambda>s. s), env_query = (\<lambda>ps. []), env_urlencode = (\<lambda>s. s),
      env_now = (\<lambda>w. w), env_sleep = (\<lambda>n w. w + n), env_ask = (\<lambda>w. (Inr True, w)),
      env_prompt_available = False, env_timestamp = (\<lambda>w. []),
      env_files = (\<lambda>w. no_files), env_put_files = (\<lambda>fs w. w),
      env_decode = plain_dec, env_encode = plain_enc\<rparr>"

definition plain_tenant :: tenant where
  "plain_tenant =
     \<lparr>ten_name = ''t'', ten_base_url = ''https://t'', ten_theme = Sandbox, ten_sa_id = Some ''sa'',
      ten_scopes = [], ten_provenance = \<lparr>pv_service_account = None, pv_log_key = None\<rparr>\<rparr>"

lemma clock_env_well_timed: "well_timed clock_env"
  by (simp add: well_timed_def clock_env_def)

text \<open>C37: the wait on the export ends. On a clock that sleeping moves, the poll never exhausts the
  fuel its timeout and interval give it: it returns what the export shows or the export's error.\<close>

theorem wait_terminates:
  assumes "well_timed env"
  shows "fst (wait_for_export env t realm e r expected s) \<noteq> Inl Panic \<and>
    fst (wait_for_any_cert env t realm e r s) \<noteq> Inl Panic"
proof
  obtain q s' where poll: "poll_signing_certs env t realm e r (\<lambda>seen. settled_on seen expected) s = (q, s')"
    by (cases "poll_signing_certs env t realm e r (\<lambda>seen. settled_on seen expected) s")
  from poll_signing_no_panic [OF assms poll]
  show "fst (wait_for_export env t realm e r expected s) \<noteq> Inl Panic"
    by (auto simp: wait_for_export_def io_bind_def poll io_return_def split: sum.splits prod.splits)
  obtain q s' where poll: "poll_signing_certs env t realm e r (\<lambda>seen. seen \<noteq> []) s = (q, s')"
    by (cases "poll_signing_certs env t realm e r (\<lambda>seen. seen \<noteq> []) s")
  from poll_signing_no_panic [OF assms poll]
  show "fst (wait_for_any_cert env t realm e r s) \<noteq> Inl Panic"
    by (simp add: wait_for_any_cert_def poll)
qed

theorem wait_terminates_witness:
  "fst (wait_for_export clock_env plain_tenant ''alpha'' ''e'' Idp [''b''] \<lparr>world = 0, sent = []\<rparr>) \<noteq> Inl Panic"
  by (rule conjunct1 [OF wait_terminates [OF clock_env_well_timed]])

text \<open>what the wait reports is what the export shows. It settles exactly when the signing
  certificates the last read shows are the expected ones, no fewer and no more; otherwise it
  names the certificates that are missing and the ones that should be gone.\<close>

theorem wait_reports_last_export:
  assumes "wait_for_export env t realm e r expected s = (Inr outcome, s')"
  shows "\<exists>s1 certs. cert_refs env t realm e s1 = (Inr certs, s') \<and>
    (outcome = SettledOn \<and> role_signing certs r = expected \<or>
     (\<exists>missing unexpected. outcome = TimedOut missing unexpected \<and> role_signing certs r \<noteq> expected \<and>
        set missing = set expected - set (role_signing certs r) \<and>
        set unexpected = set (role_signing certs r) - set expected))"
proof (cases outcome)
  case SettledOn
  from wait_for_export_SettledOn [OF assms [unfolded SettledOn]] SettledOn show ?thesis by auto
next
  case (TimedOut missing unexpected)
  from wait_for_export_TimedOut [OF assms [unfolded TimedOut]] TimedOut show ?thesis by auto
qed

lemma poll_loop_run:
  "poll_loop (Suc n) env st deadline reader settled s =
   (case reader s of (Inl e, s') \<Rightarrow> (Inl e, s')
    | (Inr seen, s') \<Rightarrow>
       if settled seen \<or> deadline \<le> env_now env (world s') then (Inr seen, s')
       else poll_loop n env st deadline reader settled
         (s'\<lparr>world := env_sleep env (settle_interval st) (world s'),
            sent := sent s' @ [Waited (settle_interval st)]\<rparr>))"
  by (simp add: io_bind_def clock_def io_look_def io_call_def io_return_def split: prod.splits sum.splits)

lemma clock_env_now: "env_now clock_env w = w" "env_sleep clock_env n w = w + n"
  by (simp_all add: clock_env_def)

lemma clock_env_cert_refs:
  "cert_refs clock_env plain_tenant realm e s =
   (Inr (if world s < 4000 then [] else [sample_cert ''a'']),
    s\<lparr>world := world s + 1, sent := sent s @ [Exported plain_tenant (export_path clock_env e realm)]\<rparr>)"
proof -
  have "classify_export clock_env b = Metadata" if "b = ''none'' \<or> b = ''a''" for b
    using that by (auto simp: classify_export_def clock_env_def trim_def is_whitespace_def
        ERROR_PREFIX_def strip_prefix_def)
  then show ?thesis
    by (auto simp: cert_refs_def export_read_def export_metadata_def Let_def io_bind_def io_call_def
        io_lift_def clock_env_def)
qed

theorem wait_reports_last_export_witness:
  "\<exists>s1 certs. cert_refs clock_env plain_tenant ''alpha'' ''e'' s1 =
       (Inr certs, snd (wait_for_export clock_env plain_tenant ''alpha'' ''e'' Idp [''a''] \<lparr>world = 0, sent = []\<rparr>)) \<and>
     role_signing certs Idp = [''a'']"
proof -
  have sig: "role_signing [] Idp = []" "role_signing [sample_cert ''a''] Idp = [''a'']"
    by (simp_all add: role_signing_def sample_cert_def publishes_signing_def role_descriptor_def
        SIGNING_USE_def btree_set_def)
  let ?run = "wait_for_export clock_env plain_tenant ''alpha'' ''e'' Idp [''a''] \<lparr>world = 0, sent = []\<rparr>"
  obtain n where fuel: "poll_fuel SETTLE = Suc (Suc (Suc n))"
    by (rule that [of 14]) (simp add: poll_fuel_def SETTLE_def)
  have "fst ?run = Inr SettledOn"
    unfolding wait_for_export_def poll_signing_certs_def poll_def fuel
    by (simp add: io_bind_def clock_def io_look_def io_return_def poll_loop_run
        clock_env_cert_refs sig settled_on_def clock_env_now SETTLE_def del: poll_loop.simps)
  then have "?run = (Inr SettledOn, snd ?run)" by (simp add: prod_eq_iff)
  from wait_reports_last_export [OF this] show ?thesis by auto
qed

end
