(* ===== verification/Rotation_Cli.thy ===== *)
theory Rotation_Cli
  imports Init_Facts Wait_Facts
begin

text \<open>
  The commands of \<open>aic saml rotate\<close> (\<open>src/src/saml/rotate/cli.rs\<close>): \<open>status\<close>, \<open>init\<close>, \<open>stage\<close> and
  \<open>complete\<close>, each the order of its reads, refusals, prompt, production gate, write, proof of the
  write and journal change. What a command prints is not modelled.
\<close>

section \<open>Results\<close>

text \<open>\<open>Plain\<close> is an error as it is; the others carry the message the command wraps one in.\<close>

datatype (plugins only: code size) command_error =
    Plain error
  | WriteFailed message
  | InitFailed init_apply_error
  | StagedUnrecorded string string error

type_synonym ('w, 'a) cmd = "('w, event, command_error, 'a) io"

abbreviation plain :: "('w, 'a) op \<Rightarrow> ('w, 'a) cmd" where
  "plain \<equiv> io_map_err Plain"

definition check :: "error + 'a \<Rightarrow> ('w, 'a) cmd" where
  "check r = io_lift (map_err Plain r)"

text \<open>\<open>read_before_retry\<close>, by what it names: the verb, the entity, its realm and the role.\<close>

definition read_before_retry :: "string \<Rightarrow> rotation_state \<Rightarrow> string" where
  "read_before_retry verb st =
     verb @ '' '' @ rs_entity_id st @ '' --realm '' @ rs_realm st @ '' --role '' @ cli_word (rs_role st)"

definition rotation_failure :: "string \<Rightarrow> string \<Rightarrow> rotation_state \<Rightarrow> write_failure \<Rightarrow> command_error" where
  "rotation_failure verb what st f = WriteFailed (failure_message f what (read_before_retry verb st))"

definition realm_arg :: "string option \<Rightarrow> error + string" where
  "realm_arg realm =
     (let r = (case realm of None \<Rightarrow> ''alpha'' | Some r \<Rightarrow> r)
      in if r = ''alpha'' \<or> r = ''bravo'' then Inr r
         else Inl (Config (Said ''invalid realm; use alpha or bravo'')))"

definition rotating :: "rotation_state \<Rightarrow> error + consumer" where
  "rotating st = ok_or Panic (consumer_of st)"

definition key_for :: "rotation_state \<Rightarrow> key" where
  "key_for st =
     \<lparr>key_tenant = rs_tenant st, key_realm = rs_realm st, key_entity_id = rs_entity_id st,
      key_role = wire (rs_role st)\<rparr>"

text \<open>The journal's \<open>record\<close> and \<open>clear\<close>, on the files of the world.\<close>

definition journal_record :: "'w env \<Rightarrow> staged_record \<Rightarrow> stage_permit \<Rightarrow> ('w, unit) op" where
  "journal_record env entry permit =
     io_call (JournalPut entry) (\<lambda>w.
       case record_staged (env_encode env) (env_decode env) entry permit (env_files env w) of
         (r, fs) \<Rightarrow> (r, env_put_files env fs w))"

definition journal_clear :: "'w env \<Rightarrow> key \<Rightarrow> ('w, unit) op" where
  "journal_clear env k =
     io_call (JournalCleared k) (\<lambda>w.
       case clear_staged (env_encode env) (env_decode env) k (env_files env w) of
         (r, fs) \<Rightarrow> (r, env_put_files env fs w))"

definition settlement_error :: "string \<Rightarrow> error" where
  "settlement_error verb = Config (Said (''could not '' @ verb @ '' the change against the published metadata''))"

definition confirm_publication ::
  "'w env \<Rightarrow> tenant \<Rightarrow> string \<Rightarrow> string \<Rightarrow> rotation_state \<Rightarrow> string list \<Rightarrow> ('w, unit) wop" where
  "confirm_publication env t realm entity_id st expected =
     io_bind (io_map_err unverified (wait_for_export env t realm entity_id (rs_role st) expected))
       (\<lambda>settled.
          if settled \<noteq> SettledOn then io_fail (unverified (settlement_error ''confirm''))
          else io_return ())"

section \<open>status\<close>

definition rotate_status ::
  "'w env \<Rightarrow> tenant \<Rightarrow> string option \<Rightarrow> string \<Rightarrow> location option \<Rightarrow> role option \<Rightarrow>
   ('w, rotation_state \<times> phase \<times> consumers option) cmd" where
  "rotate_status env t realm_flag entity_id loc r =
     io_bind (check (realm_arg realm_flag)) (\<lambda>realm.
     io_bind (plain (read_state env t realm entity_id loc r)) (\<lambda>st.
     io_bind
       (case consumer_of st of
          Some mine \<Rightarrow>
            io_bind (plain (read_consumers env (ten_name t) mine (rs_mapped_alias st)))
              (\<lambda>cs. io_return (Some cs))
        | None \<Rightarrow> io_return None) (\<lambda>cs.
       io_return (st, phase st, cs))))"

section \<open>stage\<close>

definition rotate_stage ::
  "'w env \<Rightarrow> tenant \<Rightarrow> string option \<Rightarrow> string \<Rightarrow> location option \<Rightarrow> role option \<Rightarrow> key_pair \<Rightarrow>
   bool \<Rightarrow> bool \<Rightarrow> bool \<Rightarrow> ('w, unit) cmd" where
  "rotate_stage env t realm_flag entity_id loc r k dry_run yes forced =
     io_bind (check (realm_arg realm_flag)) (\<lambda>realm.
     io_bind (plain (read_state env t realm entity_id loc r)) (\<lambda>st.
     io_bind (check (plan_stage st k)) (\<lambda>plan.
     io_bind (check (rotating st)) (\<lambda>mine.
     io_bind (plain (read_consumers env (ten_name t) mine (Some (sp_secret_id plan)))) (\<lambda>cs.
     io_bind (check (exclusive_ok ''stage'' cs)) (\<lambda>exclusive.
     case authorize_stage dry_run exclusive of
       Preview \<Rightarrow> io_return ()
     | Send permit \<Rightarrow>
     io_bind (plain (ask_consent env forced)) (\<lambda>confirmed.
     io_bind (check (stage_ok confirmed plan st)) (\<lambda>_.
     io_bind (check (prod_write_ok (ten_theme t) yes)) (\<lambda>confirmed_prod.
     let adding = ''adding a version to ESV secret '' @ sp_secret_id plan in
     io_bind
       (io_map_err (rotation_failure ''stage'' adding st)
          (add_version env t st plan (kp_value k) confirmed_prod permit)) (\<lambda>created.
     io_bind
       (io_lift
          (map_err (rotation_failure ''stage'' adding st)
             (ok_or (unverified (Config (Said ''the response named no version number'')))
                (get_str created ''version'')))) (\<lambda>version.
     io_bind
       (io_map_err (rotation_failure ''stage'' adding st)
          (confirm_publication env t realm entity_id st (sp_expected plan))) (\<lambda>_.
     io_bind (io_look (\<lambda>w. (Inr (env_timestamp env w), w))) (\<lambda>now.
     io_map_err (StagedUnrecorded (sp_secret_id plan) version)
       (journal_record env
          \<lparr>rec_tenant = ten_name t, rec_realm = realm, rec_entity_id = entity_id,
           rec_role = wire (rs_role st),
           rec_identifier = (case rs_identifier st of None \<Rightarrow> [] | Some i \<Rightarrow> i),
           rec_secret_id = sp_secret_id plan, rec_version = version,
           rec_sha256 = kp_sha256 k, rec_staged_at = now\<rparr> permit))))))))))))))"

section \<open>complete\<close>

definition rotate_complete ::
  "'w env \<Rightarrow> tenant \<Rightarrow> string option \<Rightarrow> string \<Rightarrow> location option \<Rightarrow> role option \<Rightarrow> string option \<Rightarrow>
   string option \<Rightarrow> bool \<Rightarrow> bool \<Rightarrow> bool \<Rightarrow> ('w, unit) cmd" where
  "rotate_complete env t realm_flag entity_id loc r retain disable dry_run yes forced =
     io_bind (check (realm_arg realm_flag)) (\<lambda>realm.
     io_bind (plain (read_state env t realm entity_id loc r)) (\<lambda>st.
     io_bind (check (plan_complete st retain disable)) (\<lambda>plan.
     io_bind (check (rotating st)) (\<lambda>mine.
     io_bind (plain (read_consumers env (ten_name t) mine (Some (cp_secret_id plan)))) (\<lambda>cs.
     io_bind (check (exclusive_ok ''complete'' cs)) (\<lambda>exclusive.
     case authorize_complete dry_run exclusive of
       Preview \<Rightarrow> io_return ()
     | Send permit \<Rightarrow>
     io_bind (plain (ask_consent env forced)) (\<lambda>confirmed.
     io_bind (check (complete_ok confirmed plan st)) (\<lambda>_.
     io_bind (check (prod_write_ok (ten_theme t) yes)) (\<lambda>confirmed_prod.
     let disabling = ''disabling version '' @ cp_disable_version plan @ '' of ESV secret '' @
                     cp_secret_id plan in
     io_bind
       (io_map_err (rotation_failure ''complete'' disabling st)
          (disable_version env t st plan confirmed_prod permit)) (\<lambda>_.
     io_bind
       (io_map_err (\<lambda>e. rotation_failure ''complete'' disabling st (unverified e))
          (wait_for_export env t realm entity_id (rs_role st) [cp_retain plan])) (\<lambda>settled.
     if settled = SettledOn then plain (journal_clear env (key_for st))
     else io_fail
            (rotation_failure ''complete'' disabling st
               (unverified (settlement_error ''complete''))))))))))))))"

section \<open>init\<close>

definition default_description :: "rotation_state \<Rightarrow> string" where
  "default_description st =
     ''SAML '' @ role_descriptor (rs_role st) @ '' signing key for '' @ rs_entity_id st @
     '' - managed by `aic saml rotate`''"

definition rotate_init ::
  "'w env \<Rightarrow> tenant \<Rightarrow> string option \<Rightarrow> string \<Rightarrow> location option \<Rightarrow> role option \<Rightarrow> string \<Rightarrow> string \<Rightarrow>
   key_pair option \<Rightarrow> string option \<Rightarrow> bool \<Rightarrow> bool \<Rightarrow> bool \<Rightarrow> ('w, adoption_line list) cmd" where
  "rotate_init env t realm_flag entity_id loc r identifier secret_id k description dry_run yes forced =
     (if \<not> allows_secret_mappings t
      then io_fail (Plain (Config (Said ''secret mappings are only edited on sandbox/development tenants'')))
      else
     io_bind (check (realm_arg realm_flag)) (\<lambda>realm.
     io_bind (plain (read_state env t realm entity_id loc r)) (\<lambda>st.
     io_bind (check (validate_identifier identifier)) (\<lambda>ident.
     io_bind (plain (mapping_alias env (ten_name t) realm (signing_label ident))) (\<lambda>label_mapping.
     io_bind (plain (secret_facts env (ten_name t) secret_id)) (\<lambda>existing_secret.
     io_bind (check (plan_init st identifier secret_id label_mapping existing_secret k)) (\<lambda>plan.
     let mine = \<lparr>con_realm = realm, con_entity_id = rs_entity_id st, con_location = rs_location st,
                 con_role = rs_role st, con_label = ip_label plan\<rparr> in
     io_bind (plain (read_consumers env (ten_name t) mine (Some (ip_secret_id plan)))) (\<lambda>cs.
     io_bind (check (exclusive_ok ''init'' cs)) (\<lambda>exclusive.
     if is_noop plan then
       io_bind (plain (wait_for_any_cert env t realm entity_id (rs_role st))) (\<lambda>seen.
         check (adoption_outcome st (ip_secret_id plan) seen (map_option kp_sha256 k) AlreadyDone))
     else
     case authorize_init dry_run exclusive of
       Preview \<Rightarrow> io_return []
     | Send permit \<Rightarrow>
     io_bind (plain (ask_consent env forced)) (\<lambda>confirmed.
     io_bind (check (init_ok confirmed plan st)) (\<lambda>_.
     io_bind (check (prod_write_ok (ten_theme t) yes)) (\<lambda>confirmed_prod.
     io_bind
       (io_map_err InitFailed
          (apply_init env t st plan
             \<lparr>in_mine = mine, in_key = k,
              in_description =
                (case description of None \<Rightarrow> default_description st | Some d \<Rightarrow> d),
              in_planned_mapping = label_mapping\<rparr> confirmed_prod permit)) (\<lambda>_.
     if ip_create_secret plan then
       io_bind (check (ok_or Panic k)) (\<lambda>pair.
       io_bind
         (io_map_err (rotation_failure ''init'' ''this init run'' st)
            (confirm_publication env t realm entity_id st [kp_sha256 pair])) (\<lambda>_. io_return []))
     else
       io_bind
         (io_map_err (\<lambda>e. rotation_failure ''init'' ''this init run'' st (unverified e))
            (wait_for_any_cert env t realm entity_id (rs_role st))) (\<lambda>seen.
       io_lift
         (map_err (\<lambda>e. rotation_failure ''init'' ''this init run'' st (unverified e))
            (adoption_outcome st (ip_secret_id plan) seen (map_option kp_sha256 k) Applied))))))))))))))))"

end
