(* ===== verification/Rotation_Cli_Facts.thy ===== *)
theory Rotation_Cli_Facts
  imports Rotation_Cli
begin

text \<open>
  What the rotation commands guarantee as a whole: without permission they send nothing but reads
  and the prompt; \<open>stage\<close> records a rollover only when the export it has just read publishes exactly
  the two certificates; \<open>complete\<close> forgets it only when the export publishes the retained one alone.
\<close>

section \<open>No permission, no write\<close>

lemma emits_check [emits_intros]: "emits P (check r)"
  unfolding check_def by (rule emits_lift)

lemma check_Inl [simp]: "io_bind (check (Inl e)) f = io_fail (Plain e)"
  by (simp add: check_def fun_eq_iff io_bind_def io_lift_def io_fail_def)

lemma check_Inr: "check r s = (Inr x, s') \<longleftrightarrow> r = Inr x \<and> s' = s"
  by (cases r) (auto simp: check_def)

lemma plain_Inr: "plain m s = (Inr x, s') \<longleftrightarrow> m s = (Inr x, s')"
  by (auto simp: io_map_err_Pair)

text \<open>
  The gate all three write verbs share: consent, the verb's own refusal without it, and the
  production gate. What follows it runs only with permission.
\<close>

lemma emits_gate:
  assumes denied: "\<not> permitted env t False yes forced"
    and refuses: "ok False \<noteq> Inr ()"
  shows "emits harmless
    (io_bind (plain (ask_consent env forced)) (\<lambda>confirmed.
     io_bind (check (ok confirmed)) (\<lambda>_.
     io_bind (check (prod_write_ok (ten_theme t) yes)) f)))"
proof (rule emits_bind_dep)
  show "emits harmless (plain (ask_consent env forced))"
    by (intro emits_map_err emits_ask)
next
  fix confirmed s s'
  assume "plain (ask_consent env forced) s = (Inr confirmed, s')"
  then have asked: "ask_consent env forced s = (Inr confirmed, s')" by (simp only: plain_Inr)
  show "emits harmless (io_bind (check (ok confirmed)) (\<lambda>_.
      io_bind (check (prod_write_ok (ten_theme t) yes)) f))"
  proof (cases confirmed)
    case False
    with refuses obtain e where "ok confirmed = Inl e" by (cases "ok False") auto
    then show ?thesis by (simp add: emits_fail)
  next
    case True
    with asked have "forced \<or> env_prompt_available env \<and> (\<exists>w. fst (env_ask env w) = Inr True)"
      by (auto dest: ask_consent_Inr)
    with denied have "ten_theme t = Production \<and> \<not> yes" by (auto simp: permitted_def)
    then have "prod_write_ok (ten_theme t) yes =
        Inl (Config (Said ''tenant is production - re-run with --yes to confirm the write''))"
      by (simp add: prod_write_ok_def)
    then have "emits harmless (io_bind (check (prod_write_ok (ten_theme t) yes)) f)"
      by (simp add: emits_fail)
    then show ?thesis by (rule emits_bind [OF emits_check])
  qed
qed

lemma emits_plain_reads: "emits is_read m \<Longrightarrow> emits harmless (plain m)"
  by (intro emits_map_err emits_reads_harmless)

lemma reads_read_consumers: "emits is_read (read_consumers env t mine ident)"
  unfolding read_consumers_def by (intro emits_intros reads)

lemma stage_harmless:
  assumes "\<not> permitted env t dry_run yes forced"
  shows "emits harmless (rotate_stage env t realm entity_id loc r k dry_run yes forced)"
  unfolding rotate_stage_def
  apply (intro emits_bind emits_check emits_plain_reads reads_read_state reads_read_consumers)
  subgoal for x st plan mine cs exclusive
    using assms
    by (cases dry_run) (simp_all add: authorize_stage_def emits_return emits_gate stage_ok_def)
  done

lemma complete_harmless:
  assumes "\<not> permitted env t dry_run yes forced"
  shows "emits harmless (rotate_complete env t realm entity_id loc r retain disable dry_run yes forced)"
  unfolding rotate_complete_def
  apply (intro emits_bind emits_check emits_plain_reads reads_read_state reads_read_consumers)
  subgoal for x st plan mine cs exclusive
    using assms
    by (cases dry_run) (simp_all add: authorize_complete_def emits_return emits_gate complete_ok_def)
  done

lemma init_harmless:
  assumes "\<not> permitted env t dry_run yes forced"
  shows "emits harmless
    (rotate_init env t realm entity_id loc r identifier secret_id k description dry_run yes forced)"
proof (cases "allows_secret_mappings t")
  case False
  then show ?thesis by (simp add: rotate_init_def emits_fail)
next
  case True
  then show ?thesis
    unfolding rotate_init_def Let_def
    apply simp
    apply (intro emits_bind emits_check emits_plain_reads reads reads_read_state reads_read_consumers)
    subgoal for x st ident label_mapping existing plan cs exclusive
      using assms
      by (cases dry_run; cases "is_noop plan")
        (simp_all add: authorize_init_def emits_return emits_gate init_ok_def emits_bind emits_check
          emits_plain_reads reads_wait)
    done
qed

section \<open>The journal is written last\<close>

definition is_journal :: "event \<Rightarrow> bool" where
  "is_journal ev = (case ev of JournalPut _ \<Rightarrow> True | JournalCleared _ \<Rightarrow> True | _ \<Rightarrow> False)"

abbreviation quiet :: "event \<Rightarrow> bool" where
  "quiet ev \<equiv> \<not> is_journal ev"

text \<open>
  \<open>journals_last P m\<close>: a run of \<open>m\<close> changes the journal in its last event or not at all, and the
  state that event starts from satisfies \<open>P\<close>.
\<close>

definition journals_last ::
  "(event \<Rightarrow> ('w, event) sess \<Rightarrow> bool) \<Rightarrow> ('w, event, 'e, 'a) io \<Rightarrow> bool" where
  "journals_last P m \<longleftrightarrow>
     (\<forall>s r s'. m s = (r, s') \<longrightarrow>
        (\<exists>es. sent s' = sent s @ es \<and>
           (list_all quiet es \<or>
            (\<exists>pre ev s2. es = pre @ [ev] \<and> list_all quiet pre \<and> is_journal ev \<and>
               sent s2 = sent s @ pre \<and> P ev s2))))"

lemma journals_lastD:
  "journals_last P m \<Longrightarrow> m s = (r, s') \<Longrightarrow>
   \<exists>es. sent s' = sent s @ es \<and>
     (list_all quiet es \<or>
      (\<exists>pre ev s2. es = pre @ [ev] \<and> list_all quiet pre \<and> is_journal ev \<and>
         sent s2 = sent s @ pre \<and> P ev s2))"
  unfolding journals_last_def by (elim allE impE)

lemma journals_last_quiet: "emits quiet m \<Longrightarrow> journals_last P m"
  unfolding journals_last_def by (auto dest!: emits_log)

lemma journals_last_bind:
  assumes "emits quiet m" and "\<And>x s s'. m s = (Inr x, s') \<Longrightarrow> journals_last P (f x)"
  shows "journals_last P (io_bind m f)"
  unfolding journals_last_def
proof (intro allI impI)
  fix s r s'
  assume run: "io_bind m f s = (r, s')"
  obtain q s1 where m: "m s = (q, s1)" by (cases "m s")
  from emits_log [OF assms(1) m] obtain es where es: "sent s1 = sent s @ es" "list_all quiet es"
    by blast
  show "\<exists>es. sent s' = sent s @ es \<and> (list_all quiet es \<or>
      (\<exists>pre ev s2. es = pre @ [ev] \<and> list_all quiet pre \<and> is_journal ev \<and> sent s2 = sent s @ pre \<and> P ev s2))"
  proof (cases q)
    case (Inl e)
    with run m es show ?thesis by (auto simp: io_bind_def)
  next
    case (Inr x)
    with run m have "f x s1 = (r, s')" by (simp add: io_bind_def)
    from journals_lastD [OF assms(2) this] m Inr obtain es' where es': "sent s' = sent s1 @ es'"
      and cases: "list_all quiet es' \<or> (\<exists>pre ev s2. es' = pre @ [ev] \<and> list_all quiet pre \<and>
        is_journal ev \<and> sent s2 = sent s1 @ pre \<and> P ev s2)" by blast
    from cases show ?thesis
    proof (elim disjE exE conjE)
      assume "list_all quiet es'"
      with es es' show ?thesis by (intro exI [of _ "es @ es'"]) simp
    next
      fix pre ev s2
      assume "es' = pre @ [ev]" "list_all quiet pre" "is_journal ev" "sent s2 = sent s1 @ pre" "P ev s2"
      with es es' show ?thesis
        by (intro exI [of _ "es @ es'"] conjI disjI2 exI [of _ "es @ pre"] exI [of _ ev] exI [of _ s2])
          simp_all
    qed
  qed
qed

text \<open>The last step: what a wait leaves is what the journal event starts from.\<close>

lemma journals_last_after:
  assumes "emits quiet m" and "\<And>x s1 s2. m s1 = (Inr x, s2) \<Longrightarrow> P (ev x) s2"
    and "\<And>x. is_journal (ev x)"
  shows "journals_last P (io_bind m (\<lambda>x. io_map_err g (io_call (ev x) (h x))))"
  unfolding journals_last_def
proof (intro allI impI)
  fix s r s'
  assume run: "io_bind m (\<lambda>x. io_map_err g (io_call (ev x) (h x))) s = (r, s')"
  obtain q s1 where m: "m s = (q, s1)" by (cases "m s")
  from emits_log [OF assms(1) m] obtain es where es: "sent s1 = sent s @ es" "list_all quiet es"
    by blast
  show "\<exists>es. sent s' = sent s @ es \<and> (list_all quiet es \<or>
      (\<exists>pre ev s2. es = pre @ [ev] \<and> list_all quiet pre \<and> is_journal ev \<and> sent s2 = sent s @ pre \<and> P ev s2))"
  proof (cases q)
    case (Inl e)
    with run m es show ?thesis by (auto simp: io_bind_def)
  next
    case (Inr x)
    with run m have "sent s' = sent s1 @ [ev x]" by (auto simp: io_pairs)
    moreover have "P (ev x) s1" using assms(2) m Inr by blast
    ultimately show ?thesis
      using es assms(3) [of x]
      by (intro exI [of _ "es @ [ev x]"] conjI disjI2 exI [of _ es] exI [of _ "ev x"] exI [of _ s1])
        simp_all
  qed
qed

lemma call_quiet: "is_read ev \<or> is_write ev \<Longrightarrow> quiet ev"
  by (cases ev) (simp_all add: is_read_def is_write_def is_journal_def)

lemma emits_reads_quiet: "emits is_read m \<Longrightarrow> emits quiet m"
  by (erule emits_mono) (simp add: call_quiet)

lemma emits_plain_quiet: "emits is_read m \<Longrightarrow> emits quiet (io_map_err g m)"
  by (intro emits_map_err emits_reads_quiet)

lemma emits_ask_quiet: "emits quiet (plain (ask_consent env forced))"
  by (intro emits_map_err emits_mono [OF emits_ask])
    (auto simp: harmless_def is_journal_def is_read_def split: event.splits)

lemma emits_guarded_send_quiet:
  assumes "emits is_read guard"
  shows "emits quiet (io_bind (io_map_err f guard) (\<lambda>minted. io_map_err g (send env c)))"
  by (intro emits_bind emits_map_err emits_send emits_reads_quiet assms) (simp add: is_journal_def)

lemma emits_add_version_quiet: "emits quiet (add_version env t st plan value confirmed permit)"
  unfolding add_version_def send_version_def create_secret_version_def api_post_def
  by (rule emits_guarded_send_quiet [OF reads_recheck])

lemma emits_disable_version_quiet: "emits quiet (disable_version env t st plan confirmed permit)"
  unfolding disable_version_def send_disable_def change_version_status_def api_post_def
  by (rule emits_guarded_send_quiet [OF reads_recheck])

lemma reads_confirm: "emits is_read (confirm_publication env t realm e st expected)"
  unfolding confirm_publication_def by (auto intro!: emits_intros reads_wait)

lemma confirm_publication_Inr:
  assumes "confirm_publication env t realm e st expected s = (Inr (), s')"
  shows "\<exists>s1 certs. cert_refs env t realm e s1 = (Inr certs, s') \<and>
    role_signing certs (rs_role st) = expected"
proof -
  from assms have "wait_for_export env t realm e (rs_role st) expected s = (Inr SettledOn, s')"
    by (auto simp: confirm_publication_def io_bind_Inr io_map_err_Pair split: if_splits)
  then show ?thesis by (rule wait_for_export_SettledOn)
qed

section \<open>stage and complete\<close>

text \<open>
  The state a rollover is recorded in: the state was read and planned from, the version added, and
  the export read last publishes exactly the planned certificates; the record names the planned
  secret, the version the tenant answered with and the incoming certificate.
\<close>

definition stage_recorded ::
  "'w env \<Rightarrow> tenant \<Rightarrow> string \<Rightarrow> location option \<Rightarrow> role option \<Rightarrow> key_pair \<Rightarrow> event \<Rightarrow>
   ('w, event) sess \<Rightarrow> bool" where
  "stage_recorded env t entity_id loc r k ev s2 \<longleftrightarrow>
     (\<exists>st plan realm certs s1 entry.
        ev = JournalPut entry \<and>
        (\<exists>s0 s0'. read_state env t realm entity_id loc r s0 = (Inr st, s0')) \<and>
        plan_stage st k = Inr plan \<and>
        (\<exists>b s3 s3' created. add_version env t st plan (kp_value k) b StagePermit s3 = (Inr created, s3') \<and>
           get_str created ''version'' = Some (rec_version entry)) \<and>
        rec_tenant entry = ten_name t \<and> rec_role entry = wire (rs_role st) \<and>
        cert_refs env t realm entity_id s1 = (Inr certs, s2) \<and>
        role_signing certs (rs_role st) = sp_expected plan \<and>
        rec_realm entry = realm \<and> rec_entity_id entry = entity_id \<and>
        rec_secret_id entry = sp_secret_id plan \<and> rec_sha256 entry = kp_sha256 k)"

definition complete_cleared ::
  "'w env \<Rightarrow> tenant \<Rightarrow> string \<Rightarrow> location option \<Rightarrow> role option \<Rightarrow> string option \<Rightarrow> string option \<Rightarrow>
   event \<Rightarrow> ('w, event) sess \<Rightarrow> bool" where
  "complete_cleared env t entity_id loc r retain disable ev s2 \<longleftrightarrow>
     (\<exists>st plan realm certs s1.
        ev = JournalCleared \<lparr>key_tenant = ten_name t, key_realm = realm,
               key_entity_id = entity_id, key_role = wire (rs_role st)\<rparr> \<and>
        (\<exists>s0 s0'. read_state env t realm entity_id loc r s0 = (Inr st, s0')) \<and>
        plan_complete st retain disable = Inr plan \<and>
        (\<exists>b s3 s3' x. disable_version env t st plan b CompletePermit s3 = (Inr x, s3')) \<and>
        cert_refs env t realm entity_id s1 = (Inr certs, s2) \<and>
        role_signing certs (rs_role st) = [cp_retain plan])"

lemma read_state_ids:
  assumes "read_state env t realm e loc r s = (Inr st, s')"
  shows "rs_tenant st = ten_name t \<and> rs_realm st = realm \<and> rs_entity_id st = e"
proof -
  have "yields (\<lambda>st. rs_tenant st = ten_name t \<and> rs_realm st = realm \<and> rs_entity_id st = e)
      (read_state env t realm e loc r)"
    unfolding read_state_def Let_def
    by (intro yields_bind_any) (auto split: prod.splits intro!: yields_bind_any yields_return)
  with assms show ?thesis unfolding yields_def by blast
qed

lemma stage_recordedI:
  assumes "read_state env t realm entity_id loc r s0 = (Inr st, s0')" and "plan_stage st k = Inr plan"
    and "add_version env t st plan (kp_value k) b StagePermit s3 = (Inr created, s3')"
    and "get_str created ''version'' = Some (rec_version entry)"
    and "cert_refs env t realm entity_id s1 = (Inr certs, s2)"
    and "role_signing certs (rs_role st) = sp_expected plan"
    and "rec_tenant entry = ten_name t" "rec_role entry = wire (rs_role st)" "rec_realm entry = realm"
    "rec_entity_id entry = entity_id" "rec_secret_id entry = sp_secret_id plan"
    "rec_sha256 entry = kp_sha256 k"
  shows "stage_recorded env t entity_id loc r k (JournalPut entry) s2"
  unfolding stage_recorded_def using assms by blast

lemma complete_clearedI:
  assumes "read_state env t realm entity_id loc r s0 = (Inr st, s0')"
    and "plan_complete st retain disable = Inr plan"
    and "disable_version env t st plan b CompletePermit s3 = (Inr x, s3')"
    and "cert_refs env t realm entity_id s1 = (Inr certs, s2)"
    and "role_signing certs (rs_role st) = [cp_retain plan]"
  shows "complete_cleared env t entity_id loc r retain disable (JournalCleared (key_for st)) s2"
proof -
  have "key_for st = \<lparr>key_tenant = ten_name t, key_realm = realm, key_entity_id = entity_id,
      key_role = wire (rs_role st)\<rparr>"
    using read_state_ids [OF assms(1)] by (simp add: key_for_def)
  then show ?thesis unfolding complete_cleared_def using assms by blast
qed

lemma io_bind_assoc: "io_bind m (\<lambda>x. io_bind (f x) g) = io_bind (io_bind m f) g"
  by (auto simp: fun_eq_iff io_bind_def split: prod.splits sum.splits)

lemma emits_check_quiet: "emits quiet (check r)"
  by (rule emits_check)

lemma stage_journals_last:
  "journals_last (stage_recorded env t entity_id loc r k)
     (rotate_stage env t realm_flag entity_id loc r k dry_run yes forced)"
  unfolding rotate_stage_def
  apply (rule journals_last_bind [OF emits_check_quiet])
  subgoal for realm
    apply (rule journals_last_bind [OF emits_plain_quiet [OF reads_read_state]])
    subgoal for st s0 s0'
      apply (rule journals_last_bind [OF emits_check_quiet])
      subgoal for plan s s'
        apply (rule journals_last_bind [OF emits_check_quiet])
        apply (rule journals_last_bind [OF emits_plain_quiet [OF reads_read_consumers]])
        apply (rule journals_last_bind [OF emits_check_quiet])
        apply (cases dry_run)
         apply (simp add: authorize_stage_def journals_last_quiet [OF emits_return])
        apply (simp add: authorize_stage_def Let_def)
        apply (rule journals_last_bind [OF emits_ask_quiet])
        apply (rule journals_last_bind [OF emits_check_quiet])
        apply (rule journals_last_bind [OF emits_check_quiet])
        apply (rule journals_last_bind [OF emits_map_err [OF emits_add_version_quiet]])
        apply (rule journals_last_bind [OF emits_lift])
        apply (subst io_bind_assoc)
        unfolding journal_record_def
        apply (rule journals_last_after)
        subgoal by (intro emits_bind emits_plain_quiet reads_confirm emits_look)
        subgoal
          by (auto simp: io_bind_Inr io_map_err_Pair io_look_Pair check_Inr
              dest!: confirm_publication_Inr intro: stage_recordedI)
        subgoal by (simp add: is_journal_def)
        done
      done
    done
  done

lemma io_bind_if_fail:
  "io_bind m (\<lambda>x. if c x then k else io_fail e) =
   io_bind (io_bind m (\<lambda>x. if c x then io_return () else io_fail e)) (\<lambda>_. k)"
  by (auto simp: fun_eq_iff io_bind_def io_return_def io_fail_def split: prod.splits sum.splits)

lemma complete_journals_last:
  "journals_last (complete_cleared env t entity_id loc r retain disable)
     (rotate_complete env t realm_flag entity_id loc r retain disable dry_run yes forced)"
  unfolding rotate_complete_def
  apply (rule journals_last_bind [OF emits_check_quiet])
  subgoal for realm
    apply (rule journals_last_bind [OF emits_plain_quiet [OF reads_read_state]])
    subgoal for st s0 s0'
      apply (rule journals_last_bind [OF emits_check_quiet])
      subgoal for plan s s'
        apply (rule journals_last_bind [OF emits_check_quiet])
        apply (rule journals_last_bind [OF emits_plain_quiet [OF reads_read_consumers]])
        apply (rule journals_last_bind [OF emits_check_quiet])
        apply (cases dry_run)
         apply (simp add: authorize_complete_def journals_last_quiet [OF emits_return])
        apply (simp add: authorize_complete_def Let_def)
        apply (rule journals_last_bind [OF emits_ask_quiet])
        apply (rule journals_last_bind [OF emits_check_quiet])
        apply (rule journals_last_bind [OF emits_check_quiet])
        apply (rule journals_last_bind [OF emits_map_err [OF emits_disable_version_quiet]])
        unfolding journal_clear_def
        apply (subst io_bind_if_fail)
        apply (rule journals_last_after)
        subgoal by (auto intro!: emits_bind emits_plain_quiet reads_wait emits_return emits_fail)
        subgoal
          by (auto simp: io_bind_Inr io_map_err_Pair check_Inr
              dest!: wait_for_export_SettledOn split: if_splits intro: complete_clearedI)
        subgoal by (simp add: is_journal_def)
        done
      done
    done
  done

section \<open>Properties\<close>

lemma stage_recorded_event: "stage_recorded env t entity_id loc r k ev s2 \<Longrightarrow> \<exists>x. ev = JournalPut x"
  unfolding stage_recorded_def by blast

lemma complete_cleared_event:
  "complete_cleared env t entity_id loc r retain disable ev s2 \<Longrightarrow> \<exists>x. ev = JournalCleared x"
  unfolding complete_cleared_def by blast

lemma journals_last_run:
  assumes last: "journals_last P m" and event: "\<And>ev s2. P ev s2 \<Longrightarrow> \<exists>x. ev = f x"
  shows "\<exists>es. sent (snd (m s)) = sent s @ es \<and>
    (list_all quiet es \<or>
     (\<exists>pre x s2. es = pre @ [f x] \<and> list_all quiet pre \<and> sent s2 = sent s @ pre \<and> P (f x) s2))"
proof -
  obtain r s' where run: "m s = (r, s')" by (cases "m s")
  from journals_lastD [OF last run] obtain es where es: "sent s' = sent s @ es"
    and ends: "list_all quiet es \<or>
      (\<exists>pre ev s2. es = pre @ [ev] \<and> list_all quiet pre \<and> is_journal ev \<and>
         sent s2 = sent s @ pre \<and> P ev s2)" by blast
  from ends show ?thesis
  proof (elim disjE exE conjE)
    assume "list_all quiet es"
    with es run show ?thesis by auto
  next
    fix pre ev s2
    assume *: "es = pre @ [ev]" "list_all quiet pre" "sent s2 = sent s @ pre" "P ev s2"
    from event [OF *(4)] obtain x where "ev = f x" ..
    with * es run show ?thesis
      by (intro exI [of _ es] conjI disjI2 exI [of _ pre] exI [of _ x] exI [of _ s2]) simp_all
  qed
qed

text \<open>C1: no permission, no write. In a dry run, without \<open>--force\<close> and a granted prompt, or on a
  production tenant without \<open>--yes\<close>, each of \<open>stage\<close>, \<open>complete\<close> and \<open>init\<close> sends nothing but
  reads and the prompt itself: no write, and no change to the journal.\<close>

theorem no_permission_no_write:
  assumes "\<not> permitted env t dry_run yes forced"
  shows "(\<exists>es. sent (snd (rotate_stage env t realm e loc r k dry_run yes forced s)) = sent s @ es \<and>
      list_all harmless es) \<and>
    (\<exists>es. sent (snd (rotate_complete env t realm e loc r retain disable dry_run yes forced s)) =
        sent s @ es \<and> list_all harmless es) \<and>
    (\<exists>es. sent (snd (rotate_init env t realm e loc r ident secret_id key desc dry_run yes forced s)) =
        sent s @ es \<and> list_all harmless es)"
  by (intro conjI stage_harmless [OF assms, unfolded emits_def, THEN spec]
      complete_harmless [OF assms, unfolded emits_def, THEN spec]
      init_harmless [OF assms, unfolded emits_def, THEN spec])

theorem no_permission_no_write_witness:
  "\<exists>es. sent (snd (rotate_stage clock_env plain_tenant None ''e'' None None sample_pair True True True
      \<lparr>world = 0, sent = []\<rparr>)) = es \<and> list_all harmless es"
proof -
  have "\<not> permitted clock_env plain_tenant True True True" by (simp add: permitted_def)
  from no_permission_no_write [OF this, where s = "\<lparr>world = 0, sent = []\<rparr>"] show ?thesis by auto
qed

text \<open>C7: \<open>stage\<close> records a rollover last, and only a proven one. A run changes the journal in its last
  event or not at all; when it does, the state it planned from was read in this tenant, the version it
  records is the one the tenant answered the accepted write with, and the export read just before
  publishes exactly the retained and the incoming certificate.\<close>

theorem stage_records_proven_rollover:
  "\<exists>es. sent (snd (rotate_stage env t realm e loc r k dry_run yes forced s)) = sent s @ es \<and>
     (list_all quiet es \<or>
      (\<exists>pre entry s2. es = pre @ [JournalPut entry] \<and> list_all quiet pre \<and> sent s2 = sent s @ pre \<and>
         stage_recorded env t e loc r k (JournalPut entry) s2))"
  by (rule journals_last_run [OF stage_journals_last stage_recorded_event])

text \<open>C9: \<open>complete\<close> forgets a rollover last, and only when it is over. A run changes the journal in its
  last event or not at all; when it does, it clears this entity and role's own record, the version the
  plan names has been disabled, and the export read just before publishes the retained certificate
  and no other.\<close>

theorem complete_clears_finished_rollover:
  "\<exists>es. sent (snd (rotate_complete env t realm e loc r retain disable dry_run yes forced s)) = sent s @ es \<and>
     (list_all quiet es \<or>
      (\<exists>pre k s2. es = pre @ [JournalCleared k] \<and> list_all quiet pre \<and> sent s2 = sent s @ pre \<and>
         complete_cleared env t e loc r retain disable (JournalCleared k) s2))"
  by (rule journals_last_run [OF complete_journals_last complete_cleared_event])

end
