(* ===== verification/Promotion_Spec.thy ===== *)
theory Promotion_Spec
  imports Saml_Types
begin

text \<open>
  The tenant-free half of \<open>aic promotion\<close> (\<open>src/src/promotion/spec.rs\<close>): decoding the lock state and
  the promotion status of an environment pair, where the two describe the lock differently, what a
  failed promotion call means, and the summary of a promotion report.

  A message the code builds with \<open>format!\<close> is a constructor of \<open>reason\<close> or \<open>difference\<close> that carries
  the values it interpolates. The encoder of a URL path segment is a library function, the
  parameter \<open>enc\<close>.
\<close>

section \<open>Reports to read\<close>

datatype which_report = Latest | ReportId string | Provisional

definition which_path :: "(string \<Rightarrow> string) \<Rightarrow> which_report \<Rightarrow> string" where
  "which_path enc w =
     (case w of
        Latest \<Rightarrow> ''/environment/promotion/report''
      | Provisional \<Rightarrow> ''/environment/promotion/report/provisional''
      | ReportId i \<Rightarrow> ''/environment/promotion/report/'' @ enc i)"

section \<open>Decoding\<close>

record env_lock =
  el_state :: string
  el_proxy_state :: "string option"

record lock_state =
  ls_result :: string
  ls_description :: "string option"
  ls_lower :: "env_lock option"
  ls_upper :: "env_lock option"

record promotion_status =
  ps_status :: string
  ps_message :: "string option"
  ps_global_lock :: "string option"
  ps_blocking_error :: "bool option"
  ps_timestamp :: "string option"
  ps_promotion_id :: "string option"

datatype difference =
    LockVersusStatus string string "string option"
  | GlobalVersusLock string string
  | SideDiffers string string
  | ProxyDiffers string string string

record assessment =
  as_lock :: lock_state
  as_status :: promotion_status
  as_disagreements :: "difference list"

datatype (plugins only: code size) reason =
    NotAString string json
  | NotABoolean string json
  | NoString string json
  | NoReportObject
  | SectionNotArray string
  | NoConfigItem string json
  | NoConfigChange string string
  | ChangeNotArray string string string
  | EntryUnnamed string string json

definition opt_text :: "json \<Rightarrow> string \<Rightarrow> reason + string option" where
  "opt_text v k =
     (case json_get v k of
        None \<Rightarrow> Inr None
      | Some JNull \<Rightarrow> Inr None
      | Some (JStr s) \<Rightarrow> Inr (Some s)
      | Some other \<Rightarrow> Inl (NotAString k other))"

definition opt_bool :: "json \<Rightarrow> string \<Rightarrow> reason + bool option" where
  "opt_bool v k =
     (case json_get v k of
        None \<Rightarrow> Inr None
      | Some JNull \<Rightarrow> Inr None
      | Some (JBool b) \<Rightarrow> Inr (Some b)
      | Some other \<Rightarrow> Inl (NotABoolean k other))"

definition env_side :: "json \<Rightarrow> string \<Rightarrow> reason + env_lock option" where
  "env_side v k =
     (case json_get v k of
        None \<Rightarrow> Inr None
      | Some JNull \<Rightarrow> Inr None
      | Some side \<Rightarrow>
          res_bind (ok_or (NoString ''state'' side) (get_str side ''state'')) (\<lambda>st.
          res_bind (opt_text side ''proxyState'') (\<lambda>proxy.
            Inr (Some \<lparr>el_state = st, el_proxy_state = proxy\<rparr>))))"

definition lock_state :: "json \<Rightarrow> reason + lock_state" where
  "lock_state v =
     res_bind (ok_or (NoString ''result'' v) (get_str v ''result'')) (\<lambda>result.
     res_bind (opt_text v ''description'') (\<lambda>description.
     res_bind (env_side v ''lowerEnv'') (\<lambda>lower.
     res_bind (env_side v ''upperEnv'') (\<lambda>upper.
       Inr \<lparr>ls_result = result, ls_description = description, ls_lower = lower, ls_upper = upper\<rparr>))))"

definition promotion_status :: "json \<Rightarrow> reason + promotion_status" where
  "promotion_status v =
     res_bind (ok_or (NoString ''status'' v) (get_str v ''status'')) (\<lambda>st.
     res_bind (opt_text v ''message'') (\<lambda>message.
     res_bind (opt_text v ''globalLock'') (\<lambda>global.
     res_bind (opt_bool v ''blockingError'') (\<lambda>blocking.
     res_bind (opt_text v ''timeStamp'') (\<lambda>stamp.
     res_bind (opt_text v ''promotionId'') (\<lambda>pid.
       Inr \<lparr>ps_status = st, ps_message = message, ps_global_lock = global,
            ps_blocking_error = blocking, ps_timestamp = stamp, ps_promotion_id = pid\<rparr>))))))"

section \<open>Where the sources differ\<close>

text \<open>\<open>same\<close> here and \<open>is\<close> in \<open>lifecycle.rs\<close>.\<close>

definition same :: "string \<Rightarrow> string \<Rightarrow> bool" where
  "same a b = eq_ignore_ascii_case a b"

definition side_disagreements :: "lock_state \<Rightarrow> string \<times> env_lock option \<Rightarrow> difference list" where
  "side_disagreements lock named =
     (case named of
        (name, None) \<Rightarrow> []
      | (name, Some side) \<Rightarrow>
          (if \<not> same (el_state side) (ls_result lock) then [SideDiffers name (el_state side)] else []) @
          (case el_proxy_state side of
             None \<Rightarrow> []
           | Some proxy \<Rightarrow>
               if \<not> same proxy (el_state side) then [ProxyDiffers name proxy (el_state side)] else []))"

definition disagreements :: "lock_state \<Rightarrow> promotion_status \<Rightarrow> difference list" where
  "disagreements lock st =
     (let ready_over_lock = (same (ls_result lock) ''locked'' \<and> same (ps_status st) ''READY'')
      in (if \<not> same (ls_result lock) (ps_status st) \<and> \<not> ready_over_lock
          then [LockVersusStatus (ls_result lock) (ps_status st) (ps_message st)] else []) @
         (case ps_global_lock st of
            None \<Rightarrow> []
          | Some global \<Rightarrow>
              if \<not> same global (ls_result lock) then [GlobalVersusLock global (ls_result lock)] else []) @
         concat (map (side_disagreements lock) [(''lower'', ls_lower lock), (''upper'', ls_upper lock)]))"

definition blocking :: "assessment \<Rightarrow> bool" where
  "blocking a = (ps_blocking_error (as_status a) = Some True)"

definition assessment_ok :: "assessment \<Rightarrow> bool" where
  "assessment_ok a = (as_disagreements a = [] \<and> \<not> blocking a)"

definition assess :: "json \<Rightarrow> json \<Rightarrow> reason + assessment" where
  "assess lock_raw status_raw =
     res_bind (lock_state lock_raw) (\<lambda>lock.
     res_bind (promotion_status status_raw) (\<lambda>st.
       Inr \<lparr>as_lock = lock, as_status = st, as_disagreements = disagreements lock st\<rparr>))"

datatype explanation = NoPromotionScope string | NoPromotionService string | NoPromotionReport string

definition explain :: "error \<Rightarrow> string \<Rightarrow> explanation option" where
  "explain e tenant =
     (case e of
        Api st body \<Rightarrow>
          if st = 403 \<and> str_contains body ''sufficient scope'' then Some (NoPromotionScope tenant)
          else if st = 503 then Some (NoPromotionService tenant)
          else if st = 404 \<and> str_contains body ''No latest report'' then Some (NoPromotionReport tenant)
          else None
      | _ \<Rightarrow> None)"

section \<open>The summary of a report\<close>

record report_group =
  rg_section :: string
  rg_item :: string
  rg_change :: string
  rg_names :: "string list"

definition entry_label :: "string \<Rightarrow> string \<Rightarrow> json \<Rightarrow> reason + string" where
  "entry_label sect item entry =
     res_bind (ok_or (EntryUnnamed sect item entry) (get_str entry ''name'')) (\<lambda>lbl.
       Inr (case get_str entry ''realm'' of
              Some realm \<Rightarrow> lbl @ '' ('' @ realm @ '')''
            | None \<Rightarrow> lbl))"

definition summarise_item :: "string \<Rightarrow> json \<Rightarrow> reason + report_group list" where
  "summarise_item sect item =
     res_bind (ok_or (NoConfigItem sect item) (get_str item ''configItem'')) (\<lambda>name.
     res_bind (ok_or (NoConfigChange sect name) (Option.bind (json_get item ''configChange'') as_object))
       (res_mapM (\<lambda>(change, entries).
          res_bind (ok_or (ChangeNotArray sect name change) (as_array entries)) (\<lambda>es.
          res_bind (res_mapM (entry_label sect name) es) (\<lambda>names.
            Inr \<lparr>rg_section = sect, rg_item = name, rg_change = change, rg_names = names\<rparr>)))))"

definition summarise_section :: "string \<times> json \<Rightarrow> reason + report_group list" where
  "summarise_section named =
     (case named of (sect, items) \<Rightarrow>
        res_bind (ok_or (SectionNotArray sect) (as_array items)) (\<lambda>is.
        res_bind (res_mapM (summarise_item sect) is) (\<lambda>gs. Inr (concat gs))))"

definition summarise :: "json \<Rightarrow> reason + report_group list" where
  "summarise report =
     res_bind (ok_or NoReportObject (Option.bind (json_get report ''report'') as_object)) (\<lambda>sections.
     res_bind (res_mapM summarise_section sections) (\<lambda>gs. Inr (concat gs)))"

section \<open>Facts\<close>

lemma same_refl [simp]: "same a a"
  by (simp add: same_def)

lemma same_sym: "same a b = same b a"
  by (simp add: same_def eq_ignore_ascii_case_sym)

lemma same_trans: "same a b \<Longrightarrow> same b c \<Longrightarrow> same a c"
  unfolding same_def by (rule eq_ignore_ascii_case_trans)

lemma disagreements_Nil_iff:
  "disagreements lock st = [] \<longleftrightarrow>
   (same (ls_result lock) (ps_status st) \<or>
      same (ls_result lock) ''locked'' \<and> same (ps_status st) ''READY'') \<and>
   (\<forall>g \<in> set_option (ps_global_lock st). same g (ls_result lock)) \<and>
   (\<forall>side \<in> set_option (ls_lower lock) \<union> set_option (ls_upper lock).
      same (el_state side) (ls_result lock) \<and>
      (\<forall>p \<in> set_option (el_proxy_state side). same p (el_state side)))"
  by (cases "ls_lower lock"; cases "ls_upper lock"; cases "ps_global_lock st")
    (auto simp: disagreements_def side_disagreements_def Let_def split: option.splits)

lemma assess_disagreements:
  "assess l st = Inr a \<Longrightarrow> as_disagreements a = disagreements (as_lock a) (as_status a)"
  by (auto simp: assess_def res_bind_Inr_iff)

end
