(* ===== verification/Promotion_Verify.thy ===== *)
theory Promotion_Verify
  imports Promotion_Spec
begin

text \<open>
  The tenant-free half of \<open>aic promotion verify\<close> (\<open>src/src/promotion/verify.rs\<close>): which live document
  an entry of a report names, what a fetched document must be before it counts, how two copies are
  compared and what the comparison means. Parsing a URL is a library function, the parameter
  \<open>parse_url\<close> of \<open>same_tenant\<close>; a message is a constructor that carries what it interpolates.
\<close>

datatype (plugins only: code size) unread =
    NoReport
  | SectionShape string
  | ChangesShape string string
  | EntriesShape string string string
  | NoStringField string json
  | NotAStringField string json
  | NoRealm
  | RealmNotAddressable string
  | NoScriptId string
  | NoReader string
  | NoListArray string json
  | ListPaged
  | MoreRemain
  | RemainingNotInteger json
  | RowWithout string json
  | ErrorEnvelope int json
  | OtherDocument string string string
  | NoIdentity string string
  | NotAnObject string json
  | NoNodesMap
  | ThemeNotObject json
  | ThemesNotArray json
  | EndpointNotReturned string json
  | CorsNotReturned string json
  | TwoSigns json
  | OnlyWithoutCase string string
  | AmbiguousEndpoint string string string
  | NotEndpointName string
  | EndpointWithout string json
  | SourceNotString json
  | NoSource
  | NoThemeRealms
  | ThemeRealmNotArray string json
  | SeveralMatch nat string string
  | ServiceWithoutId json
  | SeveralServices string "string list"
  | NodeWithoutType string
  | ChildWithoutId json
  | NoNodes bool
  | NodesShape json
  | SeveralScripts nat string
  | ListOmits string

section \<open>The entries of a report\<close>

record report_entry =
  en_section :: string
  en_item :: string
  en_change :: string
  en_name :: string
  en_realm :: "string option"
  en_uid :: "string option"

definition str_field :: "json \<Rightarrow> string \<Rightarrow> unread + string" where
  "str_field v k = ok_or (NoStringField k v) (get_str v k)"

definition opt_str :: "json \<Rightarrow> string \<Rightarrow> unread + string option" where
  "opt_str v k =
     (case json_get v k of
        None \<Rightarrow> Inr None
      | Some JNull \<Rightarrow> Inr None
      | Some (JStr s) \<Rightarrow> Inr (Some s)
      | Some other \<Rightarrow> Inl (NotAStringField k other))"

definition entry_of :: "string \<Rightarrow> string \<Rightarrow> string \<Rightarrow> json \<Rightarrow> unread + report_entry" where
  "entry_of sect item change v =
     res_bind (str_field v ''name'') (\<lambda>name.
     res_bind (opt_str v ''realm'') (\<lambda>realm.
     res_bind (opt_str v ''uid'') (\<lambda>uid.
       Inr \<lparr>en_section = sect, en_item = item, en_change = change, en_name = name,
            en_realm = realm, en_uid = uid\<rparr>)))"

definition item_entries :: "string \<Rightarrow> json \<Rightarrow> unread + report_entry list" where
  "item_entries sect item =
     res_bind (str_field item ''configItem'') (\<lambda>name.
     res_bind (ok_or (ChangesShape sect name) (Option.bind (json_get item ''configChange'') as_object)) (\<lambda>changes.
     res_bind
       (res_mapM (\<lambda>(change, vs).
          res_bind (ok_or (EntriesShape sect name change) (as_array vs))
            (res_mapM (entry_of sect name change))) changes)
       (\<lambda>ess. Inr (concat ess))))"

definition section_entries :: "string \<times> json \<Rightarrow> unread + report_entry list" where
  "section_entries named =
     (case named of (sect, items) \<Rightarrow>
        res_bind (ok_or (SectionShape sect) (as_array items)) (\<lambda>its.
        res_bind (res_mapM (item_entries sect) its) (\<lambda>ess. Inr (concat ess))))"

definition entries :: "json \<Rightarrow> unread + report_entry list" where
  "entries report =
     res_bind (ok_or NoReport (Option.bind (json_get report ''report'') as_object)) (\<lambda>sections.
     res_bind (res_mapM section_entries sections) (\<lambda>ess. Inr (concat ess)))"

section \<open>What an entry names\<close>

datatype target =
    Journey string string
  | Script string string
  | ScriptByName string string
  | SecretMapping string string
  | RealmService string string
  | AuthenticationSettings string
  | Cors string
  | Themes string
  | IdmEndpoint string
  | TargetUnchecked unread

text \<open>A plain sub-realm name, with or without its leading slash.\<close>

definition entry_realm :: "report_entry \<Rightarrow> unread + string" where
  "entry_realm e =
     res_bind (ok_or NoRealm (en_realm e)) (\<lambda>raw.
       let name = (case strip_prefix ''/'' raw of None \<Rightarrow> raw | Some r \<Rightarrow> r)
       in if name = [] \<or> CHR ''/'' \<in> set name then Inl (RealmNotAddressable raw) else Inr name)"

definition is_ascii_hexdigit :: "char \<Rightarrow> bool" where
  "is_ascii_hexdigit c =
     (is_digit c \<or> 65 \<le> code c \<and> code c \<le> 70 \<or> 97 \<le> code c \<and> code c \<le> 102)"

definition script_id :: "string \<Rightarrow> string option" where
  "script_id uid =
     Option.bind (strip_prefix ''ou='' (takeWhile (\<lambda>c. c \<noteq> CHR '','') uid)) (\<lambda>first.
       if length first = 36 \<and> list_all (\<lambda>c. is_ascii_hexdigit c \<or> c = CHR ''-'') first
       then Some first else None)"

definition in_realm :: "report_entry \<Rightarrow> (string \<Rightarrow> target) \<Rightarrow> target" where
  "in_realm e f = (case entry_realm e of Inl w \<Rightarrow> TargetUnchecked w | Inr realm \<Rightarrow> f realm)"

definition target_of :: "report_entry \<Rightarrow> target" where
  "target_of e =
     (if en_item e = ''Journeys'' then in_realm e (\<lambda>realm. Journey realm (en_name e))
      else if en_item e = ''Scripts'' then
        in_realm e (\<lambda>realm.
          case en_uid e of
            None \<Rightarrow> ScriptByName realm (en_name e)
          | Some uid \<Rightarrow>
              (case script_id uid of
                 Some i \<Rightarrow> Script realm i
               | None \<Rightarrow> TargetUnchecked (NoScriptId uid)))
      else if en_item e = ''ESV Secrets Store Mappings'' then
        in_realm e (\<lambda>realm. SecretMapping realm (en_name e))
      else if en_item e = ''AM Authentication > Settings'' then in_realm e AuthenticationSettings
      else if en_item e = ''CORS'' then Cors (en_name e)
      else if en_item e = ''IDM Themes By Realm'' then in_realm e Themes
      else if en_item e = ''IDM Custom Endpoints'' then IdmEndpoint (en_name e)
      else
        (case strip_prefix ''AM Services > '' (en_item e) of
           Some service \<Rightarrow> in_realm e (\<lambda>realm. RealmService realm service)
         | None \<Rightarrow> TargetUnchecked (NoReader (en_item e))))"

section \<open>Comparing two copies\<close>

datatype shape = ShapeRev | ShapeScript | ShapeJourney | ShapePlain

fun shape_of :: "target \<Rightarrow> shape" where
  "shape_of (Script _ _) = ShapeScript"
| "shape_of (ScriptByName _ _) = ShapeScript"
| "shape_of (Journey _ _) = ShapeJourney"
| "shape_of (Themes _) = ShapePlain"
| "shape_of (IdmEndpoint _) = ShapePlain"
| "shape_of _ = ShapeRev"

definition SCRIPT_AUDIT :: "string list" where
  "SCRIPT_AUDIT = [''createdBy'', ''creationDate'', ''lastModifiedBy'', ''lastModifiedDate'']"

fun strip_root :: "string list \<Rightarrow> json \<Rightarrow> json" where
  "strip_root keys (JObj kvs) = JObj (filter (\<lambda>(k, v). k \<notin> set keys) kvs)"
| "strip_root keys v = v"

fun strip_nodes :: "json \<Rightarrow> json" where
  "strip_nodes (JObj nodes) = JObj (map (\<lambda>(i, node). (i, strip_root [''_rev''] node)) nodes)"
| "strip_nodes v = v"

text \<open>\<open>get_mut\<close> on \<open>tree\<close> and on \<open>nodes\<close>, each changed in place.\<close>

definition at_key :: "string \<Rightarrow> (json \<Rightarrow> json) \<Rightarrow> json \<Rightarrow> json" where
  "at_key key f v =
     (case v of JObj kvs \<Rightarrow> JObj (map (\<lambda>(k, w). (k, if k = key then f w else w)) kvs) | _ \<Rightarrow> v)"

definition normalise :: "shape \<Rightarrow> json \<Rightarrow> json" where
  "normalise sh v =
     (case sh of
        ShapePlain \<Rightarrow> v
      | ShapeRev \<Rightarrow> strip_root [''_rev''] v
      | ShapeScript \<Rightarrow> strip_root (''_rev'' # SCRIPT_AUDIT) v
      | ShapeJourney \<Rightarrow> at_key ''nodes'' strip_nodes (at_key ''tree'' (strip_root [''_rev'']) v))"

text \<open>A document that could not be read: the call failed, or what it returned does not count.\<close>

datatype (plugins only: code size) read_error = CallFailed error | Unread unread

datatype (plugins only: code size) unchecked_why = OnNeither string | NoTarget unread | CouldNotRead string read_error

datatype (plugins only: code size) verdict =
    Same
  | Differs "string list"
  | OnlyLower
  | OnlyUpper
  | Neither
  | Unchecked unchecked_why

fun in_sync :: "verdict \<Rightarrow> bool" where
  "in_sync Same = True"
| "in_sync Neither = True"
| "in_sync _ = False"

fun verdict_label :: "verdict \<Rightarrow> string" where
  "verdict_label Same = ''same''"
| "verdict_label Neither = ''absent-both''"
| "verdict_label (Differs _) = ''DIFFERS''"
| "verdict_label OnlyLower = ''ONLY-LOWER''"
| "verdict_label OnlyUpper = ''ONLY-UPPER''"
| "verdict_label (Unchecked _) = ''unchecked''"

definition MAX_PATHS :: nat where
  "MAX_PATHS = 5"

definition option_size :: "json option \<Rightarrow> nat" where
  "option_size v = (case v of None \<Rightarrow> 0 | Some w \<Rightarrow> size w)"

lemma option_size_member: "option_size (map_of kvs k) < size (JObj kvs)"
  by (auto simp: option_size_def size_member split: option.splits)

text \<open>
  \<open>diff\<close> with its two loops, over the keys of both objects in order and over the elements of two
  arrays of one length; the list of paths so far is passed along.
\<close>

function diff_at :: "string \<Rightarrow> json \<Rightarrow> json \<Rightarrow> string list \<Rightarrow> string list"
  and diff_keys :: "string \<Rightarrow> json_map \<Rightarrow> json_map \<Rightarrow> string list \<Rightarrow> string list \<Rightarrow> string list"
  and diff_member :: "string \<Rightarrow> json option \<Rightarrow> json option \<Rightarrow> string list \<Rightarrow> string list"
  and diff_items :: "string \<Rightarrow> nat \<Rightarrow> json list \<Rightarrow> json list \<Rightarrow> string list \<Rightarrow> string list" where
  "diff_at pos l u out =
     (if length out \<ge> MAX_PATHS \<or> l = u then out
      else case (l, u) of
        (JObj a, JObj b) \<Rightarrow> diff_keys pos a b (btree_set (map fst a @ map fst b)) out
      | (JArr a, JArr b) \<Rightarrow>
          if length a = length b then diff_items pos 0 a b out
          else out @ [if pos = [] then ''/'' else pos]
      | _ \<Rightarrow> out @ [if pos = [] then ''/'' else pos])"
| "diff_keys pos a b [] out = out"
| "diff_keys pos a b (key # keys) out =
     (let out' = diff_member (pos @ ''/'' @ key) (map_of a key) (map_of b key) out
      in if length out' \<ge> MAX_PATHS then out' else diff_keys pos a b keys out')"
| "diff_member here (Some x) (Some y) out = diff_at here x y out"
| "diff_member here (Some x) None out = out @ [here @ '' (lower only)'']"
| "diff_member here None (Some y) out = out @ [here @ '' (upper only)'']"
| "diff_member here None None out = out"
| "diff_items pos i (x # xs) (y # ys) out =
     diff_items pos (Suc i) xs ys (diff_at (pos @ ''/'' @ show_nat i) x y out)"
| "diff_items pos i [] ys out = out"
| "diff_items pos i (x # xs) [] out = out"
  by pat_completeness auto

termination
proof (relation "measures [\<lambda>x. case x of
        Inl (Inl (pos, l, u, out)) \<Rightarrow> 2 * (size l + size u) + 1
      | Inl (Inr (pos, a, b, keys, out)) \<Rightarrow> 2 * (size (JObj a) + size (JObj b))
      | Inr (Inl (here, l, u, out)) \<Rightarrow> 2 * (option_size l + option_size u) + 2
      | Inr (Inr (pos, i, xs, ys, out)) \<Rightarrow> 2 * (size (JArr xs) + size (JArr ys)),
      \<lambda>x. case x of Inl (Inr (pos, a, b, keys, out)) \<Rightarrow> length keys | _ \<Rightarrow> 0]", goal_cases)
  case (4 pos a b key keys out)
  show ?case
    using option_size_member [of a key] option_size_member [of b key] by simp
qed (auto simp: option_size_def)

declare diff_at.simps [simp del]

definition judge_copies :: "shape \<Rightarrow> json option \<Rightarrow> json option \<Rightarrow> verdict" where
  "judge_copies sh lower upper =
     (case (lower, upper) of
        (None, None) \<Rightarrow> Neither
      | (Some _, None) \<Rightarrow> OnlyLower
      | (None, Some _) \<Rightarrow> OnlyUpper
      | (Some l, Some u) \<Rightarrow>
          let paths = diff_at [] (normalise sh l) (normalise sh u) []
          in if paths = [] then Same else Differs paths)"

definition settle_reported :: "string \<Rightarrow> verdict \<Rightarrow> verdict" where
  "settle_reported change v =
     (case v of Neither \<Rightarrow> if change \<noteq> ''deleted'' then Unchecked (OnNeither change) else v | _ \<Rightarrow> v)"

definition trim_end_slashes :: "string \<Rightarrow> string" where
  "trim_end_slashes s = rev (dropWhile (\<lambda>c. c = CHR ''/'') (rev s))"

text \<open>A parsed URL: its origin, none for an opaque one (which equals no other), and its path.\<close>

definition same_tenant ::
  "(string \<Rightarrow> (string option \<times> string) option) \<Rightarrow> string \<Rightarrow> string \<Rightarrow> bool" where
  "same_tenant parse_url a b =
     (case (parse_url a, parse_url b) of
        (Some (ox, px), Some (oy, py)) \<Rightarrow>
          ox \<noteq> None \<and> ox = oy \<and> trim_end_slashes px = trim_end_slashes py
      | _ \<Rightarrow> eq_ignore_ascii_case (trim_end_slashes a) (trim_end_slashes b))"

section \<open>Lists that can show absence\<close>

fun as_i64 :: "json \<Rightarrow> int option" where
  "as_i64 (JNum (NInt n)) = (if - (2 ^ 63) \<le> n \<and> n < 2 ^ 63 then Some n else None)"
| "as_i64 _ = None"

fun is_integer :: "json \<Rightarrow> bool" where
  "is_integer (JNum (NInt n)) = True"
| "is_integer _ = False"

definition complete_in :: "json \<Rightarrow> string \<Rightarrow> unread + json list" where
  "complete_in lst key =
     res_bind (ok_or (NoListArray key lst) (get_array lst key)) (\<lambda>result.
       if \<not> (json_get lst ''pagedResultsCookie'' = None \<or>
             json_get lst ''pagedResultsCookie'' = Some JNull) then Inl ListPaged
       else case json_get lst ''remainingPagedResults'' of
          None \<Rightarrow> Inr result
        | Some JNull \<Rightarrow> Inr result
        | Some n \<Rightarrow>
            if (case as_i64 n of None \<Rightarrow> False | Some i \<Rightarrow> i \<le> 0) then Inr result
            else if is_integer n then Inl MoreRemain
            else Inl (RemainingNotInteger n))"

definition complete :: "json \<Rightarrow> unread + json list" where
  "complete lst = complete_in lst ''result''"

definition rows :: "json \<Rightarrow> string \<Rightarrow> unread + (string \<times> json) list" where
  "rows lst field =
     res_bind (complete lst)
       (res_mapM (\<lambda>row. ok_or (RowWithout field row)
          (map_option (\<lambda>key. (key, row)) (get_str row field))))"

definition one_by :: "json \<Rightarrow> string \<Rightarrow> string \<Rightarrow> unread + json option" where
  "one_by lst field want =
     res_bind (rows lst field) (\<lambda>rs.
       case map snd (filter (\<lambda>(key, row). eq_ignore_ascii_case key want) rs) of
         [] \<Rightarrow> Inr None
       | [one] \<Rightarrow> Inr (Some one)
       | hits \<Rightarrow> Inl (SeveralMatch (length hits) field want))"

definition replace_char :: "char \<Rightarrow> string \<Rightarrow> string \<Rightarrow> string" where
  "replace_char c new s = concat (map (\<lambda>x. if x = c then new else [x]) s)"

definition BACKSLASH :: char where
  "BACKSLASH = CHR 0x5C"

definition QUOTE :: char where
  "QUOTE = CHR 0x22"

definition name_filter :: "string \<Rightarrow> string" where
  "name_filter name =
     ''name eq '' @ [QUOTE] @
     replace_char QUOTE [BACKSLASH, QUOTE] (replace_char BACKSLASH [BACKSLASH, BACKSLASH] name) @ [QUOTE]"

definition strip_suffix :: "string \<Rightarrow> string \<Rightarrow> string option" where
  "strip_suffix p s =
     (if length p \<le> length s \<and> drop (length s - length p) s = p
      then Some (take (length s - length p) s) else None)"

definition service_id :: "json \<Rightarrow> string \<Rightarrow> unread + string option" where
  "service_id lst service =
     (let names = service # (case strip_suffix '' Service'' service of None \<Rightarrow> [] | Some short \<Rightarrow> [short])
      in res_bind (rows lst ''name'') (\<lambda>rs.
         res_bind
           (res_mapM (\<lambda>(name, s). ok_or (ServiceWithoutId s) (get_str s ''_id''))
              (filter (\<lambda>(name, s). name \<in> set names) rs)) (\<lambda>ids.
         case btree_set ids of
           [] \<Rightarrow> Inr None
         | [one] \<Rightarrow> Inr (Some one)
         | several \<Rightarrow> Inl (SeveralServices service several))))"

definition theme_list :: "json \<Rightarrow> string \<Rightarrow> unread + json option" where
  "theme_list themerealm realm =
     res_bind (ok_or NoThemeRealms (Option.bind (json_get themerealm ''realm'') as_object)) (\<lambda>realms.
       case map_of realms realm of
         None \<Rightarrow> Inr None
       | Some JNull \<Rightarrow> Inr None
       | Some (JArr []) \<Rightarrow> Inr None
       | Some (JArr (x # xs)) \<Rightarrow> Inr (Some (JArr (x # xs)))
       | Some other \<Rightarrow> Inl (ThemeRealmNotArray realm other))"

section \<open>Endpoints\<close>

definition dashed :: "string \<Rightarrow> string" where
  "dashed i = replace_char (CHR ''/'') ''-'' i"

definition reported_as :: "string \<Rightarrow> string \<Rightarrow> bool" where
  "reported_as i reported = eq_ignore_ascii_case (dashed i) reported"

definition endpoint_reading_of :: "string \<Rightarrow> string option" where
  "endpoint_reading_of i =
     opt_filter (\<lambda>name. name \<noteq> [] \<and> CHR ''/'' \<notin> set name) (strip_prefix ''endpoint/'' i)"

text \<open>One row of the config list: its id when it is a candidate.\<close>

definition endpoint_row :: "string \<Rightarrow> json \<Rightarrow> unread + string option" where
  "endpoint_row reported row =
     res_bind (ok_or (RowWithout ''_id'' row) (get_str row ''_id'')) (\<lambda>i.
       let by_factory = (get_str row ''factoryPid'' = Some ''endpoint'');
           by_id = (strip_prefix ''endpoint/'' i \<noteq> None)
       in if (by_factory \<or> by_id) \<and> \<not> (by_factory \<and> endpoint_reading_of i \<noteq> None)
          then Inl (TwoSigns row)
          else Inr (if by_factory \<and> reported_as i reported then Some i else None))"

definition endpoint_id :: "json \<Rightarrow> string \<Rightarrow> unread + string option" where
  "endpoint_id lst reported =
     res_bind (complete_in lst ''configurations'') (\<lambda>rs.
     res_bind (res_mapM (endpoint_row reported) rs) (\<lambda>found.
       case List.map_filter (\<lambda>x. x) found of
         [] \<Rightarrow> Inr None
       | [i] \<Rightarrow> if dashed i = reported then Inr (Some i) else Inl (OnlyWithoutCase reported i)
       | a # b # _ \<Rightarrow> Inl (AmbiguousEndpoint reported a b)))"

definition endpoint_reading :: "string \<Rightarrow> unread + string" where
  "endpoint_reading reported =
     res_bind (ok_or (NotEndpointName reported)
        (map_option (\<lambda>name. ''endpoint/'' @ name) (strip_prefix ''endpoint-'' reported))) (\<lambda>i.
       case endpoint_reading_of i of
         Some _ \<Rightarrow> Inr i
       | None \<Rightarrow> Inl (NotEndpointName reported))"

section \<open>What a fetched document must be\<close>

text \<open>Only whether it is present and a string matters here.\<close>

definition has_str :: "json \<Rightarrow> string \<Rightarrow> bool" where
  "has_str v k = (get_str v k \<noteq> None)"

definition endpoint_body :: "json \<Rightarrow> unread + unit" where
  "endpoint_body v =
     (if \<not> has_str v ''source'' then Inl (EndpointWithout ''source'' v)
      else if \<not> has_str v ''type'' then Inl (EndpointWithout ''type'' v)
      else Inr ())"

definition check_endpoint :: "json \<Rightarrow> string \<Rightarrow> unread + unit" where
  "check_endpoint v i =
     (if get_str v ''_id'' = Some i then endpoint_body v else Inl (EndpointNotReturned i v))"

definition has_source :: "json \<Rightarrow> unread + unit" where
  "has_source v =
     (case json_get v ''script'' of
        Some (JStr _) \<Rightarrow> Inr ()
      | Some other \<Rightarrow> Inl (SourceNotString other)
      | None \<Rightarrow> Inl NoSource)"

definition crest_error :: "json \<Rightarrow> int option" where
  "crest_error v =
     Option.bind (opt_filter (\<lambda>c. 400 \<le> c \<and> c < 600) (Option.bind (json_get v ''code'') as_i64)) (\<lambda>c.
       if has_str v ''reason'' \<or> has_str v ''message'' then Some c else None)"

definition identified_as :: "json \<Rightarrow> string \<Rightarrow> string \<Rightarrow> string \<Rightarrow> unread + unit" where
  "identified_as v key want what =
     (case get_str v key of
        Some got \<Rightarrow> if got = want then Inr () else Inl (OtherDocument what got want)
      | None \<Rightarrow> if is_object v then Inl (NoIdentity what key) else Inl (NotAnObject what v))"

fun check_nodes :: "(string \<times> json) list \<Rightarrow> unread + unit" where
  "check_nodes [] = Inr ()"
| "check_nodes ((i, node) # nodes) =
     res_bind (identified_as node ''_id'' i ''journey node'') (\<lambda>_. check_nodes nodes)"

definition index_or_null :: "json \<Rightarrow> string \<Rightarrow> json" where
  "index_or_null v k = (case json_get v k of None \<Rightarrow> JNull | Some w \<Rightarrow> w)"

definition check_document :: "target \<Rightarrow> json \<Rightarrow> unread + unit" where
  "check_document tg v =
     (case crest_error v of
        Some c \<Rightarrow> Inl (ErrorEnvelope c v)
      | None \<Rightarrow>
          (case tg of
             Journey _ name \<Rightarrow>
               res_bind (identified_as (index_or_null v ''tree'') ''_id'' name ''journey tree'') (\<lambda>_.
               res_bind (ok_or NoNodesMap (Option.bind (json_get v ''nodes'') as_object)) check_nodes)
           | Script _ i \<Rightarrow> res_bind (identified_as v ''_id'' i ''script'') (\<lambda>_. has_source v)
           | ScriptByName _ name \<Rightarrow> res_bind (identified_as v ''name'' name ''script'') (\<lambda>_. has_source v)
           | Themes _ \<Rightarrow>
               (case v of
                  JArr vs \<Rightarrow> (case find (\<lambda>t. \<not> is_object t) vs of None \<Rightarrow> Inr () | Some x \<Rightarrow> Inl (ThemeNotObject x))
                | other \<Rightarrow> Inl (ThemesNotArray other))
           | IdmEndpoint name \<Rightarrow>
               (case get_str v ''_id'' of
                  Some got \<Rightarrow> if reported_as got name then endpoint_body v else Inl (EndpointNotReturned name v)
                | None \<Rightarrow> Inl (EndpointNotReturned name v))
           | Cors name \<Rightarrow>
               (case get_str v ''_id'' of
                  Some got \<Rightarrow> if eq_ignore_ascii_case got name then Inr () else Inl (CorsNotReturned name v)
                | None \<Rightarrow> Inl (CorsNotReturned name v))
           | TargetUnchecked w \<Rightarrow> Inl w
           | _ \<Rightarrow> if is_object v then Inr () else Inl (NotAnObject ''document'' v)))"

section \<open>The nodes of a journey\<close>

datatype holder = TreeHolder | NodeHolder

definition node_refs :: "holder \<Rightarrow> string \<Rightarrow> json \<Rightarrow> unread + (string \<times> string) list" where
  "node_refs holder node_type v =
     (if holder = NodeHolder \<and> node_type \<noteq> ''PageNode'' then Inr []
      else case (json_get v ''nodes'', holder) of
        (Some (JObj kvs), TreeHolder) \<Rightarrow>
          res_mapM (\<lambda>(i, meta).
            res_bind (ok_or (NodeWithoutType i) (get_str meta ''nodeType'')) (\<lambda>ty. Inr (ty, i))) kvs
      | (Some (JArr vs), NodeHolder) \<Rightarrow>
          res_mapM (\<lambda>child.
            case (get_str child ''nodeType'', get_str child ''_id'') of
              (Some ty, Some i) \<Rightarrow> Inr (ty, i)
            | _ \<Rightarrow> Inl (ChildWithoutId child)) vs
      | (None, _) \<Rightarrow> Inl (NoNodes (holder = TreeHolder))
      | (Some JNull, _) \<Rightarrow> Inl (NoNodes (holder = TreeHolder))
      | (Some other, _) \<Rightarrow> Inl (NodesShape other))"

end
