(* ===== verification/Promotion_Lifecycle.thy ===== *)
theory Promotion_Lifecycle
  imports Promotion_Spec Io
begin

text \<open>
  The tenant-free half of the promotion write verbs (\<open>src/src/promotion/lifecycle.rs\<close>): the phase of
  an environment pair, which verb may start from it, the permit minted from a second read
  after consent, and the judgement of the readings that follow until the operation has settled.

  Where the code carries a description of a reading, the model carries the reading itself.
\<close>

section \<open>Where the pair stands\<close>

datatype pair_phase =
    Unlocked
  | Ready "string option"
  | Running "string option"
  | Blocked
  | Unsettled assessment

definition sides :: "lock_state \<Rightarrow> env_lock option list" where
  "sides lock = [ls_lower lock, ls_upper lock]"

definition lock_reads :: "lock_state \<Rightarrow> string \<Rightarrow> bool" where
  "lock_reads lock want =
     (same (ls_result lock) want \<and>
      list_all (\<lambda>side. case side of None \<Rightarrow> False
         | Some s \<Rightarrow> same (el_state s) want \<and>
             (case el_proxy_state s of None \<Rightarrow> False | Some p \<Rightarrow> same p want)) (sides lock))"

definition global_reads :: "promotion_status \<Rightarrow> string \<Rightarrow> bool" where
  "global_reads st want = (case ps_global_lock st of None \<Rightarrow> False | Some g \<Rightarrow> same g want)"

definition held :: "assessment \<Rightarrow> bool" where
  "held a = (lock_reads (as_lock a) ''locked'' \<and> global_reads (as_status a) ''LOCKED'')"

definition pair_phase :: "assessment \<Rightarrow> pair_phase" where
  "pair_phase a =
     (let st = as_status a;
          agreed = (as_disagreements a = [] \<and> ps_blocking_error st = Some False)
      in if ps_blocking_error st = Some True then Blocked
         else if same (ps_status st) ''RUNNING'' then Running (ps_message st)
         else if agreed \<and> same (ps_status st) ''UNLOCKED'' \<and> global_reads st ''UNLOCKED'' \<and>
                 lock_reads (as_lock a) ''unlocked'' then Unlocked
         else if agreed \<and> same (ps_status st) ''READY'' \<and> held a then Ready (ps_promotion_id st)
         else Unsettled a)"

section \<open>Which verb may start\<close>

datatype verb = Lock | Promote bool | Unlock | Recover string

datatype (plugins only: code size) why =
    Decoding reason
  | NotUpperEnvironment string
  | NoPromotionId string
  | AlreadyLocked string "string option"
  | NotLocked string
  | NotHeldStopped string assessment
  | OtherPromotionId string string string
  | NoBlockingError string
  | NotMeasuredSafe string assessment
  | BlockedFor verb string assessment
  | RunningFor verb string "string option"
  | NotStartable verb string assessment
  | NeedsForce verb string "string option"
  | ChangedAfterCheck string why
  | LockReplaced string "string option" "string option"
  | IdNotReturned
  | ReportsNotArray json
  | ReportUnidentified json
  | NoNewReport verb "string option"

definition pair_ok :: "assessment \<Rightarrow> string \<Rightarrow> why + unit" where
  "pair_ok a tenant =
     (if ls_lower (as_lock a) \<noteq> None \<and> ls_upper (as_lock a) \<noteq> None then Inr ()
      else Inl (NotUpperEnvironment tenant))"

definition refused :: "string \<Rightarrow> assessment \<Rightarrow> verb \<Rightarrow> pair_phase \<Rightarrow> why" where
  "refused tenant a v p =
     (case p of
        Blocked \<Rightarrow> BlockedFor v tenant a
      | Running message \<Rightarrow> RunningFor v tenant message
      | _ \<Rightarrow> NotStartable v tenant a)"

text \<open>An \<open>Approval\<close>: the \<open>promotionId\<close> a write must still find, none for a lock.\<close>

type_synonym approval = "string option"

definition id_of :: "string \<Rightarrow> string option \<Rightarrow> why + string" where
  "id_of tenant ident = ok_or (NoPromotionId tenant) ident"

definition check_recovery :: "string \<Rightarrow> assessment \<Rightarrow> string \<Rightarrow> why + approval" where
  "check_recovery expected a tenant =
     res_bind (id_of tenant (ps_promotion_id (as_status a))) (\<lambda>found.
       if \<not> held a \<or> \<not> same (ps_status (as_status a)) ''READY''
       then Inl (NotHeldStopped tenant a)
       else if found \<noteq> expected then Inl (OtherPromotionId tenant found expected)
       else Inr (Some found))"

definition check_verb :: "verb \<Rightarrow> assessment \<Rightarrow> string \<Rightarrow> why + approval" where
  "check_verb v a tenant =
     res_bind (pair_ok a tenant) (\<lambda>_.
       let p = pair_phase a;
           with_id = (\<lambda>ident. res_bind (id_of tenant ident) (\<lambda>i. Inr (Some i)))
       in case (v, p) of
            (Lock, Unlocked) \<Rightarrow> Inr None
          | (Lock, Ready ident) \<Rightarrow> Inl (AlreadyLocked tenant ident)
          | (Promote _, Ready ident) \<Rightarrow> with_id ident
          | (Unlock, Ready ident) \<Rightarrow> with_id ident
          | (Promote _, Unlocked) \<Rightarrow> Inl (NotLocked tenant)
          | (Recover expected, Blocked) \<Rightarrow> check_recovery expected a tenant
          | (Recover _, Ready _) \<Rightarrow> Inl (NoBlockingError tenant)
          | (Recover _, _) \<Rightarrow> Inl (NotMeasuredSafe tenant a)
          | (_, other) \<Rightarrow> Inl (refused tenant a v other))"

text \<open>A \<open>Permit\<close>'s one field; \<open>authorize\<close> alone makes one.\<close>

datatype op = LockOp | PromoteOp bool | UnlockOp string

datatype promotion_permit = Permit op

fun permit_op :: "promotion_permit \<Rightarrow> op" where
  "permit_op (Permit p) = p"

definition op_of :: "verb \<Rightarrow> approval \<Rightarrow> why + op" where
  "op_of v now =
     (case v of
        Lock \<Rightarrow> Inr LockOp
      | Promote dry_run \<Rightarrow> Inr (PromoteOp dry_run)
      | _ \<Rightarrow> res_bind (ok_or IdNotReturned now) (\<lambda>i. Inr (UnlockOp i)))"

definition authorize ::
  "verb \<Rightarrow> approval \<Rightarrow> assessment \<Rightarrow> string \<Rightarrow> bool \<Rightarrow> why + promotion_permit" where
  "authorize v approved fresh tenant consented =
     (if \<not> consented then Inl (NeedsForce v tenant approved)
      else
        res_bind (map_err (ChangedAfterCheck tenant) (check_verb v fresh tenant)) (\<lambda>now.
          if now \<noteq> approved then Inl (LockReplaced tenant approved now)
          else res_bind (op_of v now) (\<lambda>p. Inr (Permit p))))"

section \<open>The write sequence\<close>

datatype (plugins only: code size) pending_note =
    Describes assessment
  | NamesNoId assessment
  | Says string
  | NotSeenToStart
  | TookOver string string
  | PromotionStarted assessment

datatype (plugins only: code size) promo_error =
    Failure error
  | Explained explanation error
  | Why why
  | MayHaveReached verb string promo_error
  | LostTrack verb string
  | NotSettled verb string pending_note
  | NotWithin verb string nat
  | AckUnidentified string

datatype 't begun = AlreadyUnlocked | SentOff assessment 't

definition because :: "why + 'a \<Rightarrow> ('w, 'v, promo_error, 'a) io" where
  "because r = io_lift (map_err Why r)"

definition begin_write ::
  "verb \<Rightarrow> string \<Rightarrow> ('w, 'v, promo_error, assessment) io \<Rightarrow>
   (assessment \<Rightarrow> ('w, 'v, promo_error, bool) io) \<Rightarrow> ('w, 'v, promo_error, 'p) io \<Rightarrow>
   (promotion_permit \<Rightarrow> 'p \<Rightarrow> ('w, 'v, promo_error, 't) io) \<Rightarrow> ('w, 'v, promo_error, 't begun) io" where
  "begin_write v tenant reader consents prepare sender =
     io_bind reader (\<lambda>first.
     if v = Unlock \<and> pair_phase first = Unlocked
     then io_bind (because (pair_ok first tenant)) (\<lambda>_. io_return AlreadyUnlocked)
     else
     io_bind (because (check_verb v first tenant)) (\<lambda>approved.
     io_bind (consents first) (\<lambda>consented.
     if \<not> consented
     then io_fail (case authorize v approved first tenant False of Inl w \<Rightarrow> Why w | Inr _ \<Rightarrow> Failure Panic)
     else
     io_bind prepare (\<lambda>prepared.
     io_bind reader (\<lambda>fresh.
     io_bind (because (authorize v approved fresh tenant True)) (\<lambda>permit.
     io_bind (io_map_err (MayHaveReached v tenant) (sender permit prepared)) (\<lambda>ack.
       io_return (SentOff fresh ack))))))))"

section \<open>Waiting for it to settle\<close>

datatype settle_verdict = Pending pending_note | Done | Failed pending_note

record watch =
  wt_verb :: verb
  wt_promotion_id :: string
  wt_seen_running :: bool

definition new_watch :: "verb \<Rightarrow> string \<Rightarrow> watch" where
  "new_watch v ident = \<lparr>wt_verb = v, wt_promotion_id = ident, wt_seen_running = False\<rparr>"

definition about_a_lock :: "pair_phase \<Rightarrow> bool" where
  "about_a_lock p = (case p of Ready _ \<Rightarrow> True | Running _ \<Rightarrow> True | Blocked \<Rightarrow> True | _ \<Rightarrow> False)"

definition judge_phase :: "watch \<Rightarrow> assessment \<Rightarrow> settle_verdict \<times> watch" where
  "judge_phase w a =
     (case (wt_verb w, pair_phase a) of
        (Recover _, Blocked) \<Rightarrow> (Pending (Describes a), w)
      | (_, Blocked) \<Rightarrow> (Failed (Describes a), w)
      | (Lock, Ready _) \<Rightarrow> (Done, w)
      | (Lock, Running _) \<Rightarrow> (Failed (PromotionStarted a), w)
      | (Unlock, Unlocked) \<Rightarrow> (Done, w)
      | (Recover _, Unlocked) \<Rightarrow> (Done, w)
      | (Unlock, Running _) \<Rightarrow> (Failed (Describes a), w)
      | (Recover _, Running _) \<Rightarrow> (Failed (Describes a), w)
      | (Promote _, Running message) \<Rightarrow>
          (Pending (Says (case message of None \<Rightarrow> ''running'' | Some m \<Rightarrow> m)), w\<lparr>wt_seen_running := True\<rparr>)
      | (Promote _, Ready _) \<Rightarrow>
          if wt_seen_running w then (Done, w) else (Pending NotSeenToStart, w)
      | (Promote _, _) \<Rightarrow>
          if wt_seen_running w then (Failed (Describes a), w) else (Pending (Describes a), w)
      | (_, _) \<Rightarrow> (Pending (Describes a), w))"

definition judge_reading :: "watch \<Rightarrow> assessment \<Rightarrow> settle_verdict \<times> watch" where
  "judge_reading w a =
     (if about_a_lock (pair_phase a)
      then (case ps_promotion_id (as_status a) of
              Some now \<Rightarrow>
                if now = wt_promotion_id w then judge_phase w a
                else (Failed (TookOver now (wt_promotion_id w)), w)
            | None \<Rightarrow> (Pending (NamesNoId a), w))
      else judge_phase w a)"

section \<open>Which report a promotion produced\<close>

definition report_ids :: "json \<Rightarrow> why + (string \<times> json) list" where
  "report_ids lst =
     res_bind (ok_or (ReportsNotArray lst) (as_array lst))
       (res_mapM (\<lambda>entry.
          res_bind (ok_or (ReportUnidentified entry) (get_str entry ''reportId'')) (\<lambda>i. Inr (i, entry))))"

definition new_reports :: "json \<Rightarrow> json \<Rightarrow> string \<Rightarrow> bool \<Rightarrow> why + string list" where
  "new_reports before after promotion_id dry_run =
     res_bind (report_ids before) (\<lambda>old.
     res_bind (report_ids after) (\<lambda>now.
       Inr (map fst
         (filter (\<lambda>(i, entry). i \<notin> set (map fst old) \<and>
            get_str entry ''promotionId'' = Some promotion_id \<and>
            get_bool entry ''dryRun'' = Some dry_run) now))))"

datatype identified = One string | Candidates "string list"

definition identify :: "string list \<Rightarrow> verb \<Rightarrow> string option \<Rightarrow> why + identified" where
  "identify produced v promotion_id =
     (case produced of
        [] \<Rightarrow> Inl (NoNewReport v promotion_id)
      | [one] \<Rightarrow> Inr (One one)
      | many \<Rightarrow> Inr (Candidates many))"

end
