(* ===== verification/Promotion_Api.thy ===== *)
theory Promotion_Api
  imports Promotion_Verify Promotion_Lifecycle Tenant_Facts
begin

text \<open>
  The calls of \<open>aic promotion\<close> (\<open>src/src/promotion/api.rs\<close>): the reads of the lock, the status and
  the reports; the one write a permit authorizes; and, for \<open>verify\<close>, the live document an entry of a
  report names, read so that absence is only ever the tenant's own answer.
\<close>

section \<open>Lock, status, reports\<close>

definition read_lock_state :: "'w env \<Rightarrow> string \<Rightarrow> ('w, json) op" where
  "read_lock_state env tenant = api_get env tenant ''/environment/promotion/lock/state''"

definition read_status :: "'w env \<Rightarrow> string \<Rightarrow> ('w, json) op" where
  "read_status env tenant = api_get env tenant ''/environment/promotion/promote''"

definition read_reports :: "'w env \<Rightarrow> string \<Rightarrow> ('w, json) op" where
  "read_reports env tenant = api_get env tenant ''/environment/promotion/reports''"

definition read_report :: "'w env \<Rightarrow> string \<Rightarrow> which_report \<Rightarrow> ('w, json) op" where
  "read_report env tenant which = api_get env tenant (which_path (env_urlencode env) which)"

section \<open>The write\<close>

definition LOCK :: string where
  "LOCK = ''/environment/promotion/lock''"

definition PROMOTE :: string where
  "PROMOTE = ''/environment/promotion/promote''"

definition segment :: "'w env \<Rightarrow> string \<Rightarrow> string" where
  "segment env raw = replace_char (CHR ''+'') ''%20'' (env_urlencode env raw)"

definition permit_path :: "'w env \<Rightarrow> promotion_permit \<Rightarrow> string" where
  "permit_path env p =
     (case permit_op p of
        LockOp \<Rightarrow> LOCK
      | PromoteOp _ \<Rightarrow> PROMOTE
      | UnlockOp i \<Rightarrow> LOCK @ ''/'' @ segment env i)"

definition permit_call :: "string \<Rightarrow> string \<Rightarrow> bool \<Rightarrow> promotion_permit \<Rightarrow> api_call" where
  "permit_call tenant path confirmed p =
     with_confirmed_prod confirmed
       (case permit_op p of
          LockOp \<Rightarrow> new_call tenant ''POST'' path
        | PromoteOp dry_run \<Rightarrow> with_body (JObj [(''dryRun'', JBool dry_run)]) (new_call tenant ''POST'' path)
        | UnlockOp _ \<Rightarrow> new_call tenant ''DELETE'' path)"

definition send_permit :: "'w env \<Rightarrow> string \<Rightarrow> bool \<Rightarrow> promotion_permit \<Rightarrow> ('w, json) op" where
  "send_permit env tenant confirmed p =
     send env (permit_call tenant (permit_path env p) confirmed p)"

section \<open>The document an entry names\<close>

type_synonym ('w, 'a) rd = "('w, event, read_error, 'a) io"

abbreviation called :: "('w, 'a) op \<Rightarrow> ('w, 'a) rd" where
  "called \<equiv> io_map_err CallFailed"

definition judged :: "unread + 'a \<Rightarrow> ('w, 'a) rd" where
  "judged r = io_lift (map_err Unread r)"

definition absent_on_404 :: "('w, json) op \<Rightarrow> ('w, json option) op" where
  "absent_on_404 m =
     io_bind (io_try m) (\<lambda>r.
       case r of
         Inr v \<Rightarrow> io_return (Some v)
       | Inl e \<Rightarrow> (case e of Api st body \<Rightarrow> if st = 404 then io_return None else io_fail e | _ \<Rightarrow> io_fail e))"

definition promo_realm_path :: "'w env \<Rightarrow> string \<Rightarrow> string" where
  "promo_realm_path env realm = ''/am/json/realms/root/realms/'' @ segment env realm"

definition AM_CONFIG_VERSION :: string where
  "AM_CONFIG_VERSION = ''protocol=1.0,resource=1.0''"

definition JOURNEY_VERSION :: string where
  "JOURNEY_VERSION = ''protocol=2.0,resource=1.0''"

definition SCRIPT_VERSION :: string where
  "SCRIPT_VERSION = ''resource=1.1''"

definition exact_name :: "json \<Rightarrow> string \<Rightarrow> unread + json option" where
  "exact_name lst name =
     res_bind (rows lst ''name'') (\<lambda>rs.
       case map snd (filter (\<lambda>(got, row). got = name) rs) of
         [] \<Rightarrow> Inr None
       | [one] \<Rightarrow> Inr (Some one)
       | hits \<Rightarrow> Inl (SeveralScripts (length hits) name))"

text \<open>The split at \<open>/\<close>, each part encoded, and the separators back.\<close>

fun split_on :: "char \<Rightarrow> string \<Rightarrow> string list" where
  "split_on c [] = [[]]"
| "split_on c (x # s) =
     (if x = c then [] # split_on c s
      else case split_on c s of [] \<Rightarrow> [[x]] | p # ps \<Rightarrow> (x # p) # ps)"

definition endpoint_path :: "'w env \<Rightarrow> string \<Rightarrow> string" where
  "endpoint_path env i = ''/openidm/config/'' @ join ''/'' (map (segment env) (split_on (CHR ''/'') i))"

text \<open>\<open>endpoint\<close>, with the reader injected as in the code.\<close>

definition read_endpoint :: "'w env \<Rightarrow> string \<Rightarrow> (string \<Rightarrow> ('w, json) op) \<Rightarrow> ('w, json option) rd" where
  "read_endpoint env name getter =
     io_bind (called (getter ''/openidm/config'')) (\<lambda>lst.
     io_bind (judged (endpoint_id lst name)) (\<lambda>found.
       case found of
         None \<Rightarrow>
           io_bind (judged (endpoint_reading name)) (\<lambda>i.
           io_bind (called (absent_on_404 (getter (endpoint_path env i)))) (\<lambda>v.
             case v of None \<Rightarrow> io_return None | Some _ \<Rightarrow> io_fail (Unread (ListOmits i))))
       | Some i \<Rightarrow>
           io_bind (called (absent_on_404 (getter (endpoint_path env i)))) (\<lambda>v.
             case v of
               None \<Rightarrow> io_return None
             | Some d \<Rightarrow> io_bind (judged (check_endpoint d i)) (\<lambda>_. io_return (Some d)))))"

subsection \<open>A journey\<close>

definition trees_path :: "'w env \<Rightarrow> string \<Rightarrow> string" where
  "trees_path env realm = promo_realm_path env realm @ ''/realm-config/authentication/authenticationtrees''"

definition read_node :: "'w env \<Rightarrow> string \<Rightarrow> string \<Rightarrow> string \<Rightarrow> string \<Rightarrow> ('w, json) op" where
  "read_node env tenant realm node_type i =
     get_versioned env tenant
       (trees_path env realm @ ''/nodes/'' @ segment env node_type @ ''/'' @ segment env i) JOURNEY_VERSION"

text \<open>
  The loop over the nodes still to read, the last one first. How many there are is the tenant's
  answer, so the loop has fuel; running out is a panic the code does not have.
\<close>

fun journey_loop ::
  "nat \<Rightarrow> 'w env \<Rightarrow> string \<Rightarrow> string \<Rightarrow> (string \<times> string) list \<Rightarrow> json_map \<Rightarrow> ('w, json_map) rd" where
  "journey_loop fuel env tenant realm [] nodes = io_return nodes"
| "journey_loop 0 env tenant realm (p # ps) nodes = io_fail (CallFailed Panic)"
| "journey_loop (Suc fuel) env tenant realm (p # ps) nodes =
     (let (node_type, i) = last (p # ps);
          rest = butlast (p # ps)
      in if i \<in> set (map fst nodes) then journey_loop fuel env tenant realm rest nodes
         else
           io_bind (called (read_node env tenant realm node_type i)) (\<lambda>node.
           io_bind (judged (node_refs NodeHolder node_type node)) (\<lambda>refs.
             journey_loop fuel env tenant realm (rest @ refs) (obj_insert i node nodes))))"

definition read_journey :: "nat \<Rightarrow> 'w env \<Rightarrow> string \<Rightarrow> string \<Rightarrow> string \<Rightarrow> ('w, json option) rd" where
  "read_journey fuel env tenant realm name =
     io_bind
       (called (absent_on_404
          (get_versioned env tenant (trees_path env realm @ ''/trees/'' @ segment env name) JOURNEY_VERSION)))
       (\<lambda>found.
          case found of
            None \<Rightarrow> io_return None
          | Some tree \<Rightarrow>
              io_bind (judged (node_refs TreeHolder [] tree)) (\<lambda>pending.
              io_bind (journey_loop fuel env tenant realm pending []) (\<lambda>nodes.
                io_return (Some (JObj [(''nodes'', JObj nodes), (''tree'', tree)])))))"

subsection \<open>Any entry\<close>

definition read_target :: "nat \<Rightarrow> 'w env \<Rightarrow> string \<Rightarrow> target \<Rightarrow> ('w, json option) rd" where
  "read_target fuel env tenant tg =
     (case tg of
        Journey realm name \<Rightarrow> read_journey fuel env tenant realm name
      | Script realm i \<Rightarrow>
          called (absent_on_404
            (get_versioned env tenant (promo_realm_path env realm @ ''/scripts/'' @ segment env i) SCRIPT_VERSION))
      | ScriptByName realm name \<Rightarrow>
          io_bind
            (called (get_versioned env tenant
               (promo_realm_path env realm @ ''/scripts?_queryFilter='' @ segment env (name_filter name))
               SCRIPT_VERSION))
            (\<lambda>lst. judged (exact_name lst name))
      | SecretMapping realm secret_id \<Rightarrow> called (absent_on_404 (read_mapping env tenant realm secret_id))
      | RealmService realm service \<Rightarrow>
          io_bind
            (called (get_versioned env tenant
               (promo_realm_path env realm @ ''/realm-config/services?_queryFilter=true'') AM_CONFIG_VERSION))
            (\<lambda>lst.
          io_bind (judged (service_id lst service)) (\<lambda>found.
            case found of
              None \<Rightarrow> io_return None
            | Some i \<Rightarrow>
                called (absent_on_404
                  (get_versioned env tenant
                     (promo_realm_path env realm @ ''/realm-config/services/'' @ segment env i)
                     AM_CONFIG_VERSION))))
      | AuthenticationSettings realm \<Rightarrow>
          called (absent_on_404
            (get_versioned env tenant (promo_realm_path env realm @ ''/realm-config/authentication'')
               AM_CONFIG_VERSION))
      | Cors name \<Rightarrow>
          io_bind
            (called (get_versioned env tenant
               ''/am/json/global-config/services/CorsService/configuration?_queryFilter=true''
               AM_CONFIG_VERSION))
            (\<lambda>lst. judged (one_by lst ''_id'' name))
      | Themes realm \<Rightarrow>
          io_bind (called (api_get env tenant ''/openidm/config/ui/themerealm''))
            (\<lambda>v. judged (theme_list v realm))
      | IdmEndpoint name \<Rightarrow> read_endpoint env name (api_get env tenant)
      | TargetUnchecked w \<Rightarrow> io_fail (Unread w))"

definition fetch_target :: "nat \<Rightarrow> 'w env \<Rightarrow> string \<Rightarrow> target \<Rightarrow> ('w, json option) rd" where
  "fetch_target fuel env tenant tg =
     io_bind (read_target fuel env tenant tg) (\<lambda>found.
       case found of
         None \<Rightarrow> io_return None
       | Some v \<Rightarrow> io_bind (judged (check_document tg v)) (\<lambda>_. io_return (Some v)))"

end
