(* ===== verification/Promotion_Cli.thy ===== *)
theory Promotion_Cli
  imports Promotion_Api "HOL-Library.Word"
begin

text \<open>
  The commands of \<open>aic promotion\<close> (\<open>src/src/promotion/cli.rs\<close>): what each reads, asks, refuses, sends
  and waits for, in that order. What a command prints is not modelled. The tenant is the resolved
  configuration record, as in the rotation commands.
\<close>

section \<open>Reading\<close>

type_synonym ('w, 'a) pcmd = "('w, event, promo_error, 'a) io"

definition explained :: "string \<Rightarrow> ('w, 'a) op \<Rightarrow> ('w, 'a) pcmd" where
  "explained tenant =
     io_map_err (\<lambda>e. case explain e tenant of Some x \<Rightarrow> Explained x e | None \<Rightarrow> Failure e)"

definition decoded :: "reason + 'a \<Rightarrow> ('w, 'a) pcmd" where
  "decoded r = io_lift (map_err (\<lambda>x. Why (Decoding x)) r)"

definition read_assessment :: "'w env \<Rightarrow> string \<Rightarrow> ('w, assessment) pcmd" where
  "read_assessment env tenant =
     io_bind (explained tenant (read_lock_state env tenant)) (\<lambda>lock_raw.
     io_bind (explained tenant (read_status env tenant)) (\<lambda>status_raw.
       decoded (assess lock_raw status_raw)))"

datatype status_error = NotRead promo_error | BlockingError | SourcesDiffer

definition promotion_status_command :: "'w env \<Rightarrow> string \<Rightarrow> ('w, event, status_error, assessment) io" where
  "promotion_status_command env tenant =
     io_bind (io_map_err NotRead (read_assessment env tenant)) (\<lambda>a.
       if assessment_ok a then io_return a
       else io_fail (if as_disagreements a = [] then BlockingError else SourcesDiffer))"

definition promotion_reports_command :: "'w env \<Rightarrow> string \<Rightarrow> ('w, json list) pcmd" where
  "promotion_reports_command env tenant =
     io_bind (explained tenant (read_reports env tenant)) (\<lambda>raw.
       because (ok_or (ReportsNotArray raw) (as_array raw)))"

definition which_of :: "string option \<Rightarrow> bool \<Rightarrow> which_report" where
  "which_of ident provisional =
     (if provisional then Provisional else case ident of Some i \<Rightarrow> ReportId i | None \<Rightarrow> Latest)"

definition promotion_report_command ::
  "'w env \<Rightarrow> string \<Rightarrow> string option \<Rightarrow> bool \<Rightarrow> ('w, report_group list) pcmd" where
  "promotion_report_command env tenant ident provisional =
     io_bind (explained tenant (read_report env tenant (which_of ident provisional))) (\<lambda>raw.
       decoded (summarise raw))"

section \<open>Waiting\<close>

text \<open>Seconds. \<open>60 * m\<close> is a product of 64-bit words, which wraps in a release build.\<close>

definition default_timeout :: "verb \<Rightarrow> nat" where
  "default_timeout v = 60 * (case v of Promote _ \<Rightarrow> 45 | _ \<Rightarrow> 15)"

definition timeout_secs :: "verb \<Rightarrow> 64 word option \<Rightarrow> nat" where
  "timeout_secs v minutes =
     (case minutes of None \<Rightarrow> default_timeout v | Some m \<Rightarrow> unat (60 * m))"

text \<open>Milliseconds.\<close>

definition POLL_INTERVAL :: nat where
  "POLL_INTERVAL = 15000"

definition POLL_READ_FAILURES :: nat where
  "POLL_READ_FAILURES = 6"

definition promo_clock :: "'w env \<Rightarrow> ('w, nat) pcmd" where
  "promo_clock env = io_map_err Failure (clock env)"

definition promo_sleep :: "'w env \<Rightarrow> nat \<Rightarrow> ('w, unit) pcmd" where
  "promo_sleep env n = io_call (Waited n) (\<lambda>w. (Inr (), env_sleep env n w))"

text \<open>
  The loop of \<open>wait\<close>, with fuel for its polls; \<open>promo_wait_enough\<close> shows that the fuel \<open>promo_wait\<close>
  gives it is never used up. The closure \<open>judge\<close> is the watch it captures.
\<close>

fun wait_loop ::
  "nat \<Rightarrow> 'w env \<Rightarrow> string \<Rightarrow> verb \<Rightarrow> nat \<Rightarrow> nat \<Rightarrow> watch \<Rightarrow> nat \<Rightarrow> ('w, assessment) pcmd" where
  "wait_loop 0 env tenant v secs deadline w failures = io_fail (Failure Panic)"
| "wait_loop (Suc fuel) env tenant v secs deadline w failures =
     io_bind (promo_sleep env POLL_INTERVAL) (\<lambda>_.
     io_bind (io_try (read_assessment env tenant)) (\<lambda>reading.
       case reading of
         Inl e \<Rightarrow>
           io_bind (promo_clock env) (\<lambda>now.
             if Suc failures \<ge> POLL_READ_FAILURES \<or> now \<ge> deadline then io_fail (LostTrack v tenant)
             else wait_loop fuel env tenant v secs deadline w (Suc failures))
       | Inr a \<Rightarrow>
           (case judge_reading w a of
              (Done, w') \<Rightarrow> io_return a
            | (Failed x, w') \<Rightarrow> io_fail (NotSettled v tenant x)
            | (Pending x, w') \<Rightarrow>
                io_bind (promo_clock env) (\<lambda>now.
                  if now \<ge> deadline then io_fail (NotWithin v tenant (secs div 60))
                  else wait_loop fuel env tenant v secs deadline w' 0))))"

definition wait_fuel :: "nat \<Rightarrow> nat" where
  "wait_fuel secs = 1000 * secs div POLL_INTERVAL + 2"

definition promo_wait :: "'w env \<Rightarrow> string \<Rightarrow> verb \<Rightarrow> nat \<Rightarrow> watch \<Rightarrow> ('w, assessment) pcmd" where
  "promo_wait env tenant v secs w =
     io_bind (promo_clock env) (\<lambda>now.
       wait_loop (wait_fuel secs) env tenant v secs (now + 1000 * secs) w 0)"

section \<open>The write verbs\<close>

record write_args =
  wa_yes :: bool
  wa_force :: bool
  wa_no_wait :: bool
  wa_timeout :: "64 word option"

datatype write_outcome =
    NothingToDo
  | Accepted "string option"
  | Settled assessment
  | Finished assessment identified

definition prod_hint :: "('w, 'a) op \<Rightarrow> ('w, 'a) op" where
  "prod_hint =
     io_map_err (\<lambda>e. case e of
        ProdConfirmRequired \<Rightarrow> Config (Said ''tenant is production - re-run with --yes to confirm the write'')
      | _ \<Rightarrow> e)"

definition ask_to_write :: "'w env \<Rightarrow> write_args \<Rightarrow> assessment \<Rightarrow> ('w, bool) pcmd" where
  "ask_to_write env args a = io_map_err Failure (ask_consent env (wa_force args))"

definition prepare_write ::
  "'w env \<Rightarrow> tenant \<Rightarrow> verb \<Rightarrow> write_args \<Rightarrow> ('w, bool \<times> json option) pcmd" where
  "prepare_write env t v args =
     io_bind (io_lift (map_err Failure (prod_write_ok (ten_theme t) (wa_yes args)))) (\<lambda>ok.
       case v of
         Promote _ \<Rightarrow>
           io_bind (explained (ten_name t) (read_reports env (ten_name t))) (\<lambda>reports.
             io_return (ok, Some reports))
       | _ \<Rightarrow> io_return (ok, None))"

definition send_write ::
  "'w env \<Rightarrow> tenant \<Rightarrow> promotion_permit \<Rightarrow> bool \<times> json option \<Rightarrow> ('w, json \<times> json option) pcmd" where
  "send_write env t permit prepared =
     io_bind (explained (ten_name t) (prod_hint (send_permit env (ten_name t) (fst prepared) permit))) (\<lambda>ack.
       io_return (ack, snd prepared))"

definition begin_on ::
  "'w env \<Rightarrow> tenant \<Rightarrow> verb \<Rightarrow> write_args \<Rightarrow> ('w, (json \<times> json option) begun) pcmd" where
  "begin_on env t v args =
     begin_write v (ten_name t) (read_assessment env (ten_name t)) (ask_to_write env args)
       (prepare_write env t v args) (send_write env t)"

text \<open>What a settled promotion's new reports are, read after it finished.\<close>

definition name_reports ::
  "'w env \<Rightarrow> string \<Rightarrow> verb \<Rightarrow> string \<Rightarrow> json option \<Rightarrow> ('w, identified) pcmd" where
  "name_reports env tenant v promotion_id reports_before =
     io_bind
       (case (v, reports_before) of
          (Promote dry_run, Some before) \<Rightarrow>
            io_bind (explained tenant (read_reports env tenant)) (\<lambda>after.
              because (new_reports before after promotion_id dry_run))
        | _ \<Rightarrow> io_return []) (\<lambda>produced.
       because (identify produced v (Some promotion_id)))"

definition after_ack ::
  "'w env \<Rightarrow> tenant \<Rightarrow> verb \<Rightarrow> write_args \<Rightarrow> assessment \<Rightarrow> json \<Rightarrow> json option \<Rightarrow> ('w, write_outcome) pcmd" where
  "after_ack env t v args before ack reports_before =
     (let tenant = ten_name t;
          ident = (case v of
             Lock \<Rightarrow> get_str ack ''promotionId''
           | _ \<Rightarrow> ps_promotion_id (as_status before))
      in if wa_no_wait args then io_return (Accepted ident)
         else case ident of
           None \<Rightarrow> io_fail (AckUnidentified tenant)
         | Some promotion_id \<Rightarrow>
             io_bind (promo_wait env tenant v (timeout_secs v (wa_timeout args)) (new_watch v promotion_id))
               (\<lambda>settled.
                  case v of
                    Promote _ \<Rightarrow>
                      io_bind (name_reports env tenant v promotion_id reports_before) (\<lambda>named.
                        io_return (Finished settled named))
                  | _ \<Rightarrow> io_return (Settled settled)))"

definition run_write :: "'w env \<Rightarrow> tenant \<Rightarrow> verb \<Rightarrow> write_args \<Rightarrow> ('w, write_outcome) pcmd" where
  "run_write env t v args =
     io_bind (begin_on env t v args) (\<lambda>begun.
       case begun of
         AlreadyUnlocked \<Rightarrow> io_return NothingToDo
       | SentOff before reply \<Rightarrow> after_ack env t v args before (fst reply) (snd reply))"

section \<open>verify\<close>

text \<open>
  The code reads both tenants at once, and several entries at once; a reading of one does not depend
  on another, and here they come one after the other.
\<close>

definition verdict_of :: "string \<Rightarrow> string \<Rightarrow> string \<Rightarrow> target \<Rightarrow> read_error + json option \<Rightarrow> read_error + json option \<Rightarrow> verdict" where
  "verdict_of lower upper change tg l u =
     (case (l, u) of
        (Inr ld, Inr ud) \<Rightarrow> settle_reported change (judge_copies (shape_of tg) ld ud)
      | (Inl e, _) \<Rightarrow> Unchecked (CouldNotRead lower e)
      | (Inr _, Inl e) \<Rightarrow> Unchecked (CouldNotRead upper e))"

definition judge_entry :: "nat \<Rightarrow> 'w env \<Rightarrow> string \<Rightarrow> string \<Rightarrow> report_entry \<Rightarrow> ('w, event, 'e, verdict) io" where
  "judge_entry fuel env lower upper e =
     (case target_of e of
        TargetUnchecked w \<Rightarrow> io_return (Unchecked (NoTarget w))
      | tg \<Rightarrow>
          io_bind (io_try (fetch_target fuel env lower tg)) (\<lambda>l.
          io_bind (io_try (fetch_target fuel env upper tg)) (\<lambda>u.
            io_return (verdict_of lower upper (en_change e) tg l u))))"

datatype verify_error =
    VerifyFailed promo_error
  | BadReport unread
  | OneTenant string string
  | NotInSync nat nat

definition is_unchecked :: "verdict \<Rightarrow> bool" where
  "is_unchecked v = (case v of Unchecked _ \<Rightarrow> True | _ \<Rightarrow> False)"

definition verify_outcome :: "report_entry list \<Rightarrow> verdict list \<Rightarrow> verify_error + (report_entry \<times> verdict) list" where
  "verify_outcome es vs =
     (let synced = length (filter in_sync vs);
          unread = length (filter is_unchecked vs);
          differ = length vs - synced - unread
      in if differ + unread = 0 then Inr (zip es vs) else Inl (NotInSync differ unread))"

definition run_verify ::
  "nat \<Rightarrow> (string \<Rightarrow> (string option \<times> string) option) \<Rightarrow> 'w env \<Rightarrow> tenant \<Rightarrow> tenant \<Rightarrow> string option \<Rightarrow>
   ('w, event, verify_error, (report_entry \<times> verdict) list) io" where
  "run_verify fuel parse_url env l u report =
     (if same_tenant parse_url (ten_base_url l) (ten_base_url u)
      then io_fail (OneTenant (ten_name l) (ten_name u))
      else
        io_bind
          (io_map_err VerifyFailed
             (explained (ten_name u)
                (read_report env (ten_name u)
                   (case report of None \<Rightarrow> Provisional | Some i \<Rightarrow> ReportId i)))) (\<lambda>raw.
        io_bind (io_lift (map_err BadReport (entries raw))) (\<lambda>es.
        io_bind (io_mapM (judge_entry fuel env (ten_name l) (ten_name u)) es) (\<lambda>vs.
          io_lift (verify_outcome es vs)))))"

end
