(* ===== verification/Promotion_Facts.thy ===== *)
theory Promotion_Facts
  imports Promotion_Lifecycle
begin

text \<open>
  What the tenant-free half of the promotion verbs promises: the evidence each phase rests on, what
  a check and a permit mean for each verb, the order of the write sequence for any operations
  injected into it, and the evidence on which a watch says done.
\<close>

section \<open>Phases\<close>

lemma same_literals [simp]:
  "\<not> same ''READY'' ''RUNNING''" "\<not> same ''UNLOCKED'' ''RUNNING''"
  "\<not> same ''READY'' ''UNLOCKED''" "\<not> same ''LOCKED'' ''UNLOCKED''"
  "\<not> same ''locked'' ''unlocked''"
  "same ''LOCKED'' ''locked''" "same ''UNLOCKED'' ''unlocked''"
  by code_simp+

lemma same_unique: "same a b \<Longrightarrow> same a c \<Longrightarrow> same b c"
  by (metis same_sym same_trans)

lemma same_other: "same a b \<Longrightarrow> \<not> same b c \<Longrightarrow> \<not> same a c"
  by (metis same_unique)

lemma lock_reads_iff:
  "lock_reads lock want \<longleftrightarrow>
   same (ls_result lock) want \<and>
   (\<exists>lo up pl pu. ls_lower lock = Some lo \<and> ls_upper lock = Some up \<and>
      el_proxy_state lo = Some pl \<and> el_proxy_state up = Some pu \<and>
      same (el_state lo) want \<and> same (el_state up) want \<and> same pl want \<and> same pu want)"
  by (auto simp: lock_reads_def sides_def split: option.splits)

lemma global_reads_iff: "global_reads st want \<longleftrightarrow> (\<exists>g. ps_global_lock st = Some g \<and> same g want)"
  by (auto simp: global_reads_def split: option.splits)

text \<open>An assessment as \<open>assess\<close> makes it.\<close>

definition assessed :: "assessment \<Rightarrow> bool" where
  "assessed a \<longleftrightarrow> as_disagreements a = disagreements (as_lock a) (as_status a)"

lemma assess_assessed: "assess l st = Inr a \<Longrightarrow> assessed a"
  unfolding assessed_def by (rule assess_disagreements)

lemma agreeing_lock_has_no_disagreement:
  assumes "lock_reads (as_lock a) want" and "global_reads (as_status a) want'" and "same want' want"
    and "same (ps_status (as_status a)) want \<or>
         same want ''locked'' \<and> same (ps_status (as_status a)) ''READY''"
    and "assessed a"
  shows "as_disagreements a = []"
proof -
  have eq: "same x y" if "same x want" "same y want" for x y
    using that by (metis same_sym same_trans)
  from assms show ?thesis
    unfolding assessed_def
    by (auto simp: disagreements_Nil_iff lock_reads_iff global_reads_iff
        intro: eq same_trans dest: same_trans)
qed

lemma phase_Unlocked_iff:
  "pair_phase a = Unlocked \<longleftrightarrow>
   as_disagreements a = [] \<and> ps_blocking_error (as_status a) = Some False \<and>
   same (ps_status (as_status a)) ''UNLOCKED'' \<and> global_reads (as_status a) ''UNLOCKED'' \<and>
   lock_reads (as_lock a) ''unlocked''"
  using same_other [of "ps_status (as_status a)" "''UNLOCKED''" "''RUNNING''"]
  by (auto simp: pair_phase_def Let_def)

lemma phase_Ready_iff:
  "pair_phase a = Ready i \<longleftrightarrow>
   as_disagreements a = [] \<and> ps_blocking_error (as_status a) = Some False \<and>
   same (ps_status (as_status a)) ''READY'' \<and> held a \<and> i = ps_promotion_id (as_status a)"
  using same_other [of "ps_status (as_status a)" "''READY''" "''RUNNING''"]
    same_other [of "ps_status (as_status a)" "''READY''" "''UNLOCKED''"]
  by (auto simp: pair_phase_def Let_def)

lemma phase_Running_iff:
  "pair_phase a = Running m \<longleftrightarrow>
   ps_blocking_error (as_status a) \<noteq> Some True \<and> same (ps_status (as_status a)) ''RUNNING'' \<and>
   m = ps_message (as_status a)"
  by (auto simp: pair_phase_def Let_def)

lemma phase_Blocked_iff: "pair_phase a = Blocked \<longleftrightarrow> blocking a"
  by (auto simp: pair_phase_def Let_def blocking_def)

lemmas phase_iffs = phase_Unlocked_iff phase_Ready_iff phase_Running_iff phase_Blocked_iff

text \<open>The explicit reads leave nothing for the list of disagreements to add.\<close>

lemma held_and_ready_agrees:
  "assessed a \<Longrightarrow> held a \<Longrightarrow> same (ps_status (as_status a)) ''READY'' \<Longrightarrow> as_disagreements a = []"
  unfolding held_def
  by (rule agreeing_lock_has_no_disagreement [where want = "''locked''" and want' = "''LOCKED''"]) auto

lemma unlocked_reads_agree:
  "assessed a \<Longrightarrow> same (ps_status (as_status a)) ''UNLOCKED'' \<Longrightarrow>
   global_reads (as_status a) ''UNLOCKED'' \<Longrightarrow> lock_reads (as_lock a) ''unlocked'' \<Longrightarrow>
   as_disagreements a = []"
  by (rule agreeing_lock_has_no_disagreement [where want = "''unlocked''" and want' = "''UNLOCKED''"])
    (auto intro: same_trans [OF _ same_literals(7)])

section \<open>Checks and permits\<close>

lemma pair_ok_Inr: "pair_ok a tn = Inr () \<longleftrightarrow> ls_lower (as_lock a) \<noteq> None \<and> ls_upper (as_lock a) \<noteq> None"
  by (simp add: pair_ok_def)

text \<open>From which reading each verb may start, and what its approval names.\<close>

definition may_start :: "verb \<Rightarrow> assessment \<Rightarrow> approval \<Rightarrow> bool" where
  "may_start v a appr =
     (case v of
        Lock \<Rightarrow> pair_phase a = Unlocked \<and> appr = None
      | Promote _ \<Rightarrow> appr \<noteq> None \<and> pair_phase a = Ready appr
      | Unlock \<Rightarrow> appr \<noteq> None \<and> pair_phase a = Ready appr
      | Recover expected \<Rightarrow>
          pair_phase a = Blocked \<and> held a \<and> same (ps_status (as_status a)) ''READY'' \<and>
          ps_promotion_id (as_status a) = Some expected \<and> appr = Some expected)"

lemma check_recovery_Inr:
  "check_recovery expected a tn = Inr appr \<longleftrightarrow>
   held a \<and> same (ps_status (as_status a)) ''READY'' \<and>
   ps_promotion_id (as_status a) = Some expected \<and> appr = Some expected"
  by (auto simp: check_recovery_def id_of_def res_bind_Inr_iff)

lemma check_verb_Inr:
  "check_verb v a tn = Inr appr \<longleftrightarrow> pair_ok a tn = Inr () \<and> may_start v a appr"
proof -
  have "check_verb v a tn = Inr appr \<longleftrightarrow>
      pair_ok a tn = Inr () \<and> check_verb v a tn = Inr appr"
    by (auto simp: check_verb_def res_bind_Inr_iff)
  also have "\<dots> \<longleftrightarrow> pair_ok a tn = Inr () \<and> may_start v a appr"
    by (cases v; cases "pair_phase a")
      (auto simp: check_verb_def may_start_def res_bind_Inr_iff id_of_def check_recovery_Inr Let_def)
  finally show ?thesis .
qed

lemma op_of_Inr:
  "may_start v a appr \<Longrightarrow>
   op_of v appr = Inr (case v of Lock \<Rightarrow> LockOp | Promote d \<Rightarrow> PromoteOp d | _ \<Rightarrow> UnlockOp (the appr))"
  by (cases v) (auto simp: may_start_def op_of_def)

lemma authorize_Inr:
  "authorize v appr fresh tn c = Inr p \<longleftrightarrow>
   c \<and> check_verb v fresh tn = Inr appr \<and> op_of v appr = Inr (permit_op p)"
  by (cases p) (auto simp: authorize_def res_bind_Inr_iff split: if_splits)

text \<open>The \<open>expect\<close> of \<open>authorize\<close> does not fail, and without consent it never mints a permit.\<close>

lemma authorize_no_panic: "authorize v appr fresh tn c \<noteq> Inl IdNotReturned"
proof (cases "check_verb v fresh tn")
  case (Inl w)
  then show ?thesis by (simp add: authorize_def)
next
  case (Inr now)
  then have "may_start v fresh now" by (simp add: check_verb_Inr)
  from op_of_Inr [OF this] Inr show ?thesis by (auto simp: authorize_def)
qed

lemma authorize_denied [simp]: "authorize v appr fresh tn False = Inl (NeedsForce v tn appr)"
  by (simp add: authorize_def)

section \<open>The write sequence\<close>

text \<open>
  Whatever a caller injects, as long as reading, asking and preparing send nothing but \<open>P\<close>
  events: the sequence reaches the send only through two readings that both pass the check with the
  same approval, with consent and the preparation between them.
\<close>

lemma because_bind:
  "io_bind (because r) f s = (q, s') \<longleftrightarrow>
   (\<exists>w. r = Inl w \<and> q = Inl (Why w) \<and> s' = s) \<or> (\<exists>x. r = Inr x \<and> f x s = (q, s'))"
  by (cases r) (auto simp: because_def io_bind_Pair)

locale write_sequence =
  fixes P :: "'v \<Rightarrow> bool"
    and reader :: "('w, 'v, promo_error, assessment) io"
    and consents :: "assessment \<Rightarrow> ('w, 'v, promo_error, bool) io"
    and prepare :: "('w, 'v, promo_error, 'p) io"
    and sender :: "promotion_permit \<Rightarrow> 'p \<Rightarrow> ('w, 'v, promo_error, 't) io"
  assumes reader_quiet: "emits P reader"
    and consents_quiet: "emits P (consents a)"
    and prepare_quiet: "emits P prepare"
begin

text \<open>The parts of the sequence after the first check and after the preparation.\<close>

definition after_prepare :: "verb \<Rightarrow> string \<Rightarrow> approval \<Rightarrow> 'p \<Rightarrow> ('w, 'v, promo_error, 't begun) io" where
  "after_prepare v tn appr prepared =
     io_bind reader (\<lambda>fresh.
     io_bind (because (authorize v appr fresh tn True)) (\<lambda>permit.
     io_bind (io_map_err (MayHaveReached v tn) (sender permit prepared)) (\<lambda>ack.
       io_return (SentOff fresh ack))))"

definition after_check :: "verb \<Rightarrow> string \<Rightarrow> assessment \<Rightarrow> approval \<Rightarrow> ('w, 'v, promo_error, 't begun) io" where
  "after_check v tn first appr =
     io_bind (consents first) (\<lambda>consented.
     if \<not> consented
     then io_fail (case authorize v appr first tn False of Inl w \<Rightarrow> Why w | Inr _ \<Rightarrow> Failure Panic)
     else io_bind prepare (after_prepare v tn appr))"

lemma sequence_cases:
  assumes "begin_write v tn reader consents prepare sender s = (r, s')"
  obtains (stopped) "quiet_to P s s'" and "\<And>a t. r \<noteq> Inr (SentOff a t)"
  | (written) first s1 appr s2 prepared s3 fresh s4 permit q where
      "reader s = (Inr first, s1)" "check_verb v first tn = Inr appr"
      "consents first s1 = (Inr True, s2)" "prepare s2 = (Inr prepared, s3)"
      "reader s3 = (Inr fresh, s4)" "authorize v appr fresh tn True = Inr permit"
      "quiet_to P s s4" "sender permit prepared s4 = (q, s')"
      "r = (case q of Inl e \<Rightarrow> Inl (MayHaveReached v tn e) | Inr ack \<Rightarrow> Inr (SentOff fresh ack))"
proof (cases "quiet_to P s s' \<and> (\<forall>a t. r \<noteq> Inr (SentOff a t))")
  case True
  with stopped show thesis by blast
next
  case False
  note run = assms [unfolded begin_write_def, folded after_prepare_def, folded after_check_def]
  obtain first s1 where first: "reader s = (Inr first, s1)" and q1: "quiet_to P s s1"
    and run1: "(if v = Unlock \<and> pair_phase first = Unlocked
        then io_bind (because (pair_ok first tn)) (\<lambda>_. io_return AlreadyUnlocked)
        else io_bind (because (check_verb v first tn)) (after_check v tn first)) s1 = (r, s')"
    by (rule quiet_to_bind [OF quiet_to_refl run reader_quiet])
      (use False in auto)
  from run1 False q1 obtain appr where appr: "check_verb v first tn = Inr appr"
    and run2: "after_check v tn first appr s1 = (r, s')"
    by (auto simp: because_bind split: if_splits)
  obtain c s2 where c: "consents first s1 = (Inr c, s2)" and q2: "quiet_to P s s2"
    and run3: "(if \<not> c then io_fail (case authorize v appr first tn False of Inl w \<Rightarrow> Why w | Inr _ \<Rightarrow> Failure Panic)
        else io_bind prepare (after_prepare v tn appr)) s2 = (r, s')"
    by (rule quiet_to_bind [OF q1 run2 [unfolded after_check_def] consents_quiet])
      (use False in auto)
  from run3 False q2 have c_True: c
    and run4: "io_bind prepare (after_prepare v tn appr) s2 = (r, s')"
    by (auto split: if_splits)
  obtain prepared s3 where prep: "prepare s2 = (Inr prepared, s3)" and q3: "quiet_to P s s3"
    and run5: "after_prepare v tn appr prepared s3 = (r, s')"
    by (rule quiet_to_bind [OF q2 run4 prepare_quiet]) (use False in auto)
  obtain fresh s4 where fresh: "reader s3 = (Inr fresh, s4)" and q4: "quiet_to P s s4"
    and run6: "io_bind (because (authorize v appr fresh tn True)) (\<lambda>permit.
        io_bind (io_map_err (MayHaveReached v tn) (sender permit prepared)) (\<lambda>ack.
          io_return (SentOff fresh ack))) s4 = (r, s')"
    by (rule quiet_to_bind [OF q3 run5 [unfolded after_prepare_def] reader_quiet]) (use False in auto)
  from run6 False q4 obtain permit where permit: "authorize v appr fresh tn True = Inr permit"
    and run7: "io_bind (io_map_err (MayHaveReached v tn) (sender permit prepared)) (\<lambda>ack.
        io_return (SentOff fresh ack)) s4 = (r, s')"
    by (auto simp: because_bind)
  obtain q t where sent: "sender permit prepared s4 = (q, t)" by (cases "sender permit prepared s4")
  with run7 have "t = s'"
    "r = (case q of Inl e \<Rightarrow> Inl (MayHaveReached v tn e) | Inr ack \<Rightarrow> Inr (SentOff fresh ack))"
    by (auto simp: io_bind_Pair io_map_err_Pair)
  with first appr c c_True prep fresh permit q4 sent show thesis
    by (intro written) simp_all
qed

end

section \<open>The watch\<close>

definition is_promote :: "verb \<Rightarrow> bool" where
  "is_promote v = (case v of Promote _ \<Rightarrow> True | _ \<Rightarrow> False)"

definition running_under :: "string \<Rightarrow> assessment \<Rightarrow> bool" where
  "running_under i a \<longleftrightarrow>
     (\<exists>m. pair_phase a = Running m) \<and> ps_promotion_id (as_status a) = Some i"

text \<open>Every reading so far was judged pending, and left the watch as it is.\<close>

inductive watching :: "verb \<Rightarrow> string \<Rightarrow> assessment list \<Rightarrow> watch \<Rightarrow> bool" for v i where
  watching_start: "watching v i [] (new_watch v i)"
| watching_pending:
    "watching v i rs w \<Longrightarrow> judge_reading w a = (Pending n, w') \<Longrightarrow> watching v i (rs @ [a]) w'"

inductive_cases watching_cases: "watching v i rs w"

lemma judge_watch:
  assumes "judge_reading w a = (x, w')"
  shows "w' = w\<lparr>wt_seen_running :=
      wt_seen_running w \<or> is_promote (wt_verb w) \<and> running_under (wt_promotion_id w) a\<rparr>"
  using assms
  by (cases "wt_verb w"; cases "pair_phase a"; cases "ps_promotion_id (as_status a)")
    (auto simp: judge_reading_def judge_phase_def about_a_lock_def is_promote_def running_under_def
      split: if_splits)

lemma watching_watch:
  assumes "watching v i rs w"
  shows "w = \<lparr>wt_verb = v, wt_promotion_id = i,
    wt_seen_running = (is_promote v \<and> (\<exists>a \<in> set rs. running_under i a))\<rparr>"
  using assms
  by induction (auto simp: new_watch_def dest!: judge_watch)

lemma phase_Ready_id: "pair_phase a = Ready x \<Longrightarrow> x = ps_promotion_id (as_status a)"
  by (simp add: phase_Ready_iff)

lemma judge_Done_iff:
  "fst (judge_reading w a) = Done \<longleftrightarrow>
   (case wt_verb w of
      Lock \<Rightarrow> pair_phase a = Ready (Some (wt_promotion_id w))
    | Promote _ \<Rightarrow> wt_seen_running w \<and> pair_phase a = Ready (Some (wt_promotion_id w))
    | Unlock \<Rightarrow> pair_phase a = Unlocked
    | Recover _ \<Rightarrow> pair_phase a = Unlocked)"
  by (cases "wt_verb w"; cases "pair_phase a"; cases "ps_promotion_id (as_status a)")
    (auto simp: judge_reading_def judge_phase_def about_a_lock_def dest: phase_Ready_id)

lemma judge_other_lock:
  assumes "about_a_lock (pair_phase a)" and "ps_promotion_id (as_status a) \<noteq> Some (wt_promotion_id w)"
  shows "judge_reading w a =
    (case ps_promotion_id (as_status a) of
       None \<Rightarrow> (Pending (NamesNoId a), w)
     | Some other \<Rightarrow> (Failed (TookOver other (wt_promotion_id w)), w))"
  using assms by (auto simp: judge_reading_def split: option.splits)

section \<open>The report of a promotion\<close>

lemma report_ids_Inr:
  "report_ids lst = Inr ps \<longleftrightarrow>
   (\<exists>es. as_array lst = Some es \<and> list_all2 (\<lambda>e p. get_str e ''reportId'' = Some (fst p) \<and> snd p = e) es ps)"
  by (auto simp: report_ids_def res_bind_Inr_iff res_mapM_Inr_iff prod_eq_iff
      elim!: list.rel_mono_strong)

lemma report_ids_entries:
  assumes "report_ids lst = Inr ps" and "as_array lst = Some es"
  shows "(r, e) \<in> set ps \<longleftrightarrow> e \<in> set es \<and> get_str e ''reportId'' = Some r"
proof -
  from assms have "list_all2 (\<lambda>e p. get_str e ''reportId'' = Some (fst p) \<and> snd p = e) es ps"
    by (auto simp: report_ids_Inr)
  then show ?thesis
    by induction auto
qed

text \<open>The reports of a list under one promotion and kind of run that another list does not have.\<close>

definition fresh_report :: "json list \<Rightarrow> json list \<Rightarrow> string \<Rightarrow> bool \<Rightarrow> string \<Rightarrow> bool" where
  "fresh_report old now pid dry r \<longleftrightarrow>
     (\<exists>e \<in> set now. get_str e ''reportId'' = Some r \<and> get_str e ''promotionId'' = Some pid \<and>
        get_bool e ''dryRun'' = Some dry) \<and>
     (\<forall>e \<in> set old. get_str e ''reportId'' \<noteq> Some r)"

lemma new_reports_set:
  assumes "new_reports before after pid dry = Inr ids"
  obtains old now where "as_array before = Some old" "as_array after = Some now"
    "\<And>r. r \<in> set ids \<longleftrightarrow> fresh_report old now pid dry r"
proof -
  from assms obtain ob nb where o: "report_ids before = Inr ob" and n: "report_ids after = Inr nb"
    and ids: "ids = map fst (filter (\<lambda>(i, entry). i \<notin> set (map fst ob) \<and>
      get_str entry ''promotionId'' = Some pid \<and> get_bool entry ''dryRun'' = Some dry) nb)"
    by (auto simp: new_reports_def res_bind_Inr_iff)
  from o n obtain old now where arrays: "as_array before = Some old" "as_array after = Some now"
    by (auto simp: report_ids_Inr)
  note entries = report_ids_entries [OF o arrays(1)] report_ids_entries [OF n arrays(2)]
  have known: "r \<in> fst ` set ob \<longleftrightarrow> (\<exists>e \<in> set old. get_str e ''reportId'' = Some r)" for r
    using entries(1) by (force simp: image_iff)
  have "r \<in> set ids \<longleftrightarrow> r \<notin> fst ` set ob \<and> (\<exists>e. (r, e) \<in> set nb \<and>
      get_str e ''promotionId'' = Some pid \<and> get_bool e ''dryRun'' = Some dry)" for r
    by (force simp: ids image_iff)
  then have "r \<in> set ids \<longleftrightarrow> fresh_report old now pid dry r" for r
    unfolding known entries(2) by (auto simp: fresh_report_def)
  with that arrays show thesis by blast
qed

section \<open>The summary\<close>

definition array_of :: "json \<Rightarrow> json list" where
  "array_of v = (case as_array v of None \<Rightarrow> [] | Some vs \<Rightarrow> vs)"

definition object_of :: "json option \<Rightarrow> (string \<times> json) list" where
  "object_of v = (case Option.bind v as_object of None \<Rightarrow> [] | Some kvs \<Rightarrow> kvs)"

text \<open>How many entries a report lists, counted without looking at any of them.\<close>

definition entry_count :: "json \<Rightarrow> nat" where
  "entry_count report =
     sum_list (map (\<lambda>(sect, items).
       sum_list (map (\<lambda>item.
         sum_list (map (\<lambda>(change, entries). length (array_of entries))
           (object_of (json_get item ''configChange'')))) (array_of items)))
       (object_of (json_get report ''report'')))"

abbreviation named_count :: "report_group list \<Rightarrow> nat" where
  "named_count gs \<equiv> sum_list (map (\<lambda>g. length (rg_names g)) gs)"

lemma res_mapM_sum:
  assumes "res_mapM f xs = Inr ys" and "\<And>x y. f x = Inr y \<Longrightarrow> x \<in> set xs \<Longrightarrow> c y = d x"
  shows "sum_list (map c ys) = (sum_list (map d xs) :: nat)"
proof -
  from assms(1) have "list_all2 (\<lambda>x y. f x = Inr y) xs ys" by (simp add: res_mapM_Inr_iff)
  then show ?thesis
    using assms(2) by induction auto
qed

lemma named_count_concat: "named_count (concat gss) = sum_list (map named_count gss)"
  by (induction gss) simp_all

lemma summarise_item_count:
  assumes "summarise_item sect item = Inr gs"
  shows "named_count gs =
    sum_list (map (\<lambda>(change, entries). length (array_of entries))
      (object_of (json_get item ''configChange'')))"
proof -
  from assms obtain name kvs where "Option.bind (json_get item ''configChange'') as_object = Some kvs"
    and "res_mapM (\<lambda>(change, entries).
          res_bind (ok_or (ChangeNotArray sect name change) (as_array entries)) (\<lambda>es.
          res_bind (res_mapM (entry_label sect name) es) (\<lambda>names.
            Inr \<lparr>rg_section = sect, rg_item = name, rg_change = change, rg_names = names\<rparr>))) kvs = Inr gs"
    by (auto simp: summarise_item_def res_bind_Inr_iff)
  note obj = this(1) and run = this(2)
  show ?thesis
    unfolding object_of_def obj option.case
    by (rule res_mapM_sum [OF run])
      (clarsimp simp: array_of_def res_bind_Inr_iff, erule res_mapM_length)
qed

lemma summarise_section_count:
  assumes "summarise_section (sect, items) = Inr gs"
  shows "named_count gs =
    sum_list (map (\<lambda>item. sum_list (map (\<lambda>(change, entries). length (array_of entries))
      (object_of (json_get item ''configChange'')))) (array_of items))"
proof -
  from assms obtain its gss where arr: "as_array items = Some its"
    and run: "res_mapM (summarise_item sect) its = Inr gss" and "gs = concat gss"
    by (auto simp: summarise_section_def res_bind_Inr_iff)
  with res_mapM_sum [OF run summarise_item_count] show ?thesis
    by (simp add: array_of_def named_count_concat)
qed

lemma summarise_count:
  assumes "summarise report = Inr gs"
  shows "named_count gs = entry_count report"
proof -
  from assms obtain secs gss where obj: "Option.bind (json_get report ''report'') as_object = Some secs"
    and run: "res_mapM summarise_section secs = Inr gss" and "gs = concat gss"
    by (auto simp: summarise_def res_bind_Inr_iff)
  moreover have "sum_list (map named_count gss) = entry_count report"
    unfolding entry_count_def object_of_def obj option.case
    by (rule res_mapM_sum [OF run]) (auto dest: summarise_section_count simp: object_of_def)
  ultimately show ?thesis
    by (simp add: named_count_concat)
qed

section \<open>Properties\<close>

definition agreeing_lock :: "string \<Rightarrow> json" where
  "agreeing_lock st =
     JObj [(''lowerEnv'', JObj [(''proxyState'', JStr st), (''state'', JStr st)]), (''result'', JStr st),
           (''upperEnv'', JObj [(''proxyState'', JStr st), (''state'', JStr st)])]"

definition status_of_pair :: "string \<Rightarrow> json" where
  "status_of_pair st =
     JObj [(''blockingError'', JBool False), (''globalLock'', JStr ''LOCKED''),
           (''promotionId'', JStr ''id''), (''status'', JStr st)]"

definition sample_assessment :: "string \<Rightarrow> assessment" where
  "sample_assessment st =
     \<lparr>as_lock = \<lparr>ls_result = ''locked'', ls_description = None,
        ls_lower = Some \<lparr>el_state = ''locked'', el_proxy_state = Some ''locked''\<rparr>,
        ls_upper = Some \<lparr>el_state = ''locked'', el_proxy_state = Some ''locked''\<rparr>\<rparr>,
      as_status = \<lparr>ps_status = st, ps_message = None, ps_global_lock = Some ''LOCKED'',
        ps_blocking_error = Some False, ps_timestamp = None, ps_promotion_id = Some ''id''\<rparr>,
      as_disagreements = (if same st ''READY'' then [] else [LockVersusStatus ''locked'' st None])\<rparr>"

lemma assess_sample:
  "assess (agreeing_lock ''locked'') (status_of_pair ''READY'') = Inr (sample_assessment ''READY'')"
  "assess (agreeing_lock ''locked'') (status_of_pair ''RUNNING'') = Inr (sample_assessment ''RUNNING'')"
  by code_simp+

text \<open>a pair is a state to write from only on the word of every source. On an assessment of two
  readings, the phase is \<open>Unlocked\<close> exactly when \<open>blockingError\<close> is reported false and the status, the
  global lock, \<open>lock/state\<close>, both sides and both proxies all read unlocked, and \<open>Ready\<close> exactly when
  the status reads \<open>READY\<close> and all the lock sources read locked; the list of disagreements adds
  nothing to these reads.\<close>

theorem phase_needs_every_source:
  assumes "assess lock_raw status_raw = Inr a"
  shows "(pair_phase a = Unlocked \<longleftrightarrow>
      ps_blocking_error (as_status a) = Some False \<and> same (ps_status (as_status a)) ''UNLOCKED'' \<and>
      global_reads (as_status a) ''UNLOCKED'' \<and> lock_reads (as_lock a) ''unlocked'') \<and>
    (pair_phase a = Ready i \<longleftrightarrow>
      ps_blocking_error (as_status a) = Some False \<and> same (ps_status (as_status a)) ''READY'' \<and>
      global_reads (as_status a) ''LOCKED'' \<and> lock_reads (as_lock a) ''locked'' \<and>
      i = ps_promotion_id (as_status a))"
  using unlocked_reads_agree [OF assess_assessed [OF assms]] held_and_ready_agrees [OF assess_assessed [OF assms]]
  by (auto simp: phase_iffs held_def)

theorem phase_needs_every_source_witness:
  "pair_phase (sample_assessment ''READY'') = Ready (Some ''id'')"
proof (rule iffD2 [OF conjunct2 [OF phase_needs_every_source [OF assess_sample(1)]]])
  show "ps_blocking_error (as_status (sample_assessment ''READY'')) = Some False \<and>
      same (ps_status (as_status (sample_assessment ''READY''))) ''READY'' \<and>
      global_reads (as_status (sample_assessment ''READY'')) ''LOCKED'' \<and>
      lock_reads (as_lock (sample_assessment ''READY'')) ''locked'' \<and>
      Some ''id'' = ps_promotion_id (as_status (sample_assessment ''READY''))"
    by code_simp
qed

end
