(* ===== verification/Promotion_Verify_Facts.thy ===== *)
theory Promotion_Verify_Facts
  imports Promotion_Verify Promotion_Facts "HOL-Library.Sublist"
begin

text \<open>
  What the comparison of \<open>aic promotion verify\<close> means: no difference is reported exactly for equal
  copies, never more than five are; a list shows absence only when it is complete and every row of
  it could be read; the endpoint found in the list is the one read directly; and the entries of a
  report are all of them.
\<close>

section \<open>Differences\<close>

lemma diff_extends:
  "prefix out (diff_at pos l u out)"
  "prefix out (diff_keys pos a b keys out)"
  "prefix out (diff_member here x y out)"
  "prefix out (diff_items pos i xs ys out)"
proof (induction pos l u out and pos a b keys out and here x y out and pos i xs ys out
    rule: diff_at_diff_keys_diff_member_diff_items.induct)
  case (1 pos l u out)
  then show ?case by (subst diff_at.simps) (auto split: json.splits)
qed (auto simp: Let_def intro: prefix_order.trans)

lemma diff_bounded:
  "length out \<le> MAX_PATHS \<Longrightarrow> length (diff_at pos l u out) \<le> MAX_PATHS"
  "length out < MAX_PATHS \<Longrightarrow> length (diff_keys pos a b keys out) \<le> MAX_PATHS"
  "length out < MAX_PATHS \<Longrightarrow> length (diff_member here x y out) \<le> MAX_PATHS"
  "length out \<le> MAX_PATHS \<Longrightarrow> length (diff_items pos i xs ys out) \<le> MAX_PATHS"
proof (induction pos l u out and pos a b keys out and here x y out and pos i xs ys out
    rule: diff_at_diff_keys_diff_member_diff_items.induct)
  case (1 pos l u out)
  then show ?case by (subst diff_at.simps) (auto split: json.splits)
qed (auto simp: Let_def)

lemma same_keys_differ:
  assumes "json_wf (JObj a)" "json_wf (JObj b)" and "a \<noteq> b"
  shows "\<exists>k \<in> set (btree_set (map fst a @ map fst b)). map_of a k \<noteq> map_of b k"
proof (rule ccontr)
  assume "\<not> ?thesis"
  then have on: "map_of a k = map_of b k" if "k \<in> fst ` set a \<union> fst ` set b" for k
    using that by simp
  have "map_of a k = map_of b k" for k
  proof (cases "k \<in> fst ` set a \<union> fst ` set b")
    case False
    then have "map_of a k = None" "map_of b k = None" by (simp_all add: map_of_eq_None_iff)
    then show ?thesis by simp
  qed (rule on)
  then have "map_of a = map_of b" by blast
  with assms strict_map_of_eqI [of a b] show False by simp
qed

text \<open>As long as there is room, a path is added exactly when the two differ.\<close>

lemma diff_at_id_iff:
  "json_wf l \<Longrightarrow> json_wf u \<Longrightarrow> length out < MAX_PATHS \<Longrightarrow> (diff_at pos l u out = out \<longleftrightarrow> l = u)"
  "json_wf (JObj a) \<Longrightarrow> json_wf (JObj b) \<Longrightarrow> length out < MAX_PATHS \<Longrightarrow>
   (diff_keys pos a b keys out = out \<longleftrightarrow> (\<forall>k \<in> set keys. map_of a k = map_of b k))"
  "(\<forall>v \<in> set_option x. json_wf v) \<Longrightarrow> (\<forall>v \<in> set_option y. json_wf v) \<Longrightarrow> length out < MAX_PATHS \<Longrightarrow>
   (diff_member here x y out = out \<longleftrightarrow> x = y)"
  "json_wf (JArr xs) \<Longrightarrow> json_wf (JArr ys) \<Longrightarrow> length out < MAX_PATHS \<Longrightarrow> length xs = length ys \<Longrightarrow>
   (diff_items pos i xs ys out = out \<longleftrightarrow> xs = ys)"
proof (induction pos l u out and pos a b keys out and here x y out and pos i xs ys out
    rule: diff_at_diff_keys_diff_member_diff_items.induct)
  case (1 pos l u out)
  show ?case
  proof (cases "l = u")
    case True
    then show ?thesis by (subst diff_at.simps) simp
  next
    case False
    have "diff_at pos l u out \<noteq> out"
    proof (cases "(\<exists>a b. l = JObj a \<and> u = JObj b) \<or> (\<exists>a b. l = JArr a \<and> u = JArr b \<and> length a = length b)")
      case False': False
      then show ?thesis
        using False 1(5) by (subst diff_at.simps) (auto split: json.splits)
    next
      case True
      then show ?thesis
      proof (elim disjE exE conjE)
        fix a b assume o: "l = JObj a" "u = JObj b"
        with False 1 same_keys_differ [of a b] show ?thesis
          by (subst diff_at.simps) auto
      next
        fix a b assume o: "l = JArr a" "u = JArr b" "length a = length b"
        with False 1 show ?thesis
          by (subst diff_at.simps) auto
      qed
    qed
    with False show ?thesis by simp
  qed
next
  case (3 pos a b key keys out)
  let ?out = "diff_member (pos @ ''/'' @ key) (map_of a key) (map_of b key) out"
  have wf: "\<forall>v \<in> set_option (map_of a key). json_wf v" "\<forall>v \<in> set_option (map_of b key). json_wf v"
    using 3(3,4) by (auto dest!: map_of_SomeD)
  note member = 3(1) [OF wf 3(5)]
  have grows: "prefix out ?out" "prefix ?out (diff_keys pos a b keys ?out)"
    by (rule diff_extends)+
  show ?case
  proof (cases "?out = out")
    case True
    with 3 member show ?thesis by (simp add: Let_def)
  next
    case False
    with grows have "diff_keys pos a b (key # keys) out \<noteq> out"
      by (auto simp: Let_def dest: prefix_order.antisym)
    with False member show ?thesis by simp
  qed
next
  case (8 pos i x xs y ys out)
  let ?out = "diff_at (pos @ ''/'' @ show_nat i) x y out"
  have grows: "prefix out ?out" "prefix ?out (diff_items pos (Suc i) xs ys ?out)"
    by (rule diff_extends)+
  show ?case
  proof (cases "?out = out")
    case True
    with 8 show ?thesis by simp
  next
    case False
    with grows have "diff_items pos i (x # xs) (y # ys) out \<noteq> out"
      by (auto dest: prefix_order.antisym)
    with False 8 show ?thesis by simp
  qed
qed auto

lemma json_wf_filter: "json_wf (JObj kvs) \<Longrightarrow> json_wf (JObj (filter P kvs))"
  by (auto simp: sorted_filter [of fst] distinct_map inj_on_def distinct_filter)

lemma json_wf_strip_root: "json_wf v \<Longrightarrow> json_wf (strip_root keys v)"
  using json_wf_filter by (cases v) (auto simp del: json_wf.simps(1))

lemma json_wf_map_values:
  assumes "json_wf (JObj kvs)" and "\<And>k v. json_wf v \<Longrightarrow> json_wf (f k v)"
  shows "json_wf (JObj (map (\<lambda>(k, v). (k, f k v)) kvs))"
proof -
  have "map fst (map (\<lambda>(k, v). (k, f k v)) kvs) = map fst kvs" by auto
  with assms show ?thesis by (auto simp del: map_map)
qed

lemma json_wf_at_key: "json_wf v \<Longrightarrow> (\<And>w. json_wf w \<Longrightarrow> json_wf (f w)) \<Longrightarrow> json_wf (at_key key f v)"
  by (cases v) (auto simp: at_key_def simp del: json_wf.simps(1) intro!: json_wf_map_values)

lemma json_wf_strip_nodes: "json_wf v \<Longrightarrow> json_wf (strip_nodes v)"
  by (cases v) (auto simp del: json_wf.simps(1) intro!: json_wf_map_values json_wf_strip_root)

lemma json_wf_normalise: "json_wf v \<Longrightarrow> json_wf (normalise sh v)"
  by (cases sh)
    (auto simp: normalise_def intro!: json_wf_strip_root json_wf_at_key json_wf_strip_nodes)

lemma judge_copies_both:
  assumes "json_wf l" and "json_wf u"
  shows "judge_copies sh (Some l) (Some u) =
    (if normalise sh l = normalise sh u then Same
     else Differs (diff_at [] (normalise sh l) (normalise sh u) []))"
  using diff_at_id_iff(1) [of "normalise sh l" "normalise sh u" "[]" "[]"] assms
  by (simp add: judge_copies_def json_wf_normalise MAX_PATHS_def Let_def)

text \<open>Copies that normalise to one document may differ in metadata only.\<close>

lemma map_of_filter_keys: "map_of (filter (\<lambda>(k, v). P k) kvs) k = (if P k then map_of kvs k else None)"
  by (induction kvs) auto

lemma strip_root_eq:
  "strip_root keys l = strip_root keys u \<Longrightarrow> k \<notin> set keys \<Longrightarrow> json_get l k = json_get u k"
  by (cases l; cases u) (auto simp: map_of_filter_keys dest: arg_cong [where f = "\<lambda>kvs. map_of kvs k"])

section \<open>Lists\<close>

text \<open>Nothing says that more rows follow.\<close>

definition shows_all :: "json \<Rightarrow> bool" where
  "shows_all lst \<longleftrightarrow>
     json_get lst ''pagedResultsCookie'' \<in> {None, Some JNull} \<and>
     (json_get lst ''remainingPagedResults'' \<in> {None, Some JNull} \<or>
      (\<exists>n i. json_get lst ''remainingPagedResults'' = Some n \<and> as_i64 n = Some i \<and> i \<le> 0))"

lemma complete_in_Inr: "complete_in lst key = Inr vs \<longleftrightarrow> get_array lst key = Some vs \<and> shows_all lst"
proof (cases "json_get lst ''remainingPagedResults''")
  case None
  then show ?thesis by (auto simp: complete_in_def shows_all_def res_bind_Inr_iff)
next
  case (Some n)
  then show ?thesis
    by (cases n) (auto simp: complete_in_def shows_all_def res_bind_Inr_iff split: option.splits)
qed

lemma rows_Inr:
  "rows lst field = Inr rs \<longleftrightarrow>
   (\<exists>vs. get_array lst ''result'' = Some vs \<and> shows_all lst \<and>
      list_all2 (\<lambda>v r. get_str v field = Some (fst r) \<and> snd r = v) vs rs)"
proof -
  have row: "(\<lambda>row r. ok_or (RowWithout field row) (map_option (\<lambda>key. (key, row)) (get_str row field)) = Inr r) =
      (\<lambda>v r. get_str v field = Some (fst r) \<and> snd r = v)"
    by (auto simp: fun_eq_iff)
  have "res_mapM (\<lambda>row. ok_or (RowWithout field row) (map_option (\<lambda>key. (key, row)) (get_str row field))) vs =
      Inr rs \<longleftrightarrow> list_all2 (\<lambda>v r. get_str v field = Some (fst r) \<and> snd r = v) vs rs" for vs
    by (simp only: res_mapM_Inr_iff row)
  then show ?thesis
    by (simp add: rows_def complete_def res_bind_Inr_iff complete_in_Inr conj_assoc)
qed

lemma rows_entries:
  assumes "rows lst field = Inr rs"
  obtains vs where "get_array lst ''result'' = Some vs" "shows_all lst"
    "\<And>k v. (k, v) \<in> set rs \<longleftrightarrow> v \<in> set vs \<and> get_str v field = Some k"
    "\<And>v. v \<in> set vs \<Longrightarrow> get_str v field \<noteq> None"
proof -
  from assms obtain vs where vs: "get_array lst ''result'' = Some vs" "shows_all lst"
    and all: "list_all2 (\<lambda>v r. get_str v field = Some (fst r) \<and> snd r = v) vs rs"
    by (auto simp: rows_Inr)
  from all have "(\<forall>k v. (k, v) \<in> set rs \<longleftrightarrow> v \<in> set vs \<and> get_str v field = Some k) \<and>
      (\<forall>v \<in> set vs. get_str v field \<noteq> None)"
    by induction auto
  with vs that show thesis by blast
qed

lemma at_most_one_Inr:
  "(case xs of [] \<Rightarrow> Inr a | x # ys \<Rightarrow> (case ys of [] \<Rightarrow> f x | y # zs \<Rightarrow> Inl (g x y zs))) = Inr r \<longleftrightarrow>
   xs = [] \<and> r = a \<or> (\<exists>x. xs = [x] \<and> f x = Inr r)"
  by (auto split: list.splits)

lemma one_by_None:
  assumes "one_by lst field want = Inr None"
  obtains vs where "get_array lst ''result'' = Some vs" "shows_all lst"
    "\<And>v. v \<in> set vs \<Longrightarrow> \<exists>k. get_str v field = Some k \<and> \<not> eq_ignore_ascii_case k want"
proof -
  from assms obtain rs where rs: "rows lst field = Inr rs"
    and none: "filter (\<lambda>(key, row). eq_ignore_ascii_case key want) rs = []"
    by (auto simp: one_by_def res_bind_Inr_iff at_most_one_Inr)
  from rs obtain vs where vs: "get_array lst ''result'' = Some vs" "shows_all lst"
    and entries: "\<And>k v. (k, v) \<in> set rs \<longleftrightarrow> v \<in> set vs \<and> get_str v field = Some k"
    and all: "\<And>v. v \<in> set vs \<Longrightarrow> get_str v field \<noteq> None"
    by (elim rows_entries) blast
  have "\<exists>k. get_str v field = Some k \<and> \<not> eq_ignore_ascii_case k want" if "v \<in> set vs" for v
    using all [OF that] that entries none by (fastforce simp: filter_empty_conv)
  with that vs show thesis by blast
qed

section \<open>Endpoints\<close>

lemma endpoint_reading_of_Some:
  "endpoint_reading_of i = Some n \<longleftrightarrow> i = ''endpoint/'' @ n \<and> n \<noteq> [] \<and> CHR ''/'' \<notin> set n"
  by (auto simp: endpoint_reading_of_def strip_prefix_Some)

lemma dashed_append: "dashed (x @ y) = dashed x @ dashed y"
  by (simp add: dashed_def replace_char_def)

lemma replace_char_id: "c \<notin> set n \<Longrightarrow> replace_char c new n = n"
  by (induction n) (auto simp: replace_char_def)

lemma dashed_id: "CHR ''/'' \<notin> set n \<Longrightarrow> dashed n = n"
  unfolding dashed_def by (rule replace_char_id)

lemma dashed_endpoint: "CHR ''/'' \<notin> set n \<Longrightarrow> dashed (''endpoint/'' @ n) = ''endpoint-'' @ n"
  unfolding dashed_append by (simp add: dashed_id) (simp add: dashed_def replace_char_def)

lemma endpoint_reading_Inr:
  "endpoint_reading reported = Inr i \<longleftrightarrow>
   (\<exists>n. i = ''endpoint/'' @ n \<and> reported = ''endpoint-'' @ n \<and> n \<noteq> [] \<and> CHR ''/'' \<notin> set n)"
proof -
  have "endpoint_reading_of (''endpoint/'' @ n) = (if n \<noteq> [] \<and> CHR ''/'' \<notin> set n then Some n else None)" for n
    unfolding endpoint_reading_of_def opt_filter_def strip_prefix_append by simp
  note read = this
  show ?thesis
  proof (cases "strip_prefix ''endpoint-'' reported")
    case None
    then have "reported \<noteq> ''endpoint-'' @ n" for n
      by (metis strip_prefix_append option.distinct(1))
    with None show ?thesis by (simp add: endpoint_reading_def)
  next
    case (Some m)
    then have "reported = ''endpoint-'' @ m" by (simp only: strip_prefix_Some)
    with Some read [of m] show ?thesis
      by (auto simp: endpoint_reading_def simp del: append_Cons append_Nil)
  qed
qed

lemma endpoint_row_Inr:
  "endpoint_row reported row = Inr found \<Longrightarrow> found = Some i \<Longrightarrow>
   get_str row ''_id'' = Some i \<and> endpoint_reading_of i \<noteq> None \<and> reported_as i reported"
  by (auto simp: endpoint_row_def res_bind_Inr_iff Let_def split: if_splits)

lemma map_filter_id: "List.map_filter (\<lambda>x. x) xs = map the (filter (\<lambda>x. x \<noteq> None) xs)"
  by (induction xs) (auto simp: List.map_filter_def)

lemma endpoint_id_Inr:
  assumes "endpoint_id lst reported = Inr (Some i)"
  shows "endpoint_reading reported = Inr i"
proof -
  from assms obtain rs found where run: "res_mapM (endpoint_row reported) rs = Inr found"
    and one: "List.map_filter (\<lambda>x. x) found = [i]" and i: "dashed i = reported"
    by (auto simp: endpoint_id_def res_bind_Inr_iff at_most_one_Inr split: if_splits)
  from one have "Some i \<in> set found"
    by (force simp: map_filter_id filter_eq_Cons_iff Cons_eq_filter_iff map_eq_Cons_conv)
  with run obtain row where "endpoint_row reported row = Inr (Some i)"
    by (auto simp: res_mapM_Inr_iff list_all2_conv_all_nth in_set_conv_nth)
  then obtain n where "endpoint_reading_of i = Some n"
    using endpoint_row_Inr by blast
  then have "i = ''endpoint/'' @ n" "n \<noteq> []" "CHR ''/'' \<notin> set n"
    by (simp_all add: endpoint_reading_of_Some)
  with i show ?thesis
    by (auto simp: endpoint_reading_Inr dashed_endpoint simp del: append_Cons append_Nil)
qed

section \<open>Entries\<close>

lemma res_mapM_concat_length:
  assumes "res_mapM f xs = Inr yss" and "\<And>x ys. x \<in> set xs \<Longrightarrow> f x = Inr ys \<Longrightarrow> length ys = d x"
  shows "length (concat yss) = sum_list (map d xs)"
  using res_mapM_sum [OF assms(1), of length d] assms(2) by (simp add: length_concat)

lemma item_entries_length:
  assumes "item_entries sect item = Inr es"
  shows "length es = sum_list (map (\<lambda>(change, vs). length (array_of vs))
    (object_of (json_get item ''configChange'')))"
proof -
  from assms obtain name kvs ess where
    obj: "Option.bind (json_get item ''configChange'') as_object = Some kvs"
    and run: "res_mapM (\<lambda>(change, vs). res_bind (ok_or (EntriesShape sect name change) (as_array vs))
            (res_mapM (entry_of sect name change))) kvs = Inr ess" and es: "es = concat ess"
    by (auto simp: item_entries_def res_bind_Inr_iff)
  show ?thesis
    unfolding object_of_def obj option.case es
    by (rule res_mapM_concat_length [OF run])
      (clarsimp simp: array_of_def res_bind_Inr_iff, erule res_mapM_length)
qed

lemma section_entries_length:
  assumes "section_entries (sect, items) = Inr es"
  shows "length es = sum_list (map (\<lambda>item. sum_list (map (\<lambda>(change, vs). length (array_of vs))
    (object_of (json_get item ''configChange'')))) (array_of items))"
proof -
  from assms obtain its ess where arr: "as_array items = Some its"
    and run: "res_mapM (item_entries sect) its = Inr ess" and "es = concat ess"
    by (auto simp: section_entries_def res_bind_Inr_iff)
  with res_mapM_concat_length [OF run item_entries_length] show ?thesis
    by (simp add: array_of_def)
qed

lemma entries_length:
  assumes "entries report = Inr es"
  shows "length es = entry_count report"
proof -
  from assms obtain secs ess where
    obj: "Option.bind (json_get report ''report'') as_object = Some secs"
    and run: "res_mapM section_entries secs = Inr ess" and es: "es = concat ess"
    by (auto simp: entries_def res_bind_Inr_iff)
  show ?thesis
    unfolding entry_count_def object_of_def obj option.case es
    by (rule res_mapM_concat_length [OF run]) (auto dest: section_entries_length simp: object_of_def)
qed

section \<open>Filters\<close>

text \<open>Reading back what stands between the quotes of a filter.\<close>

fun unescape_filter :: "string \<Rightarrow> string" where
  "unescape_filter [] = []"
| "unescape_filter [c] = [c]"
| "unescape_filter (c # d # s) =
     (if c = BACKSLASH then d # unescape_filter s else c # unescape_filter (d # s))"

lemma escaped_filter:
  "replace_char QUOTE [BACKSLASH, QUOTE] (replace_char BACKSLASH [BACKSLASH, BACKSLASH] s) =
   concat (map (\<lambda>c. if c = BACKSLASH \<or> c = QUOTE then [BACKSLASH, c] else [c]) s)"
  by (induction s) (auto simp: replace_char_def BACKSLASH_def QUOTE_def)

lemma unescape_escaped:
  "unescape_filter (concat (map (\<lambda>c. if c = BACKSLASH \<or> c = QUOTE then [BACKSLASH, c] else [c]) s)) = s"
proof (induction s)
  case (Cons c s)
  have "unescape_filter (c # xs) = c # unescape_filter xs" if "c \<noteq> BACKSLASH" for xs
    using that by (cases xs) auto
  with Cons show ?case by auto
qed simp

section \<open>Properties\<close>

text \<open>the comparison is exact and bounded. Two well-formed copies are the same exactly when they
  are equal once the metadata at the roots the shape names is stripped; otherwise the verdict
  names at least one differing path and at most five.\<close>

theorem comparison_is_exact:
  assumes "json_wf l" and "json_wf u"
  shows "(judge_copies sh (Some l) (Some u) = Same \<longleftrightarrow> normalise sh l = normalise sh u) \<and>
    (judge_copies sh (Some l) (Some u) = Same \<or>
     (\<exists>paths. judge_copies sh (Some l) (Some u) = Differs paths \<and> 1 \<le> length paths \<and> length paths \<le> MAX_PATHS))"
proof -
  let ?paths = "diff_at [] (normalise sh l) (normalise sh u) []"
  have "length ?paths \<le> MAX_PATHS" by (rule diff_bounded(1)) simp
  moreover have "?paths \<noteq> []" if "normalise sh l \<noteq> normalise sh u"
    using that diff_at_id_iff(1) [of "normalise sh l" "normalise sh u" "[]" "[]"] assms
    by (simp add: json_wf_normalise MAX_PATHS_def)
  ultimately show ?thesis
    using assms by (cases ?paths) (auto simp: judge_copies_both)
qed

theorem comparison_is_exact_witness:
  "judge_copies ShapeRev (Some (JObj [(''_rev'', JStr ''1''), (''a'', JNull)]))
     (Some (JObj [(''_rev'', JStr ''2''), (''a'', JNull)])) = Same"
proof -
  have "json_wf (JObj [(''_rev'', JStr ''1''), (''a'', JNull)])"
    "json_wf (JObj [(''_rev'', JStr ''2''), (''a'', JNull)])"
    by code_simp+
  from comparison_is_exact [OF this, of ShapeRev] show ?thesis by (simp add: normalise_def)
qed

text \<open>an endpoint is the same document whichever way it is found. The id the config list
  resolves a reported name to is the id that the name stands for when the list has none, so a
  direct read after a list without it asks for the one document the list could have named.\<close>

theorem listed_endpoint_is_the_direct_one:
  assumes "endpoint_id lst reported = Inr (Some i)"
  shows "endpoint_reading reported = Inr i \<and> dashed i = reported"
proof -
  from endpoint_id_Inr [OF assms] have "endpoint_reading reported = Inr i" .
  then show ?thesis
    by (auto simp: endpoint_reading_Inr dashed_endpoint simp del: append_Cons append_Nil)
qed

theorem listed_endpoint_is_the_direct_one_witness:
  "endpoint_reading ''endpoint-a-b'' = Inr ''endpoint/a-b''"
proof -
  have "endpoint_id
      (JObj [(''configurations'', JArr [JObj [(''_id'', JStr ''endpoint/a-b''), (''factoryPid'', JStr ''endpoint'')]])])
      ''endpoint-a-b'' = Inr (Some ''endpoint/a-b'')"
    by code_simp
  from listed_endpoint_is_the_direct_one [OF this] show ?thesis by simp
qed

text \<open>neither view of a report drops an entry. The names in the summary that \<open>report\<close> prints and
  the entries that \<open>verify\<close> checks are as many as the entries the report lists, whatever its
  sections, items and kinds of change.\<close>

theorem report_views_list_every_entry:
  assumes "summarise report = Inr gs" and "entries report = Inr es"
  shows "sum_list (map (\<lambda>g. length (rg_names g)) gs) = entry_count report \<and> length es = entry_count report"
  using summarise_count [OF assms(1)] entries_length [OF assms(2)] by blast

theorem report_views_list_every_entry_witness:
  "entry_count (JObj [(''report'', JObj [(''am'', JArr [JObj
      [(''configChange'', JObj [(''modified'', JArr [JObj [(''name'', JStr ''a'')], JObj [(''name'', JStr ''b'')]])]),
       (''configItem'', JStr ''Journeys'')]])])]) = 2"
proof -
  let ?report = "JObj [(''report'', JObj [(''am'', JArr [JObj
      [(''configChange'', JObj [(''modified'', JArr [JObj [(''name'', JStr ''a'')], JObj [(''name'', JStr ''b'')]])]),
       (''configItem'', JStr ''Journeys'')]])])]"
  have s: "summarise ?report =
      Inr [\<lparr>rg_section = ''am'', rg_item = ''Journeys'', rg_change = ''modified'', rg_names = [''a'', ''b'']\<rparr>]"
    by code_simp
  have e: "entries ?report =
      Inr (map (\<lambda>n. \<lparr>en_section = ''am'', en_item = ''Journeys'', en_change = ''modified'', en_name = n,
        en_realm = None, en_uid = None\<rparr>) [''a'', ''b''])"
    by code_simp
  from report_views_list_every_entry [OF s e] show ?thesis by simp
qed

end
