(* ===== verification/Promotion_Cli_Facts.thy ===== *)
theory Promotion_Cli_Facts
  imports Promotion_Cli Promotion_Verify_Facts
begin

text \<open>
  What the commands of \<open>aic promotion\<close> guarantee over any tenant: which of their calls only read, the
  one write a verb makes and the two readings it rests on, that a wait ends and what it has seen
  when it says done, and what a passing \<open>verify\<close> has compared.
\<close>

section \<open>Reads\<close>

lemma reads_versioned [emits_intros]:
  "emits is_read (api_get env t p)" "emits is_read (get_versioned env t p v)"
  unfolding api_get_def get_versioned_def by (simp_all add: emits_send_read)

lemma reads_promotion [emits_intros]:
  "emits is_read (read_lock_state env t)" "emits is_read (read_status env t)"
  "emits is_read (read_reports env t)" "emits is_read (read_report env t w)"
  unfolding read_lock_state_def read_status_def read_reports_def read_report_def
  by (intro emits_intros)+

lemma emits_explained [emits_intros]: "emits P m \<Longrightarrow> emits P (explained t m)"
  unfolding explained_def by (rule emits_map_err)

lemma emits_pure [emits_intros]:
  "emits P (decoded r)" "emits P (because q)" "emits P (judged u)"
  unfolding decoded_def because_def judged_def by (rule emits_lift)+

lemma reads_assessment [emits_intros]: "emits is_read (read_assessment env t)"
  unfolding read_assessment_def by (intro emits_intros)

lemma emits_absent_404 [emits_intros]: "emits P m \<Longrightarrow> emits P (absent_on_404 m)"
  unfolding absent_on_404_def
  by (intro emits_bind emits_try) (auto intro!: emits_intros split: sum.splits error.splits)

lemma reads_journey_loop: "emits is_read (journey_loop fuel env t realm pending nodes)"
proof (induction fuel arbitrary: pending nodes)
  case 0
  show ?case by (cases pending) (auto intro: emits_intros)
next
  case (Suc fuel)
  show ?case
  proof (cases pending)
    case (Cons p ps)
    show ?thesis
      unfolding Cons journey_loop.simps Let_def read_node_def
      by (auto intro!: emits_intros Suc split: prod.split simp del: last.simps butlast.simps)
  qed (auto intro: emits_intros)
qed

lemma reads_journey: "emits is_read (read_journey fuel env t realm name)"
  unfolding read_journey_def
  by (auto intro!: emits_intros reads_journey_loop split: option.splits)

lemma reads_endpoint: "emits is_read (read_endpoint env name (api_get env t))"
  unfolding read_endpoint_def by (auto intro!: emits_intros split: option.splits)

lemma reads_target: "emits is_read (read_target fuel env t tg)"
  unfolding read_target_def
  by (auto intro!: emits_intros reads_journey reads_endpoint reads_api split: target.splits option.splits)

lemma reads_fetch: "emits is_read (fetch_target fuel env t tg)"
  unfolding fetch_target_def by (auto intro!: emits_intros reads_target split: option.splits)

lemma reads_judge_entry: "emits is_read (judge_entry fuel env lower upper e)"
  unfolding judge_entry_def by (auto intro!: emits_intros reads_fetch split: target.splits)

lemma reads_verify: "emits is_read (run_verify fuel parse_url env l u report)"
  unfolding run_verify_def Let_def by (auto intro!: emits_intros reads_judge_entry)

lemma is_read_Waited [intro]: "is_read (Waited n)"
  by (simp add: is_read_def)

lemma reads_wait_loop: "emits is_read (wait_loop fuel env t v secs deadline w failures)"
proof (induction fuel arbitrary: w failures)
  case 0
  show ?case by (auto intro: emits_intros)
next
  case (Suc fuel)
  show ?case
    unfolding wait_loop.simps
    by (intro emits_bind emits_try reads_assessment)
      (auto intro!: emits_intros Suc simp: promo_sleep_def promo_clock_def clock_def
        split: sum.splits prod.splits settle_verdict.splits)
qed

lemma reads_promo_wait: "emits is_read (promo_wait env t v secs w)"
  unfolding promo_wait_def promo_clock_def clock_def by (intro emits_intros reads_wait_loop)

lemma reads_name_reports: "emits is_read (name_reports env t v i before)"
  unfolding name_reports_def by (auto intro!: emits_intros split: verb.splits option.splits)

lemma reads_after_ack: "emits is_read (after_ack env t v args before ack reports)"
  unfolding after_ack_def Let_def
  by (auto intro!: emits_intros reads_promo_wait reads_name_reports split: option.splits verb.splits)

section \<open>The write sequence on the tenant\<close>

interpretation tenant_write: write_sequence harmless "read_assessment env (ten_name t)"
    "ask_to_write env args" "prepare_write env t v args" "send_write env t"
  for env t v args
proof
  show "emits harmless (read_assessment env (ten_name t))"
    by (intro emits_reads_harmless emits_intros)
  show "emits harmless (ask_to_write env args a)" for a
    unfolding ask_to_write_def by (intro emits_map_err emits_ask)
  show "emits harmless (prepare_write env t v args)"
    unfolding prepare_write_def
    by (auto intro!: emits_intros emits_reads_harmless split: verb.splits)
qed

definition permit_of :: "verb \<Rightarrow> approval \<Rightarrow> promotion_permit" where
  "permit_of v appr =
     Permit (case v of Lock \<Rightarrow> LockOp | Promote d \<Rightarrow> PromoteOp d | _ \<Rightarrow> UnlockOp (the appr))"

lemma authorize_permit_of:
  assumes "authorize v appr fresh tn c = Inr permit"
  shows "may_start v fresh appr" and "permit = permit_of v appr"
proof -
  from assms have "check_verb v fresh tn = Inr appr" and op: "op_of v appr = Inr (permit_op permit)"
    by (simp_all add: authorize_Inr)
  then show "may_start v fresh appr" by (simp add: check_verb_Inr)
  from op_of_Inr [OF this] op show "permit = permit_of v appr"
    by (cases permit) (simp add: permit_of_def)
qed

lemma prepare_write_Inr:
  "prepare_write env t v args s = (Inr (ok, reports), s') \<Longrightarrow>
   ok = wa_yes args \<and> (ten_theme t = Production \<longrightarrow> wa_yes args)"
  by (auto simp: prepare_write_def io_bind_Inr prod_write_ok_def split: if_splits verb.splits)

lemma send_write_log:
  assumes "send_write env t permit (ok, reports) s = (q, s')"
  shows "sent s' = sent s @ [Called (permit_call (ten_name t) (permit_path env permit) ok permit)]"
  using assms
  by (auto simp: send_write_def explained_def prod_hint_def send_permit_def send_def io_pairs)

text \<open>
  The run of a write verb: either it sent nothing but reads and the prompt, or one write, the
  permitted one, after two readings that both allow the verb and name one lock.
\<close>

lemma run_write_cases:
  assumes "run_write env t v args s = (r, s')"
  obtains (stopped) "quiet_to harmless s s'"
  | (written) first s1 appr s2 reports s3 fresh s4 before after where
      "read_assessment env (ten_name t) s = (Inr first, s1)" "may_start v first appr"
      "ask_consent env (wa_force args) s1 = (Inr True, s2)"
      "prepare_write env t v args s2 = (Inr (wa_yes args, reports), s3)"
      "read_assessment env (ten_name t) s3 = (Inr fresh, s4)" "may_start v fresh appr"
      "sent s4 = sent s @ before" "list_all harmless before"
      "sent s' = sent s4 @
        Called (permit_call (ten_name t) (permit_path env (permit_of v appr)) (wa_yes args) (permit_of v appr)) # after"
      "list_all harmless after"
proof -
  let ?tail = "\<lambda>begun. case begun of
         AlreadyUnlocked \<Rightarrow> io_return NothingToDo
       | SentOff before reply \<Rightarrow> after_ack env t v args before (fst reply) (snd reply)"
  obtain q t1 where began: "begin_on env t v args s = (q, t1)"
    by (cases "begin_on env t v args s")
  have tail: "quiet_to harmless t1 s'" if "\<not> (\<exists>e. q = Inl e)"
  proof -
    from that obtain b where "q = Inr b" by (cases q) auto
    with assms began have run: "?tail b t1 = (r, s')"
      by (auto simp: run_write_def io_bind_Pair)
    have "emits harmless (?tail b)"
      by (cases b) (auto intro: emits_intros emits_reads_harmless reads_after_ack)
    from quiet_to_emits [OF this run] show ?thesis .
  qed
  have ended: "s' = t1" if "q = Inl e" for e
    using assms began that by (auto simp: run_write_def io_bind_Pair)
  then have quiet: "quiet_to harmless t1 s'" using tail by (cases q) auto
  from began [unfolded begin_on_def] show thesis
  proof (cases rule: tenant_write.sequence_cases)
    case stopped
    with quiet that(1) show thesis by (blast intro: quiet_to_trans)
  next
    case (written first s1 appr s2 prepared s3 fresh s4 permit q')
    obtain ok reports where prepared: "prepared = (ok, reports)" by (cases prepared)
    from written(4) have ok: "ok = wa_yes args"
      by (auto simp: prepared dest: prepare_write_Inr)
    note permit = authorize_permit_of [OF written(6)]
    from written(2) have "may_start v first appr" by (simp add: check_verb_Inr)
    moreover from written(3) have "ask_consent env (wa_force args) s1 = (Inr True, s2)"
      by (auto simp: ask_to_write_def io_map_err_Pair)
    moreover from written(8) have "sent t1 = sent s4 @
        [Called (permit_call (ten_name t) (permit_path env permit) (wa_yes args) permit)]"
      by (auto simp: prepared ok dest: send_write_log)
    ultimately show thesis
      using that(2) written(1,4,5,7) permit quiet
      by (auto simp: prepared ok quiet_to_def)
  qed
qed

section \<open>The wait\<close>

text \<open>A computation under which the clock does not run backwards.\<close>

definition forward :: "'w env \<Rightarrow> ('w, event, 'e, 'a) io \<Rightarrow> bool" where
  "forward env m \<longleftrightarrow> (\<forall>s. env_now env (world s) \<le> env_now env (world (snd (m s))))"

lemma forwardD: "forward env m \<Longrightarrow> m s = (r, s') \<Longrightarrow> env_now env (world s) \<le> env_now env (world s')"
  unfolding forward_def by (metis snd_conv)

lemma forward_bind:
  assumes "forward env m" and "\<And>x. forward env (f x)"
  shows "forward env (io_bind m f)"
  unfolding forward_def
proof
  fix s
  obtain r s1 where m: "m s = (r, s1)" by (cases "m s")
  note first = forwardD [OF assms(1) m]
  show "env_now env (world s) \<le> env_now env (world (snd (io_bind m f s)))"
  proof (cases r)
    case (Inr x)
    have "env_now env (world s1) \<le> env_now env (world (snd (f x s1)))"
      using assms(2) unfolding forward_def by blast
    with first Inr m show ?thesis by (simp add: io_bind_def)
  qed (use first m in \<open>simp add: io_bind_def\<close>)
qed

lemma forward_map_err: "forward env m \<Longrightarrow> forward env (io_map_err g m)"
  by (auto simp: forward_def io_map_err_def split: prod.splits) (metis snd_conv)

lemma forward_lift: "forward env (io_lift r)"
  by (simp add: forward_def io_lift_def)

text \<open>Sleeping for \<open>n\<close> moves the clock on by at least \<open>n\<close>, and a call takes no negative time.\<close>

definition agent_timed :: "'w env \<Rightarrow> bool" where
  "agent_timed env \<longleftrightarrow>
     (\<forall>n w. env_now env w + n \<le> env_now env (env_sleep env n w)) \<and>
     (\<forall>c w. env_now env w \<le> env_now env (snd (env_agent env c w)))"

lemma forward_send:
  assumes "agent_timed env"
  shows "forward env (send env c)"
  unfolding send_def
proof (intro forward_bind forward_lift)
  show "forward env (io_call (Called c) (env_agent env c))"
    unfolding forward_def
  proof
    fix s :: "('a, event) sess"
    have "env_now env (world s) \<le> env_now env (snd (env_agent env c (world s)))"
      using assms by (simp add: agent_timed_def)
    then show "env_now env (world s) \<le> env_now env (world (snd (io_call (Called c) (env_agent env c) s)))"
      by (cases "env_agent env c (world s)") (simp add: io_call_def)
  qed
qed

lemma forward_read_assessment: "agent_timed env \<Longrightarrow> forward env (read_assessment env t)"
  unfolding read_assessment_def explained_def read_lock_state_def read_status_def api_get_def decoded_def
  by (intro forward_bind forward_map_err forward_send forward_lift)

text \<open>One turn of the loop, with its effects on the session written out.\<close>

definition slept :: "'w env \<Rightarrow> ('w, event) sess \<Rightarrow> ('w, event) sess" where
  "slept env s =
     s\<lparr>world := env_sleep env POLL_INTERVAL (world s), sent := sent s @ [Waited POLL_INTERVAL]\<rparr>"

lemma wait_loop_turn:
  "wait_loop (Suc fuel) env t v secs deadline w failures s =
   (case read_assessment env t (slept env s) of
      (Inl e, s1) \<Rightarrow>
        if Suc failures \<ge> POLL_READ_FAILURES \<or> env_now env (world s1) \<ge> deadline
        then (Inl (LostTrack v t), s1)
        else wait_loop fuel env t v secs deadline w (Suc failures) s1
    | (Inr a, s1) \<Rightarrow>
        (case judge_reading w a of
           (Done, w') \<Rightarrow> (Inr a, s1)
         | (Failed x, w') \<Rightarrow> (Inl (NotSettled v t x), s1)
         | (Pending x, w') \<Rightarrow>
             if env_now env (world s1) \<ge> deadline then (Inl (NotWithin v t (secs div 60)), s1)
             else wait_loop fuel env t v secs deadline w' 0 s1))"
  by (simp add: promo_sleep_def promo_clock_def clock_def slept_def io_bind_def io_call_def io_try_def
      io_map_err_def io_look_def io_return_def io_fail_def
      split: prod.splits sum.splits settle_verdict.splits)

declare wait_loop.simps(2) [simp del]

lemma wait_loop_enough:
  assumes timed: "agent_timed env"
    and "deadline \<le> env_now env (world s) + k * POLL_INTERVAL" and "k < fuel"
  shows "fst (wait_loop fuel env t v secs deadline w failures s) \<noteq> Inl (Failure Panic)"
  using assms(2-)
proof (induction fuel arbitrary: s k w failures)
  case 0
  then show ?case by simp
next
  case (Suc fuel)
  obtain q s1 where rd: "read_assessment env t (slept env s) = (q, s1)"
    by (cases "read_assessment env t (slept env s)")
  have moved: "env_now env (world s) + POLL_INTERVAL \<le> env_now env (world s1)"
  proof -
    have "env_now env (world s) + POLL_INTERVAL \<le> env_now env (world (slept env s))"
      using timed by (simp add: slept_def agent_timed_def)
    also have "\<dots> \<le> env_now env (world s1)"
      by (rule forwardD [OF forward_read_assessment [OF timed] rd])
    finally show ?thesis .
  qed
  have more: "fst (wait_loop fuel env t v secs deadline w' failures' s1) \<noteq> Inl (Failure Panic)"
    if "\<not> deadline \<le> env_now env (world s1)" for w' failures'
  proof -
    from that moved Suc.prems(1) obtain k' where k: "k = Suc k'" by (cases k) auto
    with moved Suc.prems show ?thesis
      by (intro Suc.IH [where k = k']) auto
  qed
  show ?case
    by (auto simp: wait_loop_turn rd more split: sum.splits prod.splits settle_verdict.splits)
qed

lemma promo_wait_enough:
  assumes "agent_timed env"
  shows "fst (promo_wait env t v secs w s) \<noteq> Inl (Failure Panic)"
proof -
  let ?k = "Suc (1000 * secs div POLL_INTERVAL)"
  have "1000 * secs \<le> ?k * POLL_INTERVAL"
    using div_mult_mod_eq [of "1000 * secs" POLL_INTERVAL] mod_less_divisor [of POLL_INTERVAL "1000 * secs"]
    by (simp add: POLL_INTERVAL_def)
  then have "fst (wait_loop (wait_fuel secs) env t v secs (env_now env (world s) + 1000 * secs) w 0 s)
      \<noteq> Inl (Failure Panic)"
    by (intro wait_loop_enough [OF assms, where k = ?k]) (simp_all add: wait_fuel_def)
  then show ?thesis
    by (simp add: promo_wait_def promo_clock_def clock_def io_bind_def io_map_err_def io_look_def)
qed

definition was_read :: "'w env \<Rightarrow> string \<Rightarrow> assessment \<Rightarrow> bool" where
  "was_read env t a \<longleftrightarrow> (\<exists>s s'. read_assessment env t s = (Inr a, s'))"

lemma wait_loop_Done:
  assumes "wait_loop fuel env t v secs deadline w failures s = (Inr a, s')"
    and "watching v i rs w" and "list_all (was_read env t) rs"
  shows "\<exists>rs' w'. watching v i rs' w' \<and> list_all (was_read env t) (rs' @ [a]) \<and>
    fst (judge_reading w' a) = Done"
  using assms
proof (induction fuel arbitrary: s w failures rs)
  case 0
  then show ?case by simp
next
  case (Suc fuel)
  obtain q s1 where rd: "read_assessment env t (slept env s) = (q, s1)"
    by (cases "read_assessment env t (slept env s)")
  show ?case
  proof (cases q)
    case (Inl e)
    with Suc.prems(1) rd have "wait_loop fuel env t v secs deadline w (Suc failures) s1 = (Inr a, s')"
      by (auto simp: wait_loop_turn split: if_splits)
    from Suc.IH [OF this Suc.prems(2,3)] show ?thesis .
  next
    case (Inr b)
    with rd have b: "was_read env t b" unfolding was_read_def by blast
    obtain x w' where j: "judge_reading w b = (x, w')" by (cases "judge_reading w b")
    show ?thesis
    proof (cases x)
      case (Pending n)
      with Suc.prems(1) rd Inr j have run: "wait_loop fuel env t v secs deadline w' 0 s1 = (Inr a, s')"
        by (auto simp: wait_loop_turn split: if_splits)
      have "watching v i (rs @ [b]) w'"
        using Suc.prems(2) j Pending by (auto intro: watching_pending)
      from Suc.IH [OF run this] Suc.prems(3) b show ?thesis by simp
    next
      case Done
      with Suc.prems rd Inr j b show ?thesis
        by (auto simp: wait_loop_turn intro!: exI [of _ rs] exI [of _ w])
    next
      case (Failed n)
      with Suc.prems(1) rd Inr j show ?thesis by (simp add: wait_loop_turn)
    qed
  qed
qed

text \<open>What a wait that says done has seen.\<close>

definition settled_evidence :: "verb \<Rightarrow> string \<Rightarrow> assessment list \<Rightarrow> assessment \<Rightarrow> bool" where
  "settled_evidence v i earlier a \<longleftrightarrow>
     (case v of
        Lock \<Rightarrow> pair_phase a = Ready (Some i)
      | Promote _ \<Rightarrow> pair_phase a = Ready (Some i) \<and> (\<exists>r \<in> set earlier. running_under i r)
      | Unlock \<Rightarrow> pair_phase a = Unlocked
      | Recover _ \<Rightarrow> pair_phase a = Unlocked)"

lemma promo_wait_Done:
  assumes "promo_wait env t v secs (new_watch v i) s = (Inr a, s')"
  shows "\<exists>earlier. list_all (was_read env t) (earlier @ [a]) \<and> settled_evidence v i earlier a"
proof -
  from assms obtain deadline where
    "wait_loop (wait_fuel secs) env t v secs deadline (new_watch v i) 0 s = (Inr a, s')"
    by (auto simp: promo_wait_def promo_clock_def clock_def io_bind_def io_map_err_def io_look_def)
  from wait_loop_Done [OF this watching_start] obtain rs w where
    rs: "watching v i rs w" "list_all (was_read env t) (rs @ [a])" and ended: "fst (judge_reading w a) = Done"
    by auto
  from ended have "settled_evidence v i rs a"
    unfolding judge_Done_iff watching_watch [OF rs(1)]
    by (auto simp: settled_evidence_def is_promote_def split: verb.splits)
  with rs(2) show ?thesis by blast
qed

section \<open>Properties\<close>

text \<open>C4: a promotion write rests on two readings and on consent. Whatever the tenant answers and
  however the command ends, \<open>lock\<close>, \<open>dry-run\<close>, \<open>promote\<close> and \<open>unlock\<close> send nothing but reads and the
  prompt, or exactly one write. The write is then the one of the verb, under the \<open>promotionId\<close> that
  both readings name; the first reading allowed the verb before the operator consented, and the
  second, taken after the consent and the production gate and last of all, still allows it.\<close>

theorem promotion_write_is_guarded:
  "\<exists>es. sent (snd (run_write env t v args s)) = sent s @ es \<and>
    (list_all harmless es \<or>
     (\<exists>before after appr first s1 s2 reports s3 fresh s4.
        es = before @ Called (permit_call (ten_name t) (permit_path env (permit_of v appr)) (wa_yes args)
               (permit_of v appr)) # after \<and>
        list_all harmless before \<and> list_all harmless after \<and>
        read_assessment env (ten_name t) s = (Inr first, s1) \<and> may_start v first appr \<and>
        ask_consent env (wa_force args) s1 = (Inr True, s2) \<and>
        prepare_write env t v args s2 = (Inr (wa_yes args, reports), s3) \<and>
        read_assessment env (ten_name t) s3 = (Inr fresh, s4) \<and> may_start v fresh appr \<and>
        sent s4 = sent s @ before))"
proof -
  obtain r s' where run: "run_write env t v args s = (r, s')" by (cases "run_write env t v args s")
  from run show ?thesis
  proof (cases rule: run_write_cases)
    case stopped
    with run show ?thesis by (auto simp: quiet_to_def)
  next
    case (written first s1 appr s2 reports s3 fresh s4 before after)
    have log: "sent (snd (run_write env t v args s)) = sent s @ before @
        Called (permit_call (ten_name t) (permit_path env (permit_of v appr)) (wa_yes args) (permit_of v appr)) # after"
      using run written(7,9) by simp
    show ?thesis
      by (rule exI, rule conjI [OF log], rule disjI2, intro exI conjI, rule refl) (fact written)+
  qed
qed

text \<open>without permission nothing is promoted. Without consent, given by \<open>--force\<close> or at a prompt,
  or on a production tenant without \<open>--yes\<close>, a write verb sends only reads and the prompt.\<close>

theorem promotion_needs_permission:
  assumes "\<not> permitted env t False (wa_yes args) (wa_force args)"
  shows "\<exists>es. sent (snd (run_write env t v args s)) = sent s @ es \<and> list_all harmless es"
proof -
  obtain r s' where run: "run_write env t v args s = (r, s')" by (cases "run_write env t v args s")
  from run show ?thesis
  proof (cases rule: run_write_cases)
    case stopped
    with run show ?thesis by (auto simp: quiet_to_def)
  next
    case (written first s1 appr s2 reports s3 fresh s4 before after)
    from ask_consent_Inr [OF written(3)] prepare_write_Inr [OF written(4)] assms
    show ?thesis by (auto simp: permitted_def)
  qed
qed

text \<open>A pair that is locked, and on which a promotion runs until the clock reads 20000.\<close>

definition pair_reply :: "string \<Rightarrow> nat \<Rightarrow> response" where
  "pair_reply path w =
     (if path = ''/environment/promotion/lock/state'' then RespJson (agreeing_lock ''locked'')
      else if path = ''/environment/promotion/promote'' then
        RespJson (status_of_pair (if w < 20000 then ''RUNNING'' else ''READY''))
      else RespApiError 404 [])"

definition pair_env :: "nat env" where
  "pair_env =
     \<lparr>env_agent = (\<lambda>c w. (Inr (pair_reply (ac_path c) w), w)),
      env_export = (\<lambda>t p w. (Inr [], w)), env_is_document = (\<lambda>b. True), env_unescape = (\<lambda>s. s),
      env_cert_refs = (\<lambda>b. Inr []), env_base64 = (\<lambda>s. s), env_base64url = (\<lambda>s. s),
      env_query = (\<lambda>ps. []), env_urlencode = (\<lambda>s. s), env_now = (\<lambda>w. w), env_sleep = (\<lambda>n w. w + n),
      env_ask = (\<lambda>w. (Inr True, w)), env_prompt_available = False, env_timestamp = (\<lambda>w. []),
      env_files = (\<lambda>w. no_files), env_put_files = (\<lambda>fs w. w),
      env_decode = (\<lambda>d. None), env_encode = (\<lambda>d. [])\<rparr>"

definition upper_tenant :: tenant where
  "upper_tenant =
     \<lparr>ten_name = ''uat'', ten_base_url = ''https://uat'', ten_theme = Production, ten_sa_id = Some ''sa'',
      ten_scopes = [], ten_provenance = \<lparr>pv_service_account = None, pv_log_key = None\<rparr>\<rparr>"

theorem promotion_needs_permission_witness:
  "\<exists>es. sent (snd (run_write pair_env upper_tenant (Promote False)
      \<lparr>wa_yes = False, wa_force = True, wa_no_wait = False, wa_timeout = None\<rparr> \<lparr>world = 0, sent = []\<rparr>)) =
      [] @ es \<and> list_all harmless es"
  using promotion_needs_permission [of pair_env upper_tenant
      "\<lparr>wa_yes = False, wa_force = True, wa_no_wait = False, wa_timeout = None\<rparr>" "Promote False"
      "\<lparr>world = 0, sent = []\<rparr>"]
  by (simp add: permitted_def upper_tenant_def)

text \<open>C8: a wait says done only on evidence. When the wait for a started operation returns, it has
  read the reading it returns from the tenant, under the operation's \<open>promotionId\<close>: for a lock the
  pair is ready under that id; for a promotion it is ready under that id and an earlier reading of
  this wait showed it running under that id; for an unlock or a recovery every source reads
  unlocked.\<close>

theorem settled_on_evidence:
  assumes "promo_wait env tenant v secs (new_watch v i) s = (Inr a, s')"
  shows "\<exists>earlier. list_all (was_read env tenant) (earlier @ [a]) \<and> settled_evidence v i earlier a"
  by (rule promo_wait_Done [OF assms])

lemma pair_env_assessment:
  "read_assessment pair_env t s =
   (Inr (sample_assessment (if world s < 20000 then ''RUNNING'' else ''READY'')),
    s\<lparr>sent := sent s @ [Called (new_call t ''GET'' ''/environment/promotion/lock/state''),
                        Called (new_call t ''GET'' ''/environment/promotion/promote'')]\<rparr>)"
proof -
  have path: "ac_path (new_call t m p) = p" for m p by (simp add: new_call_def)
  have "assess (agreeing_lock ''locked'') (status_of_pair (if w < 20000 then ''RUNNING'' else ''READY'')) =
      Inr (sample_assessment (if w < 20000 then ''RUNNING'' else ''READY''))" for w :: nat
    using assess_sample by simp
  then show ?thesis
    by (simp add: read_assessment_def explained_def read_lock_state_def read_status_def api_get_def
        send_def io_bind_def io_map_err_def io_call_def io_lift_def decoded_def decode_response_def
        pair_env_def pair_reply_def path)
qed

lemma judge_samples:
  "judge_reading (new_watch (Promote False) ''id'') (sample_assessment ''RUNNING'') =
     (Pending (Says ''running''), \<lparr>wt_verb = Promote False, wt_promotion_id = ''id'', wt_seen_running = True\<rparr>)"
  "judge_reading \<lparr>wt_verb = Promote False, wt_promotion_id = ''id'', wt_seen_running = True\<rparr>
     (sample_assessment ''READY'') =
     (Done, \<lparr>wt_verb = Promote False, wt_promotion_id = ''id'', wt_seen_running = True\<rparr>)"
  by code_simp+

theorem settled_on_evidence_witness:
  "\<exists>earlier. list_all (was_read pair_env ''uat'') (earlier @ [sample_assessment ''READY'']) \<and>
     settled_evidence (Promote False) ''id'' earlier (sample_assessment ''READY'')"
proof -
  obtain n where fuel: "wait_fuel 60 = Suc (Suc n)"
    by (rule that [of 4]) (simp add: wait_fuel_def POLL_INTERVAL_def)
  have env: "env_now pair_env w = w" "env_sleep pair_env m w = w + m" for w m
    by (simp_all add: pair_env_def)
  let ?run = "promo_wait pair_env ''uat'' (Promote False) 60 (new_watch (Promote False) ''id'')
      \<lparr>world = 0, sent = []\<rparr>"
  have "fst ?run = Inr (sample_assessment ''READY'')"
    unfolding promo_wait_def fuel
    by (simp add: promo_clock_def clock_def io_bind_def io_map_err_def io_look_def wait_loop_turn
        pair_env_assessment judge_samples env slept_def POLL_INTERVAL_def)
  then have "?run = (Inr (sample_assessment ''READY''), snd ?run)" by (simp add: prod_eq_iff)
  from settled_on_evidence [OF this] show ?thesis .
qed

text \<open>C40: the wait ends. On a clock that sleeping moves and that calls do not turn back, the loop
  of \<open>wait\<close> never uses up the polls its timeout allows: it returns a settled reading, or says that
  it lost track, that the operation did not settle as expected, or that the time is up.\<close>

theorem promotion_wait_ends:
  assumes "agent_timed env"
  shows "fst (promo_wait env tenant v secs w s) \<noteq> Inl (Failure Panic)"
  by (rule promo_wait_enough [OF assms])

theorem promotion_wait_ends_witness:
  "fst (promo_wait pair_env ''uat'' Unlock 900 (new_watch Unlock ''id'') \<lparr>world = 0, sent = []\<rparr>) \<noteq>
   Inl (Failure Panic)"
proof -
  have "agent_timed pair_env" by (simp add: agent_timed_def pair_env_def)
  from promotion_wait_ends [OF this] show ?thesis .
qed

end
