(* ===== verification/Promotion_Check_Facts.thy ===== *)
theory Promotion_Check_Facts
  imports Promotion_Cli_Facts
begin

text \<open>
  What a passing \<open>aic promotion verify\<close> has compared, on a tenant that answers with well-formed JSON,
  and that reading a journey ends whenever the nodes it names are finitely many.
\<close>

section \<open>What is fetched\<close>

text \<open>Every answer is well-formed JSON, as the parser of the transport makes it.\<close>

definition replies_wf :: "'w env \<Rightarrow> bool" where
  "replies_wf env \<longleftrightarrow>
     (\<forall>c w v. fst (env_agent env c w) = Inr (RespJson v) \<longrightarrow> json_wf v)"

definition opt_wf :: "json option \<Rightarrow> bool" where
  "opt_wf v \<longleftrightarrow> (\<forall>x \<in> set_option v. json_wf x)"

lemma opt_wf_simps [simp]: "opt_wf None" "opt_wf (Some v) = json_wf v"
  by (simp_all add: opt_wf_def)

lemma wf_send: "replies_wf env \<Longrightarrow> yields json_wf (send env c)"
proof -
  assume wf: "replies_wf env"
  have "decode_response r = Inr v \<Longrightarrow> r = RespJson v" for r v
    by (cases r) (auto simp: decode_response_def)
  with wf show ?thesis
    unfolding yields_def send_def
    by (auto simp: io_pairs io_bind_Inr io_call_Pair replies_wf_def) (metis fst_conv)
qed

lemma wf_versioned: "replies_wf env \<Longrightarrow> yields json_wf (get_versioned env t p ver)"
  "replies_wf env \<Longrightarrow> yields json_wf (api_get env t p)"
  unfolding get_versioned_def api_get_def by (simp_all add: wf_send)

lemma absent_on_404_Inr:
  "absent_on_404 m s = (Inr x, s') \<longleftrightarrow>
   (\<exists>v. m s = (Inr v, s') \<and> x = Some v) \<or> (\<exists>body. m s = (Inl (Api 404 body), s') \<and> x = None)"
proof (cases "m s")
  case (Pair r t)
  show ?thesis
  proof (cases r)
    case (Inl e)
    with Pair show ?thesis
      by (cases e) (auto simp: absent_on_404_def io_bind_def io_try_def io_return_def io_fail_def)
  next
    case (Inr v)
    with Pair show ?thesis
      by (auto simp: absent_on_404_def io_bind_def io_try_def io_return_def)
  qed
qed

lemma wf_absent_404: "yields json_wf m \<Longrightarrow> yields opt_wf (absent_on_404 m)"
  by (auto simp: yields_def [of opt_wf] absent_on_404_Inr dest: yieldsD)

lemma wf_called: "yields P m \<Longrightarrow> yields P (called m)"
  by (rule yields_map_err)

lemma wf_judged: "(\<And>x. r = Inr x \<Longrightarrow> P x) \<Longrightarrow> yields P (judged r)"
  unfolding judged_def by (rule yields_lift) simp

lemma as_array_Some [simp]: "as_array v = Some vs \<longleftrightarrow> v = JArr vs"
  by (cases v) auto

lemma as_object_Some [simp]: "as_object v = Some kvs \<longleftrightarrow> v = JObj kvs"
  by (cases v) auto

lemma json_wf_array: "json_wf v \<Longrightarrow> get_array v k = Some vs \<Longrightarrow> x \<in> set vs \<Longrightarrow> json_wf x"
  using json_wf_get [of v k "JArr vs"] by (simp add: get_array_def bind_eq_Some_conv)

lemma rows_wf:
  assumes "rows lst field = Inr rs" and "json_wf lst" and "(k, v) \<in> set rs"
  shows "json_wf v"
  using assms(1)
proof (rule rows_entries)
  fix vs assume "get_array lst ''result'' = Some vs"
    and "\<And>k v. (k, v) \<in> set rs \<longleftrightarrow> v \<in> set vs \<and> get_str v field = Some k"
  with assms(2,3) show ?thesis by (blast intro: json_wf_array)
qed

lemma single_hit: "map snd (filter P rs) = [one] \<Longrightarrow> \<exists>k. (k, one) \<in> set rs"
  by (auto simp: map_eq_Cons_conv filter_eq_Cons_iff)

lemma one_by_wf: "json_wf lst \<Longrightarrow> one_by lst field want = Inr v \<Longrightarrow> opt_wf v"
  by (auto simp: one_by_def res_bind_Inr_iff at_most_one_Inr dest!: single_hit intro: rows_wf)

lemma exact_name_wf: "json_wf lst \<Longrightarrow> exact_name lst name = Inr v \<Longrightarrow> opt_wf v"
  by (auto simp: exact_name_def res_bind_Inr_iff at_most_one_Inr dest!: single_hit intro: rows_wf)

lemma theme_list_wf:
  assumes "json_wf v" and "theme_list v realm = Inr r"
  shows "opt_wf r"
proof -
  from assms(2) obtain kvs where kvs: "json_get v ''realm'' = Some (JObj kvs)"
    and r: "(case map_of kvs realm of
         None \<Rightarrow> Inr None
       | Some JNull \<Rightarrow> Inr None
       | Some (JArr []) \<Rightarrow> Inr None
       | Some (JArr (x # xs)) \<Rightarrow> Inr (Some (JArr (x # xs)))
       | Some other \<Rightarrow> Inl (ThemeRealmNotArray realm other)) = Inr r"
    by (auto simp: theme_list_def res_bind_Inr_iff bind_eq_Some_conv)
  have member: "json_wf w" if "map_of kvs realm = Some w" for w
    using json_wf_get [OF assms(1) kvs] that by (auto dest!: map_of_SomeD)
  show ?thesis
  proof (cases "map_of kvs realm")
    case None
    with r show ?thesis by auto
  next
    case (Some w)
    with r have "r = None \<or> r = Some w"
      by (cases w) (auto split: list.splits)
    with member [OF Some] show ?thesis by auto
  qed
qed

lemma wf_read_endpoint:
  assumes "replies_wf env"
  shows "yields opt_wf (read_endpoint env name (api_get env t))"
proof -
  note doc = wf_called [OF wf_absent_404 [OF wf_versioned(2) [OF assms]]]
  have listed: "yields opt_wf (io_bind (called (absent_on_404 (api_get env t (endpoint_path env i)))) (\<lambda>v.
      case v of None \<Rightarrow> io_return None
      | Some d \<Rightarrow> io_bind (judged (check_endpoint d i)) (\<lambda>_. io_return (Some d))))" for i
    by (rule yields_bind [OF doc]) (auto intro!: yields_intros split: option.splits)
  have omitted: "yields opt_wf (io_bind (judged (endpoint_reading name)) (\<lambda>i.
      io_bind (called (absent_on_404 (api_get env t (endpoint_path env i)))) (\<lambda>v.
      case v of None \<Rightarrow> io_return None | Some _ \<Rightarrow> io_fail (Unread (ListOmits i)))))"
    by (auto intro!: yields_intros split: option.splits)
  show ?thesis
    unfolding read_endpoint_def
    by (intro yields_bind_any) (auto simp: listed omitted split: option.splits)
qed

lemma wf_journey_loop:
  assumes "replies_wf env" and "json_wf (JObj nodes)"
  shows "yields (\<lambda>ns. json_wf (JObj ns)) (journey_loop fuel env t realm pending nodes)"
  using assms(2)
proof (induction fuel arbitrary: pending nodes)
  case 0
  then show ?case by (cases pending) (auto intro!: yields_intros simp del: json_wf.simps(1))
next
  case (Suc fuel)
  show ?case
  proof (cases pending)
    case Nil
    with Suc.prems show ?thesis by (auto intro!: yields_intros simp del: json_wf.simps(1))
  next
    case (Cons p ps)
    obtain ty i where last: "last (p # ps) = (ty, i)" by (cases "last (p # ps)")
    have "yields json_wf (called (read_node env t realm ty i))"
      unfolding read_node_def by (intro wf_called wf_versioned assms(1))
    then have "yields (\<lambda>ns. json_wf (JObj ns))
       (io_bind (called (read_node env t realm ty i)) (\<lambda>node.
           io_bind (judged (node_refs NodeHolder ty node)) (\<lambda>refs.
             journey_loop fuel env t realm (butlast (p # ps) @ refs) (obj_insert i node nodes))))"
      by (rule yields_bind) (intro yields_bind_any Suc.IH json_wf_obj_insert Suc.prems)
    with Suc show ?thesis
      unfolding Cons journey_loop.simps Let_def last by simp
  qed
qed

lemma wf_read_journey:
  assumes "replies_wf env"
  shows "yields opt_wf (read_journey fuel env t realm name)"
  unfolding read_journey_def
proof (rule yields_bind [OF wf_called [OF wf_absent_404 [OF wf_versioned(1) [OF assms]]]])
  fix found assume found: "opt_wf found"
  show "yields opt_wf (case found of
            None \<Rightarrow> io_return None
          | Some tree \<Rightarrow>
              io_bind (judged (node_refs TreeHolder [] tree)) (\<lambda>pending.
              io_bind (journey_loop fuel env t realm pending []) (\<lambda>nodes.
                io_return (Some (JObj [(''nodes'', JObj nodes), (''tree'', tree)])))))"
  proof (cases found)
    case (Some tree)
    show ?thesis
      unfolding Some option.case
    proof (rule yields_bind_any, rule yields_bind [OF wf_journey_loop [OF assms]])
      have "sorted [''nodes'', ''tree'']" by code_simp
      then show "yields opt_wf (io_return (Some (JObj [(''nodes'', JObj nodes), (''tree'', tree)])))"
        if "json_wf (JObj nodes)" for nodes
        using found Some that by (intro yields_return) auto
    qed simp
  qed (simp add: yields_return)
qed

lemma wf_read_target:
  assumes "replies_wf env"
  shows "yields opt_wf (read_target fuel env t tg)"
proof -
  note wf = wf_called [OF wf_absent_404 [OF wf_versioned(1) [OF assms]]]
    wf_called [OF wf_versioned(1) [OF assms]] wf_called [OF wf_versioned(2) [OF assms]]
  have mapping: "yields opt_wf (called (absent_on_404 (read_mapping env t realm i)))" for realm i
    unfolding read_mapping_def
    by (intro wf_called wf_absent_404 yields_bind_any wf_versioned assms)
  have script: "yields opt_wf (io_bind (called (get_versioned env t p SCRIPT_VERSION))
      (\<lambda>lst. judged (exact_name lst name)))" for p name
    by (rule yields_bind [OF wf(2)]) (rule wf_judged, erule exact_name_wf)
  have cors: "yields opt_wf (io_bind (called (get_versioned env t p AM_CONFIG_VERSION))
      (\<lambda>lst. judged (one_by lst ''_id'' name)))" for p name
    by (rule yields_bind [OF wf(2)]) (rule wf_judged, erule one_by_wf)
  have themes: "yields opt_wf (io_bind (called (api_get env t p)) (\<lambda>v. judged (theme_list v realm)))" for p realm
    by (rule yields_bind [OF wf(3)]) (rule wf_judged, erule theme_list_wf)
  have service: "yields opt_wf (case found of None \<Rightarrow> io_return None
      | Some i \<Rightarrow> called (absent_on_404 (get_versioned env t (p i) AM_CONFIG_VERSION)))" for found p
    by (cases found) (auto intro!: wf yields_return)
  show ?thesis
    unfolding read_target_def
    by (cases tg)
      (simp_all add: script cors themes mapping wf_read_journey wf_read_endpoint assms yields_fail wf
        yields_bind_any service)
qed

lemma fetch_target_Inr:
  assumes "fetch_target fuel env t tg s = (Inr (Some v), s')"
  shows "check_document tg v = Inr ()"
  using assms
  by (auto simp: fetch_target_def io_bind_Inr judged_def split: option.splits)

lemma wf_fetch_target:
  assumes "replies_wf env"
  shows "yields opt_wf (fetch_target fuel env t tg)"
  unfolding fetch_target_def
  by (rule yields_bind [OF wf_read_target [OF assms]])
    (auto intro!: yields_intros split: option.splits)

section \<open>A passing verify\<close>

text \<open>The two documents an entry rests on, as fetched, and that they make it in sync.\<close>

definition compared_equal :: "nat \<Rightarrow> 'w env \<Rightarrow> string \<Rightarrow> string \<Rightarrow> report_entry \<Rightarrow> bool" where
  "compared_equal fuel env lower upper e \<longleftrightarrow>
     (\<exists>l u s1 s2 s3.
        fetch_target fuel env lower (target_of e) s1 = (Inr l, s2) \<and>
        fetch_target fuel env upper (target_of e) s2 = (Inr u, s3) \<and>
        (l = None \<and> u = None \<and> en_change e = ''deleted'' \<or>
         (\<exists>ld ud. l = Some ld \<and> u = Some ud \<and>
            check_document (target_of e) ld = Inr () \<and> check_document (target_of e) ud = Inr () \<and>
            normalise (shape_of (target_of e)) ld = normalise (shape_of (target_of e)) ud)))"

lemma judge_entry_Inr:
  "judge_entry fuel env lower upper e s = (Inr v, s') \<longleftrightarrow>
   (\<exists>w. target_of e = TargetUnchecked w \<and> v = Unchecked (NoTarget w) \<and> s' = s) \<or>
   ((\<forall>w. target_of e \<noteq> TargetUnchecked w) \<and>
    (\<exists>l u s1. fetch_target fuel env lower (target_of e) s = (l, s1) \<and>
      fetch_target fuel env upper (target_of e) s1 = (u, s') \<and>
      v = verdict_of lower upper (en_change e) (target_of e) l u))"
  by (cases "target_of e")
    (auto simp: judge_entry_def io_bind_def io_try_def io_return_def split: prod.splits)

lemma in_sync_verdict:
  assumes "in_sync (verdict_of lower upper change tg l u)"
  obtains ld ud where "l = Inr ld" "u = Inr ud"
    "ld = None \<and> ud = None \<and> change = ''deleted'' \<or>
     (\<exists>a b. ld = Some a \<and> ud = Some b \<and> judge_copies (shape_of tg) ld ud = Same)"
proof -
  from assms obtain ld ud where lu: "l = Inr ld" "u = Inr ud"
    by (cases l; cases u) (auto simp: verdict_of_def)
  with assms have "in_sync (settle_reported change (judge_copies (shape_of tg) ld ud))"
    by (simp add: verdict_of_def)
  then show thesis
    using that lu
    by (cases ld; cases ud)
      (auto simp: settle_reported_def judge_copies_def Let_def split: if_splits)
qed

lemma judge_entry_in_sync:
  assumes "replies_wf env" and "judge_entry fuel env lower upper e s = (Inr v, s')" and "in_sync v"
  shows "compared_equal fuel env lower upper e"
proof -
  from assms(2,3) obtain l u s1 where
    fetched: "fetch_target fuel env lower (target_of e) s = (l, s1)"
      "fetch_target fuel env upper (target_of e) s1 = (u, s')"
    and v: "in_sync (verdict_of lower upper (en_change e) (target_of e) l u)"
    by (auto simp: judge_entry_Inr)
  from v obtain ld ud where lu: "l = Inr ld" "u = Inr ud"
    and ok: "ld = None \<and> ud = None \<and> en_change e = ''deleted'' \<or>
     (\<exists>a b. ld = Some a \<and> ud = Some b \<and> judge_copies (shape_of (target_of e)) ld ud = Same)"
    by (rule in_sync_verdict)
  have wf: "opt_wf ld" "opt_wf ud"
    using fetched lu by (auto intro: yieldsD [OF wf_fetch_target [OF assms(1)]])
  from ok have "ld = None \<and> ud = None \<and> en_change e = ''deleted'' \<or>
     (\<exists>a b. ld = Some a \<and> ud = Some b \<and>
        check_document (target_of e) a = Inr () \<and> check_document (target_of e) b = Inr () \<and>
        normalise (shape_of (target_of e)) a = normalise (shape_of (target_of e)) b)"
  proof (elim disjE exE conjE)
    fix a b assume ab: "ld = Some a" "ud = Some b" "judge_copies (shape_of (target_of e)) ld ud = Same"
    with wf have "normalise (shape_of (target_of e)) a = normalise (shape_of (target_of e)) b"
      by (auto simp: judge_copies_both split: if_splits)
    with ab fetched lu show ?thesis by (auto dest: fetch_target_Inr)
  qed simp
  with fetched lu show ?thesis unfolding compared_equal_def by blast
qed

lemma io_mapM_Inr:
  "io_mapM f xs s = (Inr ys, s') \<Longrightarrow>
   length ys = length xs \<and> (\<forall>(x, y) \<in> set (zip xs ys). \<exists>t t'. f x t = (Inr y, t'))"
  by (induction xs arbitrary: s ys) (fastforce simp: io_bind_Inr)+

lemma sync_unchecked_disjoint: "length (filter in_sync vs) + length (filter is_unchecked vs) \<le> length vs"
proof (induction vs)
  case (Cons v vs)
  then show ?case by (cases v) (auto simp: is_unchecked_def)
qed simp

lemma verify_outcome_Inr:
  assumes "verify_outcome es vs = Inr ps"
  shows "ps = zip es vs \<and> (\<forall>v \<in> set vs. in_sync v)"
proof -
  from assms have "length vs \<le> length (filter in_sync vs)" and ps: "ps = zip es vs"
    by (auto simp: verify_outcome_def Let_def split: if_splits)
  then have "length (filter in_sync vs) = length vs"
    using length_filter_le [of in_sync vs] by simp
  with ps show ?thesis
    by (metis length_filter_less less_irrefl)
qed

lemma run_verify_pass:
  assumes "replies_wf env" and "run_verify fuel parse_url env l u report s = (Inr ps, s')"
  obtains raw s1 where
    "read_report env (ten_name u) (case report of None \<Rightarrow> Provisional | Some i \<Rightarrow> ReportId i) s = (Inr raw, s1)"
    "entries raw = Inr (map fst ps)"
    "\<And>e v. (e, v) \<in> set ps \<Longrightarrow> in_sync v \<and> compared_equal fuel env (ten_name l) (ten_name u) e"
proof -
  let ?which = "case report of None \<Rightarrow> Provisional | Some i \<Rightarrow> ReportId i"
  note defs = run_verify_def io_bind_def io_map_err_def explained_def io_lift_def
  obtain q s2 where q: "read_report env (ten_name u) ?which s = (q, s2)"
    by (cases "read_report env (ten_name u) ?which s")
  with assms(2) obtain raw where raw: "q = Inr raw"
    by (cases q) (auto simp: defs split: if_splits)
  note rd = q [unfolded raw]
  with assms(2) obtain es where es: "entries raw = Inr es"
    by (cases "entries raw") (auto simp: defs split: if_splits)
  obtain r s3 where r: "io_mapM (judge_entry fuel env (ten_name l) (ten_name u)) es s2 = (r :: verify_error + verdict list, s3)"
    by (rule prod.exhaust)
  with assms(2) rd es obtain vs where r': "r = Inr vs" and outcome: "verify_outcome es vs = Inr ps"
    by (cases r) (auto simp: defs split: if_splits)
  note vs = r [unfolded r']
  note run = io_mapM_Inr [OF vs]
  from verify_outcome_Inr [OF outcome] have ps: "ps = zip es vs"
    and all: "\<And>v. v \<in> set vs \<Longrightarrow> in_sync v" by auto
  have "in_sync v \<and> compared_equal fuel env (ten_name l) (ten_name u) e" if "(e, v) \<in> set ps" for e v
  proof -
    from that ps run obtain t t' where "judge_entry fuel env (ten_name l) (ten_name u) e t =
        (Inr v :: verify_error + verdict, t')" by auto
    moreover from that ps have "in_sync v" by (auto dest: set_zip_rightD intro: all)
    ultimately show ?thesis using judge_entry_in_sync [OF assms(1)] by blast
  qed
  with that rd es ps run show thesis by simp
qed

section \<open>Reading a journey ends\<close>

text \<open>
  Every node a reading of the journey names is one of \<open>N\<close>, no reading names more than \<open>B\<close>, and the
  calls themselves do not panic.
\<close>

definition finite_journey :: "'w env \<Rightarrow> string \<Rightarrow> string \<Rightarrow> string set \<Rightarrow> nat \<Rightarrow> bool" where
  "finite_journey env t realm N B \<longleftrightarrow>
     finite N \<and>
     (\<forall>c s. fst (send env c s) \<noteq> Inl Panic) \<and>
     (\<forall>h ty c v s s' refs. send env c s = (Inr v, s') \<longrightarrow> node_refs h ty v = Inr refs \<longrightarrow>
        length refs \<le> B \<and> snd ` set refs \<subseteq> N)"

lemma journey_loop_enough:
  assumes "finite_journey env t realm N B"
    and "snd ` set pending \<subseteq> N" and "length pending + card (N - fst ` set nodes) * B \<le> fuel"
  shows "fst (journey_loop fuel env t realm pending nodes s) \<noteq> Inl (CallFailed Panic)"
  using assms(2-)
proof (induction fuel arbitrary: pending nodes s)
  case 0
  then show ?case by (simp add: io_return_def)
next
  case (Suc fuel)
  show ?case
  proof (cases pending)
    case Nil
    then show ?thesis by (simp add: io_return_def)
  next
    case (Cons p ps)
    obtain ty i where last: "last (p # ps) = (ty, i)" by (cases "last (p # ps)")
    let ?rest = "butlast (p # ps)"
    have split: "pending = ?rest @ [(ty, i)]"
      using last Cons by (metis append_butlast_last_id list.discI)
    with Suc.prems(1) have rest: "snd ` set ?rest \<subseteq> N" and i: "i \<in> N"
      by (metis Un_subset_iff image_Un set_append, auto simp: split)
    show ?thesis
    proof (cases "i \<in> set (map fst nodes)")
      case True
      have "fst (journey_loop fuel env t realm ?rest nodes s) \<noteq> Inl (CallFailed Panic)"
        using Suc.prems(2) by (intro Suc.IH rest) (simp add: Cons)
      with True show ?thesis
        unfolding Cons journey_loop.simps Let_def last by simp
    next
      case False
      have fin: "finite (N - fst ` set nodes)" using assms(1) by (simp add: finite_journey_def)
      have card: "card (N - fst ` set nodes) = Suc (card (N - fst ` set (obj_insert i node nodes)))" for node
      proof -
        have "N - fst ` set (obj_insert i node nodes) = (N - fst ` set nodes) - {i}" by auto
        with card.remove [OF fin, of i] i False show ?thesis by auto
      qed
      obtain q s1 where rd: "read_node env t realm ty i s = (q, s1)" by (cases "read_node env t realm ty i s")
      show ?thesis
      proof (cases q)
        case (Inl e)
        from assms(1) rd Inl have "e \<noteq> Panic"
          unfolding finite_journey_def read_node_def get_versioned_def by (metis fst_conv)
        with False rd Inl show ?thesis
          unfolding Cons journey_loop.simps Let_def last by (simp add: io_bind_def io_map_err_def)
      next
        case (Inr node)
        show ?thesis
        proof (cases "node_refs NodeHolder ty node")
          case (Inl w)
          with False rd Inr show ?thesis
            unfolding Cons journey_loop.simps Let_def last
            by (simp add: io_bind_def io_map_err_def judged_def io_lift_def io_fail_def)
        next
          case refs: (Inr refs)
          from assms(1) rd Inr refs have bound: "length refs \<le> B" "snd ` set refs \<subseteq> N"
            unfolding finite_journey_def read_node_def get_versioned_def by blast+
          have "fst (journey_loop fuel env t realm (?rest @ refs) (obj_insert i node nodes) s1)
              \<noteq> Inl (CallFailed Panic)"
          proof (rule Suc.IH)
            show "snd ` set (?rest @ refs) \<subseteq> N"
              using rest bound(2) by (simp only: set_append image_Un Un_subset_iff)
          qed (use Suc.prems(2) bound(1) card [of node] in \<open>simp add: Cons\<close>)
          with False rd Inr refs show ?thesis
            unfolding Cons journey_loop.simps Let_def last
            by (simp add: io_bind_def io_map_err_def judged_def io_lift_def)
        qed
      qed
    qed
  qed
qed

section \<open>Properties\<close>

text \<open>C6: a passing verify has compared everything. When \<open>aic promotion verify\<close> succeeds, every entry
  of the report it read is in sync: its document was fetched from both tenants, each is what the
  entry names, and the two are equal once metadata is stripped; or both tenants answered that it
  does not exist and the report calls it deleted. No entry is skipped.\<close>

theorem verify_pass_means_in_sync:
  assumes "replies_wf env" and "run_verify fuel parse_url env l u report s = (Inr ps, s')"
  shows "\<exists>raw s1. read_report env (ten_name u) (case report of None \<Rightarrow> Provisional | Some i \<Rightarrow> ReportId i) s =
      (Inr raw, s1) \<and>
    entries raw = Inr (map fst ps) \<and>
    (\<forall>(e, v) \<in> set ps. in_sync v \<and> compared_equal fuel env (ten_name l) (ten_name u) e)"
  using assms(2)
proof (rule run_verify_pass [OF assms(1)])
  fix raw s1
  assume "read_report env (ten_name u) (case report of None \<Rightarrow> Provisional | Some i \<Rightarrow> ReportId i) s =
      (Inr raw, s1)" and "entries raw = Inr (map fst ps)"
    and "\<And>e v. (e, v) \<in> set ps \<Longrightarrow> in_sync v \<and> compared_equal fuel env (ten_name l) (ten_name u) e"
  then show ?thesis by blast
qed

text \<open>Two tenants with one authentication document each, equal but for \<open>_rev\<close>, and a report of it.\<close>

definition settings_report :: json where
  "settings_report =
     JObj [(''report'', JObj [(''am'', JArr [JObj
       [(''configChange'', JObj [(''modified'', JArr [JObj [(''name'', JStr ''x''), (''realm'', JStr ''/alpha'')]])]),
        (''configItem'', JStr ''AM Authentication > Settings'')]])])]"

definition settings_of :: "string \<Rightarrow> json" where
  "settings_of tenant = JObj [(''_rev'', JStr tenant), (''core'', JBool True)]"

definition mirror_reply :: "api_call \<Rightarrow> response" where
  "mirror_reply c =
     (if ac_path c = ''/environment/promotion/report/provisional'' then RespJson settings_report
      else RespJson (settings_of (ac_tenant c)))"

definition mirror_env :: "nat env" where
  "mirror_env = pair_env\<lparr>env_agent := (\<lambda>c w. (Inr (mirror_reply c), w))\<rparr>"

definition lower_tenant :: tenant where
  "lower_tenant = upper_tenant\<lparr>ten_name := ''dev'', ten_base_url := ''https://dev''\<rparr>"

definition settings_entry :: report_entry where
  "settings_entry =
     \<lparr>en_section = ''am'', en_item = ''AM Authentication > Settings'', en_change = ''modified'',
      en_name = ''x'', en_realm = Some ''/alpha'', en_uid = None\<rparr>"

lemma mirror_fetch:
  "fetch_target 9 mirror_env t (AuthenticationSettings ''alpha'') s =
   (Inr (Some (settings_of t)),
    s\<lparr>sent := sent s @ [Called (with_api_version AM_CONFIG_VERSION (new_call t ''GET''
       ''/am/json/realms/root/realms/alpha/realm-config/authentication''))]\<rparr>)"
proof -
  have "check_document (AuthenticationSettings ''alpha'') (settings_of t) = Inr ()"
    by (simp add: check_document_def crest_error_def settings_of_def opt_filter_def)
  moreover have "segment mirror_env ''alpha'' = ''alpha''"
    by (simp add: segment_def mirror_env_def pair_env_def replace_char_def)
  ultimately show ?thesis
    by (simp add: fetch_target_def read_target_def promo_realm_path_def get_versioned_def absent_on_404_def
        send_def io_bind_def io_map_err_def io_call_def io_lift_def io_try_def io_return_def judged_def
        decode_response_def mirror_env_def mirror_reply_def new_call_def with_api_version_def)
qed

lemma settings_same: "judge_copies ShapeRev (Some (settings_of t)) (Some (settings_of t')) = Same"
proof -
  have "json_wf (settings_of x)" for x
  proof -
    have "sorted [''_rev'', ''core'']" by code_simp
    then show ?thesis by (simp add: settings_of_def)
  qed
  then show ?thesis
    by (subst judge_copies_both) (simp_all add: normalise_def settings_of_def)
qed

theorem verify_pass_means_in_sync_witness:
  "compared_equal 9 mirror_env ''dev'' ''uat'' settings_entry"
proof -
  have wf: "replies_wf mirror_env"
  proof -
    have "json_wf settings_report" by code_simp
    moreover have "json_wf (settings_of x)" for x
    proof -
      have "sorted [''_rev'', ''core'']" by code_simp
      then show ?thesis by (simp add: settings_of_def)
    qed
    ultimately show ?thesis
      by (auto simp: replies_wf_def mirror_env_def mirror_reply_def split: if_splits)
  qed
  have target: "target_of settings_entry = AuthenticationSettings ''alpha''" by code_simp
  have es: "entries settings_report = Inr [settings_entry]" by code_simp
  have two: "\<not> same_tenant (\<lambda>_. None) ''https://dev'' ''https://uat''" by code_simp
  let ?run = "run_verify 9 (\<lambda>_. None) mirror_env lower_tenant upper_tenant None \<lparr>world = 0, sent = []\<rparr>"
  have "judge_entry 9 mirror_env ''dev'' ''uat'' settings_entry s =
      (Inr Same :: verify_error + verdict, s\<lparr>sent := sent s @ map (\<lambda>t. Called (with_api_version AM_CONFIG_VERSION (new_call t ''GET''
       ''/am/json/realms/root/realms/alpha/realm-config/authentication''))) [''dev'', ''uat'']\<rparr>)" for s
    by (simp add: judge_entry_def target mirror_fetch io_bind_def io_try_def io_return_def verdict_of_def
        settings_same settle_reported_def)
  moreover have "read_report mirror_env ''uat'' Provisional s =
      (Inr settings_report, s\<lparr>sent := sent s @ [Called (new_call ''uat'' ''GET'' ''/environment/promotion/report/provisional'')]\<rparr>)" for s
    by (simp add: read_report_def which_path_def api_get_def send_def io_bind_def io_call_def io_lift_def
        decode_response_def mirror_env_def mirror_reply_def new_call_def)
  ultimately have "fst ?run = Inr [(settings_entry, Same)]"
    using two es
    by (simp add: run_verify_def lower_tenant_def upper_tenant_def explained_def io_bind_def io_map_err_def
        io_lift_def io_return_def verify_outcome_def is_unchecked_def)
  then have "?run = (Inr [(settings_entry, Same)], snd ?run)" by (simp add: prod_eq_iff)
  from verify_pass_means_in_sync [OF wf this] show ?thesis
    by (auto simp: lower_tenant_def upper_tenant_def)
qed

text \<open>reading a journey ends. If the nodes that the readings of a journey name are finitely many,
  no reading names more than \<open>B\<close> of them and the calls return, then the loop over the pending nodes
  ends, cycles between page nodes included: \<open>B * (card N + 1)\<close> turns are enough.\<close>

theorem journey_reading_ends:
  assumes "finite_journey env t realm N B" and "B * (card N + 1) \<le> fuel"
  shows "fst (read_journey fuel env t realm name s) \<noteq> Inl (CallFailed Panic)"
proof -
  let ?path = "trees_path env realm @ ''/trees/'' @ segment env name"
  obtain q s1 where q: "get_versioned env t ?path JOURNEY_VERSION s = (q, s1)"
    by (cases "get_versioned env t ?path JOURNEY_VERSION s")
  have no_panic: "q \<noteq> Inl Panic"
    using assms(1) q unfolding finite_journey_def get_versioned_def by (metis fst_conv)
  obtain r s2 where r: "absent_on_404 (get_versioned env t ?path JOURNEY_VERSION) s = (r, s2)"
    by (cases "absent_on_404 (get_versioned env t ?path JOURNEY_VERSION) s")
  have r_ok: "r \<noteq> Inl Panic"
    using no_panic q r
    by (cases q) (auto simp: absent_on_404_def io_bind_def io_try_def io_return_def io_fail_def
        split: error.splits if_splits)
  show ?thesis
  proof (cases "\<exists>tree pending. r = Inr (Some tree) \<and> node_refs TreeHolder [] tree = Inr pending")
    case False
    with r r_ok show ?thesis
      by (auto simp: read_journey_def io_bind_def io_map_err_def judged_def io_lift_def io_return_def
          map_err_Inl_iff split: sum.splits option.splits)
  next
    case True
    then obtain tree pending where tree: "r = Inr (Some tree)"
      and pending: "node_refs TreeHolder [] tree = Inr pending" by blast
    with r q have "get_versioned env t ?path JOURNEY_VERSION s = (Inr tree, s2)"
      by (auto simp: absent_on_404_Inr)
    with assms(1) pending have "length pending \<le> B" "snd ` set pending \<subseteq> N"
      unfolding finite_journey_def get_versioned_def by blast+
    with assms have "fst (journey_loop fuel env t realm pending [] s2) \<noteq> Inl (CallFailed Panic)"
      by (intro journey_loop_enough [where N = N and B = B]) (auto simp: algebra_simps)
    with r tree pending show ?thesis
      by (auto simp: read_journey_def io_bind_def io_map_err_def judged_def io_lift_def io_return_def
          split: sum.splits prod.splits)
  qed
qed

text \<open>A journey of one page node that lists itself.\<close>

definition cyclic_env :: "nat env" where
  "cyclic_env = pair_env\<lparr>env_agent := (\<lambda>c w. (Inr (RespJson (JObj [(''nodes'',
     if str_contains (ac_path c) ''/trees/'' then JObj [(''n'', JObj [(''nodeType'', JStr ''PageNode'')])]
     else JArr [JObj [(''_id'', JStr ''n''), (''nodeType'', JStr ''PageNode'')]])])), w))\<rparr>"

theorem journey_reading_ends_witness:
  "fst (read_journey 2 cyclic_env ''dev'' ''alpha'' ''j'' \<lparr>world = 0, sent = []\<rparr>) \<noteq> Inl (CallFailed Panic)"
proof (rule journey_reading_ends)
  show "finite_journey cyclic_env ''dev'' ''alpha'' {''n''} 1"
    by (auto simp: finite_journey_def cyclic_env_def send_def io_bind_def io_call_def io_lift_def
        decode_response_def node_refs_def get_str_def split: if_splits holder.splits)
qed simp

end
