(* ===== verification/Offboard.thy ===== *)
theory Offboard
  imports Transport
begin

text \<open>
  Removing a tenant: what may be purged with it (\<open>src/src/offboard/spec.rs\<close>), and the two edits
  the tenant registry knows, adding an entry (\<open>record_tenant\<close> of \<open>src/src/onboard/common.rs\<close>) and
  dropping one (\<open>src/src/offboard/ops.rs\<close>). The planner reads no file: what exists for the
  departing tenant is an \<open>inventory\<close>, and every tenant that stays is a \<open>survivor\<close> with the
  credentials it holds.

  A \<open>HashSet<TargetKind>\<close> is a set; where the code walks one, the walk below is in plan order, and
  at most one element answers. Two refusals carry a dash that is not a \<open>char\<close>; they are constructors
  of \<open>purge_refusal\<close>.
\<close>

section \<open>Targets and decisions\<close>

datatype target_kind =
    ServiceAccountJwk
  | LogApiKey
  | IssuerSigningKey
  | LogsDatabase
  | IdmStore
  | Workspace
  | SyncState
  | UndoLogEntries

definition ALL_TARGETS :: "target_kind list" where
  "ALL_TARGETS =
     [ServiceAccountJwk, LogApiKey, IssuerSigningKey, LogsDatabase, IdmStore, Workspace, SyncState,
      UndoLogEntries]"

definition target_label :: "target_kind \<Rightarrow> string" where
  "target_label k =
     (case k of
        ServiceAccountJwk \<Rightarrow> ''service-account JWK''
      | LogApiKey \<Rightarrow> ''log API key''
      | IssuerSigningKey \<Rightarrow> ''issuer signing key''
      | LogsDatabase \<Rightarrow> ''logs database''
      | IdmStore \<Rightarrow> ''IDM store''
      | Workspace \<Rightarrow> ''workspace''
      | SyncState \<Rightarrow> ''sync state''
      | UndoLogEntries \<Rightarrow> ''undo log'')"

fun implies :: "target_kind \<Rightarrow> target_kind list" where
  "implies Workspace = [SyncState]"
| "implies _ = []"

datatype target_decision = Absent | Refused string | Offered bool

record planned_target =
  pt_kind :: target_kind
  pt_decision :: target_decision

record manual_cleanup =
  mc_sa_id :: "string option"
  mc_api_key_id :: "string option"

record delete_plan =
  dp_tenant_name :: string
  dp_targets :: "planned_target list"
  dp_manual :: manual_cleanup

record inventory =
  inv_service_account_jwk :: bool
  inv_log_api_key_id :: "string option"
  inv_issuer_kid :: "string option"
  inv_logs_database :: bool
  inv_idm_store :: bool
  inv_workspace :: bool
  inv_sync_state :: bool
  inv_undo_entries :: bool

record survivor =
  su_name :: string
  su_base_url :: string
  su_sa_id :: "string option"
  su_log_api_key_id :: "string option"
  su_issuer_kid :: "string option"

definition survivor_from_tenant :: "tenant \<Rightarrow> string option \<Rightarrow> string option \<Rightarrow> survivor" where
  "survivor_from_tenant t log_key kid =
     \<lparr>su_name = ten_name t, su_base_url = ten_base_url t, su_sa_id = ten_sa_id t,
      su_log_api_key_id = log_key, su_issuer_kid = kid\<rparr>"

section \<open>The sharing guard\<close>

definition nonempty :: "string option \<Rightarrow> string option" where
  "nonempty v = opt_filter (\<lambda>s. s \<noteq> []) (map_option trim v)"

definition offered :: "credential_source option \<Rightarrow> target_decision" where
  "offered source = Offered (source \<noteq> Some External)"

definition refused :: "survivor \<Rightarrow> string \<Rightarrow> target_decision" where
  "refused s because = Refused (''tenant '' @ su_name s @ '' '' @ because)"

definition shared_by ::
  "string option \<Rightarrow> survivor list \<Rightarrow> (survivor \<Rightarrow> string option) \<Rightarrow> survivor option" where
  "shared_by i survivors f =
     (case i of None \<Rightarrow> None | Some i \<Rightarrow> find (\<lambda>s. f s = Some i) survivors)"

definition decide_sa :: "tenant \<Rightarrow> inventory \<Rightarrow> survivor list \<Rightarrow> target_decision" where
  "decide_sa t found survivors =
     (if \<not> inv_service_account_jwk found then Absent
      else case shared_by (nonempty (ten_sa_id t)) survivors (\<lambda>s. nonempty (su_sa_id s)) of
        Some s \<Rightarrow> refused s ''still uses this service account''
      | None \<Rightarrow> offered (pv_service_account (ten_provenance t)))"

definition decide_log_key :: "tenant \<Rightarrow> inventory \<Rightarrow> survivor list \<Rightarrow> target_decision" where
  "decide_log_key t found survivors =
     (case nonempty (inv_log_api_key_id found) of
        None \<Rightarrow> Absent
      | Some i \<Rightarrow>
          (case shared_by (Some i) survivors (\<lambda>s. nonempty (su_log_api_key_id s)) of
             Some s \<Rightarrow> refused s ''still uses this log API key''
           | None \<Rightarrow> offered (pv_log_key (ten_provenance t))))"

definition decide_issuer :: "tenant \<Rightarrow> inventory \<Rightarrow> survivor list \<Rightarrow> target_decision" where
  "decide_issuer t found survivors =
     (case nonempty (inv_issuer_kid found) of
        None \<Rightarrow> Absent
      | Some kid \<Rightarrow>
          (case find (\<lambda>s. nonempty (su_issuer_kid s) = Some kid \<and> su_base_url s = ten_base_url t)
                  survivors of
             Some s \<Rightarrow> refused s ''still publishes this issuer signing key''
           | None \<Rightarrow> Offered True))"

definition decide_store_path :: "bool \<Rightarrow> string \<Rightarrow> survivor list \<Rightarrow> target_decision" where
  "decide_store_path present name survivors =
     (if \<not> present then Absent
      else let f = tenant_file_name name in
        case find (\<lambda>s. tenant_file_name (su_name s) = f) survivors of
          Some s \<Rightarrow> Refused (''tenant '' @ su_name s @ '' shares the sanitised file name '' @ f)
        | None \<Rightarrow> Offered True)"

definition decide_named_path :: "bool \<Rightarrow> target_decision" where
  "decide_named_path present = (if present then Offered True else Absent)"

definition decide :: "target_kind \<Rightarrow> tenant \<Rightarrow> inventory \<Rightarrow> survivor list \<Rightarrow> target_decision" where
  "decide k t found survivors =
     (case k of
        ServiceAccountJwk \<Rightarrow> decide_sa t found survivors
      | LogApiKey \<Rightarrow> decide_log_key t found survivors
      | IssuerSigningKey \<Rightarrow> decide_issuer t found survivors
      | LogsDatabase \<Rightarrow> decide_store_path (inv_logs_database found) (ten_name t) survivors
      | IdmStore \<Rightarrow> decide_store_path (inv_idm_store found) (ten_name t) survivors
      | Workspace \<Rightarrow> decide_named_path (inv_workspace found)
      | SyncState \<Rightarrow> decide_named_path (inv_sync_state found)
      | UndoLogEntries \<Rightarrow> decide_named_path (inv_undo_entries found))"

definition manual_cleanup_of :: "tenant \<Rightarrow> inventory \<Rightarrow> survivor list \<Rightarrow> manual_cleanup" where
  "manual_cleanup_of t found survivors =
     \<lparr>mc_sa_id = opt_filter (\<lambda>i. list_all (\<lambda>s. nonempty (su_sa_id s) \<noteq> Some i) survivors)
                   (nonempty (ten_sa_id t)),
      mc_api_key_id = opt_filter (\<lambda>i. list_all (\<lambda>s. nonempty (su_log_api_key_id s) \<noteq> Some i) survivors)
                   (nonempty (inv_log_api_key_id found))\<rparr>"

definition offboard_plan :: "tenant \<Rightarrow> inventory \<Rightarrow> survivor list \<Rightarrow> delete_plan" where
  "offboard_plan t found survivors =
     \<lparr>dp_tenant_name = ten_name t,
      dp_targets = map (\<lambda>k. \<lparr>pt_kind = k, pt_decision = decide k t found survivors\<rparr>) ALL_TARGETS,
      dp_manual = manual_cleanup_of t found survivors\<rparr>"

section \<open>From a plan to a purge\<close>

text \<open>\<open>DeletePlan::decision\<close>: \<open>None\<close> is its failed \<open>expect\<close>.\<close>

definition decision_of :: "delete_plan \<Rightarrow> target_kind \<Rightarrow> target_decision option" where
  "decision_of p k = map_option pt_decision (find (\<lambda>t. pt_kind t = k) (dp_targets p))"

fun is_offered :: "target_decision option \<Rightarrow> bool" where
  "is_offered (Some (Offered _)) = True"
| "is_offered _ = False"

datatype prompt_action = PAbsent | PRefused string | Implied target_kind | Ask bool

text \<open>\<open>None\<close>, again, is the failed \<open>expect\<close> of \<open>decision\<close>.\<close>

definition prompt_for :: "delete_plan \<Rightarrow> target_kind \<Rightarrow> target_kind set \<Rightarrow> prompt_action option" where
  "prompt_for p k accepted =
     map_option
       (\<lambda>d. case d of
          Absent \<Rightarrow> PAbsent
        | Refused reason \<Rightarrow> PRefused reason
        | Offered default_on \<Rightarrow>
            (case find (\<lambda>by. by \<in> accepted \<and> k \<in> set (implies by)) ALL_TARGETS of
               Some by \<Rightarrow> Implied by
             | None \<Rightarrow> Ask default_on))
       (decision_of p k)"

definition default_selections :: "delete_plan \<Rightarrow> target_kind set" where
  "default_selections p =
     fold (\<lambda>k accepted. if prompt_for p k accepted = Some (Ask True) then insert k accepted else accepted)
       ALL_TARGETS {}"

text \<open>\<open>ResolvedPurge\<close>: a set only \<open>resolve_purge\<close> makes.\<close>

datatype resolved_purge = ResolvedPurge "target_kind set"

fun purge_set :: "resolved_purge \<Rightarrow> target_kind set" where
  "purge_set (ResolvedPurge ks) = ks"

definition resolve_one :: "delete_plan \<Rightarrow> target_kind \<Rightarrow> target_kind set \<Rightarrow> target_kind set" where
  "resolve_one p k purge =
     (if is_offered (decision_of p k)
      then fold (\<lambda>i acc. if is_offered (decision_of p i) then insert i acc else acc) (implies k)
             (insert k purge)
      else purge)"

definition resolve_purge :: "delete_plan \<Rightarrow> target_kind list \<Rightarrow> resolved_purge" where
  "resolve_purge p requested = ResolvedPurge (fold (resolve_one p) requested {})"

datatype purge_refusal =
    InventoryChanged
  | NoLongerSafe target_kind string
  | NoLongerThere target_kind
  | NoDecision

fun still_offered :: "delete_plan \<Rightarrow> target_kind list \<Rightarrow> purge_refusal + unit" where
  "still_offered p [] = Inr ()"
| "still_offered p (k # ks) =
     (case decision_of p k of
        Some (Offered _) \<Rightarrow> still_offered p ks
      | Some (Refused reason) \<Rightarrow> Inl (NoLongerSafe k reason)
      | Some Absent \<Rightarrow> Inl (NoLongerThere k)
      | None \<Rightarrow> Inl NoDecision)"

definition still_safe ::
  "resolved_purge \<Rightarrow> inventory \<Rightarrow> inventory \<Rightarrow> delete_plan \<Rightarrow> purge_refusal + unit" where
  "still_safe purge planned now now_plan =
     (if planned \<noteq> now then Inl InventoryChanged
      else still_offered now_plan (sort_key target_label (filter (\<lambda>k. k \<in> purge_set purge) ALL_TARGETS)))"

section \<open>What a row says\<close>

definition target_identifier :: "target_kind \<Rightarrow> tenant \<Rightarrow> inventory \<Rightarrow> string option" where
  "target_identifier k t found =
     (case k of
        ServiceAccountJwk \<Rightarrow> nonempty (ten_sa_id t)
      | LogApiKey \<Rightarrow> nonempty (inv_log_api_key_id found)
      | IssuerSigningKey \<Rightarrow> nonempty (inv_issuer_kid found)
      | _ \<Rightarrow> None)"

definition row_id :: "target_kind \<Rightarrow> tenant \<Rightarrow> inventory \<Rightarrow> string option" where
  "row_id k t found =
     (case target_identifier k t found of
        Some i \<Rightarrow> Some i
      | None \<Rightarrow>
          (case k of
             LogsDatabase \<Rightarrow> Some (''logs/'' @ tenant_file_name (ten_name t) @ ''.duckdb'')
           | IdmStore \<Rightarrow> Some (''idmstore/'' @ tenant_file_name (ten_name t) @ ''.sqlite'')
           | Workspace \<Rightarrow> Some (''workspace/'' @ ten_name t @ ''/'')
           | SyncState \<Rightarrow> Some (''workspace/'' @ ten_name t @ ''/.aic-sync/'')
           | UndoLogEntries \<Rightarrow> Some ''undo.log''
           | _ \<Rightarrow> None))"

section \<open>The tenant registry\<close>

record project_config =
  cfg_project :: string
  cfg_default_tenant :: string
  cfg_tenants :: "tenant list"

definition first_name :: "tenant list \<Rightarrow> string" where
  "first_name ts = (case ts of [] \<Rightarrow> [] | t # _ \<Rightarrow> ten_name t)"

definition find_tenant :: "string \<Rightarrow> tenant list \<Rightarrow> tenant option" where
  "find_tenant name ts = find (\<lambda>t. ten_name t = name) ts"

text \<open>The first entry of the name is replaced in place; a new name goes to the end.\<close>

fun upsert_tenant :: "tenant \<Rightarrow> tenant list \<Rightarrow> tenant list" where
  "upsert_tenant t [] = [t]"
| "upsert_tenant t (x # xs) = (if ten_name x = ten_name t then t # xs else x # upsert_tenant t xs)"

definition record_tenant :: "string \<Rightarrow> tenant \<Rightarrow> project_config option \<Rightarrow> project_config" where
  "record_tenant project_name t loaded =
     (let c = (case loaded of
                 Some c \<Rightarrow> c
               | None \<Rightarrow> \<lparr>cfg_project = project_name, cfg_default_tenant = [], cfg_tenants = []\<rparr>);
          ts = upsert_tenant t (cfg_tenants c)
      in c\<lparr>cfg_tenants := ts, cfg_default_tenant := first_name ts\<rparr>)"

definition drop_tenant :: "project_config \<Rightarrow> string \<Rightarrow> project_config" where
  "drop_tenant c name =
     (let ts = filter (\<lambda>t. ten_name t \<noteq> name) (cfg_tenants c)
      in c\<lparr>cfg_tenants := ts,
           cfg_default_tenant :=
             (if cfg_default_tenant c = name then first_name ts else cfg_default_tenant c)\<rparr>)"

datatype off_error =
    Replaced string
  | Unsafe purge_refusal
  | NoConfig
  | NoTenant string
  | NeedsFlags
  | NeedsTerminal
  | NotConfirmed
  | LeftInPlace
  | Gate error
  | Io string

definition still_planned :: "project_config \<Rightarrow> tenant \<Rightarrow> off_error + unit" where
  "still_planned c planned =
     (case find_tenant (ten_name planned) (cfg_tenants c) of
        None \<Rightarrow> Inr ()
      | Some current \<Rightarrow>
          if same_identity current planned then Inr () else Inl (Replaced (ten_name planned)))"

definition drop_planned :: "project_config \<Rightarrow> tenant \<Rightarrow> off_error + project_config" where
  "drop_planned c planned =
     res_bind (still_planned c planned) (\<lambda>_. Inr (drop_tenant c (ten_name planned)))"

definition next_context :: "string option \<Rightarrow> string \<Rightarrow> project_config \<Rightarrow> string option" where
  "next_context current removed c =
     (case current of
        None \<Rightarrow> None
      | Some name \<Rightarrow>
          if name = removed
          then (if cfg_default_tenant c = [] then None else Some (cfg_default_tenant c))
          else Some name)"

section \<open>What was found\<close>

record vault_view =
  vw_jwks :: "string set"
  vw_log_keys :: "string \<rightharpoonup> string"
  vw_issuer_kids :: "string \<rightharpoonup> string"

record path_presence =
  pp_logs_database :: bool
  pp_idm_store :: bool
  pp_workspace :: bool
  pp_sync_state :: bool
  pp_undo_entries :: bool

definition inventory_from :: "string \<Rightarrow> vault_view \<Rightarrow> path_presence \<Rightarrow> inventory" where
  "inventory_from name v p =
     \<lparr>inv_service_account_jwk = (name \<in> vw_jwks v), inv_log_api_key_id = vw_log_keys v name,
      inv_issuer_kid = vw_issuer_kids v name, inv_logs_database = pp_logs_database p,
      inv_idm_store = pp_idm_store p, inv_workspace = pp_workspace p,
      inv_sync_state = pp_sync_state p, inv_undo_entries = pp_undo_entries p\<rparr>"

definition survivors_from :: "string \<Rightarrow> tenant list \<Rightarrow> vault_view \<Rightarrow> survivor list" where
  "survivors_from departing ts v =
     map (\<lambda>t. survivor_from_tenant t (vw_log_keys v (ten_name t)) (vw_issuer_kids v (ten_name t)))
       (filter (\<lambda>t. ten_name t \<noteq> departing) ts)"

definition plan_for ::
  "tenant \<Rightarrow> tenant list \<Rightarrow> vault_view \<Rightarrow> path_presence \<Rightarrow> inventory \<times> survivor list \<times> delete_plan" where
  "plan_for t ts v p =
     (let found = inventory_from (ten_name t) v p;
          survivors = survivors_from (ten_name t) ts v
      in (found, survivors, offboard_plan t found survivors))"

end
