(* ===== verification/Offboard_Ops.thy ===== *)
theory Offboard_Ops
  imports Offboard
begin

text \<open>
  Carrying a removal out (\<open>src/src/offboard/ops.rs\<close>) and the command in front of it
  (\<open>aic ctx rm\<close>, \<open>src/src/offboard/cli.rs\<close>), with the probe, the recheck under the lifecycle lock
  and the locked edit of \<open>config.toml\<close> (\<open>update_config\<close>, \<open>src/src/config/mod.rs\<close>).

  \<open>off_env\<close> holds what is outside: the files and directories, the agent that keeps the secrets, the
  undo log's file, the prompt, the clock (whose formatted time it gives) and serde. Its locks are
  held until the command ends. An error an operation of it reports is its text. What the command
  changes or asks goes to the log as an event; what it prints is not modelled.
\<close>

section \<open>Paths\<close>

record off_layout =
  aic_dir :: string
  workspace_dir :: string

definition logs_db :: "off_layout \<Rightarrow> string \<Rightarrow> string" where
  "logs_db l t = path_join (path_join (aic_dir l) ''logs'') (tenant_file_name t @ ''.duckdb'')"

definition idm_store :: "off_layout \<Rightarrow> string \<Rightarrow> string" where
  "idm_store l t = path_join (path_join (aic_dir l) ''idmstore'') (tenant_file_name t @ ''.sqlite'')"

definition workspace_path :: "off_layout \<Rightarrow> string \<Rightarrow> string" where
  "workspace_path l t = path_join (workspace_dir l) t"

definition sync_state_path :: "off_layout \<Rightarrow> string \<Rightarrow> string" where
  "sync_state_path l t = path_join (workspace_path l t) ''.aic-sync''"

definition undo_log_path :: "off_layout \<Rightarrow> string" where
  "undo_log_path l = path_join (aic_dir l) ''undo.log''"

definition backup_path :: "off_layout \<Rightarrow> string \<Rightarrow> string \<Rightarrow> string" where
  "backup_path l t now =
     path_join (path_join (aic_dir l) ''backups'')
       (''tenant-'' @ tenant_file_name t @ ''-'' @ now @ ''.json'')"

section \<open>The outside\<close>

datatype vault_artifact = Jwks | LogKeys | JwtBearerKeys

record tenant_backup =
  tb_tenant :: tenant
  tb_sa_id :: "string option"
  tb_api_key_id :: "string option"
  tb_kid :: "string option"

definition backup_from_inventory :: "tenant \<Rightarrow> inventory \<Rightarrow> tenant_backup" where
  "backup_from_inventory t found =
     \<lparr>tb_tenant = t, tb_sa_id = nonempty (ten_sa_id t),
      tb_api_key_id = nonempty (inv_log_api_key_id found), tb_kid = nonempty (inv_issuer_kid found)\<rparr>"

datatype off_event =
    SaveBackup string string
  | TakeLifecycle
  | Unpublish string string
  | ForgetSecret vault_artifact string
  | RemovePath string bool
  | ForgetUndo string string
  | InstallConfig project_config
  | SetContext "string option"
  | AskUser string

datatype secret_error = SecretMissing | SecretError string

record 'w off_env =
  off_now :: "'w \<Rightarrow> string \<times> 'w"
  off_serialise :: "tenant_backup \<Rightarrow> string + string"
  off_save_backup :: "string \<Rightarrow> string \<Rightarrow> 'w \<Rightarrow> (string + unit) \<times> 'w"
  off_try_lock :: "'w \<Rightarrow> (string + unit) \<times> 'w"
  off_lock_config :: "'w \<Rightarrow> (string + unit) \<times> 'w"
  off_load_config :: "'w \<Rightarrow> (string + project_config option) \<times> 'w"
  off_install_config :: "project_config \<Rightarrow> 'w \<Rightarrow> (string + unit) \<times> 'w"
  off_read_context :: "'w \<Rightarrow> (string + string option) \<times> 'w"
  off_set_context :: "string option \<Rightarrow> 'w \<Rightarrow> (string + unit) \<times> 'w"
  off_unpublish :: "string \<Rightarrow> string \<Rightarrow> bool \<Rightarrow> 'w \<Rightarrow> (string + unit) \<times> 'w"
  off_forget_secret :: "vault_artifact \<Rightarrow> string \<Rightarrow> 'w \<Rightarrow> (string + unit) \<times> 'w"
  off_remove :: "string \<Rightarrow> bool \<Rightarrow> 'w \<Rightarrow> (string + unit) \<times> 'w"
  off_forget_undo :: "string \<Rightarrow> string \<Rightarrow> 'w \<Rightarrow> (string + nat) \<times> 'w"
  off_exists :: "string \<Rightarrow> 'w \<Rightarrow> bool"
  off_is_dir :: "string \<Rightarrow> 'w \<Rightarrow> bool"
  off_undo_tenants :: "string \<Rightarrow> 'w \<Rightarrow> string + string list"
  off_get_secret :: "vault_artifact \<Rightarrow> string \<Rightarrow> 'w \<Rightarrow> (secret_error + json) \<times> 'w"
  off_log_key_id :: "json \<Rightarrow> string + string"
  off_record_kid :: "json \<Rightarrow> string + string"
  off_prompt_available :: "'w \<Rightarrow> bool"
  off_ask :: "string \<Rightarrow> 'w \<Rightarrow> (string + string) \<times> 'w"

type_synonym ('w, 'a) off = "('w, off_event, off_error, 'a) io"

text \<open>One effect with its event, and one look; errors are the texts they render as.\<close>

definition off_do :: "off_event \<Rightarrow> ('w \<Rightarrow> (string + 'a) \<times> 'w) \<Rightarrow> ('w, 'a) off" where
  "off_do ev answer = io_map_err Io (io_call ev answer)"

definition off_look :: "('w \<Rightarrow> (string + 'a) \<times> 'w) \<Rightarrow> ('w, 'a) off" where
  "off_look answer = io_map_err Io (io_look answer)"

definition off_see :: "('w \<Rightarrow> 'a) \<Rightarrow> ('w, 'a) off" where
  "off_see f = io_look (\<lambda>w. (Inr (f w), w))"

section \<open>Probing\<close>

definition optional_secret :: "'w off_env \<Rightarrow> vault_artifact \<Rightarrow> string \<Rightarrow> ('w, json option) off" where
  "optional_secret env artifact name =
     io_bind (io_try (io_look (off_get_secret env artifact name))) (\<lambda>r.
       case r of
         Inr v \<Rightarrow> io_return (Some v)
       | Inl SecretMissing \<Rightarrow> io_return None
       | Inl (SecretError e) \<Rightarrow> io_fail (Io e))"

definition VAULT_STEMS :: "string list" where
  "VAULT_STEMS = [''keys'', ''log-keys'', ''jwt-bearer-keys'']"

definition vault_files_exist :: "'w off_env \<Rightarrow> off_layout \<Rightarrow> ('w, bool) off" where
  "vault_files_exist env l =
     off_see (\<lambda>w. list_ex (\<lambda>stem. off_exists env (path_join (aic_dir l) (stem @ ''.enc'')) w \<or>
                                 off_exists env (path_join (aic_dir l) (stem @ ''.plain'')) w)
                   VAULT_STEMS)"

definition set_id :: "string \<Rightarrow> string option \<Rightarrow> (string \<rightharpoonup> string) \<Rightarrow> (string \<rightharpoonup> string)" where
  "set_id name v m = (case v of None \<Rightarrow> m | Some i \<Rightarrow> m(name \<mapsto> i))"

text \<open>One name's credentials added to the view.\<close>

definition probe_name :: "'w off_env \<Rightarrow> string \<Rightarrow> vault_view \<Rightarrow> ('w, vault_view) off" where
  "probe_name env name v =
     io_bind (optional_secret env Jwks name) (\<lambda>jwk.
     let v = (if jwk = None then v else v\<lparr>vw_jwks := insert name (vw_jwks v)\<rparr>) in
     io_bind (optional_secret env LogKeys name) (\<lambda>pair.
     io_bind
       (case pair of
          None \<Rightarrow> io_return v
        | Some j \<Rightarrow>
            io_bind (io_lift (map_err Io (off_log_key_id env j))) (\<lambda>i.
              io_return (v\<lparr>vw_log_keys := set_id name (nonempty (Some i)) (vw_log_keys v)\<rparr>))) (\<lambda>v.
     io_bind (optional_secret env JwtBearerKeys name) (\<lambda>rec.
       case rec of
         None \<Rightarrow> io_return v
       | Some j \<Rightarrow>
           io_bind (io_lift (map_err Io (off_record_kid env j))) (\<lambda>i.
             io_return (v\<lparr>vw_issuer_kids := set_id name (nonempty (Some i)) (vw_issuer_kids v)\<rparr>))))))"

fun probe_names :: "'w off_env \<Rightarrow> string list \<Rightarrow> vault_view \<Rightarrow> ('w, vault_view) off" where
  "probe_names env [] v = io_return v"
| "probe_names env (n # ns) v = io_bind (probe_name env n v) (\<lambda>v. probe_names env ns v)"

definition probe_vault :: "'w off_env \<Rightarrow> off_layout \<Rightarrow> string list \<Rightarrow> ('w, vault_view) off" where
  "probe_vault env l names =
     (let empty = \<lparr>vw_jwks = {}, vw_log_keys = Map.empty, vw_issuer_kids = Map.empty\<rparr> in
      io_bind (vault_files_exist env l) (\<lambda>any.
        if \<not> any then io_return empty else probe_names env names empty))"

definition undo_mentions :: "'w off_env \<Rightarrow> string \<Rightarrow> string \<Rightarrow> 'w \<Rightarrow> bool" where
  "undo_mentions env name path w =
     (case off_undo_tenants env path w of Inr ts \<Rightarrow> name \<in> set ts | Inl _ \<Rightarrow> True)"

definition probe_paths :: "'w off_env \<Rightarrow> string \<Rightarrow> off_layout \<Rightarrow> ('w, path_presence) off" where
  "probe_paths env name l =
     off_see (\<lambda>w. \<lparr>pp_logs_database = off_exists env (logs_db l name) w,
                  pp_idm_store = off_exists env (idm_store l name) w,
                  pp_workspace = off_is_dir env (workspace_path l name) w,
                  pp_sync_state = off_exists env (sync_state_path l name) w,
                  pp_undo_entries = undo_mentions env name (undo_log_path l) w\<rparr>)"

section \<open>The recheck\<close>

definition config_tenants :: "project_config option \<Rightarrow> tenant list" where
  "config_tenants c = (case c of None \<Rightarrow> [] | Some c \<Rightarrow> cfg_tenants c)"

definition with_name :: "string \<Rightarrow> string list \<Rightarrow> string list" where
  "with_name n ns = (if n \<in> set ns then ns else ns @ [n])"

definition off_recheck ::
  "'w off_env \<Rightarrow> tenant \<Rightarrow> inventory \<Rightarrow> resolved_purge \<Rightarrow> off_layout \<Rightarrow> ('w, unit) off" where
  "off_recheck env t planned purge l =
     io_bind (off_do TakeLifecycle (off_try_lock env)) (\<lambda>_.
     io_bind (off_look (off_load_config env)) (\<lambda>current.
     io_bind (io_lift (case current of None \<Rightarrow> Inr () | Some c \<Rightarrow> still_planned c t)) (\<lambda>_.
     let ts = config_tenants current; names = with_name (ten_name t) (map ten_name ts) in
     io_bind (probe_vault env l names) (\<lambda>v.
     io_bind (probe_paths env (ten_name t) l) (\<lambda>p.
     case plan_for t ts v p of
       (now, _, now_plan) \<Rightarrow> io_lift (map_err Unsafe (still_safe purge planned now now_plan)))))))"

section \<open>Executing\<close>

datatype off_step = Backup | RemoteIssuer | VaultStep target_kind | PathStep target_kind | ConfigEntry

datatype step_status = StepOk | StepFailed off_error | StepSkipped string

record step_outcome =
  so_step :: off_step
  so_status :: step_status

definition outcome :: "off_step \<Rightarrow> step_status \<Rightarrow> step_outcome" where
  "outcome st status = \<lparr>so_step = st, so_status = status\<rparr>"

record execute_report =
  er_backup_path :: "string option"
  er_steps :: "step_outcome list"
  er_config_removed :: bool
  er_next_context :: "string option"
  er_default_tenant :: string
  er_remote_error :: "off_error option"

definition execute_failed :: "execute_report \<Rightarrow> bool" where
  "execute_failed r = list_ex (\<lambda>s. case so_status s of StepFailed _ \<Rightarrow> True | _ \<Rightarrow> False) (er_steps r)"

text \<open>What the run has done so far: its steps, and whether one of them bars the last.\<close>

type_synonym progress = "step_outcome list \<times> bool"

text \<open>One removal: its step is recorded, and a failure bars the removal of the config entry
  (the vault arms and \<open>push_path\<close>).\<close>

definition removal :: "off_step \<Rightarrow> ('w, 'a) off \<Rightarrow> progress \<Rightarrow> ('w, progress) off" where
  "removal st m acc =
     io_bind (io_try m) (\<lambda>r.
       case r of
         Inr _ \<Rightarrow> io_return (fst acc @ [outcome st StepOk], snd acc)
       | Inl e \<Rightarrow> io_return (fst acc @ [outcome st (StepFailed e)], True))"

definition write_backup_step ::
  "'w off_env \<Rightarrow> tenant \<Rightarrow> inventory \<Rightarrow> off_layout \<Rightarrow> ('w, step_outcome list \<times> string option) off" where
  "write_backup_step env t found l =
     (case off_serialise env (backup_from_inventory t found) of
        Inl e \<Rightarrow> io_return ([outcome Backup (StepFailed (Io e))], None)
      | Inr bytes \<Rightarrow>
          io_bind (io_look (\<lambda>w. case off_now env w of (now, w') \<Rightarrow> (Inr now, w'))) (\<lambda>now.
          let path = backup_path l (ten_name t) now in
          io_bind (io_try (off_do (SaveBackup path bytes) (off_save_backup env path bytes))) (\<lambda>r.
            case r of
              Inr _ \<Rightarrow> io_return ([outcome Backup StepOk], Some path)
            | Inl e \<Rightarrow> io_return ([outcome Backup (StepFailed e)], None))))"

definition off_aborted :: "step_outcome list \<Rightarrow> string option \<Rightarrow> project_config \<Rightarrow> execute_report" where
  "off_aborted steps current c =
     \<lparr>er_backup_path = None, er_steps = steps, er_config_removed = False, er_next_context = current,
      er_default_tenant = cfg_default_tenant c, er_remote_error = None\<rparr>"

definition remote_step ::
  "'w off_env \<Rightarrow> bool \<Rightarrow> tenant \<Rightarrow> inventory \<Rightarrow> resolved_purge \<Rightarrow> step_outcome list \<Rightarrow>
   ('w, step_outcome list \<times> off_error option) off" where
  "remote_step env confirmed t found purge steps =
     (if IssuerSigningKey \<notin> purge_set purge then io_return (steps, None)
      else case inv_issuer_kid found of
        None \<Rightarrow> io_return (steps @ [outcome RemoteIssuer (StepSkipped ''no kid in inventory'')], None)
      | Some kid \<Rightarrow>
          io_bind (io_try (off_do (Unpublish (ten_name t) kid) (off_unpublish env (ten_name t) kid confirmed)))
            (\<lambda>r. case r of
               Inr _ \<Rightarrow> io_return (steps @ [outcome RemoteIssuer StepOk], None)
             | Inl e \<Rightarrow> io_return (steps @ [outcome RemoteIssuer (StepFailed e)], Some e)))"

definition VAULT_TARGETS :: "(target_kind \<times> vault_artifact) list" where
  "VAULT_TARGETS = [(ServiceAccountJwk, Jwks), (LogApiKey, LogKeys), (IssuerSigningKey, JwtBearerKeys)]"

fun vault_steps ::
  "'w off_env \<Rightarrow> tenant \<Rightarrow> resolved_purge \<Rightarrow> (target_kind \<times> vault_artifact) list \<Rightarrow> progress \<Rightarrow>
   ('w, progress) off" where
  "vault_steps env t purge [] acc = io_return acc"
| "vault_steps env t purge ((k, artifact) # rest) acc =
     (if k \<notin> purge_set purge then vault_steps env t purge rest acc
      else
        io_bind
          (removal (VaultStep k)
             (off_do (ForgetSecret artifact (ten_name t)) (off_forget_secret env artifact (ten_name t))) acc)
          (\<lambda>acc. vault_steps env t purge rest acc))"

definition remove_path :: "'w off_env \<Rightarrow> string \<Rightarrow> bool \<Rightarrow> ('w, unit) off" where
  "remove_path env path directory =
     io_bind (off_see (off_exists env path)) (\<lambda>there.
       if \<not> there then io_return ()
       else off_do (RemovePath path directory) (off_remove env path directory))"

definition path_step ::
  "'w off_env \<Rightarrow> resolved_purge \<Rightarrow> target_kind \<Rightarrow> string \<Rightarrow> bool \<Rightarrow> progress \<Rightarrow> ('w, progress) off" where
  "path_step env purge k path directory acc =
     (if k \<notin> purge_set purge then io_return acc
      else removal (PathStep k) (remove_path env path directory) acc)"

text \<open>The workspace takes the sync state inside it; only when it could not be removed is the sync
  state tried on its own.\<close>

definition workspace_step ::
  "'w off_env \<Rightarrow> tenant \<Rightarrow> resolved_purge \<Rightarrow> off_layout \<Rightarrow> progress \<Rightarrow> ('w, progress) off" where
  "workspace_step env t purge l acc =
     (if Workspace \<in> purge_set purge then
        io_bind (io_try (remove_path env (workspace_path l (ten_name t)) True)) (\<lambda>r.
          case r of
            Inr _ \<Rightarrow>
              io_return
                (fst acc @ [outcome (PathStep Workspace) StepOk] @
                   (if SyncState \<in> purge_set purge then [outcome (PathStep SyncState) StepOk] else []),
                 snd acc)
          | Inl e \<Rightarrow>
              path_step env purge SyncState (sync_state_path l (ten_name t)) True
                (fst acc @ [outcome (PathStep Workspace) (StepFailed e)], True))
      else path_step env purge SyncState (sync_state_path l (ten_name t)) True acc)"

definition undo_step ::
  "'w off_env \<Rightarrow> tenant \<Rightarrow> resolved_purge \<Rightarrow> off_layout \<Rightarrow> progress \<Rightarrow> ('w, progress) off" where
  "undo_step env t purge l acc =
     (if UndoLogEntries \<notin> purge_set purge then io_return acc
      else
        removal (PathStep UndoLogEntries)
          (off_do (ForgetUndo (undo_log_path l) (ten_name t))
             (off_forget_undo env (undo_log_path l) (ten_name t))) acc)"

text \<open>\<open>remove_config_entry\<close>: \<open>update_config\<close> with \<open>drop_planned\<close> as its change. A change that leaves
  the document as it was installs nothing.\<close>

definition remove_config_entry :: "'w off_env \<Rightarrow> tenant \<Rightarrow> ('w, project_config) off" where
  "remove_config_entry env t =
     io_bind (off_look (off_lock_config env)) (\<lambda>_.
     io_bind (off_look (off_load_config env)) (\<lambda>loaded.
     case loaded of
       None \<Rightarrow> io_fail NoConfig
     | Some c \<Rightarrow>
         io_bind (io_lift (drop_planned c t)) (\<lambda>next.
         io_bind
           (if next = c then io_return ()
            else off_do (InstallConfig next) (off_install_config env next)) (\<lambda>_.
           io_return next))))"

definition config_step ::
  "'w off_env \<Rightarrow> tenant \<Rightarrow> project_config \<Rightarrow> string option \<Rightarrow> string \<Rightarrow> off_error option \<Rightarrow> progress \<Rightarrow>
   ('w, execute_report) off" where
  "config_step env t c current path remote acc =
     (let report = (\<lambda>steps removed ctx default.
        \<lparr>er_backup_path = Some path, er_steps = steps, er_config_removed = removed,
         er_next_context = ctx, er_default_tenant = default, er_remote_error = remote\<rparr>)
      in
        if snd acc then
          io_return
            (report (fst acc @ [outcome ConfigEntry
                       (StepSkipped ''earlier local step failed; tenant left addressable'')])
               False current (cfg_default_tenant c))
        else
          io_bind (io_try (remove_config_entry env t)) (\<lambda>r.
            case r of
              Inr next \<Rightarrow>
                (let ctx = next_context current (ten_name t) next in
                 io_bind (io_try (off_do (SetContext ctx) (off_set_context env ctx))) (\<lambda>w.
                   io_return
                     (report
                        (fst acc @ [outcome ConfigEntry
                           (case w of Inr _ \<Rightarrow> StepOk | Inl e \<Rightarrow> StepFailed e)])
                        True ctx (cfg_default_tenant next))))
            | Inl e \<Rightarrow>
                io_return (report (fst acc @ [outcome ConfigEntry (StepFailed e)])
                  False current (cfg_default_tenant c))))"

definition execute ::
  "'w off_env \<Rightarrow> bool \<Rightarrow> tenant \<Rightarrow> project_config \<Rightarrow> string option \<Rightarrow> inventory \<Rightarrow> resolved_purge \<Rightarrow>
   off_layout \<Rightarrow> ('w, execute_report) off" where
  "execute env confirmed t c current found purge l =
     io_bind (write_backup_step env t found l) (\<lambda>(steps, saved).
     case saved of
       None \<Rightarrow> io_return (off_aborted steps current c)
     | Some path \<Rightarrow>
     io_bind (io_try (off_recheck env t found purge l)) (\<lambda>checked.
     case checked of
       Inl e \<Rightarrow>
         io_return
           \<lparr>er_backup_path = Some path, er_steps = steps @ [outcome ConfigEntry (StepFailed e)],
            er_config_removed = False, er_next_context = current,
            er_default_tenant = cfg_default_tenant c, er_remote_error = None\<rparr>
     | Inr _ \<Rightarrow>
     io_bind (remote_step env confirmed t found purge steps) (\<lambda>(steps, remote).
     io_bind (vault_steps env t purge VAULT_TARGETS (steps, False)) (\<lambda>acc.
     io_bind (path_step env purge LogsDatabase (logs_db l (ten_name t)) False acc) (\<lambda>acc.
     io_bind (path_step env purge IdmStore (idm_store l (ten_name t)) False acc) (\<lambda>acc.
     io_bind (workspace_step env t purge l acc) (\<lambda>acc.
     io_bind (undo_step env t purge l acc) (\<lambda>acc.
       config_step env t c current path remote acc))))))))"

section \<open>The command\<close>

datatype purge_selector = SelectAll | SelectDefaults | SelectNone

record rm_options =
  rm_purge :: "purge_selector option"
  rm_force :: bool
  rm_dry_run :: bool
  rm_json :: bool
  rm_yes :: bool

definition ensure_unattended_flags :: "rm_options \<Rightarrow> bool \<Rightarrow> off_error + unit" where
  "ensure_unattended_flags opts terminal =
     (if \<not> terminal \<and> (rm_purge opts = None \<or> \<not> rm_force opts) then Inl NeedsFlags else Inr ())"

definition offered_kinds :: "delete_plan \<Rightarrow> target_kind list" where
  "offered_kinds p =
     map pt_kind (filter (\<lambda>t. is_offered (Some (pt_decision t))) (dp_targets p))"

definition to_ascii_lowercase :: "string \<Rightarrow> string" where
  "to_ascii_lowercase s = map ascii_lower s"

definition confirm_target :: "'w off_env \<Rightarrow> string \<Rightarrow> bool \<Rightarrow> ('w, bool) off" where
  "confirm_target env lbl default_on =
     io_bind (off_see (off_prompt_available env)) (\<lambda>terminal.
       if \<not> terminal then io_fail NeedsTerminal
       else
         io_bind (off_do (AskUser lbl) (off_ask env lbl)) (\<lambda>line.
           let a = to_ascii_lowercase (trim line) in
           if a = [] then io_return default_on
           else if a = ''y'' \<or> a = ''yes'' then io_return True
           else if a = ''n'' \<or> a = ''no'' then io_return False
           else io_fail NotConfirmed))"

text \<open>The walk over the plan's rows; the accepted set grows as rows are accepted.\<close>

fun ask_targets ::
  "(string \<Rightarrow> bool \<Rightarrow> ('w, bool) off) \<Rightarrow> delete_plan \<Rightarrow> planned_target list \<Rightarrow> target_kind set \<Rightarrow>
   ('w, target_kind set) off" where
  "ask_targets ask p [] accepted = io_return accepted"
| "ask_targets ask p (x # xs) accepted =
     (case prompt_for p (pt_kind x) accepted of
        Some (Implied _) \<Rightarrow> ask_targets ask p xs (insert (pt_kind x) accepted)
      | Some (Ask default_on) \<Rightarrow>
          io_bind (ask (target_label (pt_kind x)) default_on) (\<lambda>yes.
            ask_targets ask p xs (if yes then insert (pt_kind x) accepted else accepted))
      | _ \<Rightarrow> ask_targets ask p xs accepted)"

definition as_requested :: "target_kind set \<Rightarrow> target_kind list" where
  "as_requested ks = filter (\<lambda>k. k \<in> ks) ALL_TARGETS"

definition collect_purge_with ::
  "delete_plan \<Rightarrow> purge_selector option \<Rightarrow> (string \<Rightarrow> bool \<Rightarrow> ('w, bool) off) \<Rightarrow>
   ('w, resolved_purge) off" where
  "collect_purge_with p selector ask =
     (case selector of
        Some SelectAll \<Rightarrow> io_return (resolve_purge p (offered_kinds p))
      | Some SelectDefaults \<Rightarrow> io_return (resolve_purge p (as_requested (default_selections p)))
      | Some SelectNone \<Rightarrow> io_return (resolve_purge p [])
      | None \<Rightarrow>
          io_bind (ask_targets ask p (dp_targets p) {}) (\<lambda>accepted.
            io_return (resolve_purge p (as_requested accepted))))"

definition collect_purge ::
  "'w off_env \<Rightarrow> delete_plan \<Rightarrow> purge_selector option \<Rightarrow> ('w, resolved_purge) off" where
  "collect_purge env p selector =
     io_bind (off_see (off_prompt_available env)) (\<lambda>terminal.
       if selector = None \<and> \<not> terminal then io_fail NeedsTerminal
       else collect_purge_with p selector (confirm_target env))"

definition confirm_typed_name :: "'w off_env \<Rightarrow> string \<Rightarrow> ('w, unit) off" where
  "confirm_typed_name env name =
     io_bind (off_see (off_prompt_available env)) (\<lambda>terminal.
       if \<not> terminal then io_fail NeedsTerminal
       else
         io_bind (off_do (AskUser name) (off_ask env name)) (\<lambda>line.
           if trim line = name then io_return () else io_fail NotConfirmed))"

definition load_named :: "'w off_env \<Rightarrow> string \<Rightarrow> ('w, project_config \<times> tenant) off" where
  "load_named env name =
     io_bind (off_look (off_load_config env)) (\<lambda>loaded.
     io_bind (io_lift (ok_or NoConfig loaded)) (\<lambda>c.
     io_bind (io_lift (ok_or (NoTenant name) (find_tenant name (cfg_tenants c)))) (\<lambda>t.
       io_return (c, t))))"

definition ensure_prod_confirmed :: "'w off_env \<Rightarrow> string \<Rightarrow> bool \<Rightarrow> ('w, bool) off" where
  "ensure_prod_confirmed env name yes =
     io_bind (load_named env name) (\<lambda>(_, t).
       io_lift (map_err Gate (prod_write_ok (ten_theme t) yes)))"

text \<open>\<open>ctx rm\<close>: \<open>None\<close> is a run that only showed the plan.\<close>

definition ctx_rm ::
  "'w off_env \<Rightarrow> off_layout \<Rightarrow> string \<Rightarrow> rm_options \<Rightarrow> ('w, execute_report option) off" where
  "ctx_rm env l name opts =
     io_bind (load_named env name) (\<lambda>(c, t).
     io_bind (probe_vault env l (map ten_name (cfg_tenants c))) (\<lambda>v.
     io_bind (probe_paths env name l) (\<lambda>p.
     case plan_for t (cfg_tenants c) v p of
       (found, _, plan) \<Rightarrow>
         if rm_json opts \<or> rm_dry_run opts then io_return None
         else
           io_bind (ensure_prod_confirmed env name (rm_yes opts)) (\<lambda>confirmed.
           io_bind (off_see (off_prompt_available env)) (\<lambda>terminal.
           io_bind (io_lift (ensure_unattended_flags opts terminal)) (\<lambda>_.
           io_bind (collect_purge env plan (rm_purge opts)) (\<lambda>purge.
           io_bind (if rm_force opts then io_return () else confirm_typed_name env name) (\<lambda>_.
           io_bind (off_look (off_read_context env)) (\<lambda>current.
           io_bind (execute env confirmed t c current found purge l) (\<lambda>report.
             if er_config_removed report then io_return (Some report)
             else io_fail LeftInPlace))))))))))"

end
