(* ===== verification/Offboard_Facts.thy ===== *)
theory Offboard_Facts
  imports Offboard_Ops
begin

text \<open>
  What the sharing guard decides, stated over the resources tenants hold rather than over the
  fields it compares; what a purge contains; that the tenant registry stays well formed; and what
  an execution sends, in which order.
\<close>

section \<open>Resources\<close>

datatype resource =
    RServiceAccount string
  | RLogKey string
  | RIssuerKey string string
  | RStored target_kind string

text \<open>The resource a target of a tenant is: two tenants share it when it is the same one.\<close>

definition resource_of :: "target_kind \<Rightarrow> tenant \<Rightarrow> vault_view \<Rightarrow> resource option" where
  "resource_of k t v =
     (case k of
        ServiceAccountJwk \<Rightarrow> map_option RServiceAccount (nonempty (ten_sa_id t))
      | LogApiKey \<Rightarrow> map_option RLogKey (nonempty (vw_log_keys v (ten_name t)))
      | IssuerSigningKey \<Rightarrow>
          map_option (RIssuerKey (ten_base_url t)) (nonempty (vw_issuer_kids v (ten_name t)))
      | LogsDatabase \<Rightarrow> Some (RStored k (tenant_file_name (ten_name t)))
      | IdmStore \<Rightarrow> Some (RStored k (tenant_file_name (ten_name t)))
      | _ \<Rightarrow> Some (RStored k (ten_name t)))"

definition shares :: "target_kind \<Rightarrow> tenant \<Rightarrow> tenant \<Rightarrow> vault_view \<Rightarrow> bool" where
  "shares k t u v \<longleftrightarrow>
     ten_name u \<noteq> ten_name t \<and> resource_of k t v \<noteq> None \<and> resource_of k u v = resource_of k t v"

definition stored :: "target_kind \<Rightarrow> inventory \<Rightarrow> bool" where
  "stored k found =
     (case k of
        ServiceAccountJwk \<Rightarrow> inv_service_account_jwk found
      | LogApiKey \<Rightarrow> nonempty (inv_log_api_key_id found) \<noteq> None
      | IssuerSigningKey \<Rightarrow> nonempty (inv_issuer_kid found) \<noteq> None
      | LogsDatabase \<Rightarrow> inv_logs_database found
      | IdmStore \<Rightarrow> inv_idm_store found
      | Workspace \<Rightarrow> inv_workspace found
      | SyncState \<Rightarrow> inv_sync_state found
      | UndoLogEntries \<Rightarrow> inv_undo_entries found)"

section \<open>The guard\<close>

lemma decision_of_plan: "decision_of (offboard_plan t found sv) k = Some (decide k t found sv)"
  by (cases k) (simp_all add: decision_of_def offboard_plan_def ALL_TARGETS_def)

lemma find_Some_P: "find P xs = Some x \<Longrightarrow> P x \<and> x \<in> set xs"
  by (auto simp: find_Some_iff)

lemma find_survivors:
  "find P (survivors_from n ts v) = None \<longleftrightarrow>
   (\<forall>u\<in>set ts. ten_name u \<noteq> n \<longrightarrow>
      \<not> P (survivor_from_tenant u (vw_log_keys v (ten_name u)) (vw_issuer_kids v (ten_name u))))"
  by (auto simp: find_None_iff survivors_from_def)

lemma find_found: "(\<exists>s. find P (survivors_from n ts v) = Some s) \<longleftrightarrow>
   (\<exists>u\<in>set ts. ten_name u \<noteq> n \<and>
      P (survivor_from_tenant u (vw_log_keys v (ten_name u)) (vw_issuer_kids v (ten_name u))))"
  using find_survivors [of P n ts v] by (cases "find P (survivors_from n ts v)") auto

text \<open>Every arm of \<open>decide\<close> asks whether something is stored and, if so, whether anyone shares it.\<close>

definition three_way :: "bool \<Rightarrow> bool \<Rightarrow> target_decision \<Rightarrow> bool" where
  "three_way present shared d \<longleftrightarrow>
     (d = Absent \<longleftrightarrow> \<not> present) \<and> ((\<exists>r. d = Refused r) \<longleftrightarrow> present \<and> shared) \<and>
     (is_offered (Some d) \<longleftrightarrow> present \<and> \<not> shared)"

lemma three_way_absent: "\<not> present \<Longrightarrow> three_way present shared Absent"
  by (simp add: three_way_def)

lemma three_way_found:
  "three_way True (found \<noteq> None) (case found of None \<Rightarrow> Offered b | Some s \<Rightarrow> Refused (f s))"
  by (cases found) (auto simp: three_way_def)

lemma decide_exact:
  "three_way (stored k (inventory_from (ten_name t) v p)) (\<exists>u\<in>set ts. shares k t u v)
     (decide k t (inventory_from (ten_name t) v p) (survivors_from (ten_name t) ts v))"
proof (cases k)
  case ServiceAccountJwk
  let ?f = "shared_by (nonempty (ten_sa_id t)) (survivors_from (ten_name t) ts v) (\<lambda>s. nonempty (su_sa_id s))"
  have "?f \<noteq> None \<longleftrightarrow> (\<exists>u\<in>set ts. shares k t u v)"
    by (cases "nonempty (ten_sa_id t)")
      (auto simp: ServiceAccountJwk shared_by_def shares_def resource_of_def find_found survivor_from_tenant_def)
  with three_way_found [of ?f] three_way_absent show ?thesis
    unfolding ServiceAccountJwk decide_def decide_sa_def refused_def offered_def Let_def by (simp add: stored_def)
next
  case LogApiKey
  show ?thesis
  proof (cases "nonempty (vw_log_keys v (ten_name t))")
    case None
    then show ?thesis
      by (simp add: LogApiKey decide_def decide_log_key_def stored_def three_way_def inventory_from_def)
  next
    case (Some i)
    let ?f = "find (\<lambda>s. nonempty (su_log_api_key_id s) = Some i) (survivors_from (ten_name t) ts v)"
    have "?f \<noteq> None \<longleftrightarrow> (\<exists>u\<in>set ts. shares k t u v)"
      by (auto simp: LogApiKey Some shares_def resource_of_def find_found survivor_from_tenant_def)
    with Some three_way_found [of ?f] show ?thesis
      unfolding LogApiKey decide_def decide_log_key_def refused_def offered_def
      by (simp add: stored_def inventory_from_def shared_by_def)
  qed
next
  case IssuerSigningKey
  show ?thesis
  proof (cases "nonempty (vw_issuer_kids v (ten_name t))")
    case None
    then show ?thesis
      by (simp add: IssuerSigningKey decide_def decide_issuer_def stored_def three_way_def inventory_from_def)
  next
    case (Some i)
    let ?f = "find (\<lambda>s. nonempty (su_issuer_kid s) = Some i \<and> su_base_url s = ten_base_url t)
                (survivors_from (ten_name t) ts v)"
    have "?f \<noteq> None \<longleftrightarrow> (\<exists>u\<in>set ts. shares k t u v)"
      by (auto simp: IssuerSigningKey Some shares_def resource_of_def find_found survivor_from_tenant_def)
    with Some three_way_found [of ?f] show ?thesis
      unfolding IssuerSigningKey decide_def decide_issuer_def refused_def
      by (simp add: stored_def inventory_from_def)
  qed
next
  case LogsDatabase
  let ?f = "find (\<lambda>s. tenant_file_name (su_name s) = tenant_file_name (ten_name t))
              (survivors_from (ten_name t) ts v)"
  have "?f \<noteq> None \<longleftrightarrow> (\<exists>u\<in>set ts. shares k t u v)"
    by (auto simp: LogsDatabase shares_def resource_of_def find_found survivor_from_tenant_def)
  with three_way_found [of ?f] three_way_absent show ?thesis
    unfolding LogsDatabase decide_def decide_store_path_def Let_def by (simp add: stored_def)
next
  case IdmStore
  let ?f = "find (\<lambda>s. tenant_file_name (su_name s) = tenant_file_name (ten_name t))
              (survivors_from (ten_name t) ts v)"
  have "?f \<noteq> None \<longleftrightarrow> (\<exists>u\<in>set ts. shares k t u v)"
    by (auto simp: IdmStore shares_def resource_of_def find_found survivor_from_tenant_def)
  with three_way_found [of ?f] three_way_absent show ?thesis
    unfolding IdmStore decide_def decide_store_path_def Let_def by (simp add: stored_def)
qed (auto simp: decide_def decide_named_path_def stored_def shares_def resource_of_def three_way_def)

section \<open>What a purge contains\<close>

lemma resolve_fold:
  "fold (resolve_one p) ks acc =
   acc \<union> {k \<in> set ks. is_offered (decision_of p k)} \<union>
   {i. is_offered (decision_of p i) \<and> (\<exists>k\<in>set ks. is_offered (decision_of p k) \<and> i \<in> set (implies k))}"
proof (induction ks arbitrary: acc)
  case Nil
  then show ?case by simp
next
  case (Cons k ks)
  have "resolve_one p k acc =
    acc \<union> {x. x = k \<and> is_offered (decision_of p k)} \<union>
    {i. is_offered (decision_of p i) \<and> is_offered (decision_of p k) \<and> i \<in> set (implies k)}"
    by (cases k) (auto simp: resolve_one_def)
  with Cons show ?case by auto
qed

lemma purge_offered: "k \<in> purge_set (resolve_purge p req) \<Longrightarrow> is_offered (decision_of p k)"
  by (auto simp: resolve_purge_def resolve_fold)

lemma resolve_purge_set:
  "set req = set req' \<Longrightarrow> resolve_purge p req = resolve_purge p req'"
  by (simp add: resolve_purge_def resolve_fold)

lemma still_offered_all: "still_offered p ks = Inr () \<Longrightarrow> k \<in> set ks \<Longrightarrow> is_offered (decision_of p k)"
  by (induction ks) (auto split: option.splits target_decision.splits)

lemma still_safe_offered:
  assumes "still_safe purge planned now p = Inr ()" and "k \<in> purge_set purge"
  shows "planned = now \<and> is_offered (decision_of p k)"
proof -
  have "k \<in> set ALL_TARGETS" by (cases k) (simp_all add: ALL_TARGETS_def)
  with assms show ?thesis
    by (auto simp: still_safe_def split: if_splits intro: still_offered_all)
qed

section \<open>The registry\<close>

definition registry_ok :: "project_config \<Rightarrow> bool" where
  "registry_ok c \<longleftrightarrow>
     distinct (map ten_name (cfg_tenants c)) \<and>
     (cfg_tenants c = [] \<and> cfg_default_tenant c = [] \<or>
      cfg_default_tenant c \<in> ten_name ` set (cfg_tenants c))"

lemma find_tenant_None: "find_tenant n ts = None \<longleftrightarrow> n \<notin> ten_name ` set ts"
  by (auto simp: find_tenant_def find_None_iff)

lemma names_upsert:
  "ten_name ` set (upsert_tenant t ts) = insert (ten_name t) (ten_name ` set ts)"
  by (induction ts) auto

lemma distinct_upsert:
  "distinct (map ten_name ts) \<Longrightarrow> distinct (map ten_name (upsert_tenant t ts))"
  by (induction ts) (auto simp: names_upsert)

lemma find_upsert:
  "find_tenant n (upsert_tenant t ts) = (if n = ten_name t then Some t else find_tenant n ts)"
  by (induction ts) (auto simp: find_tenant_def)

lemma first_name_in: "ts \<noteq> [] \<Longrightarrow> first_name ts \<in> ten_name ` set ts"
  by (cases ts) (auto simp: first_name_def)

lemma upsert_not_Nil: "upsert_tenant t ts \<noteq> []"
  by (cases ts) auto

lemma record_tenant_ok:
  "(case loaded of None \<Rightarrow> True | Some c \<Rightarrow> registry_ok c) \<Longrightarrow> registry_ok (record_tenant project t loaded)"
  using first_name_in [OF upsert_not_Nil, of t "[]"]
  by (cases loaded)
    (simp_all add: record_tenant_def registry_ok_def Let_def distinct_upsert
      first_name_in [OF upsert_not_Nil])

lemma record_tenant_finds:
  "find_tenant n (cfg_tenants (record_tenant project t (Some c))) =
   (if n = ten_name t then Some t else find_tenant n (cfg_tenants c))"
  by (simp add: record_tenant_def Let_def find_upsert)

lemma find_drop:
  "find_tenant n (filter (\<lambda>t. ten_name t \<noteq> m) ts) = (if n = m then None else find_tenant n ts)"
  by (induction ts) (auto simp: find_tenant_def)

lemma first_name_filter:
  "filter P ts \<noteq> [] \<Longrightarrow> first_name (filter P ts) \<in> ten_name ` {t \<in> set ts. P t}"
  using first_name_in [of "filter P ts"] by simp

lemma drop_tenant_ok:
  assumes "registry_ok c"
  shows "registry_ok (drop_tenant c name)"
proof -
  let ?ts = "filter (\<lambda>t. ten_name t \<noteq> name) (cfg_tenants c)"
  from assms have distinct: "distinct (map ten_name ?ts)"
    by (simp add: registry_ok_def distinct_map_filter)
  show ?thesis
  proof (cases "cfg_default_tenant c = name")
    case True
    show ?thesis
    proof (cases "?ts = []")
      case empty: True
      with True show ?thesis by (simp add: registry_ok_def drop_tenant_def Let_def first_name_def)
    next
      case False
      with True distinct first_name_in [OF False] show ?thesis
        by (simp add: registry_ok_def drop_tenant_def Let_def)
    qed
  next
    case False
    with assms distinct show ?thesis by (auto simp: registry_ok_def drop_tenant_def Let_def)
  qed
qed

section \<open>Computations that always return\<close>

text \<open>\<open>m\<close> returns, with a value of \<open>Q\<close>, and sends only events of \<open>P\<close>.\<close>

definition runs :: "('v \<Rightarrow> bool) \<Rightarrow> ('a \<Rightarrow> bool) \<Rightarrow> ('w, 'v, 'e, 'a) io \<Rightarrow> bool" where
  "runs P Q m \<longleftrightarrow> (\<forall>s. \<exists>x s'. m s = (Inr x, s') \<and> Q x \<and> quiet_to P s s')"

named_theorems runs_intros \<open>rules for computations that always return\<close>

lemma runs_return: "Q x \<Longrightarrow> runs P Q (io_return x)"
  by (simp add: runs_def io_return_def)

lemma runs_bind:
  assumes "runs P Q m" and "\<And>x. Q x \<Longrightarrow> runs P R (f x)"
  shows "runs P R (io_bind m f)"
  unfolding runs_def
proof
  fix s
  from assms(1) obtain x t where x: "m s = (Inr x, t)" "Q x" "quiet_to P s t"
    unfolding runs_def by blast
  from assms(2) [OF x(2)] obtain y u where "f x t = (Inr y, u)" "R y" "quiet_to P t u"
    unfolding runs_def by blast
  with x show "\<exists>y u. io_bind m f s = (Inr y, u) \<and> R y \<and> quiet_to P s u"
    by (auto simp: io_bind_def intro: quiet_to_trans)
qed

lemma runs_try: "emits P m \<Longrightarrow> runs P (\<lambda>_. True) (io_try m)"
  unfolding runs_def
proof (intro allI)
  fix s
  assume "emits P m"
  obtain r s' where r: "m s = (r, s')" by (cases "m s")
  with \<open>emits P m\<close> have "quiet_to P s s'" by (rule quiet_to_emits)
  with r show "\<exists>x s'. io_try m s = (Inr x, s') \<and> True \<and> quiet_to P s s'"
    by (simp add: io_try_def)
qed

lemma runs_look: "(\<And>w. \<exists>x w'. f w = (Inr x, w')) \<Longrightarrow> runs P (\<lambda>_. True) (io_look f)"
  unfolding runs_def io_look_def quiet_to_def by (auto split: prod.splits) (metis prod.inject)

text \<open>The same for a computation in two phases, the second ending in a report.\<close>

definition ends ::
  "('v \<Rightarrow> bool) \<Rightarrow> ('v \<Rightarrow> bool) \<Rightarrow> ('a \<Rightarrow> 'v list \<Rightarrow> bool) \<Rightarrow> ('w, 'v, 'e, 'a) io \<Rightarrow> bool" where
  "ends P Q R m \<longleftrightarrow>
     (\<forall>s. \<exists>x s' es tail. m s = (Inr x, s') \<and> sent s' = sent s @ es @ tail \<and>
        list_all P es \<and> list_all Q tail \<and> R x tail)"

lemma ends_bind:
  assumes "runs P A m" and "\<And>x. A x \<Longrightarrow> ends P Q R (f x)"
  shows "ends P Q R (io_bind m f)"
  unfolding ends_def
proof
  fix s
  from assms(1) obtain x t where x: "m s = (Inr x, t)" "A x" "quiet_to P s t"
    unfolding runs_def by blast
  then obtain es where es: "sent t = sent s @ es" "list_all P es" by (auto simp: quiet_to_def)
  from assms(2) [OF x(2)] obtain y u es' tail where u: "f x t = (Inr y, u)"
    "sent u = sent t @ es' @ tail" "list_all P es'" "list_all Q tail" "R y tail"
    unfolding ends_def by blast
  have "io_bind m f s = (Inr y, u) \<and> sent u = sent s @ (es @ es') @ tail \<and>
      list_all P (es @ es') \<and> list_all Q tail \<and> R y tail"
    using x u es by (simp add: io_bind_def)
  then show "\<exists>y u es tail. io_bind m f s = (Inr y, u) \<and> sent u = sent s @ es @ tail \<and>
      list_all P es \<and> list_all Q tail \<and> R y tail"
    by blast
qed

section \<open>Properties\<close>

text \<open>C16: the sharing guard is exact. For every target, the plan says absent exactly when nothing is
  stored, refuses exactly when something is stored and another tenant of the configuration holds the
  same resource (service account, log key, key published to the same issuer, file of the same
  sanitised name), and offers exactly otherwise.\<close>

theorem sharing_guard_exact:
  "\<exists>d. decision_of (snd (snd (plan_for t ts v p))) k = Some d \<and>
     (d = Absent \<longleftrightarrow> \<not> stored k (inventory_from (ten_name t) v p)) \<and>
     ((\<exists>reason. d = Refused reason) \<longleftrightarrow>
        stored k (inventory_from (ten_name t) v p) \<and> (\<exists>u\<in>set ts. shares k t u v)) \<and>
     ((\<exists>default_on. d = Offered default_on) \<longleftrightarrow>
        stored k (inventory_from (ten_name t) v p) \<and> \<not> (\<exists>u\<in>set ts. shares k t u v))"
proof -
  let ?d = "decide k t (inventory_from (ten_name t) v p) (survivors_from (ten_name t) ts v)"
  have "is_offered (Some ?d) \<longleftrightarrow> (\<exists>b. ?d = Offered b)"
    by (cases ?d) simp_all
  with decide_exact [of k t v p ts] show ?thesis
    by (simp add: plan_for_def Let_def decision_of_plan three_way_def)
qed

text \<open>C31: the registry stays well formed. Adding a tenant and removing one keep the names distinct and
  the default tenant a tenant of the list (or empty with an empty list); each changes the entry of
  its own name and no other; and the context that follows a removal names a tenant that is left.\<close>

theorem registry_stays_well_formed:
  assumes "registry_ok c"
  shows "registry_ok (record_tenant project t (Some c)) \<and> registry_ok (record_tenant project t None) \<and>
    registry_ok (drop_tenant c (ten_name t)) \<and>
    (\<forall>n. find_tenant n (cfg_tenants (record_tenant project t (Some c))) =
           (if n = ten_name t then Some t else find_tenant n (cfg_tenants c))) \<and>
    (\<forall>n. find_tenant n (cfg_tenants (drop_tenant c (ten_name t))) =
           (if n = ten_name t then None else find_tenant n (cfg_tenants c))) \<and>
    (\<forall>current m. find_tenant current (cfg_tenants c) \<noteq> None \<longrightarrow>
       next_context (Some current) (ten_name t) (drop_tenant c (ten_name t)) = Some m \<longrightarrow>
       find_tenant m (cfg_tenants (drop_tenant c (ten_name t))) \<noteq> None)"
proof (intro conjI allI impI)
  let ?c = "drop_tenant c (ten_name t)"
  show ok: "registry_ok ?c" by (rule drop_tenant_ok [OF assms])
  show "registry_ok (record_tenant project t (Some c))" "registry_ok (record_tenant project t None)"
    using assms by (auto intro: record_tenant_ok)
  show "find_tenant n (cfg_tenants (record_tenant project t (Some c))) =
      (if n = ten_name t then Some t else find_tenant n (cfg_tenants c))" for n
    by (rule record_tenant_finds)
  show dropped: "find_tenant n (cfg_tenants ?c) =
      (if n = ten_name t then None else find_tenant n (cfg_tenants c))" for n
    by (simp add: drop_tenant_def Let_def find_drop)
  fix current m
  assume current: "find_tenant current (cfg_tenants c) \<noteq> None"
    and m: "next_context (Some current) (ten_name t) ?c = Some m"
  show "find_tenant m (cfg_tenants ?c) \<noteq> None"
  proof (cases "current = ten_name t")
    case True
    with m have "cfg_default_tenant ?c \<noteq> []" "m = cfg_default_tenant ?c"
      by (auto simp: next_context_def split: if_splits)
    with ok show ?thesis by (auto simp: registry_ok_def find_tenant_None)
  next
    case False
    with m have "m = current" by (simp add: next_context_def)
    with False current dropped show ?thesis by simp
  qed
qed

definition sample_tenant :: "string \<Rightarrow> string \<Rightarrow> tenant" where
  "sample_tenant name site =
     \<lparr>ten_name = name, ten_base_url = site, ten_theme = Sandbox, ten_sa_id = Some ''sa'',
      ten_scopes = [], ten_provenance = \<lparr>pv_service_account = None, pv_log_key = None\<rparr>\<rparr>"

definition sample_config :: project_config where
  "sample_config =
     \<lparr>cfg_project = ''p'', cfg_default_tenant = ''uat'',
      cfg_tenants = [sample_tenant ''uat'' ''https://a'', sample_tenant ''dev'' ''https://b'']\<rparr>"

theorem registry_stays_well_formed_witness:
  "registry_ok (drop_tenant sample_config ''uat'') \<and>
   next_context (Some ''uat'') ''uat'' (drop_tenant sample_config ''uat'') = Some ''dev'' \<and>
   find_tenant ''dev'' (cfg_tenants (drop_tenant sample_config ''uat'')) \<noteq> None"
proof -
  have ok: "registry_ok sample_config"
    by (simp add: registry_ok_def sample_config_def sample_tenant_def)
  have follows: "next_context (Some ''uat'') ''uat'' (drop_tenant sample_config ''uat'') = Some ''dev''"
    by (simp add: next_context_def drop_tenant_def sample_config_def sample_tenant_def first_name_def)
  have name: "ten_name (sample_tenant ''uat'' ''https://a'') = ''uat''"
    by (simp add: sample_tenant_def)
  have "find_tenant ''uat'' (cfg_tenants sample_config) \<noteq> None"
    by (simp add: find_tenant_def sample_config_def sample_tenant_def)
  with follows registry_stays_well_formed [OF ok, of "[]" "sample_tenant ''uat'' ''https://a''"]
  show ?thesis unfolding name by metis
qed

text \<open>The issuer's guard compares base URLs verbatim, where \<open>same_identity\<close> takes two spellings of a
  URL for the same tenant: a key another entry still publishes there is offered.\<close>

lemma issuer_guard_misses_other_spelling:
  "let t = sample_tenant ''uat'' ''https://a.example''; u = sample_tenant ''UAT'' ''https://A.example'';
       v = \<lparr>vw_jwks = {}, vw_log_keys = Map.empty, vw_issuer_kids = (\<lambda>_. Some ''kid'')\<rparr>;
       p = \<lparr>pp_logs_database = False, pp_idm_store = False, pp_workspace = False,
            pp_sync_state = False, pp_undo_entries = False\<rparr>
   in same_identity t u \<and> decision_of (snd (snd (plan_for t [t, u] v p))) IssuerSigningKey = Some (Offered True)"
  by code_simp

end
