(* ===== verification/Offboard_Run_Facts.thy ===== *)
theory Offboard_Run_Facts
  imports Offboard_Facts
begin

text \<open>
  What an execution of a removal sends. Every removal is one of a target of the purge; they all
  come after the recheck and before the config entry, whose removal no failed local step precedes.
\<close>

section \<open>Events\<close>

fun is_removal :: "off_event \<Rightarrow> bool" where
  "is_removal (Unpublish _ _) = True"
| "is_removal (ForgetSecret _ _) = True"
| "is_removal (RemovePath _ _) = True"
| "is_removal (ForgetUndo _ _) = True"
| "is_removal _ = False"

fun is_entry_edit :: "off_event \<Rightarrow> bool" where
  "is_entry_edit (InstallConfig _) = True"
| "is_entry_edit (SetContext _) = True"
| "is_entry_edit _ = False"

text \<open>The event removes target \<open>k\<close> of the tenant named.\<close>

fun removes :: "off_layout \<Rightarrow> string \<Rightarrow> target_kind \<Rightarrow> off_event \<Rightarrow> bool" where
  "removes l name k (Unpublish n kid) = (n = name \<and> k = IssuerSigningKey)"
| "removes l name k (ForgetSecret a n) = (n = name \<and> (k, a) \<in> set VAULT_TARGETS)"
| "removes l name k (RemovePath p d) =
     (k = LogsDatabase \<and> p = logs_db l name \<and> \<not> d \<or> k = IdmStore \<and> p = idm_store l name \<and> \<not> d \<or>
      k = Workspace \<and> p = workspace_path l name \<and> d \<or> k = SyncState \<and> p = sync_state_path l name \<and> d)"
| "removes l name k (ForgetUndo p n) = (n = name \<and> p = undo_log_path l \<and> k = UndoLogEntries)"
| "removes l name k _ = False"

definition of_purge :: "off_layout \<Rightarrow> string \<Rightarrow> resolved_purge \<Rightarrow> off_event \<Rightarrow> bool" where
  "of_purge l name purge e \<longleftrightarrow> (\<exists>k\<in>purge_set purge. removes l name k e)"

definition before_removal :: "off_event \<Rightarrow> bool" where
  "before_removal e \<longleftrightarrow> \<not> is_removal e \<and> \<not> is_entry_edit e"

lemma of_purge_removal: "of_purge l name purge e \<Longrightarrow> is_removal e \<and> \<not> is_entry_edit e"
  by (cases e) (auto simp: of_purge_def)

lemma emits_do: "P ev \<Longrightarrow> emits P (off_do ev f)"
  unfolding off_do_def by (intro emits_intros)

lemma emits_off_look: "emits P (off_look f)" "emits P (off_see g)"
  unfolding off_look_def off_see_def by (intro emits_intros)+

lemmas off_emits = emits_do emits_off_look emits_bind emits_return emits_fail emits_lift emits_look
  emits_map_err emits_try

section \<open>Before the first removal\<close>

lemma emits_optional_secret: "emits P (optional_secret env a n)"
  unfolding optional_secret_def by (intro off_emits) (auto intro: off_emits split: sum.splits secret_error.splits)

lemma emits_probe_name: "emits P (probe_name env n v)"
  unfolding probe_name_def Let_def
  by (intro emits_bind emits_optional_secret) (auto intro!: off_emits split: option.splits)

lemma emits_probe_names: "emits P (probe_names env ns v)"
  by (induction ns arbitrary: v) (auto intro!: off_emits emits_probe_name)

lemma emits_probe_vault: "emits P (probe_vault env l ns)"
  unfolding probe_vault_def Let_def vault_files_exist_def
  by (intro emits_bind off_emits) (auto intro!: off_emits emits_probe_names)

lemma emits_probe_paths: "emits P (probe_paths env n l)"
  unfolding probe_paths_def by (intro off_emits)

lemma emits_recheck: "emits before_removal (off_recheck env t found purge l)"
  unfolding off_recheck_def Let_def
  by (intro emits_bind off_emits emits_probe_vault emits_probe_paths)
    (auto simp: before_removal_def intro!: off_emits split: prod.splits)

lemma emits_backup: "emits before_removal (write_backup_step env t found l)"
  unfolding write_backup_step_def Let_def
  by (auto simp: before_removal_def intro!: off_emits split: sum.splits)

lemma backup_returns: "\<exists>x s'. write_backup_step env t found l s = (Inr x, s')"
  by (auto simp: write_backup_step_def io_bind_def io_return_def io_look_def io_try_def Let_def
      split: sum.splits prod.splits)

text \<open>The backup of what the plan found was written to its path, the save succeeded, and \<open>s'\<close> is the
  session right after it.\<close>

definition backup_written ::
  "'w off_env \<Rightarrow> tenant \<Rightarrow> inventory \<Rightarrow> off_layout \<Rightarrow> ('w, off_event) sess \<Rightarrow> string \<Rightarrow> string \<Rightarrow>
   ('w, off_event) sess \<Rightarrow> bool" where
  "backup_written env t found l s path bytes s' \<longleftrightarrow>
     (\<exists>now w w'. off_serialise env (backup_from_inventory t found) = Inr bytes \<and>
        off_now env (world s) = (now, w) \<and> path = backup_path l (ten_name t) now \<and>
        off_save_backup env path bytes w = (Inr (), w') \<and>
        s' = \<lparr>world = w', sent = sent s @ [SaveBackup path bytes]\<rparr>)"

lemma sess_eqI: "world (s :: ('w, 'v) sess) = world t \<Longrightarrow> sent s = sent t \<Longrightarrow> s = t"
  by (cases s; cases t) simp

lemma backup_saved:
  assumes "write_backup_step env t found l s = (Inr (steps, Some path), s')"
  shows "\<exists>bytes. backup_written env t found l s path bytes s' \<and> steps = [outcome Backup StepOk]"
  using assms
  by (auto simp: write_backup_step_def io_bind_def io_return_def io_look_def io_try_def off_do_def
      io_map_err_def io_call_def Let_def backup_written_def intro!: sess_eqI split: sum.splits prod.splits)

section \<open>The removals\<close>

text \<open>While the run is not barred, every local step so far succeeded.\<close>

fun local_step :: "off_step \<Rightarrow> bool" where
  "local_step (VaultStep _) = True"
| "local_step (PathStep _) = True"
| "local_step _ = False"

definition local_ok :: "step_outcome list \<Rightarrow> bool" where
  "local_ok os \<longleftrightarrow> (\<forall>x\<in>set os. local_step (so_step x) \<longrightarrow> so_status x = StepOk)"

definition sound :: "progress \<Rightarrow> bool" where
  "sound acc \<longleftrightarrow> (\<not> snd acc \<longrightarrow> local_ok (fst acc))"

lemma local_ok_snoc [simp]:
  "local_ok (os @ [outcome st status]) \<longleftrightarrow> local_ok os \<and> (local_step st \<longrightarrow> status = StepOk)"
  by (auto simp: local_ok_def outcome_def)

lemma local_ok_Nil [simp]: "local_ok []"
  by (simp add: local_ok_def)

lemma runs_removal:
  assumes "emits P m" and "sound acc"
  shows "runs P sound (removal st m acc)"
  unfolding removal_def
  by (rule runs_bind [OF runs_try [OF assms(1)]])
    (use assms(2) in \<open>auto simp: sound_def intro!: runs_return split: sum.splits\<close>)

lemma runs_vault_steps:
  "set ts \<subseteq> set VAULT_TARGETS \<Longrightarrow> sound acc \<Longrightarrow>
   runs (of_purge l (ten_name t) purge) sound (vault_steps env t purge ts acc)"
proof (induction ts arbitrary: acc)
  case Nil
  then show ?case by (simp add: runs_return)
next
  case (Cons x ts)
  obtain k a where x: "x = (k, a)" by (cases x)
  show ?case
  proof (cases "k \<in> purge_set purge")
    case True
    have "of_purge l (ten_name t) purge (ForgetSecret a (ten_name t))"
      using True Cons.prems(1) by (auto simp: of_purge_def x)
    with Cons True show ?thesis
      by (auto simp: x intro!: runs_bind [OF runs_removal] emits_do)
  next
    case False
    with Cons show ?thesis by (simp add: x)
  qed
qed

lemma emits_remove_path:
  "P (RemovePath path d) \<Longrightarrow> emits P (remove_path env path d)"
  unfolding remove_path_def by (intro emits_bind emits_off_look) (auto intro: off_emits)

lemma runs_path_step:
  assumes "sound acc" and "k \<in> purge_set purge \<Longrightarrow> removes l (ten_name t) k (RemovePath path d)"
  shows "runs (of_purge l (ten_name t) purge) sound (path_step env purge k path d acc)"
proof (cases "k \<in> purge_set purge")
  case True
  with assms have "of_purge l (ten_name t) purge (RemovePath path d)"
    unfolding of_purge_def by blast
  with assms True show ?thesis
    by (simp add: path_step_def runs_removal emits_remove_path)
next
  case False
  with assms show ?thesis by (simp add: path_step_def runs_return)
qed

lemma runs_workspace_step:
  assumes "sound acc"
  shows "runs (of_purge l (ten_name t) purge) sound (workspace_step env t purge l acc)"
proof (cases "Workspace \<in> purge_set purge")
  case True
  then have "of_purge l (ten_name t) purge (RemovePath (workspace_path l (ten_name t)) True)"
    unfolding of_purge_def by (auto intro!: bexI [of _ Workspace])
  then have "runs (of_purge l (ten_name t) purge) (\<lambda>_. True)
      (io_try (remove_path env (workspace_path l (ten_name t)) True :: ('a, unit) off)
        :: ('a, off_error + unit) off)"
    by (intro runs_try emits_remove_path)
  with True assms show ?thesis
    unfolding workspace_step_def
    by (auto intro!: runs_bind runs_return runs_path_step simp: sound_def local_ok_def outcome_def
        split: sum.splits)
next
  case False
  with assms show ?thesis by (simp add: workspace_step_def runs_path_step)
qed

lemma runs_undo_step:
  assumes "sound acc"
  shows "runs (of_purge l (ten_name t) purge) sound (undo_step env t purge l acc)"
proof (cases "UndoLogEntries \<in> purge_set purge")
  case True
  then have "of_purge l (ten_name t) purge (ForgetUndo (undo_log_path l) (ten_name t))"
    unfolding of_purge_def by (auto intro!: bexI [of _ UndoLogEntries])
  with True assms show ?thesis by (simp add: undo_step_def runs_removal emits_do)
next
  case False
  with assms show ?thesis by (simp add: undo_step_def runs_return)
qed

lemma runs_remote_step:
  assumes "local_ok steps"
  shows "runs (of_purge l (ten_name t) purge) (\<lambda>(steps, _). local_ok steps)
    (remote_step env confirmed t found purge steps)"
proof (cases "IssuerSigningKey \<in> purge_set purge")
  case True
  then have "of_purge l (ten_name t) purge (Unpublish (ten_name t) kid)" for kid
    unfolding of_purge_def by (auto intro!: bexI [of _ IssuerSigningKey])
  with True assms show ?thesis
    unfolding remote_step_def
    by (auto intro!: runs_bind [OF runs_try] runs_return emits_do split: option.splits sum.splits)
next
  case False
  with assms show ?thesis by (simp add: remote_step_def runs_return)
qed

section \<open>The config entry\<close>

text \<open>The report of a run whose entry was edited, or reported removed, shows no failed local step.\<close>

definition entry_last :: "execute_report \<Rightarrow> off_event list \<Rightarrow> bool" where
  "entry_last r tail \<longleftrightarrow>
     (er_config_removed r \<or> tail \<noteq> [] \<longrightarrow> local_ok (er_steps r)) \<and>
     length (filter (\<lambda>e. \<exists>c. e = InstallConfig c) tail) \<le> 1"

lemma remove_config_entry_log:
  assumes "remove_config_entry env t s = (r, s')"
  shows "\<exists>tail. sent s' = sent s @ tail \<and> list_all is_entry_edit tail \<and> length tail \<le> 1"
  using assms
  by (auto simp: remove_config_entry_def io_pairs off_look_def off_do_def map_err_Inl_iff
      split: option.splits if_splits)

lemma ends_config_step:
  assumes "sound acc"
  shows "ends P is_entry_edit entry_last (config_step env t c current path remote acc)"
  unfolding ends_def
proof
  fix s :: "('a, off_event) sess"
  show "\<exists>x s' es tail. config_step env t c current path remote acc s = (Inr x, s') \<and>
      sent s' = sent s @ es @ tail \<and> list_all P es \<and> list_all is_entry_edit tail \<and> entry_last x tail"
  proof (cases "snd acc")
    case True
    then show ?thesis
      by (auto simp: config_step_def io_return_def entry_last_def intro!: exI [of _ "[]"])
  next
    case False
    with assms have ok: "local_ok (fst acc)" by (simp add: sound_def)
    obtain r s1 where r: "remove_config_entry env t s = (r, s1)" by (cases "remove_config_entry env t s")
    from remove_config_entry_log [OF r] obtain tail where
      tail: "sent s1 = sent s @ tail" "list_all is_entry_edit tail" "length tail \<le> 1" by blast
    show ?thesis
    proof (cases r)
      case (Inl e)
      have "length (filter (\<lambda>e. \<exists>c. e = InstallConfig c) tail) \<le> 1"
        using tail(3) length_filter_le order_trans by blast
      with False ok r Inl
      obtain x where "config_step env t c current path remote acc s = (Inr x, s1)" "entry_last x tail"
        by (auto simp: config_step_def io_bind_def io_try_def io_return_def entry_last_def)
      with tail show ?thesis
        by (intro exI [of _ x] exI [of _ s1] exI [of _ "[]"] exI [of _ tail]) simp
    next
      case (Inr next')
      let ?ctx = "next_context current (ten_name t) next'"
      obtain w s2 where w: "off_do (SetContext ?ctx) (off_set_context env ?ctx) s1 = (w, s2)"
        by (cases "off_do (SetContext ?ctx) (off_set_context env ?ctx) s1")
      then have s2: "sent s2 = sent s @ tail @ [SetContext ?ctx]"
        using tail by (auto simp: off_do_def io_pairs)
      have "length (filter (\<lambda>e. \<exists>c. e = InstallConfig c) (tail @ [SetContext ?ctx])) \<le> 1"
        using tail(3) by (auto intro: order_trans [OF length_filter_le])
      with False ok r w Inr
      obtain x where "config_step env t c current path remote acc s = (Inr x, s2)"
        "entry_last x (tail @ [SetContext ?ctx])"
        by (cases w) (auto simp: config_step_def io_bind_def io_try_def io_return_def Let_def entry_last_def)
      with tail s2 show ?thesis
        by (intro exI [of _ x] exI [of _ s2] exI [of _ "[]"] exI [of _ "tail @ [SetContext ?ctx]"]) simp
    qed
  qed
qed

section \<open>The whole run\<close>

text \<open>What the recheck, run in \<open>s\<close>, read before it ended in \<open>s'\<close>.\<close>

definition recheck_read ::
  "'w off_env \<Rightarrow> tenant \<Rightarrow> off_layout \<Rightarrow> ('w, off_event) sess \<Rightarrow> tenant list \<Rightarrow> vault_view \<Rightarrow>
   path_presence \<Rightarrow> ('w, off_event) sess \<Rightarrow> bool" where
  "recheck_read env t l s ts v p s' \<longleftrightarrow>
     (\<exists>s1 s2 s3 current.
        off_do TakeLifecycle (off_try_lock env) s = (Inr (), s1) \<and>
        off_look (off_load_config env) s1 = (Inr current, s2) \<and> ts = config_tenants current \<and>
        (case current of None \<Rightarrow> Inr () | Some c \<Rightarrow> still_planned c t) = Inr () \<and>
        probe_vault env l (with_name (ten_name t) (map ten_name ts)) s2 = (Inr v, s3) \<and>
        probe_paths env (ten_name t) l s3 = (Inr p, s'))"

lemma recheck_passes:
  assumes "off_recheck env t found purge l s = (Inr (), s')"
  obtains ts v p where "recheck_read env t l s ts v p s'"
    and "found = inventory_from (ten_name t) v p"
    and "\<And>k. k \<in> purge_set purge \<Longrightarrow> is_offered (decision_of (snd (snd (plan_for t ts v p))) k)"
proof -
  from assms obtain s1 s2 s3 current v p where reads:
    "off_do TakeLifecycle (off_try_lock env) s = (Inr (), s1)"
    "off_look (off_load_config env) s1 = (Inr current, s2)"
    "probe_vault env l (with_name (ten_name t) (map ten_name (config_tenants current))) s2 = (Inr v, s3)"
    "probe_paths env (ten_name t) l s3 = (Inr p, s')"
    and planned: "Inr () = (case current of None \<Rightarrow> Inr () | Some c \<Rightarrow> still_planned c t)"
    and safe: "still_safe purge found (fst (plan_for t (config_tenants current) v p))
       (snd (snd (plan_for t (config_tenants current) v p))) = Inr ()"
    unfolding off_recheck_def io_bind_Inr Let_def split_beta io_run_simps map_err_sym
    by (elim exE conjE) (use that in simp)
  show thesis
  proof (rule that)
    show "recheck_read env t l s (config_tenants current) v p s'"
      unfolding recheck_read_def using reads planned [symmetric] by blast
    show "found = inventory_from (ten_name t) v p"
      using safe by (auto simp: still_safe_def plan_for_def Let_def split: if_splits)
    show "is_offered (decision_of (snd (snd (plan_for t (config_tenants current) v p))) k)"
      if "k \<in> purge_set purge" for k
      using still_safe_offered [OF safe that] ..
  qed
qed

lemma execute_runs:
  obtains (stopped) r s' where "execute env confirmed t c current found purge l s = (Inr r, s')"
      and "quiet_to before_removal s s'" and "\<not> er_config_removed r"
  | (rechecked) r s' s0 s1 es tail where
      "execute env confirmed t c current found purge l s = (Inr r, s')"
      and "quiet_to before_removal s s0" and "\<exists>path bytes. backup_written env t found l s path bytes s0"
      and "off_recheck env t found purge l s0 = (Inr (), s1)" and "quiet_to before_removal s0 s1"
      and "sent s' = sent s1 @ es @ tail" and "list_all (of_purge l (ten_name t) purge) es"
      and "list_all is_entry_edit tail" and "entry_last r tail"
proof -
  obtain steps saved s0 where b: "write_backup_step env t found l s = (Inr (steps, saved), s0)"
    using backup_returns [of env t found l s] by auto
  have q: "quiet_to before_removal s s0" by (rule quiet_to_emits [OF emits_backup b])
  show thesis
  proof (cases saved)
    case None
    show thesis
      by (rule stopped [of "off_aborted steps current c" s0])
        (use b None q in \<open>auto simp: execute_def io_bind_def io_return_def off_aborted_def\<close>)
  next
    case (Some path)
    with b have saved: "\<exists>path bytes. backup_written env t found l s path bytes s0" and steps: "local_ok steps"
      using backup_saved [of env t found l s steps path s0] by (auto simp: local_ok_def outcome_def)
    obtain checked s1 where ch: "off_recheck env t found purge l s0 = (checked, s1)"
      by (cases "off_recheck env t found purge l s0")
    have q1: "quiet_to before_removal s0 s1" by (rule quiet_to_emits [OF emits_recheck ch])
    show thesis
    proof (cases checked)
      case (Inl e)
      show thesis
        by (rule stopped)
          (use b Some ch Inl quiet_to_trans [OF q q1] in
            \<open>auto simp: execute_def io_bind_def io_return_def io_try_def\<close>)
    next
      case (Inr u)
      let ?P = "of_purge l (ten_name t) purge"
      let ?n = "ten_name t"
      let ?tail = "io_bind (remote_step env confirmed t found purge steps) (\<lambda>(steps, remote).
         io_bind (vault_steps env t purge VAULT_TARGETS (steps, False)) (\<lambda>acc.
         io_bind (path_step env purge LogsDatabase (logs_db l ?n) False acc) (\<lambda>acc.
         io_bind (path_step env purge IdmStore (idm_store l ?n) False acc) (\<lambda>acc.
         io_bind (workspace_step env t purge l acc) (\<lambda>acc.
         io_bind (undo_step env t purge l acc) (\<lambda>acc.
           config_step env t c current path remote acc))))))"
      have "ends ?P is_entry_edit entry_last ?tail"
      proof (rule ends_bind [OF runs_remote_step [OF steps]], clarify)
        fix os remote
        assume "local_ok os"
        then have "sound (os, False)" by (simp add: sound_def)
        then show "ends ?P is_entry_edit entry_last
          (io_bind (vault_steps env t purge VAULT_TARGETS (os, False)) (\<lambda>acc.
           io_bind (path_step env purge LogsDatabase (logs_db l ?n) False acc) (\<lambda>acc.
           io_bind (path_step env purge IdmStore (idm_store l ?n) False acc) (\<lambda>acc.
           io_bind (workspace_step env t purge l acc) (\<lambda>acc.
           io_bind (undo_step env t purge l acc) (\<lambda>acc.
             config_step env t c current path remote acc))))))"
          by (intro ends_bind [OF runs_vault_steps] ends_bind [OF runs_path_step]
              ends_bind [OF runs_workspace_step] ends_bind [OF runs_undo_step] ends_config_step)
            simp_all
      qed
      then obtain r s' es tail where tail: "?tail s1 = (Inr r, s')"
        "sent s' = sent s1 @ es @ tail" "list_all ?P es" "list_all is_entry_edit tail" "entry_last r tail"
        unfolding ends_def by blast
      have "execute env confirmed t c current found purge l s = (Inr r, s')"
        using b Some ch Inr tail(1) by (simp add: execute_def io_bind_def io_try_def)
      with q saved ch Inr q1 tail show thesis by (intro rechecked [of r s' s0 s1 es tail]) auto
    qed
  qed
qed

section \<open>The command\<close>















section \<open>Properties\<close>

text \<open>C13: a removal spares what another tenant uses. A run removes nothing, or it first saved the backup of
  what its plan found to the path named for the tenant and the time, successfully, then ran the recheck
  under the lifecycle lock from there, with the tenant still the planned one; and every removal after it is of a
  target of the confirmed purge, on an inventory that is still the one it was planned on, whose
  resource no other tenant of the configuration read by that recheck holds.\<close>

theorem offboard_spares_survivors:
  "\<exists>before after.
     sent (snd (execute env confirmed t c current found purge l s)) = sent s @ before @ after \<and>
     list_all (\<lambda>e. \<not> is_removal e \<and> \<not> is_entry_edit e) before \<and>
     (after = [] \<or>
      (\<exists>now w w' s0 s1 ts v p path bytes.
         off_serialise env (backup_from_inventory t found) = Inr bytes \<and>
         off_now env (world s) = (now, w) \<and> path = backup_path l (ten_name t) now \<and>
         off_save_backup env path bytes w = (Inr (), w') \<and>
         s0 = \<lparr>world = w', sent = sent s @ [SaveBackup path bytes]\<rparr> \<and>
         recheck_read env t l s0 ts v p s1 \<and> sent s1 = sent s @ before \<and>
         found = inventory_from (ten_name t) v p \<and>
         list_all (\<lambda>e. is_entry_edit e \<or>
           (\<exists>k\<in>purge_set purge. removes l (ten_name t) k e \<and> \<not> (\<exists>u\<in>set ts. shares k t u v))) after))"
proof (rule execute_runs [of env confirmed t c current found purge l s], goal_cases)
  case (1 r s')
  then obtain es where "sent s' = sent s @ es" "list_all before_removal es"
    unfolding quiet_to_def by blast
  with 1 show ?case
    by (intro exI [of _ es] exI [of _ "[]"]) (auto simp: before_removal_def list_all_iff)
next
  case (2 r s' s0 s1 es tail)
  have "quiet_to before_removal s s1" by (rule quiet_to_trans [OF 2(2,5)])
  then obtain pre where pre: "sent s1 = sent s @ pre" "list_all before_removal pre"
    unfolding quiet_to_def by blast
  from 2(3) obtain path bytes where "backup_written env t found l s path bytes s0" by blast
  note saved = this [unfolded backup_written_def]
  from recheck_passes [OF 2(4)] obtain ts v p where
    read: "recheck_read env t l s0 ts v p s1" and found: "found = inventory_from (ten_name t) v p"
    and off: "\<And>k. k \<in> purge_set purge \<Longrightarrow> is_offered (decision_of (snd (snd (plan_for t ts v p))) k)"
    by metis
  have unshared: "\<not> (\<exists>u\<in>set ts. shares k t u v)" if "k \<in> purge_set purge" for k
    using off [OF that] decide_exact [of k t v p ts]
    by (simp add: plan_for_def Let_def decision_of_plan three_way_def)
  have "list_all (\<lambda>e. is_entry_edit e \<or>
      (\<exists>k\<in>purge_set purge. removes l (ten_name t) k e \<and> \<not> (\<exists>u\<in>set ts. shares k t u v))) (es @ tail)"
    using 2(7,8) unshared unfolding list_all_iff of_purge_def by (metis Un_iff set_append)
  note removals = this
  have log: "sent (snd (execute env confirmed t c current found purge l s)) = sent s @ pre @ es @ tail"
    using 2(1,6) pre by simp
  have quiet: "list_all (\<lambda>e. \<not> is_removal e \<and> \<not> is_entry_edit e) pre"
    using pre(2) by (simp add: before_removal_def list_all_iff)
  show ?case
    by (intro exI [of _ pre] exI [of _ "es @ tail"] conjI log quiet disjI2)
      (use saved read found removals pre(1) in blast)
qed

text \<open>C15: the config entry goes last. An execution always returns a report; edits of the configuration
  and of the context come after every removal, the configuration is installed at most once, and when
  the entry was edited or is reported removed no local step of the report failed, so a run that could
  not remove a credential or a store leaves the tenant addressable.\<close>

theorem config_entry_goes_last:
  assumes "execute env confirmed t c current found purge l s = (result, s')"
  shows "\<exists>r es tail. result = Inr r \<and> sent s' = sent s @ es @ tail \<and>
    (\<forall>e\<in>set es. \<not> is_entry_edit e) \<and> (\<forall>e\<in>set tail. is_entry_edit e) \<and>
    length (filter (\<lambda>e. \<exists>c'. e = InstallConfig c') tail) \<le> 1 \<and>
    (er_config_removed r \<or> tail \<noteq> [] \<longrightarrow>
       (\<forall>x\<in>set (er_steps r). local_step (so_step x) \<longrightarrow> so_status x = StepOk))"
proof (rule execute_runs [of env confirmed t c current found purge l s], goal_cases)
  case (1 r s1)
  then obtain es where "sent s1 = sent s @ es" "list_all before_removal es"
    unfolding quiet_to_def by blast
  with 1 assms show ?case
    by (intro exI [of _ r] exI [of _ es] exI [of _ "[]"]) (auto simp: before_removal_def list_all_iff)
next
  case (2 r s1 s0 s2 es tail)
  have "quiet_to before_removal s s2" by (rule quiet_to_trans [OF 2(2,5)])
  then obtain pre where pre: "sent s2 = sent s @ pre" "list_all before_removal pre"
    unfolding quiet_to_def by blast
  from 2(7) have "\<forall>e\<in>set es. \<not> is_entry_edit e"
    by (auto simp: list_all_iff dest: of_purge_removal)
  with 2 pre assms show ?case
    by (intro exI [of _ r] exI [of _ "pre @ es"] exI [of _ tail])
      (auto simp: before_removal_def list_all_iff entry_last_def local_ok_def)
qed

text \<open>A project with one tenant whose log key, database and workspace are stored.\<close>

definition small_env :: "project_config option off_env" where
  "small_env =
     \<lparr>off_now = (\<lambda>w. (''20261118T000000Z'', w)), off_serialise = (\<lambda>_. Inr ''{}''),
      off_save_backup = (\<lambda>_ _ w. (Inr (), w)), off_try_lock = (\<lambda>w. (Inr (), w)),
      off_lock_config = (\<lambda>w. (Inr (), w)), off_load_config = (\<lambda>w. (Inr w, w)),
      off_install_config = (\<lambda>c _. (Inr (), Some c)), off_read_context = (\<lambda>w. (Inr (Some ''uat''), w)),
      off_set_context = (\<lambda>_ w. (Inr (), w)), off_unpublish = (\<lambda>_ _ _ w. (Inr (), w)),
      off_forget_secret = (\<lambda>_ _ w. (Inr (), w)), off_remove = (\<lambda>_ _ w. (Inr (), w)),
      off_forget_undo = (\<lambda>_ _ w. (Inr 0, w)), off_exists = (\<lambda>p w. True), off_is_dir = (\<lambda>p w. True),
      off_undo_tenants = (\<lambda>p w. Inr []),
      off_get_secret = (\<lambda>a n w. (if a = LogKeys then Inr (JStr ''key'') else Inl SecretMissing, w)),
      off_log_key_id = (\<lambda>_. Inr ''key''), off_record_kid = (\<lambda>_. Inr ''kid''),
      off_prompt_available = (\<lambda>_. True), off_ask = (\<lambda>_ w. (Inr ''uat'', w))\<rparr>"

definition small_layout :: off_layout where
  "small_layout = \<lparr>aic_dir = ''.aic'', workspace_dir = ''workspace''\<rparr>"

definition small_found :: inventory where
  "small_found =
     \<lparr>inv_service_account_jwk = False, inv_log_api_key_id = Some ''key'', inv_issuer_kid = None,
      inv_logs_database = True, inv_idm_store = True, inv_workspace = True, inv_sync_state = True,
      inv_undo_entries = False\<rparr>"

definition small_config :: project_config where
  "small_config =
     \<lparr>cfg_project = ''p'', cfg_default_tenant = ''uat'',
      cfg_tenants = [\<lparr>ten_name = ''uat'', ten_base_url = ''https://a'', ten_theme = Sandbox, ten_sa_id = None,
        ten_scopes = [], ten_provenance = \<lparr>pv_service_account = None, pv_log_key = None\<rparr>\<rparr>]\<rparr>"

definition small_run :: "(off_error + execute_report) \<times> (project_config option, off_event) sess" where
  "small_run =
     execute small_env False (hd (cfg_tenants small_config)) small_config (Some ''uat'') small_found
       (ResolvedPurge {LogApiKey, LogsDatabase, Workspace, SyncState}) small_layout
       \<lparr>world = Some small_config, sent = []\<rparr>"

theorem config_entry_goes_last_witness:
  "\<exists>r. fst small_run = Inr r \<and> er_config_removed r \<and> length (sent (snd small_run)) = 7 \<and>
     (\<forall>x\<in>set (er_steps r). local_step (so_step x) \<longrightarrow> so_status x = StepOk)"
proof -
  have run: "execute small_env False (hd (cfg_tenants small_config)) small_config (Some ''uat'') small_found
      (ResolvedPurge {LogApiKey, LogsDatabase, Workspace, SyncState}) small_layout
      \<lparr>world = Some small_config, sent = []\<rparr> = (fst small_run, snd small_run)"
    by (simp add: small_run_def)
  have "case fst small_run of Inr r \<Rightarrow> er_config_removed r | Inl _ \<Rightarrow> False"
    and "length (sent (snd small_run)) = 7"
    by code_simp+
  then show ?thesis
    using config_entry_goes_last [OF run] by auto
qed


end
