(* ===== verification/Policy.thy ===== *)
theory Policy
  imports Json "HOL-Library.Sublist"
begin

text \<open>
  AM policies (\<open>src/src/policy/spec.rs\<close>): which part of an object an operator authored, AM's URL
  wildcards, and \<open>diagnose\<close>, which explains an empty decision.

  Patterns and resources are matched byte by byte in the code; here a byte is a character. What a
  hint says is its constructor with the values it interpolates. Decoding a token (base64, JSON) is
  a parameter of \<open>unverified_claims\<close>.
\<close>

section \<open>Authored content\<close>

definition SERVER_MANAGED :: "string list" where
  "SERVER_MANAGED =
     [''_rev'', ''createdBy'', ''creationDate'', ''lastModifiedBy'', ''lastModifiedDate'', ''editable'']"

definition policy_content :: "json \<Rightarrow> json" where
  "policy_content v =
     (case as_object v of
        None \<Rightarrow> v
      | Some kvs \<Rightarrow> JObj (filter (\<lambda>(k, _). k \<notin> set SERVER_MANAGED) kvs))"

definition policy_content_equal :: "json \<Rightarrow> json \<Rightarrow> bool" where
  "policy_content_equal a b = (policy_content a = policy_content b)"

section \<open>Resources\<close>

definition split_once :: "string \<Rightarrow> string \<Rightarrow> (string \<times> string) option" where
  "split_once sep s =
     find_map (\<lambda>i. if take (length sep) (drop i s) = sep
                   then Some (take i s, drop (i + length sep) s) else None) [0..<Suc (length s)]"

definition default_port :: "string \<Rightarrow> string option" where
  "default_port scheme =
     (if scheme = ''http'' then Some ''80'' else if scheme = ''https'' then Some ''443'' else None)"

definition ends_authority :: "char \<Rightarrow> bool" where
  "ends_authority c = (c = CHR ''/'' \<or> c = CHR ''?'')"

definition normalise_resource :: "string \<Rightarrow> string" where
  "normalise_resource resource =
     (let low = to_lowercase resource in
      case split_once ''://'' low of
        None \<Rightarrow> low
      | Some (scheme, rest) \<Rightarrow>
          (case default_port scheme of
             None \<Rightarrow> low
           | Some port \<Rightarrow>
               let authority = takeWhile (\<lambda>c. \<not> ends_authority c) rest;
                   rem = dropWhile (\<lambda>c. \<not> ends_authority c) rest
               in if CHR '':'' \<in> set authority then low
                  else scheme @ ''://'' @ authority @ '':'' @ port @ rem))"

section \<open>Wildcards\<close>

definition starts_seg :: "string \<Rightarrow> bool" where
  "starts_seg p = (take 3 p = ''-*-'')"

fun only_wildcards :: "string \<Rightarrow> bool" where
  "only_wildcards [] = True"
| "only_wildcards (c # p) =
     (if starts_seg (c # p) then only_wildcards (drop 2 p)
      else if c = CHR ''*'' then only_wildcards p
      else False)"

text \<open>The end of the segment at \<open>t\<close>: the position of the next slash, or of the end.\<close>

definition seg_limit :: "string \<Rightarrow> nat \<Rightarrow> nat" where
  "seg_limit str t = t + length (takeWhile (\<lambda>c. c \<noteq> CHR ''/'') (drop t str))"

text \<open>
  The loop of \<open>glob_match\<close>: \<open>p\<close> and \<open>t\<close> are the positions in pattern and text, \<open>star\<close> and \<open>star_t\<close> the
  open star and the text position it was last extended to. \<open>in_step\<close> is what holds at every turn of
  the loop; only the termination proof reads it.
\<close>

definition in_step :: "nat \<Rightarrow> nat \<Rightarrow> nat option \<Rightarrow> nat \<Rightarrow> bool" where
  "in_step p t star star_t =
     (case star of None \<Rightarrow> True | Some st \<Rightarrow> st < p \<and> star_t \<le> t)"

function glob_loop :: "string \<Rightarrow> string \<Rightarrow> nat \<Rightarrow> nat \<Rightarrow> nat option \<Rightarrow> nat \<Rightarrow> bool" where
  "glob_loop pat str p t star star_t =
     (if t < length str then
        if starts_seg (drop p pat) then
          list_ex (\<lambda>s. glob_loop (drop (p + 3) pat) (drop s str) 0 0 None 0) [t..<Suc (seg_limit str t)]
        else if p < length pat \<and> pat ! p = CHR ''*'' then
          glob_loop pat str (Suc p) t (Some p) t
        else if p < length pat \<and> pat ! p = str ! t then
          glob_loop pat str (Suc p) (Suc t) star star_t
        else (case star of
                None \<Rightarrow> False
              | Some st \<Rightarrow>
                  if str ! star_t \<noteq> CHR ''?'' then
                    glob_loop pat str (Suc st) (Suc star_t) (Some st) (Suc star_t)
                  else False)
      else only_wildcards (drop p pat))"
  by pat_completeness auto
termination
  by (relation "measures
      [\<lambda>(pat, str, p, t, star, star_t). length pat,
       \<lambda>(pat, str, p, t, star, star_t). if in_step p t star star_t then 0 else 1,
       \<lambda>(pat, str, p, t, star, star_t).
         if in_step p t star star_t
         then length pat - (case star of None \<Rightarrow> 0 | Some st \<Rightarrow> Suc st) else 0,
       \<lambda>(pat, str, p, t, star, star_t).
         if in_step p t star star_t \<and> star \<noteq> None then length str - star_t else 0,
       \<lambda>(pat, str, p, t, star, star_t). length str - t]")
    (auto simp: in_step_def starts_seg_def split: option.splits if_splits)

declare glob_loop.simps [simp del]

definition glob_match :: "string \<Rightarrow> string \<Rightarrow> bool" where
  "glob_match pat str = glob_loop pat str 0 0 None 0"

definition split_query :: "string \<Rightarrow> string \<times> string option" where
  "split_query s = (case split_once ''?'' s of Some (h, q) \<Rightarrow> (h, Some q) | None \<Rightarrow> (s, None))"

definition resource_matches :: "string \<Rightarrow> string \<Rightarrow> bool" where
  "resource_matches pat resource =
     (case (split_query (to_lowercase pat), split_query (normalise_resource resource)) of
        ((pp, pq), (rp, rq)) \<Rightarrow>
          (case (pq, rq) of
             (None, None) \<Rightarrow> glob_match pp rp
           | (Some pq, Some rq) \<Rightarrow> glob_match pp rp \<and> glob_match pq rq
           | _ \<Rightarrow> False))"

section \<open>Subject claims\<close>

definition unverified_claims ::
  "(string \<Rightarrow> string option) \<Rightarrow> (string \<Rightarrow> json option) \<Rightarrow> string \<Rightarrow> json_map option" where
  "unverified_claims base64 parse token =
     (case split_once ''.'' token of
        None \<Rightarrow> None
      | Some (_, rest) \<Rightarrow>
          Option.bind (base64 (takeWhile (\<lambda>c. c \<noteq> CHR ''.'') rest)) (\<lambda>bytes.
            Option.bind (parse bytes) as_object))"

fun json_number_text :: "(rat \<Rightarrow> string) \<Rightarrow> json_number \<Rightarrow> string" where
  "json_number_text float (NInt i) =
     (if i < 0 then ''-'' @ show_nat (nat (- i)) else show_nat (nat i))"
| "json_number_text float (NFloat r) = float r"

fun scalar_eq :: "(rat \<Rightarrow> string) \<Rightarrow> json \<Rightarrow> string \<Rightarrow> bool" where
  "scalar_eq float (JStr s) wanted = (s = wanted)"
| "scalar_eq float (JNum n) wanted = (json_number_text float n = wanted)"
| "scalar_eq float (JBool b) wanted = ((if b then ''true'' else ''false'') = wanted)"
| "scalar_eq float _ wanted = False"

fun claim_satisfies :: "(rat \<Rightarrow> string) \<Rightarrow> json \<Rightarrow> string \<Rightarrow> bool" where
  "claim_satisfies float (JArr items) wanted = list_ex (\<lambda>i. scalar_eq float i wanted) items"
| "claim_satisfies float v wanted = scalar_eq float v wanted"

definition NESTED_KEYS :: "string list" where
  "NESTED_KEYS = [''subjects'', ''conditions'', ''subject'', ''condition'']"

definition jwt_claim_leaf :: "json \<Rightarrow> (string \<times> string) list" where
  "jwt_claim_leaf v =
     (if get_str v ''type'' = Some ''JwtClaim'' then
        (case (get_str v ''claimName'', get_str v ''claimValue'') of
           (Some n, Some c) \<Rightarrow> [(n, c)]
         | _ \<Rightarrow> [])
      else [])"

lemma size_field [termination_simp]:
  "map_of kvs k = Some v \<Longrightarrow> size v < Suc (size_list (\<lambda>x. Suc (size (snd x))) kvs)"
  by (induction kvs) (auto split: if_splits)

fun jwt_claim_leaves :: "json \<Rightarrow> (string \<times> string) list" where
  "jwt_claim_leaves (JArr items) = concat (map jwt_claim_leaves items)"
| "jwt_claim_leaves (JObj kvs) =
     jwt_claim_leaf (JObj kvs) @
     concat (map (\<lambda>k. case map_of kvs k of None \<Rightarrow> [] | Some v \<Rightarrow> jwt_claim_leaves v) NESTED_KEYS)"
| "jwt_claim_leaves _ = []"

fun tree_types :: "json \<Rightarrow> string list" where
  "tree_types (JArr items) = concat (map tree_types items)"
| "tree_types (JObj kvs) =
     (case get_str (JObj kvs) ''type'' of None \<Rightarrow> [] | Some k \<Rightarrow> [k]) @
     concat (map (\<lambda>k. case map_of kvs k of None \<Rightarrow> [] | Some v \<Rightarrow> tree_types v) NESTED_KEYS)"
| "tree_types _ = []"

section \<open>Diagnosis\<close>

datatype subject_kind = Caller | Jwt | SsoToken | Claims

record decision =
  dec_resource :: string
  dec_actions :: json_map
  dec_wanted :: "string list"
  dec_resource_types :: "json list"
  dec_policies :: "json list"
  dec_subject_kind :: subject_kind
  dec_environment_keys :: "string list"
  dec_subject_claims :: "json_map option"

datatype hint =
    UndeclaredAction string "string list"
  | QueryNotInPatterns string
  | NotAUrl string
  | NoPortKnown string string
  | NoPattern string "string list"
  | NoPolicy nat
  | InactivePolicy string
  | JwtIsNoSession
  | ClaimsAreAnonymous
  | ScopeNotSupplied
  | ClaimMissing string string string "json option"
  | ResourceMatched "string list" "string list" "string list"

definition json_strings :: "json option \<Rightarrow> string list" where
  "json_strings v =
     (case Option.bind v as_array of
        None \<Rightarrow> []
      | Some items \<Rightarrow> map (\<lambda>i. the (as_str i)) (filter (\<lambda>i. as_str i \<noteq> None) items))"

definition policy_name :: "json \<Rightarrow> string" where
  "policy_name p = (case get_str p ''name'' of None \<Rightarrow> ''<unnamed>'' | Some n \<Rightarrow> n)"

definition policy_matches_resource :: "json \<Rightarrow> string \<Rightarrow> bool" where
  "policy_matches_resource p resource =
     list_ex (\<lambda>pat. resource_matches pat resource) (json_strings (json_get p ''resources''))"

definition policy_is_active :: "json \<Rightarrow> bool" where
  "policy_is_active p = (case get_bool p ''active'' of None \<Rightarrow> True | Some b \<Rightarrow> b)"

definition declared_actions :: "json list \<Rightarrow> string list" where
  "declared_actions rts =
     btree_set (concat (map (\<lambda>rt. case Option.bind (json_get rt ''actions'') as_object of
                                   None \<Rightarrow> [] | Some kvs \<Rightarrow> map fst kvs) rts))"

definition action_hints :: "decision \<Rightarrow> hint list" where
  "action_hints d =
     (let declared = declared_actions (dec_resource_types d) in
      map (\<lambda>w. UndeclaredAction w declared) (filter (\<lambda>w. w \<notin> set declared) (dec_wanted d)))"

definition decision_satisfied :: "decision \<Rightarrow> bool" where
  "decision_satisfied d =
     (dec_wanted d = [] \<and> dec_actions d \<noteq> [] \<or>
      dec_wanted d \<noteq> [] \<and> list_all (\<lambda>a. map_of (dec_actions d) a \<noteq> None) (dec_wanted d))"

definition type_patterns :: "decision \<Rightarrow> string list" where
  "type_patterns d = concat (map (\<lambda>rt. json_strings (json_get rt ''patterns'')) (dec_resource_types d))"

text \<open>The hints for a resource outside every resource type.\<close>

definition resource_hints :: "string \<Rightarrow> string list \<Rightarrow> hint list" where
  "resource_hints resource patterns =
     (if CHR ''?'' \<in> set resource \<and> \<not> list_ex (\<lambda>p. CHR ''?'' \<in> set p) patterns
      then [QueryNotInPatterns resource] else []) @
     (case split_once ''://'' resource of
        None \<Rightarrow> [NotAUrl resource]
      | Some (scheme, rest) \<Rightarrow>
          if CHR '':'' \<notin> set (takeWhile (\<lambda>c. \<not> ends_authority c) rest) \<and>
             default_port (to_lowercase scheme) = None
          then [NoPortKnown resource scheme] else []) @
     [NoPattern resource patterns]"

definition tree_types_of :: "string \<Rightarrow> json list \<Rightarrow> string list" where
  "tree_types_of k ps =
     btree_set (concat (map (\<lambda>p. case json_get p k of None \<Rightarrow> [] | Some v \<Rightarrow> tree_types v) ps))"

definition claim_hints :: "(rat \<Rightarrow> string) \<Rightarrow> json_map \<Rightarrow> json \<Rightarrow> hint list" where
  "claim_hints float claims p =
     concat (map (\<lambda>(n, wanted).
         case map_of claims n of
           Some v \<Rightarrow> if claim_satisfies float v wanted then []
                     else [ClaimMissing (policy_name p) n wanted (Some v)]
         | None \<Rightarrow> [ClaimMissing (policy_name p) n wanted None])
       (case json_get p ''subject'' of None \<Rightarrow> [] | Some s \<Rightarrow> jwt_claim_leaves s))"

text \<open>The hints for a resource some policy lists.\<close>

definition candidate_hints :: "(rat \<Rightarrow> string) \<Rightarrow> decision \<Rightarrow> json list \<Rightarrow> hint list" where
  "candidate_hints float d candidates =
     (let subjects = tree_types_of ''subject'' candidates;
          conditions = tree_types_of ''condition'' candidates
      in map (\<lambda>p. InactivePolicy (policy_name p)) (filter (\<lambda>p. \<not> policy_is_active p) candidates) @
         (if dec_subject_kind d = Jwt \<and> ''AuthenticatedUsers'' \<in> set subjects
          then [JwtIsNoSession] else []) @
         (if dec_subject_kind d = Claims then [ClaimsAreAnonymous] else []) @
         (if ''OAuth2Scope'' \<in> set conditions \<and> ''scope'' \<notin> set (dec_environment_keys d)
          then [ScopeNotSupplied] else []) @
         (case dec_subject_claims d of
            None \<Rightarrow> []
          | Some claims \<Rightarrow> concat (map (claim_hints float claims) candidates)) @
         [ResourceMatched (map policy_name candidates) subjects conditions])"

definition diagnose :: "(rat \<Rightarrow> string) \<Rightarrow> decision \<Rightarrow> hint list" where
  "diagnose float d =
     (let resource = dec_resource d;
          patterns = type_patterns d;
          candidates = filter (\<lambda>p. policy_matches_resource p resource) (dec_policies d)
      in action_hints d @
         (if decision_satisfied d then []
          else if \<not> list_ex (\<lambda>p. resource_matches p resource) patterns
          then resource_hints resource patterns
          else if candidates = [] then [NoPolicy (length (dec_policies d))]
          else candidate_hints float d candidates))"

end
