(* ===== verification/Policy_Facts.thy ===== *)
theory Policy_Facts
  imports Policy "HOL-Library.Multiset"
begin

text \<open>
  The wildcard matcher against a declarative reference. \<open>glob\<close> is the table of
  \<open>docs/api/21-am-policies.md\<close>: \<open>*\<close> stands for characters other than \<open>?\<close>, \<open>-*-\<close> for characters
  of one segment, everything else for itself. The loop keeps one open star and no more; \<open>promise\<close> is
  what that star still promises, and the multiset argument of \<open>star_takes_over\<close> is why forgetting
  an earlier star loses nothing.
\<close>

section \<open>The reference\<close>

inductive glob :: "string \<Rightarrow> string \<Rightarrow> bool" where
  glob_end: "glob [] []"
| glob_seg: "CHR ''/'' \<notin> set u \<Longrightarrow> glob p t \<Longrightarrow> glob (''-*-'' @ p) (u @ t)"
| glob_star: "CHR ''?'' \<notin> set u \<Longrightarrow> glob p t \<Longrightarrow> glob (CHR ''*'' # p) (u @ t)"
| glob_lit: "c \<noteq> CHR ''*'' \<Longrightarrow> \<not> starts_seg (c # p) \<Longrightarrow> glob p t \<Longrightarrow> glob (c # p) (c # t)"

inductive_simps glob_Nil_iff: "glob [] t"
inductive_simps glob_Cons_raw: "glob (c # p) t"

lemma starts_seg_Cons: "starts_seg (c # p) \<longleftrightarrow> c = CHR ''-'' \<and> (\<exists>q. p = CHR ''*'' # CHR ''-'' # q)"
  by (auto simp: starts_seg_def take_Suc eval_nat_numeral neq_Nil_conv split: list.splits)
    (metis append_Cons append_Nil append_take_drop_id)

lemma starts_seg_iff: "starts_seg p \<longleftrightarrow> (\<exists>q. p = ''-*-'' @ q)"
  by (cases p) (auto simp: starts_seg_Cons, auto simp: starts_seg_def)

lemma glob_seg_iff:
  "glob (''-*-'' @ p) t \<longleftrightarrow> (\<exists>u v. t = u @ v \<and> CHR ''/'' \<notin> set u \<and> glob p v)"
  by (auto simp: glob_Cons_raw starts_seg_Cons)

lemma glob_star_iff:
  "glob (CHR ''*'' # p) t \<longleftrightarrow> (\<exists>u v. t = u @ v \<and> CHR ''?'' \<notin> set u \<and> glob p v)"
  by (auto simp: glob_Cons_raw)

lemma glob_lit_iff:
  "c \<noteq> CHR ''*'' \<Longrightarrow> \<not> starts_seg (c # p) \<Longrightarrow> glob (c # p) t \<longleftrightarrow> (\<exists>v. t = c # v \<and> glob p v)"
  by (auto simp: glob_Cons_raw starts_seg_Cons)

lemma glob_star_Cons:
  "glob (CHR ''*'' # p) (x # t) \<longleftrightarrow> glob p (x # t) \<or> (x \<noteq> CHR ''?'' \<and> glob (CHR ''*'' # p) t)"
proof
  assume "glob (CHR ''*'' # p) (x # t)"
  then obtain u v where u: "x # t = u @ v" "CHR ''?'' \<notin> set u" "glob p v" by (auto simp: glob_star_iff)
  then show "glob p (x # t) \<or> (x \<noteq> CHR ''?'' \<and> glob (CHR ''*'' # p) t)"
    by (cases u) (auto simp: glob_star_iff)
next
  assume "glob p (x # t) \<or> (x \<noteq> CHR ''?'' \<and> glob (CHR ''*'' # p) t)"
  then show "glob (CHR ''*'' # p) (x # t)"
  proof
    assume "glob p (x # t)"
    then show ?thesis using glob_star [of "[]" p "x # t"] by simp
  next
    assume x: "x \<noteq> CHR ''?'' \<and> glob (CHR ''*'' # p) t"
    then obtain u v where "t = u @ v" "CHR ''?'' \<notin> set u" "glob p v" by (auto simp: glob_star_iff)
    with x show ?thesis using glob_star [of "x # u" p v] by auto
  qed
qed

lemma only_wildcards_glob: "only_wildcards p \<longleftrightarrow> glob p []"
proof (induction p rule: only_wildcards.induct)
  case 1
  then show ?case by (simp add: glob_end)
next
  case (2 c p)
  show ?case
  proof (cases "starts_seg (c # p)")
    case True
    then obtain q where "c = CHR ''-''" "p = CHR ''*'' # CHR ''-'' # q" by (auto simp: starts_seg_Cons)
    with 2 True show ?thesis using glob_seg_iff [of q "[]"] by simp
  next
    case False
    with 2 show ?thesis
      by (cases "c = CHR ''*''") (simp_all add: glob_star_iff glob_lit_iff)
  qed
qed

section \<open>Literal stretches\<close>

fun lits :: "string \<Rightarrow> string \<Rightarrow> bool" where
  "lits [] p = True"
| "lits (c # w) p = (c \<noteq> CHR ''*'' \<and> \<not> starts_seg (c # w @ p) \<and> lits w p)"

lemma lits_snoc:
  "lits w (c # p) \<Longrightarrow> c \<noteq> CHR ''*'' \<Longrightarrow> \<not> starts_seg (c # p) \<Longrightarrow> lits (w @ [c]) p"
  by (induction w) auto

lemma glob_lits: "lits w p \<Longrightarrow> glob (w @ p) t \<longleftrightarrow> (\<exists>v. t = w @ v \<and> glob p v)"
  by (induction w arbitrary: t) (auto simp: glob_lit_iff)

text \<open>A new star after the literals of an old one takes over all the old one could still do.\<close>

lemma star_takes_over:
  assumes lits: "lits w (CHR ''*'' # p)" and old: "glob (CHR ''*'' # w @ CHR ''*'' # p) (w @ t)"
  shows "glob (CHR ''*'' # p) t"
proof -
  from old obtain y z where y: "w @ t = y @ z" "CHR ''?'' \<notin> set y" and z: "glob (w @ CHR ''*'' # p) z"
    by (auto simp: glob_star_iff)
  from z lits obtain z' where z': "z = w @ z'" "glob (CHR ''*'' # p) z'" by (auto simp: glob_lits)
  from y(1) z'(1) have len: "length t = length y + length z'"
    by (metis add_left_cancel add.left_commute length_append)
  define v where "v = take (length y) t"
  have t: "t = v @ z'"
  proof -
    have "w @ t = (y @ w) @ z'" using y z' by simp
    then have "drop (length w + length y) (w @ t) = z'" by (simp add: add.commute)
    then have "drop (length y) t = z'" by simp
    then show ?thesis unfolding v_def by (metis append_take_drop_id)
  qed
  with y(1) z'(1) have "w @ v = y @ w" by (simp flip: append_assoc)
  then have "mset v = mset y" by (metis add.commute add_left_cancel mset_append)
  then have "CHR ''?'' \<notin> set v" using y(2) by (metis set_mset_mset)
  moreover obtain a b where "z' = a @ b" "CHR ''?'' \<notin> set a" "glob p b"
    using z'(2) by (auto simp: glob_star_iff)
  ultimately show ?thesis
    unfolding glob_star_iff t by (intro exI [of _ "v @ a"] exI [of _ b]) simp
qed

lemma star_is_spent:
  assumes lits: "lits w p" and old: "glob (CHR ''*'' # w @ p) w"
  shows "glob p []"
proof -
  from old obtain y z where y: "w = y @ z" and z: "glob (w @ p) z"
    by (auto simp: glob_star_iff)
  from z glob_lits [OF lits] obtain v where v: "z = w @ v" "glob p v" by blast
  from arg_cong [OF y, of length] arg_cong [OF v(1), of length] have "v = []" by simp
  with v(2) show ?thesis by simp
qed

section \<open>The loop\<close>

text \<open>What the open star still promises: that its pattern matches from a later position.\<close>

definition promise :: "string \<Rightarrow> string \<Rightarrow> nat option \<Rightarrow> nat \<Rightarrow> bool" where
  "promise pat str star star_t =
     (case star of
        None \<Rightarrow> False
      | Some st \<Rightarrow>
          star_t < length str \<and> str ! star_t \<noteq> CHR ''?'' \<and>
          glob (CHR ''*'' # drop (Suc st) pat) (drop (Suc star_t) str))"

text \<open>Since the open star, only literals were matched.\<close>

definition loop_inv :: "string \<Rightarrow> string \<Rightarrow> nat \<Rightarrow> nat \<Rightarrow> nat option \<Rightarrow> nat \<Rightarrow> bool" where
  "loop_inv pat str p t star star_t \<longleftrightarrow>
     p \<le> length pat \<and> t \<le> length str \<and>
     (case star of
        None \<Rightarrow> True
      | Some st \<Rightarrow> st < p \<and> star_t \<le> t \<and>
          (\<exists>w. drop (Suc st) pat = w @ drop p pat \<and> drop star_t str = w @ drop t str \<and> lits w (drop p pat)))"

lemma drop_Cons_nth: "p < length xs \<Longrightarrow> drop p xs = xs ! p # drop (Suc p) xs"
  by (simp add: Cons_nth_drop_Suc)

lemma inv_star:
  assumes "loop_inv pat str p t star star_t" and "p < length pat" and "pat ! p = CHR ''*''"
  shows "loop_inv pat str (Suc p) t (Some p) t"
  using assms by (auto simp: loop_inv_def)

lemma inv_lit:
  assumes inv: "loop_inv pat str p t star star_t" and p: "p < length pat" and t: "t < length str"
    and eq: "pat ! p = str ! t" and lit: "pat ! p \<noteq> CHR ''*''" "\<not> starts_seg (drop p pat)"
  shows "loop_inv pat str (Suc p) (Suc t) star star_t"
proof (cases star)
  case None
  with p t show ?thesis by (simp add: loop_inv_def)
next
  case (Some st)
  with inv obtain w where w: "drop (Suc st) pat = w @ drop p pat" "drop star_t str = w @ drop t str"
    "lits w (drop p pat)" "st < p" "star_t \<le> t"
    by (auto simp: loop_inv_def)
  have "lits (w @ [pat ! p]) (drop (Suc p) pat)"
    using w(3) lit by (intro lits_snoc) (simp_all add: drop_Cons_nth [OF p])
  with Some p t eq w show ?thesis
    by (auto simp: loop_inv_def drop_Cons_nth [OF p] drop_Cons_nth [OF t] intro!: exI [of _ "w @ [pat ! p]"])
qed

lemma inv_back:
  assumes "loop_inv pat str p t (Some st) star_t" and "t < length str"
  shows "loop_inv pat str (Suc st) (Suc star_t) (Some st) (Suc star_t)"
  using assms by (auto simp: loop_inv_def)

lemma seg_splits:
  assumes "t < length str"
  shows "(\<exists>s\<in>set [t..<Suc (seg_limit str t)]. glob p (drop s str)) \<longleftrightarrow> glob (''-*-'' @ p) (drop t str)"
proof
  assume "\<exists>s\<in>set [t..<Suc (seg_limit str t)]. glob p (drop s str)"
  then obtain s where s: "t \<le> s" "s \<le> seg_limit str t" "glob p (drop s str)" by auto
  let ?u = "take (s - t) (drop t str)"
  have "drop t str = ?u @ drop s str"
    using s(1) by (metis append_take_drop_id drop_drop le_add_diff_inverse2)
  moreover have "CHR ''/'' \<notin> set ?u"
  proof -
    let ?seg = "takeWhile (\<lambda>c. c \<noteq> CHR ''/'') (drop t str)"
    have "s - t \<le> length ?seg" using s by (simp add: seg_limit_def)
    then have "?u = take (s - t) ?seg"
      by (metis append_take_drop_id takeWhile_dropWhile_id take_append diff_is_0_eq' take0 append_Nil2)
    then show ?thesis by (metis in_set_takeD set_takeWhileD)
  qed
  ultimately show "glob (''-*-'' @ p) (drop t str)"
    using s(3) unfolding glob_seg_iff by blast
next
  assume "glob (''-*-'' @ p) (drop t str)"
  then obtain u v where uv: "drop t str = u @ v" "CHR ''/'' \<notin> set u" "glob p v"
    unfolding glob_seg_iff by blast
  have "takeWhile (\<lambda>c. c \<noteq> CHR ''/'') (u @ v) = u @ takeWhile (\<lambda>c. c \<noteq> CHR ''/'') v"
    using uv(2) by (intro takeWhile_append2) auto
  then have "t + length u \<le> seg_limit str t" by (simp add: seg_limit_def uv(1))
  moreover have "drop (t + length u) str = v"
    using uv(1) by (metis add.commute append_eq_conv_conj drop_drop)
  ultimately show "\<exists>s\<in>set [t..<Suc (seg_limit str t)]. glob p (drop s str)"
    using uv(3) by (intro bexI [of _ "t + length u"]) auto
qed

text \<open>No segment wildcard stands after a star. (A segment wildcard ends the loop in front of it, and
  with it the star.)\<close>

fun seg_first :: "string \<Rightarrow> bool" where
  "seg_first [] = True"
| "seg_first (c # p) =
     (if starts_seg (c # p) then seg_first (drop 2 p)
      else if c = CHR ''*'' then \<not> sublist ''-*-'' p
      else seg_first p)"

lemma no_seg_drop: "\<not> sublist ''-*-'' (drop n p) \<Longrightarrow> m \<ge> n \<Longrightarrow> \<not> starts_seg (drop m p)"
proof
  assume n: "\<not> sublist ''-*-'' (drop n p)" "n \<le> m" and "starts_seg (drop m p)"
  then obtain q where "drop m p = ''-*-'' @ q" by (auto simp: starts_seg_iff)
  with n(2) have "drop n p = take (m - n) (drop n p) @ ''-*-'' @ q"
    by (metis append_take_drop_id drop_drop le_add_diff_inverse2)
  with n(1) show False by (metis sublist_appendI)
qed

definition star_clear :: "string \<Rightarrow> nat option \<Rightarrow> bool" where
  "star_clear pat star = (case star of None \<Rightarrow> True | Some st \<Rightarrow> \<not> sublist ''-*-'' (drop (Suc st) pat))"

lemma no_seg_first: "\<not> sublist ''-*-'' p \<Longrightarrow> seg_first p"
proof (induction p rule: seg_first.induct)
  case (2 c p)
  then have "\<not> starts_seg (c # p)" using no_seg_drop [of 0 "c # p" 0] by simp
  moreover have "\<not> sublist ''-*-'' p" using "2.prems" by (auto simp: sublist_Cons_right)
  ultimately show ?case using 2 by simp
qed simp

lemma drop_Cons_tail: "drop p xs = c # rest \<Longrightarrow> drop (Suc p + n) xs = drop n rest"
  by (metis add.commute add_Suc_right drop_Suc_Cons drop_drop)

lemma seg_first_seg: "seg_first (drop p pat) \<Longrightarrow> starts_seg (drop p pat) \<Longrightarrow> seg_first (drop (p + 3) pat)"
proof (cases "drop p pat")
  case (Cons c q)
  assume "seg_first (drop p pat)" "starts_seg (drop p pat)"
  moreover have "drop (p + 3) pat = drop 2 q"
    using drop_Cons_tail [OF Cons, of 2] by (simp add: eval_nat_numeral)
  ultimately show ?thesis by (simp add: Cons)
qed (simp add: starts_seg_def)

definition claim :: "bool \<Rightarrow> string \<Rightarrow> string \<Rightarrow> nat \<Rightarrow> nat \<Rightarrow> nat option \<Rightarrow> nat \<Rightarrow> bool" where
  "claim answer pat str p t star star_t \<longleftrightarrow>
     (answer \<longrightarrow> glob (drop p pat) (drop t str) \<or> promise pat str star star_t) \<and>
     (seg_first (drop p pat) \<and> star_clear pat star \<longrightarrow>
        glob (drop p pat) (drop t str) \<or> promise pat str star star_t \<longrightarrow> answer)"

lemma promise_glob:
  assumes "promise pat str (Some st) star_t"
  shows "glob (CHR ''*'' # drop (Suc st) pat) (drop star_t str)"
  using assms by (auto simp: promise_def drop_Cons_nth glob_star_Cons)

lemma claim_end:
  assumes "loop_inv pat str p t star star_t" and "\<not> t < length str"
  shows "claim (only_wildcards (drop p pat)) pat str p t star star_t"
proof -
  have "glob (drop p pat) []" if "promise pat str star star_t"
  proof -
    from that obtain st where st: "star = Some st" by (auto simp: promise_def split: option.splits)
    with assms obtain w where "drop (Suc st) pat = w @ drop p pat" "drop star_t str = w" "lits w (drop p pat)"
      by (auto simp: loop_inv_def)
    with promise_glob [of pat str st star_t] that st show ?thesis by (auto intro: star_is_spent)
  qed
  with assms show ?thesis by (auto simp: claim_def only_wildcards_glob)
qed

lemma claim_seg:
  assumes inv: "loop_inv pat str p t star star_t" and t: "t < length str" and seg: "starts_seg (drop p pat)"
    and rest: "\<And>s. s \<in> set [t..<Suc (seg_limit str t)] \<Longrightarrow>
      claim (f s) (drop (p + 3) pat) (drop s str) 0 0 None 0"
  shows "claim (list_ex f [t..<Suc (seg_limit str t)]) pat str p t star star_t"
proof -
  from seg obtain q where q: "drop p pat = ''-*-'' @ q" by (auto simp: starts_seg_iff)
  then have "drop 3 (drop p pat) = q" by simp
  then have q': "drop (p + 3) pat = q" by (simp add: add.commute)
  have G: "glob (drop p pat) (drop t str) \<longleftrightarrow> (\<exists>s\<in>set [t..<Suc (seg_limit str t)]. glob q (drop s str))"
    unfolding q by (rule seg_splits [OF t, symmetric])
  have sound: "glob q (drop s str)" if "s \<in> set [t..<Suc (seg_limit str t)]" "f s" for s
    using rest [OF that(1)] that(2) by (simp add: claim_def promise_def q')
  have complete: "f s" if "s \<in> set [t..<Suc (seg_limit str t)]" "seg_first q" "glob q (drop s str)" for s
    using rest [OF that(1)] that(2,3) by (simp add: claim_def promise_def q' star_clear_def)
  have "star = None" if "star_clear pat star"
    using that inv seg no_seg_drop [of "Suc st" pat p for st]
    by (cases star) (auto simp: star_clear_def loop_inv_def)
  then have gone: "\<not> promise pat str star star_t" if "star_clear pat star"
    using that by (auto simp: promise_def)
  have first: "seg_first q" if "seg_first (drop p pat)"
    using seg_first_seg [OF that seg] by (simp add: q')
  show ?thesis
    unfolding claim_def G list_ex_iff using sound complete gone first by blast
qed

lemma claim_star:
  assumes inv: "loop_inv pat str p t star star_t" and t: "t < length str"
    and p: "p < length pat" "pat ! p = CHR ''*''" and seg: "\<not> starts_seg (drop p pat)"
    and rest: "claim b pat str (Suc p) t (Some p) t"
  shows "claim b pat str p t star star_t"
proof -
  let ?q = "drop (Suc p) pat"
  have q: "drop p pat = CHR ''*'' # ?q" using p by (simp add: drop_Cons_nth)
  have G: "glob (drop p pat) (drop t str) \<longleftrightarrow>
      glob ?q (drop t str) \<or> promise pat str (Some p) t"
    using t by (simp add: q promise_def drop_Cons_nth [OF t] glob_star_Cons)
  have "glob (drop p pat) (drop t str)" if old: "promise pat str star star_t"
  proof -
    from old obtain st where st: "star = Some st" by (auto simp: promise_def split: option.splits)
    with inv obtain w where w: "drop (Suc st) pat = w @ CHR ''*'' # ?q" "drop star_t str = w @ drop t str"
      "lits w (CHR ''*'' # ?q)"
      by (auto simp: loop_inv_def q)
    from promise_glob [of pat str st star_t] old st w have
      "glob (CHR ''*'' # w @ CHR ''*'' # ?q) (w @ drop t str)" by simp
    from star_takes_over [OF w(3) this] show ?thesis by (simp add: q)
  qed
  moreover have "seg_first ?q \<and> star_clear pat (Some p)" if "seg_first (drop p pat)"
    using that seg by (simp add: q star_clear_def no_seg_first)
  ultimately show ?thesis using rest unfolding claim_def G by blast
qed

lemma claim_lit:
  assumes t: "t < length str" and p: "p < length pat" "pat ! p = str ! t" "pat ! p \<noteq> CHR ''*''"
    and seg: "\<not> starts_seg (drop p pat)" and rest: "claim b pat str (Suc p) (Suc t) star star_t"
  shows "claim b pat str p t star star_t"
proof -
  have q: "drop p pat = pat ! p # drop (Suc p) pat" by (rule drop_Cons_nth [OF p(1)])
  have "glob (drop p pat) (drop t str) \<longleftrightarrow> glob (drop (Suc p) pat) (drop (Suc t) str)"
    using seg p(3) unfolding q drop_Cons_nth [OF t] by (simp add: glob_lit_iff p(2))
  moreover have "seg_first (drop (Suc p) pat)" if "seg_first (drop p pat)"
    using that seg p(3) by (simp add: q)
  ultimately show ?thesis using rest by (auto simp: claim_def)
qed

lemma no_match:
  assumes t: "t < length str" and seg: "\<not> starts_seg (drop p pat)"
    and "\<not> (p < length pat \<and> pat ! p = CHR ''*'')" and "\<not> (p < length pat \<and> pat ! p = str ! t)"
  shows "\<not> glob (drop p pat) (drop t str)"
proof (cases "p < length pat")
  case True
  then have "drop p pat = pat ! p # drop (Suc p) pat" by (rule drop_Cons_nth)
  with assms True show ?thesis by (simp add: drop_Cons_nth [OF t] glob_lit_iff)
next
  case False
  with t show ?thesis by (simp add: glob_Nil_iff)
qed

lemma promise_step:
  assumes "star_t < length str" and "str ! star_t \<noteq> CHR ''?''"
  shows "promise pat str (Some st) star_t \<longleftrightarrow>
    glob (drop (Suc st) pat) (drop (Suc star_t) str) \<or> promise pat str (Some st) (Suc star_t)"
proof (cases "Suc star_t < length str")
  case True
  with assms show ?thesis
    by (simp add: promise_def drop_Cons_nth [OF True] glob_star_Cons)
next
  case False
  with assms show ?thesis by (simp add: promise_def glob_star_iff)
qed

lemma claim_back:
  assumes inv: "loop_inv pat str p t (Some st) star_t" and t: "t < length str"
    and none: "\<not> glob (drop p pat) (drop t str)"
    and rest: "str ! star_t \<noteq> CHR ''?'' \<Longrightarrow> claim b pat str (Suc st) (Suc star_t) (Some st) (Suc star_t)"
  shows "claim (if str ! star_t \<noteq> CHR ''?'' then b else False) pat str p t (Some st) star_t"
proof (cases "str ! star_t = CHR ''?''")
  case True
  with none show ?thesis by (simp add: claim_def promise_def)
next
  case False
  from inv t have "star_t < length str" by (simp add: loop_inv_def)
  from promise_step [OF this False] rest [OF False] none False no_seg_first show ?thesis
    by (auto simp: claim_def star_clear_def)
qed

lemma loop_correct:
  "loop_inv pat str p t star star_t \<Longrightarrow>
   claim (glob_loop pat str p t star star_t) pat str p t star star_t"
proof (induction pat str p t star star_t rule: glob_loop.induct)
  case (1 pat str p t star star_t)
  note inv = "1.prems"
  show ?case
  proof (cases "t < length str")
    case False
    with claim_end [OF inv False] show ?thesis by (subst glob_loop.simps) simp
  next
    case t: True
    show ?thesis
    proof (cases "starts_seg (drop p pat)")
      case seg: True
      have "claim (glob_loop (drop (p + 3) pat) (drop s str) 0 0 None 0) (drop (p + 3) pat) (drop s str) 0 0 None 0"
        if "s \<in> set [t..<Suc (seg_limit str t)]" for s
        by (rule "1.IH"(1) [OF t seg that]) (simp add: loop_inv_def)
      from claim_seg [OF inv t seg this] show ?thesis
        by (subst glob_loop.simps) (simp add: t seg del: upt_Suc)
    next
      case seg: False
      show ?thesis
      proof (cases "p < length pat \<and> pat ! p = CHR ''*''")
        case True
        from claim_star [OF inv t _ _ seg "1.IH"(2) [OF t seg True inv_star [OF inv]]] True
        show ?thesis by (subst glob_loop.simps) (simp add: t seg)
      next
        case star: False
        show ?thesis
        proof (cases "p < length pat \<and> pat ! p = str ! t")
          case True
          with star have lit: "pat ! p \<noteq> CHR ''*''" by simp
          from True have "loop_inv pat str (Suc p) (Suc t) star star_t"
            by (intro inv_lit [OF inv _ t _ lit seg]) simp_all
          from claim_lit [OF t _ _ lit seg "1.IH"(3) [OF t seg star True this]] True star
          show ?thesis by (subst glob_loop.simps) (simp add: t seg)
        next
          case lit: False
          have none: "\<not> glob (drop p pat) (drop t str)" by (rule no_match [OF t seg star lit])
          show ?thesis
          proof (cases star)
            case None
            with none have "claim False pat str p t star star_t" by (simp add: claim_def promise_def)
            then show ?thesis
              unfolding glob_loop.simps [of pat str p t star star_t]
                if_P [OF t] if_not_P [OF seg] if_not_P [OF star] if_not_P [OF lit] by (simp add: None)
          next
            case (Some st)
            note inv' = inv [unfolded Some]
            from claim_back [OF inv' t none "1.IH"(4) [OF t seg star lit Some _ inv_back [OF inv' t]]]
            show ?thesis
              unfolding glob_loop.simps [of pat str p t star star_t]
                if_P [OF t] if_not_P [OF seg] if_not_P [OF star] if_not_P [OF lit] by (simp add: Some)
          qed
        qed
      qed
    qed
  qed
qed

lemma glob_match_claim:
  "(glob_match pat str \<longrightarrow> glob pat str) \<and> (seg_first pat \<longrightarrow> glob pat str \<longrightarrow> glob_match pat str)"
  using loop_correct [of pat str 0 0 None 0]
  by (simp add: loop_inv_def claim_def glob_match_def promise_def star_clear_def)

section \<open>Diagnosis\<close>

lemma action_hints_Nil:
  "action_hints d = [] \<longleftrightarrow> set (dec_wanted d) \<subseteq> set (declared_actions (dec_resource_types d))"
  by (auto simp: action_hints_def Let_def filter_empty_conv)

text \<open>The part of \<open>diagnose\<close> behind the early returns, for a decision that is not satisfied.\<close>

lemma diagnose_outside:
  assumes "\<not> decision_satisfied d"
    and "\<not> list_ex (\<lambda>p. resource_matches p (dec_resource d)) (type_patterns d)"
  shows "\<exists>pre. diagnose float d = pre @ [NoPattern (dec_resource d) (type_patterns d)]"
  using assms by (simp add: diagnose_def resource_hints_def Let_def)

lemma diagnose_unlisted:
  assumes "\<not> decision_satisfied d"
    and "list_ex (\<lambda>p. resource_matches p (dec_resource d)) (type_patterns d)"
    and "filter (\<lambda>p. policy_matches_resource p (dec_resource d)) (dec_policies d) = []"
  shows "diagnose float d = action_hints d @ [NoPolicy (length (dec_policies d))]"
  using assms by (simp add: diagnose_def Let_def)

lemma diagnose_listed:
  assumes "\<not> decision_satisfied d"
    and "list_ex (\<lambda>p. resource_matches p (dec_resource d)) (type_patterns d)"
    and "filter (\<lambda>p. policy_matches_resource p (dec_resource d)) (dec_policies d) = cs" "cs \<noteq> []"
  shows "\<exists>pre. diagnose float d = pre @ [ResourceMatched (map policy_name cs)
           (tree_types_of ''subject'' cs) (tree_types_of ''condition'' cs)]"
  using assms by (simp add: diagnose_def candidate_hints_def Let_def)

lemma claim_hint_true:
  assumes "ClaimMissing name n wanted held \<in> set (claim_hints float claims p)"
  shows "name = policy_name p \<and> held = map_of claims n \<and>
    (\<exists>s. json_get p ''subject'' = Some s \<and> (n, wanted) \<in> set (jwt_claim_leaves s)) \<and>
    (case held of None \<Rightarrow> True | Some v \<Rightarrow> \<not> claim_satisfies float v wanted)"
proof (cases "json_get p ''subject''")
  case None
  with assms show ?thesis by (simp add: claim_hints_def)
next
  case (Some s)
  with assms obtain a b where leaf: "(a, b) \<in> set (jwt_claim_leaves s)"
    and hint: "ClaimMissing name n wanted held \<in>
      set (case map_of claims a of
             Some v \<Rightarrow> if claim_satisfies float v b then [] else [ClaimMissing (policy_name p) a b (Some v)]
           | None \<Rightarrow> [ClaimMissing (policy_name p) a b None])"
    by (auto simp: claim_hints_def)
  show ?thesis
    by (cases "map_of claims a") (use hint leaf Some in \<open>auto split: if_splits\<close>)
qed

lemma no_claim_hint:
  "ClaimMissing name n wanted held \<notin> set (action_hints d)"
  "ClaimMissing name n wanted held \<notin> set (resource_hints r ps)"
  by (auto simp: action_hints_def resource_hints_def Let_def split: option.splits prod.splits)

lemma diagnose_claim:
  assumes "ClaimMissing name n wanted held \<in> set (diagnose float d)"
  shows "\<exists>claims p. dec_subject_claims d = Some claims \<and> p \<in> set (dec_policies d) \<and>
    policy_matches_resource p (dec_resource d) \<and>
    ClaimMissing name n wanted held \<in> set (claim_hints float claims p)"
  using assms
  by (auto simp: diagnose_def candidate_hints_def Let_def no_claim_hint dest!: sym [of "Some _"]
      split: if_splits option.splits)

section \<open>Properties\<close>

text \<open>C22: the wildcard matcher never reports a match the reference does not have, and on every pattern
  in which no segment wildcard stands after a star it is the reference.\<close>

theorem glob_match_exact:
  "(glob_match pat s \<longrightarrow> glob pat s) \<and> (seg_first pat \<longrightarrow> glob_match pat s = glob pat s)"
  using glob_match_claim by blast

theorem glob_match_exact_witness:
  "glob ''/i/*/z'' ''/i/one/two/z'' \<and> glob ''/h/-*-'' ''/h/one'' \<and> \<not> glob ''/h/-*-'' ''/h/one/two'' \<and>
   \<not> glob ''/g/*'' ''/g/one?q''"
proof -
  have "seg_first ''/i/*/z'' \<and> seg_first ''/h/-*-'' \<and> seg_first ''/g/*''" by code_simp
  moreover have "glob_match ''/i/*/z'' ''/i/one/two/z'' \<and> glob_match ''/h/-*-'' ''/h/one'' \<and>
      \<not> glob_match ''/h/-*-'' ''/h/one/two'' \<and> \<not> glob_match ''/g/*'' ''/g/one?q''" by code_simp
  ultimately show ?thesis using glob_match_exact by blast
qed

text \<open>The restriction is needed: a segment wildcard ends the loop without going back to the star in
  front of it.\<close>

lemma segment_after_star_is_missed:
  "glob ''*a-*-b'' ''a/ab'' \<and> \<not> glob_match ''*a-*-b'' ''a/ab''"
proof
  have "glob ''b'' ''b''" by (auto intro!: glob_lit glob_end simp: starts_seg_def)
  then have "glob ''-*-b'' ''b''" using glob_seg [of "[]" "''b''" "''b''"] by simp
  then have "glob ''a-*-b'' ''ab''" by (auto intro!: glob_lit simp: starts_seg_def)
  then show "glob ''*a-*-b'' ''a/ab''" using glob_star [of "''a/''" "''a-*-b''" "''ab''"] by simp
  show "\<not> glob_match ''*a-*-b'' ''a/ab''" by code_simp
qed

text \<open>C21: an empty decision is explained, and the explanation is true. Nothing is said exactly when the
  decision grants what was asked and the set declares it. Otherwise the last line classifies the denial:
  the resource is outside every resource type, or no policy of the set lists it, or it names exactly
  the policies that do. Every claim reported missing is a leaf of such a policy the token fails.\<close>

theorem denial_is_explained:
  "(diagnose float d = [] \<longleftrightarrow>
      decision_satisfied d \<and> set (dec_wanted d) \<subseteq> set (declared_actions (dec_resource_types d))) \<and>
   (\<not> decision_satisfied d \<longrightarrow>
      (case last (diagnose float d) of
         NoPattern r ps \<Rightarrow>
           r = dec_resource d \<and> ps = type_patterns d \<and> (\<forall>p\<in>set ps. \<not> resource_matches p r)
       | NoPolicy n \<Rightarrow>
           n = length (dec_policies d) \<and> (\<exists>p\<in>set (type_patterns d). resource_matches p (dec_resource d)) \<and>
           (\<forall>p\<in>set (dec_policies d). \<not> policy_matches_resource p (dec_resource d))
       | ResourceMatched names _ _ \<Rightarrow>
           names \<noteq> [] \<and>
           names = map policy_name (filter (\<lambda>p. policy_matches_resource p (dec_resource d)) (dec_policies d))
       | _ \<Rightarrow> False)) \<and>
   (\<forall>name n wanted held. ClaimMissing name n wanted held \<in> set (diagnose float d) \<longrightarrow>
      (\<exists>claims p s. dec_subject_claims d = Some claims \<and> p \<in> set (dec_policies d) \<and>
         policy_matches_resource p (dec_resource d) \<and> name = policy_name p \<and> held = map_of claims n \<and>
         json_get p ''subject'' = Some s \<and> (n, wanted) \<in> set (jwt_claim_leaves s) \<and>
         (case held of None \<Rightarrow> True | Some v \<Rightarrow> \<not> claim_satisfies float v wanted)))"
  (is "?silent \<and> ?classified \<and> ?claims")
proof (intro conjI)
  let ?in = "list_ex (\<lambda>p. resource_matches p (dec_resource d)) (type_patterns d)"
  let ?cs = "filter (\<lambda>p. policy_matches_resource p (dec_resource d)) (dec_policies d)"
  show classified: ?classified
  proof (intro impI)
    assume denied: "\<not> decision_satisfied d"
    consider "\<not> ?in" | "?in" "?cs = []" | "?in" "?cs \<noteq> []" by blast
    then show "case last (diagnose float d) of
         NoPattern r ps \<Rightarrow>
           r = dec_resource d \<and> ps = type_patterns d \<and> (\<forall>p\<in>set ps. \<not> resource_matches p r)
       | NoPolicy n \<Rightarrow>
           n = length (dec_policies d) \<and> (\<exists>p\<in>set (type_patterns d). resource_matches p (dec_resource d)) \<and>
           (\<forall>p\<in>set (dec_policies d). \<not> policy_matches_resource p (dec_resource d))
       | ResourceMatched names _ _ \<Rightarrow> names \<noteq> [] \<and> names = map policy_name ?cs
       | _ \<Rightarrow> False"
    proof cases
      case 1
      with diagnose_outside [OF denied 1, of float] show ?thesis by (auto simp: list_ex_iff)
    next
      case 2
      with diagnose_unlisted [OF denied 2, of float] show ?thesis
        by (auto simp: list_ex_iff filter_empty_conv)
    next
      case 3
      with diagnose_listed [OF denied 3(1) refl 3(2), of float] show ?thesis by auto
    qed
  qed
  have "diagnose float d = action_hints d" if "decision_satisfied d"
    using that by (simp add: diagnose_def Let_def)
  moreover have "diagnose float d \<noteq> []" if "\<not> decision_satisfied d"
    using that diagnose_outside [OF that, of float] diagnose_unlisted [OF that, of float]
      diagnose_listed [OF that _ refl, of float]
    by (cases ?in; cases "?cs = []") auto
  ultimately show ?silent by (metis action_hints_Nil)
  show ?claims using diagnose_claim claim_hint_true by metis
qed

definition empty_decision :: decision where
  "empty_decision =
     \<lparr>dec_resource = ''ftp://h/x'', dec_actions = [], dec_wanted = [], dec_resource_types = [],
      dec_policies = [], dec_subject_kind = Caller, dec_environment_keys = [], dec_subject_claims = None\<rparr>"

theorem denial_is_explained_witness:
  "\<not> decision_satisfied empty_decision \<and>
   last (diagnose (\<lambda>_. []) empty_decision) = NoPattern ''ftp://h/x'' [] \<and>
   diagnose (\<lambda>_. []) empty_decision \<noteq> []"
proof -
  have denied: "\<not> decision_satisfied empty_decision" by code_simp
  moreover have "last (diagnose (\<lambda>_. []) empty_decision) = NoPattern ''ftp://h/x'' []" by code_simp
  ultimately show ?thesis using denial_is_explained [of "\<lambda>_. []" empty_decision] by blast
qed

end
