(* ===== verification/Drift.thy ===== *)
theory Drift
  imports Json
begin

text \<open>
  Where a journey's three copies disagree (\<open>src/src/journey/drift.rs\<close>): the workspace export, the
  last-synced snapshot and the tenant's copy, each \<open>{"tree": .., "nodes": {id: config}}\<close>, compared
  without \<open>_rev\<close> (\<open>content_equal\<close> of \<open>src/src/journey/api.rs\<close>); and how a difference is printed
  without the secrets in it.
\<close>

section \<open>Comparing\<close>

fun journey_strip_revs :: "json \<Rightarrow> json" where
  "journey_strip_revs (JArr vs) = JArr (map journey_strip_revs vs)"
| "journey_strip_revs (JObj kvs) = JObj (map (\<lambda>(k, v). (k, journey_strip_revs v)) (filter (\<lambda>(k, v). k \<noteq> ''_rev'') kvs))"
| "journey_strip_revs v = v"

definition journey_content_equal :: "json \<Rightarrow> json \<Rightarrow> bool" where
  "journey_content_equal a b = (journey_strip_revs a = journey_strip_revs b)"

datatype drift_state =
    InSync
  | LocallyModified
  | RemotelyModified
  | Conflict
  | Converged
  | NoSnapshot bool
  | NotPulled
  | RemoteMissing

definition matches_tenant :: "drift_state \<Rightarrow> bool" where
  "matches_tenant s = (s = InSync \<or> s = Converged \<or> s = NoSnapshot True)"

definition state_label :: "drift_state \<Rightarrow> string" where
  "state_label s =
     (case s of
        InSync \<Rightarrow> ''in sync''
      | LocallyModified \<Rightarrow> ''modified locally''
      | RemotelyModified \<Rightarrow> ''modified on remote''
      | Conflict \<Rightarrow> ''conflict''
      | Converged \<Rightarrow> ''converged''
      | NoSnapshot True \<Rightarrow> ''no snapshot (local matches remote)''
      | NoSnapshot False \<Rightarrow> ''no snapshot (local differs from remote)''
      | NotPulled \<Rightarrow> ''not pulled''
      | RemoteMissing \<Rightarrow> ''not on the tenant'')"

definition drift_state_of :: "json option \<Rightarrow> json option \<Rightarrow> json option \<Rightarrow> drift_state" where
  "drift_state_of local snapshot remote =
     (case (local, remote) of
        (None, _) \<Rightarrow> NotPulled
      | (Some _, None) \<Rightarrow> RemoteMissing
      | (Some local, Some remote) \<Rightarrow>
          (case snapshot of
             None \<Rightarrow> NoSnapshot (journey_content_equal local remote)
           | Some snapshot \<Rightarrow>
               (case (journey_content_equal local snapshot, journey_content_equal remote snapshot) of
                  (True, True) \<Rightarrow> InSync
                | (False, True) \<Rightarrow> LocallyModified
                | (True, False) \<Rightarrow> RemotelyModified
                | (False, False) \<Rightarrow> if journey_content_equal local remote then Converged else Conflict)))"

section \<open>The parts that differ\<close>

datatype part = PTree | PNode string "string option" "string option"

definition part_label :: "part \<Rightarrow> string" where
  "part_label p =
     (case p of
        PTree \<Rightarrow> ''tree''
      | PNode i node_type display_name \<Rightarrow>
          (let kind = (case node_type of None \<Rightarrow> ''node'' | Some t \<Rightarrow> t)
           in case display_name of
                Some name \<Rightarrow> kind @ '' '' @ i @ '' ('' @ name @ '')''
              | None \<Rightarrow> kind @ '' '' @ i))"

definition part_pointer :: "part \<Rightarrow> string" where
  "part_pointer p =
     (case p of PTree \<Rightarrow> ''/tree'' | PNode i _ _ \<Rightarrow> ''/nodes/'' @ pointer_segment i)"

definition node_meta :: "json list \<Rightarrow> string \<Rightarrow> string \<Rightarrow> string option" where
  "node_meta copies i key =
     find_map (\<lambda>copy.
       Option.bind (json_at copy [''tree'', ''nodes'']) (\<lambda>nodes.
       Option.bind (json_get nodes i) (\<lambda>meta. get_str meta key))) copies"

definition opt_equal :: "json option \<Rightarrow> json option \<Rightarrow> bool" where
  "opt_equal a b =
     (case (a, b) of (Some a, Some b) \<Rightarrow> journey_content_equal a b | (None, None) \<Rightarrow> True | _ \<Rightarrow> False)"

definition nodes_of :: "json \<Rightarrow> json_map" where
  "nodes_of copy = (case Option.bind (json_get copy ''nodes'') as_object of None \<Rightarrow> [] | Some m \<Rightarrow> m)"

definition same_node :: "json \<Rightarrow> json \<Rightarrow> string \<Rightarrow> bool" where
  "same_node l r i =
     (case (map_of (nodes_of l) i, map_of (nodes_of r) i) of
        (Some x, Some y) \<Rightarrow> journey_content_equal x y
      | _ \<Rightarrow> False)"

definition changed_parts :: "json \<Rightarrow> json \<Rightarrow> part list" where
  "changed_parts l r =
     (if opt_equal (json_get l ''tree'') (json_get r ''tree'') then [] else [PTree]) @
     map (\<lambda>i. PNode i (node_meta [l, r] i ''nodeType'') (node_meta [l, r] i ''displayName''))
       (filter (\<lambda>i. \<not> same_node l r i)
          (btree_set (map fst (nodes_of l) @ map fst (nodes_of r))))"

definition node_ids :: "json \<Rightarrow> string list" where
  "node_ids copy =
     (case Option.bind (json_at copy [''tree'', ''nodes'']) as_object of
        None \<Rightarrow> [] | Some m \<Rightarrow> btree_set (map fst m))"

definition missing_nodes :: "json \<Rightarrow> string list" where
  "missing_nodes copy =
     (let held = Option.bind (json_get copy ''nodes'') as_object
      in filter (\<lambda>i. \<not> (case held of None \<Rightarrow> False | Some m \<Rightarrow> map_of m i \<noteq> None)) (node_ids copy))"

definition shared_with :: "(string \<times> string list) list \<Rightarrow> string \<Rightarrow> part \<Rightarrow> string list" where
  "shared_with owners journey p =
     (case p of
        PTree \<Rightarrow> []
      | PNode i _ _ \<Rightarrow>
          (case map_of owners i of None \<Rightarrow> [] | Some names \<Rightarrow> filter (\<lambda>n. n \<noteq> journey) names))"

section \<open>Secrets\<close>

definition SECRET_WORDS :: "string list" where
  "SECRET_WORDS =
     [''password'', ''passphrase'', ''secret'', ''token'', ''credential'', ''privatekey'', ''apikey'',
      ''clientkey'', ''signingkey'', ''encryptionkey'', ''sharedkey'', ''hmac'']"

definition ends_with :: "string \<Rightarrow> string \<Rightarrow> bool" where
  "ends_with suf s = (take (length suf) (rev s) = rev suf)"

definition is_secret_key :: "string \<Rightarrow> bool" where
  "is_secret_key key =
     (let k = map ascii_lower (filter is_ascii_alphanumeric key)
      in list_ex (\<lambda>word. str_contains k word) SECRET_WORDS \<and>
         \<not> ends_with ''identifier'' k \<and> \<not> ends_with ''label'' k)"

definition HIDDEN :: string where
  "HIDDEN = ''<hidden>''"

fun redacted :: "json \<Rightarrow> json" where
  "redacted (JObj kvs) =
     JObj (map (\<lambda>(k, v). (k, if is_secret_key k \<and> v \<noteq> JNull then JStr HIDDEN else redacted v)) kvs)"
| "redacted (JArr vs) = JArr (map redacted vs)"
| "redacted v = v"

text \<open>\<open>str::split\<close> at a character, and \<open>str::replace\<close> of a two-character text.\<close>

fun split_at :: "char \<Rightarrow> string \<Rightarrow> string list" where
  "split_at c [] = [[]]"
| "split_at c (x # xs) =
     (if x = c then [] # split_at c xs
      else case split_at c xs of [] \<Rightarrow> [[x]] | y # ys \<Rightarrow> (x # y) # ys)"

fun replace_pair :: "char \<Rightarrow> char \<Rightarrow> char \<Rightarrow> string \<Rightarrow> string" where
  "replace_pair a b r (x # y # s) =
     (if x = a \<and> y = b then r # replace_pair a b r s else x # replace_pair a b r (y # s))"
| "replace_pair a b r s = s"

definition unescape_segment :: "string \<Rightarrow> string" where
  "unescape_segment s =
     replace_pair CHR ''~'' CHR ''0'' CHR ''~'' (replace_pair CHR ''~'' CHR ''1'' CHR ''/'' s)"

definition path_is_secret :: "string \<Rightarrow> bool" where
  "path_is_secret pointer =
     list_ex (\<lambda>s. is_secret_key (unescape_segment s)) (split_at CHR ''/'' pointer)"

record shown =
  sh_path :: string
  sh_left :: "json option"
  sh_right :: "json option"

definition hide :: "string \<Rightarrow> json option \<Rightarrow> json option" where
  "hide path v = map_option (\<lambda>v. if path_is_secret path then JStr HIDDEN else redacted v) v"

definition shown_changes :: "json \<Rightarrow> json \<Rightarrow> shown list" where
  "shown_changes l r =
     map (\<lambda>c. \<lparr>sh_path = ch_path c, sh_left = hide (ch_path c) (ch_left c),
              sh_right = hide (ch_path c) (ch_right c)\<rparr>)
       (changes (journey_strip_revs l) (journey_strip_revs r))"

end
