(* ===== verification/Pull_Guard.thy ===== *)
theory Pull_Guard
  imports Transport
begin

text \<open>
  What the commands that keep tenant resources as files share: the protected pull
  (\<open>src/src/pullguard.rs\<close>), backups of replaced files (\<open>src/src/backup.rs\<close>) and the prompt in front
  of an overwrite (\<open>src/src/cli/mod.rs\<close>).

  \<open>ws_env\<close> holds what is outside: the agent, the files, the clock's stamp, fresh UUIDs, serde and the
  prompt. Every call and every change of a file goes to the log; reads do not.
\<close>

section \<open>The outside\<close>

datatype read_error = NotThere | Unreadable string

datatype create_error = AlreadyThere | CannotCreate string

datatype confirm_error = PromptCancelled | PromptInterrupted | NotTty | PromptFailed string

record 'w ws_env =
  ws_agent :: "api_call \<Rightarrow> 'w \<Rightarrow> (error + response) \<times> 'w"
  ws_read :: "string \<Rightarrow> 'w \<Rightarrow> (read_error + string) \<times> 'w"
  ws_write :: "string \<Rightarrow> string \<Rightarrow> 'w \<Rightarrow> (string + unit) \<times> 'w"
  ws_make_dir :: "string \<Rightarrow> 'w \<Rightarrow> (string + unit) \<times> 'w"
  ws_create_new :: "string \<Rightarrow> string \<Rightarrow> 'w \<Rightarrow> (create_error + unit) \<times> 'w"
  ws_remove :: "string \<Rightarrow> 'w \<Rightarrow> (read_error + unit) \<times> 'w"
  ws_read_dir :: "string \<Rightarrow> 'w \<Rightarrow> (read_error + (string + string \<times> bool) list) \<times> 'w"
  ws_stamp :: "'w \<Rightarrow> string"
  ws_uuid :: "'w \<Rightarrow> string \<times> 'w"
  ws_turns :: nat
  ws_parse :: "string \<Rightarrow> string + json"
  ws_render :: "(string \<times> json) list \<Rightarrow> string"
  ws_prompt_available :: "'w \<Rightarrow> bool"
  ws_confirm :: "string \<Rightarrow> 'w \<Rightarrow> (confirm_error + bool) \<times> 'w"

datatype (plugins only: code size) ws_event =
    Sent api_call
  | Wrote string string
  | Created string string
  | Removed string
  | Confirmed string

datatype push_block =
    MissingSnapshot
  | RemoteDrift bool nat

datatype (plugins only: code size) ws_error =
    Call error
  | SeparatorIn string string
  | Unexpected string json
  | NodesUnread string "(string \<times> string \<times> ws_error) list"
  | FileFailed string string
  | BadExport string string
  | BadJson string string
  | NotPulledYet string
  | ChangedSince string
  | NeedsConfirmation string string
  | ConfirmFailed string string
  | EditsKept string
  | PushBlocked string push_block
  | ConfirmingReadFailed string nat ws_error
  | NeedsForce
  | NoCopy string string
  | NoJourneys string
  | NotCompared nat
  | NotAllMatch
  | CopiesDiffer string nat
  | OutOfTurns

type_synonym ('w, 'a) ws = "('w, ws_event, ws_error, 'a) io"

text \<open>\<open>ApiCall::send\<close>.\<close>

definition ws_send :: "'w ws_env \<Rightarrow> api_call \<Rightarrow> ('w, json) ws" where
  "ws_send env c =
     io_map_err Call (io_bind (io_call (Sent c) (ws_agent env c)) (\<lambda>resp. io_lift (decode_response resp)))"

text \<open>A file that is not there is \<open>None\<close>; any other failure of the read is an error.\<close>

definition read_optional :: "'w ws_env \<Rightarrow> string \<Rightarrow> ('w, string option) ws" where
  "read_optional env path =
     io_bind (io_try (io_look (ws_read env path))) (\<lambda>r.
       case r of
         Inr bytes \<Rightarrow> io_return (Some bytes)
       | Inl NotThere \<Rightarrow> io_return None
       | Inl (Unreadable e) \<Rightarrow> io_fail (FileFailed path e))"

text \<open>\<open>name.chars().any(is_separator)\<close>, on Unix.\<close>

definition has_separator :: "string \<Rightarrow> bool" where
  "has_separator s = (CHR ''/'' \<in> set s)"

definition write_bytes :: "'w ws_env \<Rightarrow> string \<Rightarrow> string \<Rightarrow> ('w, unit) ws" where
  "write_bytes env path bytes =
     io_map_err (FileFailed path) (io_call (Wrote path bytes) (ws_write env path bytes))"

section \<open>Backups\<close>

definition component :: "string \<Rightarrow> string" where
  "component s =
     (let encoded = map (\<lambda>c. if is_ascii_alphanumeric c \<or> c \<in> set ''-_.'' then c else CHR ''_'') s
      in if encoded = [] then ''_'' else encoded)"

definition GITIGNORE :: string where
  "GITIGNORE = ''*'' @ [CHR 0x0A] @ ''!.gitignore'' @ [CHR 0x0A]"

text \<open>An exclusive create that finds the name taken changes nothing and leaves no event.\<close>

definition create_new :: "'w ws_env \<Rightarrow> string \<Rightarrow> string \<Rightarrow> ('w, ws_event, create_error, unit) io" where
  "create_new env path bytes s =
     (case ws_create_new env path bytes (world s) of
        (Inl AlreadyThere, w') \<Rightarrow> (Inl AlreadyThere, s\<lparr>world := w'\<rparr>)
      | (r, w') \<Rightarrow> (r, s\<lparr>world := w', sent := sent s @ [Created path bytes]\<rparr>))"

definition ensure_untracked :: "'w ws_env \<Rightarrow> string \<Rightarrow> ('w, unit) ws" where
  "ensure_untracked env dir =
     (let path = path_join dir ''.gitignore'' in
      io_bind (io_try (create_new env path GITIGNORE)) (\<lambda>r.
        case r of
          Inr _ \<Rightarrow> io_return ()
        | Inl AlreadyThere \<Rightarrow> io_return ()
        | Inl (CannotCreate e) \<Rightarrow> io_fail (FileFailed path e)))"

definition backup_name :: "string \<Rightarrow> string \<Rightarrow> string \<Rightarrow> string \<Rightarrow> string \<Rightarrow> string" where
  "backup_name dir identity stamp extension fresh =
     path_join dir (identity @ ''.'' @ stamp @ ''.'' @ fresh @ ''.'' @ component extension)"

text \<open>The loop over fresh names: another turn only when a name is taken. Its turns are fuel.\<close>

fun backup_loop ::
  "nat \<Rightarrow> 'w ws_env \<Rightarrow> string \<Rightarrow> string \<Rightarrow> string \<Rightarrow> string \<Rightarrow> string \<Rightarrow> ('w, string) ws" where
  "backup_loop 0 env dir identity stamp extension bytes = io_fail OutOfTurns"
| "backup_loop (Suc n) env dir identity stamp extension bytes =
     io_bind (io_look (\<lambda>w. case ws_uuid env w of (u, w') \<Rightarrow> (Inr u, w'))) (\<lambda>u.
     let path = backup_name dir identity stamp extension u in
     io_bind (io_try (create_new env path bytes)) (\<lambda>r.
       case r of
         Inr _ \<Rightarrow> io_return path
       | Inl AlreadyThere \<Rightarrow> backup_loop n env dir identity stamp extension bytes
       | Inl (CannotCreate e) \<Rightarrow> io_fail (FileFailed path e)))"

definition create_at ::
  "'w ws_env \<Rightarrow> string \<Rightarrow> string \<Rightarrow> string \<Rightarrow> string \<Rightarrow> string \<Rightarrow> string \<Rightarrow> string \<Rightarrow> ('w, string) ws" where
  "create_at env dir kind realm name extension bytes stamp =
     io_bind (io_map_err (FileFailed dir) (io_look (ws_make_dir env dir))) (\<lambda>_.
     io_bind (ensure_untracked env dir) (\<lambda>_.
       backup_loop (ws_turns env) env dir
         (component kind @ ''.'' @ component realm @ ''.'' @ component name) stamp extension bytes))"

definition create_in ::
  "'w ws_env \<Rightarrow> string \<Rightarrow> string \<Rightarrow> string \<Rightarrow> string \<Rightarrow> string \<Rightarrow> string \<Rightarrow> ('w, string) ws" where
  "create_in env dir kind realm name extension bytes =
     io_bind (io_look (\<lambda>w. (Inr (ws_stamp env w), w))) (\<lambda>stamp.
       create_at env dir kind realm name extension bytes stamp)"

section \<open>Whether a pull may overwrite\<close>

datatype pull_decision = Install | Unchanged | Protected

definition pull_decide ::
  "string option \<Rightarrow> json \<Rightarrow> string option \<Rightarrow> (string \<Rightarrow> json option) \<Rightarrow> (json \<Rightarrow> json \<Rightarrow> bool) \<Rightarrow>
   pull_decision" where
  "pull_decide local remote snapshot normal same =
     (case local of
        None \<Rightarrow> Install
      | Some local_bytes \<Rightarrow>
          (case normal local_bytes of
             None \<Rightarrow> Protected
           | Some local \<Rightarrow>
               if same local remote then Unchanged
               else (case Option.bind snapshot normal of
                       Some snapshot \<Rightarrow> if same local snapshot then Install else Protected
                     | None \<Rightarrow> Protected)))"

definition needs_consent :: "pull_decision \<Rightarrow> bool \<Rightarrow> bool" where
  "needs_consent decision operation_force = (decision = Protected \<and> \<not> operation_force)"

definition protected_pull_prompt :: "string \<Rightarrow> bool \<Rightarrow> string" where
  "protected_pull_prompt reference skip_backup =
     reference @ '' has local edits; overwrite them? '' @
     (if skip_backup then ''No backup will be created because --force=backup was supplied.''
      else ''Original bytes will be backed up under .aic-sync/backups/.'')"

definition confirm_destructive :: "'w ws_env \<Rightarrow> string \<Rightarrow> string \<Rightarrow> string \<Rightarrow> ('w, bool) ws" where
  "confirm_destructive env subject prompt escape_flag =
     io_bind (io_look (\<lambda>w. (Inr (ws_prompt_available env w), w))) (\<lambda>terminal.
       if \<not> terminal then io_fail (NeedsConfirmation subject escape_flag)
       else
         io_bind (io_try (io_call (Confirmed prompt) (ws_confirm env prompt))) (\<lambda>r.
           case r of
             Inr answer \<Rightarrow> io_return answer
           | Inl PromptCancelled \<Rightarrow> io_return False
           | Inl PromptInterrupted \<Rightarrow> io_return False
           | Inl NotTty \<Rightarrow> io_fail (NeedsConfirmation subject escape_flag)
           | Inl (PromptFailed e) \<Rightarrow> io_fail (ConfirmFailed subject e)))"

section \<open>The contract of the decision\<close>

text \<open>
  What a resource kind brings to a protected pull: a normaliser and a comparison that is an
  equivalence. Then a file is overwritten without consent only when nothing of the operator's is
  lost: it is not there, it says what the tenant says, or what was synced last.
\<close>

locale protected_pull =
  fixes normal :: "string \<Rightarrow> json option"
    and same :: "json \<Rightarrow> json \<Rightarrow> bool"
  assumes same_refl: "same a a"
    and same_sym: "same a b \<Longrightarrow> same b a"
    and same_trans: "same a b \<Longrightarrow> same b c \<Longrightarrow> same a c"
begin

lemma unprotected_iff:
  "pull_decide local remote snapshot normal same \<noteq> Protected \<longleftrightarrow>
   (case local of
      None \<Rightarrow> True
    | Some bytes \<Rightarrow>
        (\<exists>v. normal bytes = Some v \<and>
           (same v remote \<or> (\<exists>b u. snapshot = Some b \<and> normal b = Some u \<and> same v u))))"
  by (cases snapshot) (auto simp: pull_decide_def split: option.splits)

lemma unchanged_iff:
  "pull_decide local remote snapshot normal same = Unchanged \<longleftrightarrow>
   (\<exists>bytes v. local = Some bytes \<and> normal bytes = Some v \<and> same v remote)"
  by (auto simp: pull_decide_def split: option.splits if_splits)

text \<open>The decision does not change when the tenant's answer is one that compares the same.\<close>

lemma decide_respects:
  assumes "same remote remote'"
  shows "pull_decide local remote snapshot normal same = pull_decide local remote' snapshot normal same"
proof -
  have "same v remote \<longleftrightarrow> same v remote'" for v
    using assms same_sym same_trans by blast
  then show ?thesis by (simp add: pull_decide_def cong: option.case_cong)
qed

text \<open>After the tenant's copy was installed as file and as snapshot, a second pull changes nothing.\<close>

lemma installed_is_unchanged:
  assumes "normal bytes = Some v" and "same v remote"
  shows "pull_decide (Some bytes) remote snapshot normal same = Unchanged"
  using assms by (simp add: pull_decide_def)

end

end
