(* ===== verification/Journey.thy ===== *)
theory Journey
  imports Drift Pull_Guard
begin

text \<open>
  Journeys (authentication trees) as files: reading a tree with its nodes and writing it back
  (\<open>src/src/journey/api.rs\<close>), and the commands that keep an export and a snapshot of it in the
  workspace (\<open>src/src/journey/cli.rs\<close>). The tenant is the resolved entry of the configuration; what a
  command prints is not modelled, except that \<open>status\<close> and \<open>diff\<close> return what they print.
\<close>

section \<open>Paths\<close>

definition JOURNEY_API_VERSION :: string where
  "JOURNEY_API_VERSION = ''protocol=2.0,resource=1.0''"

definition versioned_call :: "string \<Rightarrow> string \<Rightarrow> string \<Rightarrow> json option \<Rightarrow> bool \<Rightarrow> api_call" where
  "versioned_call tenant verb path body confirmed =
     (let c = with_api_version JOURNEY_API_VERSION (with_confirmed_prod confirmed (new_call tenant verb path))
      in case body of None \<Rightarrow> c | Some b \<Rightarrow> with_body b c)"

definition read_action_call :: "string \<Rightarrow> string \<Rightarrow> api_call" where
  "read_action_call tenant path =
     with_body (JObj []) (with_api_version JOURNEY_API_VERSION (read_only_action tenant path))"

definition am_realm_path :: "string \<Rightarrow> string" where
  "am_realm_path realm = ''/am/json/realms/root/realms/'' @ realm"

definition trees_path :: "string \<Rightarrow> string" where
  "trees_path realm = am_realm_path realm @ ''/realm-config/authentication/authenticationtrees''"

definition nodes_path :: "string \<Rightarrow> string" where
  "nodes_path realm = trees_path realm @ ''/nodes''"

definition validate_node_type :: "string \<Rightarrow> ws_error + unit" where
  "validate_node_type t = (if has_separator t then Inl (SeparatorIn ''journey node type'' t) else Inr ())"

definition tree_path :: "string \<Rightarrow> string \<Rightarrow> string" where
  "tree_path realm name = trees_path realm @ ''/trees/'' @ name"

definition node_path :: "string \<Rightarrow> string \<Rightarrow> string \<Rightarrow> string" where
  "node_path realm node_type node_id = nodes_path realm @ ''/'' @ node_type @ ''/'' @ node_id"

section \<open>Exports\<close>

record journey_export =
  je_tree :: json
  je_nodes :: json_map

text \<open>\<open>serde_json::to_value\<close> of an export, and the file it is written as.\<close>

definition export_value :: "journey_export \<Rightarrow> json" where
  "export_value e = JObj [(''nodes'', JObj (je_nodes e)), (''tree'', je_tree e)]"

definition export_bytes :: "'w ws_env \<Rightarrow> journey_export \<Rightarrow> string" where
  "export_bytes env e = ws_render env [(''tree'', je_tree e), (''nodes'', JObj (je_nodes e))]"

definition is_object :: "json \<Rightarrow> bool" where
  "is_object v = (as_object v \<noteq> None)"

definition parse_export_value :: "json \<Rightarrow> string \<Rightarrow> ws_error + journey_export" where
  "parse_export_value v lbl =
     (if \<not> is_object v then Inl (BadExport lbl ''top-level value is not an object'')
      else case json_get v ''tree'' of
             None \<Rightarrow> Inl (BadExport lbl ''missing `tree`'')
           | Some tree \<Rightarrow>
               if \<not> is_object tree then Inl (BadExport lbl ''`tree` is not an object'')
               else (case Option.bind (json_get v ''nodes'') as_object of
                       None \<Rightarrow> Inl (BadExport lbl ''`nodes` is not an object'')
                     | Some nodes \<Rightarrow> Inr \<lparr>je_tree = tree, je_nodes = nodes\<rparr>))"

definition strip_server_fields :: "json \<Rightarrow> json" where
  "strip_server_fields v =
     (case v of
        JObj kvs \<Rightarrow> JObj (filter (\<lambda>(k, _). \<not> (k = ''_id'' \<or> k = ''_rev'')) kvs)
      | _ \<Rightarrow> v)"

section \<open>The tenant's copy\<close>

definition tree_node_refs :: "json \<Rightarrow> ws_error + (string \<times> string) list" where
  "tree_node_refs tree =
     (case Option.bind (json_get tree ''nodes'') as_object of
        None \<Rightarrow> Inl (Unexpected ''journey tree has no `nodes` object'' tree)
      | Some nodes \<Rightarrow>
          res_mapM (\<lambda>(i, meta).
            case get_str meta ''nodeType'' of
              None \<Rightarrow> Inl (Unexpected (''no string `nodeType`: '' @ i) meta)
            | Some t \<Rightarrow> Inr (i, t)) nodes)"

definition read_tree :: "'w ws_env \<Rightarrow> string \<Rightarrow> string \<Rightarrow> string \<Rightarrow> ('w, json) ws" where
  "read_tree env tenant realm name =
     ws_send env (with_api_version JOURNEY_API_VERSION (new_call tenant ''GET'' (tree_path realm name)))"

definition upsert_tree ::
  "'w ws_env \<Rightarrow> string \<Rightarrow> string \<Rightarrow> string \<Rightarrow> json \<Rightarrow> bool \<Rightarrow> ('w, json) ws" where
  "upsert_tree env tenant realm name body confirmed =
     ws_send env (versioned_call tenant ''PUT'' (tree_path realm name)
       (Some (strip_server_fields body)) confirmed)"

definition read_journey_node ::
  "'w ws_env \<Rightarrow> string \<Rightarrow> string \<Rightarrow> string \<Rightarrow> string \<Rightarrow> ('w, json) ws" where
  "read_journey_node env tenant realm node_type node_id =
     io_bind (io_lift (validate_node_type node_type)) (\<lambda>_.
       ws_send env (with_api_version JOURNEY_API_VERSION
         (new_call tenant ''GET'' (node_path realm node_type node_id))))"

definition upsert_node ::
  "'w ws_env \<Rightarrow> string \<Rightarrow> string \<Rightarrow> string \<Rightarrow> string \<Rightarrow> json \<Rightarrow> bool \<Rightarrow> ('w, json) ws" where
  "upsert_node env tenant realm node_type node_id body confirmed =
     io_bind (io_lift (validate_node_type node_type)) (\<lambda>_.
       ws_send env (versioned_call tenant ''PUT'' (node_path realm node_type node_id)
         (Some (strip_server_fields body)) confirmed))"

definition delete_tree :: "'w ws_env \<Rightarrow> string \<Rightarrow> string \<Rightarrow> string \<Rightarrow> bool \<Rightarrow> ('w, unit) ws" where
  "delete_tree env tenant realm name confirmed =
     io_bind (ws_send env (versioned_call tenant ''DELETE'' (tree_path realm name) None confirmed)) (\<lambda>_.
       io_return ())"

definition list_trees :: "'w ws_env \<Rightarrow> string \<Rightarrow> string \<Rightarrow> ('w, string list) ws" where
  "list_trees env tenant realm =
     io_bind (ws_send env (with_api_version JOURNEY_API_VERSION
       (new_call tenant ''GET'' (trees_path realm @ ''/trees?_queryFilter=true&_pageSize=1000'')))) (\<lambda>body.
     case get_array body ''result'' of
       None \<Rightarrow> io_fail (Unexpected ''unexpected journey list shape'' body)
     | Some items \<Rightarrow>
         io_return (sort (concat (map (\<lambda>t. case get_str t ''_id'' of None \<Rightarrow> [] | Some i \<Rightarrow> [i]) items))))"

definition api_not_found :: "ws_error \<Rightarrow> bool" where
  "api_not_found e = (case e of Call (Api status _) \<Rightarrow> status = 404 | _ \<Rightarrow> False)"

text \<open>Each node the tree lists: a 404 leaves it out, any other failure is remembered.\<close>

fun read_nodes ::
  "(string \<Rightarrow> string \<Rightarrow> ('w, json) ws) \<Rightarrow> (string \<times> string) list \<Rightarrow> json_map \<Rightarrow>
   (string \<times> string \<times> ws_error) list \<Rightarrow> ('w, json_map \<times> (string \<times> string \<times> ws_error) list) ws" where
  "read_nodes fetch [] nodes unread = io_return (nodes, unread)"
| "read_nodes fetch ((i, t) # refs) nodes unread =
     io_bind (io_try (fetch t i)) (\<lambda>r.
       case r of
         Inr node \<Rightarrow> read_nodes fetch refs (obj_insert i node nodes) unread
       | Inl e \<Rightarrow>
           if api_not_found e then read_nodes fetch refs nodes unread
           else read_nodes fetch refs nodes (unread @ [(t, i, e)]))"

definition assemble_export_with ::
  "json \<Rightarrow> (string \<Rightarrow> string \<Rightarrow> ('w, json) ws) \<Rightarrow> ('w, journey_export) ws" where
  "assemble_export_with tree fetch =
     io_bind (io_lift (tree_node_refs tree)) (\<lambda>refs.
     io_bind (read_nodes fetch refs [] []) (\<lambda>(nodes, unread).
       if unread \<noteq> [] then
         io_fail (NodesUnread (case get_str tree ''_id'' of None \<Rightarrow> ''?'' | Some n \<Rightarrow> n) unread)
       else io_return \<lparr>je_tree = tree, je_nodes = nodes\<rparr>))"

definition api_pull :: "'w ws_env \<Rightarrow> string \<Rightarrow> string \<Rightarrow> string \<Rightarrow> ('w, journey_export) ws" where
  "api_pull env tenant realm name =
     io_bind (read_tree env tenant realm name) (\<lambda>tree.
       assemble_export_with tree (\<lambda>t i. read_journey_node env tenant realm t i))"

text \<open>The nodes first, in the tree's order; a listed node the export lacks is skipped. The tree last.\<close>

fun push_nodes ::
  "'w ws_env \<Rightarrow> string \<Rightarrow> string \<Rightarrow> json_map \<Rightarrow> bool \<Rightarrow> (string \<times> string) list \<Rightarrow> nat \<Rightarrow> ('w, nat) ws" where
  "push_nodes env tenant realm nodes confirmed [] pushed = io_return pushed"
| "push_nodes env tenant realm nodes confirmed ((i, t) # refs) pushed =
     (case map_of nodes i of
        None \<Rightarrow> push_nodes env tenant realm nodes confirmed refs pushed
      | Some node \<Rightarrow>
          io_bind (upsert_node env tenant realm t i node confirmed) (\<lambda>_.
            push_nodes env tenant realm nodes confirmed refs (Suc pushed)))"

definition api_push ::
  "'w ws_env \<Rightarrow> string \<Rightarrow> string \<Rightarrow> string \<Rightarrow> journey_export \<Rightarrow> bool \<Rightarrow> ('w, nat) ws" where
  "api_push env tenant realm name e confirmed =
     io_bind (io_lift (tree_node_refs (je_tree e))) (\<lambda>refs.
     io_bind (push_nodes env tenant realm (je_nodes e) confirmed refs 0) (\<lambda>pushed.
     io_bind (upsert_tree env tenant realm name (je_tree e) confirmed) (\<lambda>_.
       io_return pushed)))"

section \<open>Whether to push\<close>

datatype push_decision = PushIt | Blocked push_block | NothingToDo

definition changed_nodes :: "json \<Rightarrow> json \<Rightarrow> nat" where
  "changed_nodes remote snapshot =
     length (filter (\<lambda>i. \<not> opt_equal (map_of (nodes_of remote) i) (map_of (nodes_of snapshot) i))
       (btree_set (map fst (nodes_of remote) @ map fst (nodes_of snapshot))))"

definition remote_drift_reason :: "json \<Rightarrow> json \<Rightarrow> push_block" where
  "remote_drift_reason remote snapshot =
     RemoteDrift (\<not> opt_equal (json_get remote ''tree'') (json_get snapshot ''tree''))
       (changed_nodes remote snapshot)"

definition push_decision_of :: "json \<Rightarrow> json \<Rightarrow> json option \<Rightarrow> bool \<Rightarrow> push_decision" where
  "push_decision_of local remote snapshot force =
     (if journey_content_equal local remote then NothingToDo
      else case snapshot of
             None \<Rightarrow> if force then PushIt else Blocked MissingSnapshot
           | Some snapshot \<Rightarrow>
               if journey_content_equal remote snapshot \<or> force then PushIt
               else Blocked (remote_drift_reason remote snapshot))"

section \<open>Files\<close>

definition validate_journey_name :: "string \<Rightarrow> ws_error + unit" where
  "validate_journey_name n = (if has_separator n then Inl (SeparatorIn ''journey name'' n) else Inr ())"

definition journeys_dir :: "string \<Rightarrow> string \<Rightarrow> string \<Rightarrow> string" where
  "journeys_dir proj tenant realm =
     path_join (path_join (path_join (path_join proj ''workspace'') tenant) ''journeys'') realm"

definition journey_export_path :: "string \<Rightarrow> string \<Rightarrow> string \<Rightarrow> string \<Rightarrow> ws_error + string" where
  "journey_export_path proj tenant realm name =
     res_bind (validate_journey_name name) (\<lambda>_.
       Inr (path_join (journeys_dir proj tenant realm) (name @ ''.json'')))"

definition journey_snapshot_path :: "string \<Rightarrow> string \<Rightarrow> string \<Rightarrow> string \<Rightarrow> ws_error + string" where
  "journey_snapshot_path proj tenant realm name =
     res_bind (validate_journey_name name) (\<lambda>_.
       Inr (path_join (path_join (journeys_dir proj tenant realm) ''.snapshots'') (name @ ''.json'')))"

definition backups_path :: "string \<Rightarrow> string \<Rightarrow> string" where
  "backups_path proj tenant =
     path_join (path_join (path_join (path_join proj ''workspace'') tenant) ''.aic-sync'') ''backups''"

definition write_snapshot ::
  "'w ws_env \<Rightarrow> string \<Rightarrow> string \<Rightarrow> string \<Rightarrow> string \<Rightarrow> journey_export \<Rightarrow> ('w, unit) ws" where
  "write_snapshot env proj tenant realm name e =
     io_bind (io_lift (journey_snapshot_path proj tenant realm name)) (\<lambda>path.
       write_bytes env path (export_bytes env e))"

definition parse_export_bytes :: "'w ws_env \<Rightarrow> string \<Rightarrow> string \<Rightarrow> ws_error + journey_export" where
  "parse_export_bytes env path bytes =
     res_bind (map_err (BadJson path) (ws_parse env bytes)) (\<lambda>v. parse_export_value v path)"

definition read_export :: "'w ws_env \<Rightarrow> string \<Rightarrow> string \<Rightarrow> ('w, journey_export \<times> json) ws" where
  "read_export env path name =
     io_bind (read_optional env path) (\<lambda>found.
       case found of
         None \<Rightarrow> io_fail (NotPulledYet name)
       | Some bytes \<Rightarrow>
           io_bind (io_lift (parse_export_bytes env path bytes)) (\<lambda>e. io_return (e, export_value e)))"

text \<open>\<open>read_snapshot\<close> and \<open>read_local_value\<close>, which differ in the words of their errors.\<close>

definition read_copy :: "'w ws_env \<Rightarrow> string \<Rightarrow> ('w, json option) ws" where
  "read_copy env path =
     io_bind (read_optional env path) (\<lambda>found.
       case found of
         None \<Rightarrow> io_return None
       | Some bytes \<Rightarrow>
           io_bind (io_lift (parse_export_bytes env path bytes)) (\<lambda>e.
             io_return (Some (export_value e))))"

definition pull_json :: "'w ws_env \<Rightarrow> string \<Rightarrow> json option" where
  "pull_json env bytes =
     (case ws_parse env bytes of
        Inl _ \<Rightarrow> None
      | Inr v \<Rightarrow>
          (case parse_export_value v ''pull preflight'' of
             Inl _ \<Rightarrow> None
           | Inr e \<Rightarrow> Some (export_value e)))"

definition journey_pull_decision ::
  "'w ws_env \<Rightarrow> string option \<Rightarrow> json \<Rightarrow> string option \<Rightarrow> pull_decision" where
  "journey_pull_decision env local remote snapshot =
     pull_decide local remote snapshot (pull_json env) journey_content_equal"

section \<open>Pull\<close>

definition install_pull_at ::
  "'w ws_env \<Rightarrow> string \<Rightarrow> string \<Rightarrow> string \<Rightarrow> string \<Rightarrow> string \<Rightarrow> journey_export \<Rightarrow> string option \<Rightarrow>
   pull_decision \<Rightarrow> bool \<Rightarrow> ('w, string option) ws" where
  "install_pull_at env path snapshot backup_dir realm name e preflight_local decision skip_backup =
     io_bind (read_optional env path) (\<lambda>local.
     if local \<noteq> preflight_local then io_fail (ChangedSince name)
     else
       let bytes = export_bytes env e in
       io_bind
         (case local of
            Some original \<Rightarrow>
              if decision \<noteq> Unchanged \<and> \<not> skip_backup
              then io_bind (create_in env backup_dir ''journey'' realm name ''json'' original)
                     (\<lambda>p. io_return (Some p))
              else io_return None
          | None \<Rightarrow> io_return None) (\<lambda>backup.
       io_bind (if decision \<noteq> Unchanged then write_bytes env path bytes else io_return ()) (\<lambda>_.
       io_bind (write_bytes env snapshot bytes) (\<lambda>_.
         io_return backup))))"

text \<open>The consent in front of an overwrite: asked only when it is needed.\<close>

definition pull_consent ::
  "'w ws_env \<Rightarrow> string \<Rightarrow> pull_decision \<Rightarrow> bool \<Rightarrow> bool \<Rightarrow> ('w, unit) ws" where
  "pull_consent env name decision force_op skip_backup =
     (if needs_consent decision force_op then
        io_bind (confirm_destructive env ''journey pull overwrite''
            (protected_pull_prompt (''journey '' @ name) skip_backup) ''--force'') (\<lambda>yes.
          if yes then io_return () else io_fail (EditsKept name))
      else io_return ())"

definition journey_pull ::
  "'w ws_env \<Rightarrow> string \<Rightarrow> tenant \<Rightarrow> string \<Rightarrow> string \<Rightarrow> bool \<Rightarrow> bool \<Rightarrow> ('w, string option) ws" where
  "journey_pull env proj t realm name force_op skip_backup =
     io_bind (io_lift (journey_export_path proj (ten_name t) realm name)) (\<lambda>path.
     io_bind (io_lift (journey_snapshot_path proj (ten_name t) realm name)) (\<lambda>snapshot.
     io_bind (api_pull env (ten_name t) realm name) (\<lambda>e.
     io_bind (read_optional env path) (\<lambda>local.
     io_bind (read_optional env snapshot) (\<lambda>synced.
     let decision = journey_pull_decision env local (export_value e) synced in
     io_bind (pull_consent env name decision force_op skip_backup) (\<lambda>_.
       install_pull_at env path snapshot (backups_path proj (ten_name t)) realm name e local decision
         skip_backup))))))"

section \<open>Push and delete\<close>

datatype push_result = AlreadyMatches nat | PushedNodes nat

text \<open>The tenant's copy, or none on a 404 for the tree.\<close>

definition read_remote ::
  "'w ws_env \<Rightarrow> string \<Rightarrow> string \<Rightarrow> string \<Rightarrow> ('w, journey_export option) ws" where
  "read_remote env tenant realm name =
     io_bind (io_try (api_pull env tenant realm name)) (\<lambda>r.
       case r of
         Inr e \<Rightarrow> io_return (Some e)
       | Inl err \<Rightarrow> if api_not_found err then io_return None else io_fail err)"

definition remote_value :: "journey_export option \<Rightarrow> json" where
  "remote_value r = (case r of None \<Rightarrow> JNull | Some e \<Rightarrow> export_value e)"

definition ws_prod_gate :: "tenant \<Rightarrow> bool \<Rightarrow> ('w, bool) ws" where
  "ws_prod_gate t yes = io_lift (map_err Call (prod_write_ok (ten_theme t) yes))"

definition journey_push ::
  "'w ws_env \<Rightarrow> string \<Rightarrow> tenant \<Rightarrow> string \<Rightarrow> string \<Rightarrow> bool \<Rightarrow> bool \<Rightarrow> ('w, push_result) ws" where
  "journey_push env proj t realm name force yes =
     io_bind (ws_prod_gate t yes) (\<lambda>confirmed.
     io_bind (io_lift (journey_export_path proj (ten_name t) realm name)) (\<lambda>path.
     io_bind (io_lift (journey_snapshot_path proj (ten_name t) realm name)) (\<lambda>snapshot.
     io_bind (read_export env path name) (\<lambda>(local_export, local_value).
     io_bind (read_remote env (ten_name t) realm name) (\<lambda>remote.
     io_bind (read_copy env snapshot) (\<lambda>synced.
     case push_decision_of local_value (remote_value remote) synced force of
       NothingToDo \<Rightarrow>
         io_bind (case remote of
             Some e \<Rightarrow> write_snapshot env proj (ten_name t) realm name e
           | None \<Rightarrow> io_return ()) (\<lambda>_.
           io_return (AlreadyMatches (length (je_nodes local_export))))
     | Blocked reason \<Rightarrow> io_fail (PushBlocked name reason)
     | PushIt \<Rightarrow>
         io_bind (api_push env (ten_name t) realm name local_export confirmed) (\<lambda>pushed.
         io_bind (io_map_err (ConfirmingReadFailed name pushed) (api_pull env (ten_name t) realm name))
           (\<lambda>refreshed.
         io_bind (write_snapshot env proj (ten_name t) realm name refreshed) (\<lambda>_.
           io_return (PushedNodes pushed))))))))))"

definition remove_snapshot_if_present ::
  "'w ws_env \<Rightarrow> string \<Rightarrow> string \<Rightarrow> string \<Rightarrow> string \<Rightarrow> ('w, unit) ws" where
  "remove_snapshot_if_present env proj tenant realm name =
     io_bind (io_lift (journey_snapshot_path proj tenant realm name)) (\<lambda>path.
     io_bind (io_try (io_call (Removed path) (ws_remove env path))) (\<lambda>r.
       case r of
         Inr _ \<Rightarrow> io_return ()
       | Inl NotThere \<Rightarrow> io_return ()
       | Inl (Unreadable e) \<Rightarrow> io_fail (FileFailed path e)))"

definition journey_delete ::
  "'w ws_env \<Rightarrow> string \<Rightarrow> tenant \<Rightarrow> string \<Rightarrow> string \<Rightarrow> bool \<Rightarrow> bool \<Rightarrow> ('w, unit) ws" where
  "journey_delete env proj t realm name force yes =
     io_bind (ws_prod_gate t yes) (\<lambda>confirmed.
       if \<not> force then io_fail NeedsForce
       else
         io_bind (delete_tree env (ten_name t) realm name confirmed) (\<lambda>_.
           remove_snapshot_if_present env proj (ten_name t) realm name))"

section \<open>Status\<close>

text \<open>\<open>Path::extension\<close> and \<open>file_stem\<close> of a name with the extension \<open>json\<close>.\<close>

definition json_stem :: "string \<Rightarrow> string option" where
  "json_stem n =
     (case rsplit_once CHR ''.'' n of
        Some (stem, ext) \<Rightarrow> if stem \<noteq> [] \<and> ext = ''json'' then Some stem else None
      | None \<Rightarrow> None)"

definition listed_names :: "'w ws_env \<Rightarrow> string \<Rightarrow> ('w, string list) ws" where
  "listed_names env dir =
     io_bind (io_try (io_look (ws_read_dir env dir))) (\<lambda>r.
       case r of
         Inl NotThere \<Rightarrow> io_return []
       | Inl (Unreadable e) \<Rightarrow> io_fail (FileFailed dir e)
       | Inr entries \<Rightarrow>
           io_bind (io_lift (map_err (FileFailed dir) (res_mapM (\<lambda>x. x) entries))) (\<lambda>entries.
             io_return (concat (map (\<lambda>(n, is_file).
               case (is_file, json_stem n) of (True, Some stem) \<Rightarrow> [stem] | _ \<Rightarrow> []) entries))))"

definition workspace_journeys :: "'w ws_env \<Rightarrow> string \<Rightarrow> string \<Rightarrow> string \<Rightarrow> ('w, string list) ws" where
  "workspace_journeys env proj tenant realm =
     (let dir = journeys_dir proj tenant realm in
      io_bind (listed_names env dir) (\<lambda>here.
      io_bind (listed_names env (path_join dir ''.snapshots'')) (\<lambda>synced.
        io_return (btree_set (here @ synced)))))"

fun add_owner :: "string \<Rightarrow> string \<Rightarrow> (string \<times> string list) list \<Rightarrow> (string \<times> string list) list" where
  "add_owner name i [] = [(i, [name])]"
| "add_owner name i ((j, ns) # rest) =
     (if i = j then (j, ns @ [name]) # rest else (j, ns) # add_owner name i rest)"

fun read_owners ::
  "'w ws_env \<Rightarrow> string \<Rightarrow> string \<Rightarrow> string list \<Rightarrow> (string \<times> string list) list \<Rightarrow> string list \<Rightarrow>
   ('w, (string \<times> string list) list \<times> string list) ws" where
  "read_owners env tenant realm [] owners unread = io_return (owners, unread)"
| "read_owners env tenant realm (n # ns) owners unread =
     io_bind (io_try (read_tree env tenant realm n)) (\<lambda>r.
       case r of
         Inr tree \<Rightarrow>
           read_owners env tenant realm ns
             (fold (add_owner n) (node_ids (JObj [(''tree'', tree)])) owners) unread
       | Inl _ \<Rightarrow> read_owners env tenant realm ns owners (unread @ [n]))"

definition node_owners ::
  "'w ws_env \<Rightarrow> string \<Rightarrow> string \<Rightarrow> ('w, (string \<times> string list) list \<times> string list) ws" where
  "node_owners env tenant realm =
     io_bind (list_trees env tenant realm) (\<lambda>names. read_owners env tenant realm names [] [])"

record journey_row =
  jr_name :: string
  jr_state :: "drift_state option"
  jr_local :: "part list"
  jr_remote :: "part list"
  jr_problems :: "ws_error list"
  jr_notes :: "(string \<times> string list) list"

definition missing_note :: "string \<Rightarrow> json option \<Rightarrow> (string \<times> string list) list" where
  "missing_note side copy =
     (case copy of
        None \<Rightarrow> []
      | Some c \<Rightarrow> let missing = missing_nodes c in if missing = [] then [] else [(side, missing)])"

definition parts_between :: "json option \<Rightarrow> json option \<Rightarrow> part list" where
  "parts_between a b = (case (a, b) of (Some a, Some b) \<Rightarrow> changed_parts a b | _ \<Rightarrow> [])"

definition status_row ::
  "'w ws_env \<Rightarrow> string \<Rightarrow> string \<Rightarrow> string \<Rightarrow> string \<Rightarrow> ('w, journey_row) ws" where
  "status_row env proj tenant realm name =
     io_bind (io_lift (journey_export_path proj tenant realm name)) (\<lambda>path.
     io_bind (read_copy env path) (\<lambda>local.
     io_bind (io_lift (journey_snapshot_path proj tenant realm name)) (\<lambda>spath.
     io_bind (read_copy env spath) (\<lambda>snapshot.
     io_bind (io_try (read_remote env tenant realm name)) (\<lambda>r.
     let remote = (case r of Inr e \<Rightarrow> map_option export_value e | Inl _ \<Rightarrow> None);
         notes = missing_note ''local export'' local @ missing_note ''snapshot'' snapshot @
                 missing_note ''tenant copy'' remote
     in case r of
          Inl e \<Rightarrow>
            io_return \<lparr>jr_name = name, jr_state = None, jr_local = [], jr_remote = [],
                       jr_problems = [e], jr_notes = notes\<rparr>
        | Inr _ \<Rightarrow>
            io_return \<lparr>jr_name = name, jr_state = Some (drift_state_of local snapshot remote),
                       jr_local = parts_between local snapshot, jr_remote = parts_between snapshot remote,
                       jr_problems = [], jr_notes = notes\<rparr>)))))"

definition is_node_part :: "part \<Rightarrow> bool" where
  "is_node_part p = (case p of PNode _ _ _ \<Rightarrow> True | PTree \<Rightarrow> False)"

record status_report =
  sr_rows :: "journey_row list"
  sr_owners :: "(string \<times> string list) list"
  sr_unread :: "string list"

definition rows_match :: "journey_row list \<Rightarrow> bool" where
  "rows_match rows =
     list_all (\<lambda>r. case jr_state r of Some s \<Rightarrow> matches_tenant s | None \<Rightarrow> False) rows"

definition status_verdict :: "bool \<Rightarrow> status_report \<Rightarrow> ws_error + status_report" where
  "status_verdict check report =
     (let uncompared = length (filter (\<lambda>r. jr_state r = None) (sr_rows report)) in
      if uncompared > 0 then Inl (NotCompared uncompared)
      else if check \<and> \<not> rows_match (sr_rows report) then Inl NotAllMatch
      else Inr report)"

definition journey_status ::
  "'w ws_env \<Rightarrow> string \<Rightarrow> tenant \<Rightarrow> string \<Rightarrow> string list \<Rightarrow> bool \<Rightarrow> ('w, status_report) ws" where
  "journey_status env proj t realm given check =
     io_bind (if given = [] then workspace_journeys env proj (ten_name t) realm else io_return given)
       (\<lambda>names.
     if names = [] then io_fail (NoJourneys realm)
     else
       io_bind (io_mapM (status_row env proj (ten_name t) realm) names) (\<lambda>rows.
       io_bind
         (if list_ex (\<lambda>r. list_ex is_node_part (jr_local r @ jr_remote r)) rows
          then node_owners env (ten_name t) realm else io_return ([], [])) (\<lambda>(owners, unread).
         io_lift (status_verdict check
           \<lparr>sr_rows = rows, sr_owners = owners, sr_unread = unread\<rparr>))))"

section \<open>Diff, and what uses a script\<close>

definition need :: "string \<Rightarrow> string \<Rightarrow> json option \<Rightarrow> ws_error + json" where
  "need name what v = ok_or (NoCopy name what) v"

definition remote_copy :: "'w ws_env \<Rightarrow> string \<Rightarrow> string \<Rightarrow> string \<Rightarrow> ('w, json) ws" where
  "remote_copy env tenant realm name =
     io_bind (read_remote env tenant realm name) (\<lambda>r.
       io_lift (need name ''copy on the tenant'' (map_option export_value r)))"

definition journey_diff ::
  "'w ws_env \<Rightarrow> string \<Rightarrow> tenant \<Rightarrow> string \<Rightarrow> string \<Rightarrow> bool \<Rightarrow> bool \<Rightarrow> ('w, part list) ws" where
  "journey_diff env proj t realm name local_vs_snapshot snapshot_vs_remote =
     io_bind (io_lift (journey_export_path proj (ten_name t) realm name)) (\<lambda>path.
     io_bind (io_lift (journey_snapshot_path proj (ten_name t) realm name)) (\<lambda>spath.
     let local = io_bind (read_copy env path) (\<lambda>v. io_lift (need name ''local export'' v));
         synced = io_bind (read_copy env spath) (\<lambda>v. io_lift (need name ''snapshot'' v));
         remote = remote_copy env (ten_name t) realm name
     in
     io_bind (if \<not> local_vs_snapshot \<and> snapshot_vs_remote then synced else local) (\<lambda>l.
     io_bind (if local_vs_snapshot then synced else remote) (\<lambda>r.
       let differences = shown_changes l r in
       if differences = [] then io_return (changed_parts l r)
       else io_fail (CopiesDiffer name (length differences))))))"

definition script_node_refs :: "json \<Rightarrow> (string \<times> string) list" where
  "script_node_refs tree =
     (case Option.bind (json_get tree ''nodes'') as_object of
        None \<Rightarrow> []
      | Some nodes \<Rightarrow>
          concat (map (\<lambda>(i, meta).
            case get_str meta ''nodeType'' of
              None \<Rightarrow> []
            | Some t \<Rightarrow> if str_contains t ''Script'' then [(i, t)] else []) nodes))"

definition node_config_references_script :: "string \<Rightarrow> json \<Rightarrow> string \<Rightarrow> bool" where
  "node_config_references_script node_type config script =
     (str_contains node_type ''Script'' \<and>
      list_ex (\<lambda>field. get_str config field = Some script) [''script'', ''scriptId''])"

fun any_node_uses ::
  "'w ws_env \<Rightarrow> string \<Rightarrow> string \<Rightarrow> string \<Rightarrow> (string \<times> string) list \<Rightarrow> ('w, bool) ws" where
  "any_node_uses env tenant realm script [] = io_return False"
| "any_node_uses env tenant realm script ((i, t) # refs) =
     io_bind (io_try (read_journey_node env tenant realm t i)) (\<lambda>r.
       case r of
         Inr config \<Rightarrow>
           if node_config_references_script t config script then io_return True
           else any_node_uses env tenant realm script refs
       | Inl _ \<Rightarrow> any_node_uses env tenant realm script refs)"

fun journeys_using ::
  "'w ws_env \<Rightarrow> string \<Rightarrow> string \<Rightarrow> string \<Rightarrow> string list \<Rightarrow> ('w, string list) ws" where
  "journeys_using env tenant realm script [] = io_return []"
| "journeys_using env tenant realm script (n # ns) =
     io_bind (io_try (read_tree env tenant realm n)) (\<lambda>r.
       case r of
         Inl _ \<Rightarrow> journeys_using env tenant realm script ns
       | Inr tree \<Rightarrow>
           io_bind (any_node_uses env tenant realm script (script_node_refs tree)) (\<lambda>found.
           io_bind (journeys_using env tenant realm script ns) (\<lambda>rest.
             io_return (if found then n # rest else rest))))"

definition journey_using_script ::
  "'w ws_env \<Rightarrow> tenant \<Rightarrow> string \<Rightarrow> string \<Rightarrow> ('w, string list) ws" where
  "journey_using_script env t realm script =
     io_bind (list_trees env (ten_name t) realm) (\<lambda>names.
       journeys_using env (ten_name t) realm script names)"

section \<open>Node types\<close>

record node_type =
  nt_id :: string
  nt_name :: string
  nt_tags :: "string list"
  nt_help :: string
  nt_collection :: bool

definition parse_node_type :: "json \<Rightarrow> node_type" where
  "parse_node_type v =
     (let str = (\<lambda>k. case get_str v k of None \<Rightarrow> [] | Some s \<Rightarrow> s) in
      \<lparr>nt_id = str ''_id'', nt_name = str ''name'',
       nt_tags = (case get_array v ''tags'' of
                    None \<Rightarrow> []
                  | Some ts \<Rightarrow> concat (map (\<lambda>t. case as_str t of None \<Rightarrow> [] | Some s \<Rightarrow> [s]) ts)),
       nt_help = str ''help'',
       nt_collection = (case get_bool v ''collection'' of None \<Rightarrow> False | Some b \<Rightarrow> b)\<rparr>)"

text \<open>A stable sort on the pair of keys: by the second key, then stably by the first.\<close>

definition parse_node_types :: "json list \<Rightarrow> node_type list" where
  "parse_node_types result =
     sort_key (\<lambda>n. to_lowercase (nt_name n)) (sort_key nt_id (map parse_node_type result))"

definition node_type_matches_tag :: "node_type \<Rightarrow> string \<Rightarrow> bool" where
  "node_type_matches_tag n tag =
     list_ex (\<lambda>candidate. str_contains (to_lowercase candidate) (to_lowercase tag)) (nt_tags n)"

definition list_node_types :: "'w ws_env \<Rightarrow> string \<Rightarrow> string \<Rightarrow> ('w, node_type list) ws" where
  "list_node_types env tenant realm =
     io_bind (ws_send env (read_action_call tenant (nodes_path realm @ ''?_action=getAllTypes''))) (\<lambda>body.
       case get_array body ''result'' of
         None \<Rightarrow> io_fail (Unexpected ''unexpected journey node type list shape'' body)
       | Some items \<Rightarrow> io_return (parse_node_types items))"

definition journey_nodes :: "'w ws_env \<Rightarrow> tenant \<Rightarrow> string \<Rightarrow> string option \<Rightarrow> ('w, node_type list) ws" where
  "journey_nodes env t realm tag =
     io_bind (list_node_types env (ten_name t) realm) (\<lambda>types.
       io_return (case tag of None \<Rightarrow> types | Some g \<Rightarrow> filter (\<lambda>n. node_type_matches_tag n g) types))"

definition node_action ::
  "'w ws_env \<Rightarrow> string \<Rightarrow> string \<Rightarrow> string \<Rightarrow> string \<Rightarrow> ('w, json) ws" where
  "node_action env action tenant realm node_type =
     io_bind (io_lift (validate_node_type node_type)) (\<lambda>_.
       ws_send env (read_action_call tenant
         (nodes_path realm @ ''/'' @ node_type @ ''?_action='' @ action)))"

definition node_schema :: "'w ws_env \<Rightarrow> string \<Rightarrow> string \<Rightarrow> string \<Rightarrow> ('w, json) ws" where
  "node_schema env = node_action env ''schema''"

definition node_template :: "'w ws_env \<Rightarrow> string \<Rightarrow> string \<Rightarrow> string \<Rightarrow> ('w, json) ws" where
  "node_template env = node_action env ''template''"

end
