(* ===== verification/Drift_Facts.thy ===== *)
theory Drift_Facts
  imports Drift
begin

text \<open>
  Paths of a comparison lead to the values it shows, a comparison is empty exactly for equal
  documents, and redaction leaves no secret-named value.
\<close>

section \<open>Content\<close>

lemma strip_revs_idem [simp]: "journey_strip_revs (journey_strip_revs v) = journey_strip_revs v"
proof (induction v rule: journey_strip_revs.induct)
  case (2 kvs)
  then show ?case by (auto simp: filter_map comp_def case_prod_unfold)
qed simp_all

lemma content_equal_refl [simp]: "journey_content_equal a a"
  by (simp add: journey_content_equal_def)

lemma content_equal_sym: "journey_content_equal a b \<longleftrightarrow> journey_content_equal b a"
  by (auto simp: journey_content_equal_def)

lemma content_equal_trans: "journey_content_equal a b \<Longrightarrow> journey_content_equal b c \<Longrightarrow> journey_content_equal a c"
  by (simp add: journey_content_equal_def)

lemma keys_strip: "map fst (map (\<lambda>(k, v). (k, f v)) kvs) = map fst kvs"
  by (induction kvs) auto

lemma strip_wf: "json_wf v \<Longrightarrow> json_wf (journey_strip_revs v)"
proof (induction v rule: journey_strip_revs.induct)
  case (2 kvs)
  let ?kept = "filter (\<lambda>(k, v). k \<noteq> ''_rev'') kvs"
  from 2(2) have "sorted (map fst ?kept)" "distinct (map fst ?kept)"
    by (simp_all add: sorted_filter distinct_map_filter)
  moreover have "json_wf v" if "(k, v) \<in> set kvs" for k v using 2(2) that by auto
  ultimately show ?case using 2(1) by (auto simp: keys_strip simp del: map_map)
qed auto

lemma state_matches:
  "matches_tenant (drift_state_of local snapshot remote) \<longleftrightarrow>
   (\<exists>l r. local = Some l \<and> remote = Some r \<and> journey_content_equal l r)"
  by (cases local; cases remote; cases snapshot)
    (auto simp: drift_state_of_def matches_tenant_def journey_content_equal_def split: bool.splits)

section \<open>Paths\<close>

inductive reaches :: "json \<Rightarrow> string list \<Rightarrow> json \<Rightarrow> bool" where
  reaches_here: "reaches v [] v"
| reaches_member: "map_of kvs k = Some w \<Longrightarrow> reaches w ks u \<Longrightarrow> reaches (JObj kvs) (k # ks) u"
| reaches_item: "nth_opt vs i = Some w \<Longrightarrow> reaches w ks u \<Longrightarrow> reaches (JArr vs) (show_nat i # ks) u"

definition path_of :: "string list \<Rightarrow> string" where
  "path_of ks = concat (map (\<lambda>k. CHR ''/'' # pointer_segment k) ks)"

lemma path_of_simps [simp]:
  "path_of [] = []" "path_of (k # ks) = CHR ''/'' # pointer_segment k @ path_of ks"
  by (simp_all add: path_of_def)

lemma digit_code: "(n::nat) < 10 \<Longrightarrow> is_digit (char_of (48 + n))"
  by (simp add: is_digit_def)

lemma show_nat_digits: "c \<in> set (show_nat n) \<Longrightarrow> is_digit c"
proof (induction n rule: show_nat.induct)
  case (1 n)
  have "n mod 10 < 10" by simp
  with 1 show ?case
    by (subst (asm) (2) show_nat.simps) (auto split: if_splits simp: digit_code simp del: mod_less_divisor)
qed

lemma pointer_segment_plain:
  "(\<And>c. c \<in> set s \<Longrightarrow> c \<noteq> CHR ''~'' \<and> c \<noteq> CHR ''/'') \<Longrightarrow> pointer_segment s = s"
  by (induction s) (auto simp: pointer_segment_def escape_char_def)

lemma pointer_segment_nat [simp]: "pointer_segment (show_nat n) = show_nat n"
  by (rule pointer_segment_plain) (auto dest: show_nat_digits simp: is_digit_def)

lemma no_slash: "CHR ''/'' \<notin> set (pointer_segment k)"
  by (auto simp: pointer_segment_def escape_char_def split: if_splits)

lemma replace_pair_other: "x \<noteq> a \<Longrightarrow> replace_pair a b r (x # s) = x # replace_pair a b r s"
  by (cases s) auto

lemma replace_pair_other2: "y \<noteq> b \<Longrightarrow> y \<noteq> a \<Longrightarrow>
    replace_pair a b r (a # y # s) = a # y # replace_pair a b r s"
  by (simp add: replace_pair_other)

lemma unescape_pointer [simp]: "unescape_segment (pointer_segment k) = k"
proof -
  let ?half = "\<lambda>k. concat (map (\<lambda>c. if c = CHR ''~'' then ''~0'' else [c]) k)"
  have first: "replace_pair CHR ''~'' CHR ''1'' CHR ''/'' (pointer_segment k) = ?half k"
    by (induction k) (auto simp: pointer_segment_def escape_char_def replace_pair_other)
  have "replace_pair CHR ''~'' CHR ''0'' CHR ''~'' (?half k) = k"
    by (induction k) (auto simp: replace_pair_other)
  with first show ?thesis by (simp add: unescape_segment_def)
qed

lemma split_at_skip: "c \<notin> set u \<Longrightarrow> split_at c (u @ c # v) = u # split_at c v"
  by (induction u) auto

lemma split_at_none: "c \<notin> set u \<Longrightarrow> split_at c u = [u]"
  by (induction u) auto

lemma split_path: "split_at CHR ''/'' (path_of ks) = [] # map pointer_segment ks"
proof (induction ks)
  case (Cons k ks)
  show ?case
  proof (cases ks)
    case Nil
    then show ?thesis by (simp add: split_at_none no_slash)
  next
    case (Cons k' ks')
    then have "split_at CHR ''/'' (pointer_segment k @ path_of ks) =
        pointer_segment k # map pointer_segment ks"
      using Cons.IH split_at_skip [OF no_slash] by simp
    then show ?thesis by simp
  qed
qed simp

lemma empty_not_secret: "\<not> is_secret_key []"
  by code_simp

text \<open>Whether a printed path passes through a secret-named key is decided on the keys it was made of.\<close>

lemma path_is_secret_iff: "path_is_secret (path_of ks) \<longleftrightarrow> (\<exists>k\<in>set ks. is_secret_key k)"
  using empty_not_secret
  by (auto simp: path_is_secret_def split_path list_ex_iff unescape_segment_def)
    (metis unescape_pointer unescape_segment_def)+

section \<open>The comparison\<close>

definition shown_path :: "string list \<Rightarrow> string" where
  "shown_path ks = (if ks = [] then ''/'' else path_of ks)"

definition locates :: "string \<Rightarrow> json \<Rightarrow> json \<Rightarrow> change \<Rightarrow> bool" where
  "locates pos l r c \<longleftrightarrow>
     (\<exists>ks. ch_path c = (if pos = [] then shown_path ks else pos @ path_of ks) \<and>
        (\<forall>v. ch_left c = Some v \<longrightarrow> reaches l ks v) \<and> (\<forall>v. ch_right c = Some v \<longrightarrow> reaches r ks v))"

lemma locates_below:
  assumes "locates (pos @ CHR ''/'' # pointer_segment k) l' r' c"
    and "\<And>ks v. reaches l' ks v \<Longrightarrow> reaches l (k # ks) v" and "\<And>ks v. reaches r' ks v \<Longrightarrow> reaches r (k # ks) v"
  shows "locates pos l r c"
proof -
  from assms(1) obtain ks where ks: "ch_path c = pos @ path_of (k # ks)"
    "\<forall>v. ch_left c = Some v \<longrightarrow> reaches l' ks v" "\<forall>v. ch_right c = Some v \<longrightarrow> reaches r' ks v"
    unfolding locates_def by auto
  show ?thesis
    unfolding locates_def
    by (rule exI [of _ "k # ks"]) (use ks assms(2,3) in \<open>auto simp: shown_path_def\<close>)
qed

lemma locates_one:
  assumes "\<And>v. x = Some v \<Longrightarrow> reaches l [k] v" and "\<And>v. y = Some v \<Longrightarrow> reaches r [k] v"
  shows "locates pos l r \<lparr>ch_path = pos @ CHR ''/'' # pointer_segment k, ch_left = x, ch_right = y\<rparr>"
  unfolding locates_def
  by (rule exI [of _ "[k]"]) (use assms in \<open>auto simp: shown_path_def\<close>)

definition walk_key :: "string \<Rightarrow> json_map \<Rightarrow> json_map \<Rightarrow> string \<Rightarrow> change list" where
  "walk_key pos a b key =
     (case (map_of a key, map_of b key) of
        (Some x, Some y) \<Rightarrow> walk (pos @ CHR ''/'' # pointer_segment key) x y
      | (None, None) \<Rightarrow> []
      | (x, y) \<Rightarrow> [\<lparr>ch_path = pos @ CHR ''/'' # pointer_segment key, ch_left = x, ch_right = y\<rparr>])"

definition walk_item :: "string \<Rightarrow> json list \<Rightarrow> json list \<Rightarrow> nat \<Rightarrow> change list" where
  "walk_item pos a b i =
     (case (nth_opt a i, nth_opt b i) of
        (Some x, Some y) \<Rightarrow> walk (pos @ CHR ''/'' # show_nat i) x y
      | (x, y) \<Rightarrow> [\<lparr>ch_path = pos @ CHR ''/'' # show_nat i, ch_left = x, ch_right = y\<rparr>])"

lemma walk_obj_eq:
  "a \<noteq> b \<Longrightarrow> walk pos (JObj a) (JObj b) =
     concat (map (walk_key pos a b) (btree_set (map fst a @ map fst b)))"
  by (simp add: walk.simps [of pos "JObj a"] Let_def walk_key_def [abs_def])

lemma walk_arr_eq:
  "a \<noteq> b \<Longrightarrow> walk pos (JArr a) (JArr b) = concat (map (walk_item pos a b) [0..<max (length a) (length b)])"
  by (simp add: walk.simps [of pos "JArr a"] Let_def walk_item_def [abs_def])

lemma in_concat_map: "c \<in> set (concat (map f xs)) \<Longrightarrow> \<exists>x\<in>set xs. c \<in> set (f x)"
  by auto

lemma walk_object:
  assumes ih: "\<And>key x y c. map_of a key = Some x \<Longrightarrow> map_of b key = Some y \<Longrightarrow>
      c \<in> set (walk (pos @ ''/'' @ pointer_segment key) x y) \<Longrightarrow>
      locates (pos @ ''/'' @ pointer_segment key) x y c"
    and ne: "JObj a \<noteq> JObj b" and c: "c \<in> set (walk pos (JObj a) (JObj b))"
  shows "locates pos (JObj a) (JObj b) c"
proof -
  from ne have "a \<noteq> b" by simp
  from in_concat_map [OF c [unfolded walk_obj_eq [OF this]]]
  obtain key where key: "c \<in> set (walk_key pos a b key)" by blast
  show ?thesis
  proof (cases "map_of a key = None \<or> map_of b key = None")
    case True
    with key have "c = \<lparr>ch_path = pos @ CHR ''/'' # pointer_segment key, ch_left = map_of a key,
        ch_right = map_of b key\<rparr>"
      by (auto simp: walk_key_def split: option.splits)
    then show ?thesis
      by (auto intro!: locates_one reaches_member [OF _ reaches_here])
  next
    case False
    then obtain x y where xy: "map_of a key = Some x" "map_of b key = Some y" by auto
    with key have "c \<in> set (walk (pos @ ''/'' @ pointer_segment key) x y)"
      by (simp add: walk_key_def)
    from ih [OF xy this] xy show ?thesis
      by (auto intro: locates_below reaches_member)
  qed
qed

lemma walk_array:
  assumes ih: "\<And>i x y c. nth_opt a i = Some x \<Longrightarrow> nth_opt b i = Some y \<Longrightarrow>
      c \<in> set (walk (pos @ ''/'' @ show_nat i) x y) \<Longrightarrow> locates (pos @ ''/'' @ show_nat i) x y c"
    and ne: "JArr a \<noteq> JArr b" and c: "c \<in> set (walk pos (JArr a) (JArr b))"
  shows "locates pos (JArr a) (JArr b) c"
proof -
  from ne have "a \<noteq> b" by simp
  from in_concat_map [OF c [unfolded walk_arr_eq [OF this]]]
  obtain i where i: "c \<in> set (walk_item pos a b i)" by blast
  note one = locates_one [where k = "show_nat i", unfolded pointer_segment_nat]
    and below = locates_below [of pos "show_nat i" _ _ c "JArr a" "JArr b", unfolded pointer_segment_nat]
  show ?thesis
  proof (cases "nth_opt a i = None \<or> nth_opt b i = None")
    case True
    with i have "c = \<lparr>ch_path = pos @ CHR ''/'' # show_nat i, ch_left = nth_opt a i,
        ch_right = nth_opt b i\<rparr>"
      by (auto simp: walk_item_def split: option.splits)
    then show ?thesis
      by (auto intro!: one reaches_item [OF _ reaches_here])
  next
    case False
    then obtain x y where xy: "nth_opt a i = Some x" "nth_opt b i = Some y" by auto
    with i have "c \<in> set (walk (pos @ ''/'' @ show_nat i) x y)"
      by (simp add: walk_item_def)
    from ih [OF xy this] xy show ?thesis
      by (auto intro: below reaches_item)
  qed
qed

lemma walk_locates: "c \<in> set (walk pos l r) \<Longrightarrow> locates pos l r c"
proof (induction pos l r arbitrary: c rule: walk.induct)
  case (1 pos l r)
  show ?case
  proof (cases "l = r")
    case True
    with "1.prems" show ?thesis by (simp add: walk.simps)
  next
    case ne: False
    consider a b where "l = JObj a" "r = JObj b" | a b where "l = JArr a" "r = JArr b"
      | "walk pos l r = [\<lparr>ch_path = (if pos = [] then ''/'' else pos), ch_left = Some l, ch_right = Some r\<rparr>]"
      using ne by (cases l; cases r) (auto simp: walk.simps)
    then show ?thesis
    proof cases
      case obj: 1
      from "1.prems" ne show ?thesis
        unfolding obj
        by (intro walk_object, intro "1.IH"(2) [OF ne])
          (use obj in \<open>auto dest: map_of_SomeD intro: rev_image_eqI\<close>)
    next
      case arr: 2
      from "1.prems" ne show ?thesis
        unfolding arr
        by (intro walk_array, intro "1.IH"(1) [OF ne])
          (use arr in \<open>auto simp: nth_opt_def split: if_splits\<close>)
    next
      case 3
      with "1.prems" show ?thesis
        unfolding locates_def by (intro exI [of _ "[]"]) (auto simp: shown_path_def intro: reaches_here)
    qed
  qed
qed

text \<open>An empty comparison says the documents are the same.\<close>

lemma walk_same [simp]: "walk pos v v = []"
  by (simp add: walk.simps)

lemma walk_key_empty:
  assumes "walk_key pos a b key = []"
  shows "(\<exists>x y. map_of a key = Some x \<and> map_of b key = Some y \<and>
      walk (pos @ ''/'' @ pointer_segment key) x y = []) \<or> (map_of a key = None \<and> map_of b key = None)"
  using assms by (auto simp: walk_key_def split: option.splits)

lemma walk_item_empty:
  assumes "walk_item pos a b i = []"
  shows "\<exists>x y. nth_opt a i = Some x \<and> nth_opt b i = Some y \<and> walk (pos @ ''/'' @ show_nat i) x y = []"
  using assms by (auto simp: walk_item_def split: option.splits)

lemma same_items:
  assumes "\<And>i. i < max (length a) (length b) \<Longrightarrow> \<exists>x. nth_opt a i = Some x \<and> nth_opt b i = Some x"
  shows "a = b"
proof (rule nth_equalityI)
  show "length a = length b"
    using assms [of "length a"] assms [of "length b"]
    by (cases "length a" "length b" rule: linorder_cases) (auto simp: nth_opt_def)
  show "a ! i = b ! i" if "i < length a" for i
    using assms [of i] that by (simp add: nth_opt_def less_max_iff_disj split: if_splits)
qed

lemma walk_empty_iff:
  "json_wf l \<Longrightarrow> json_wf r \<Longrightarrow> walk pos l r = [] \<longleftrightarrow> l = r"
proof (induction pos l r rule: walk.induct)
  case (1 pos l r)
  have "l = r" if none: "walk pos l r = []"
  proof (rule ccontr)
    assume ne: "l \<noteq> r"
    consider a b where "l = JObj a" "r = JObj b" | a b where "l = JArr a" "r = JArr b"
      using ne none by (cases l; cases r) (auto simp: walk.simps)
    then show False
    proof cases
      case obj: 1
      have keys: "map_of a key = map_of b key" for key
      proof (cases "key \<in> set (map fst a @ map fst b)")
        case True
        from none ne True have "walk_key pos a b key = []"
          unfolding obj by (auto simp: walk_obj_eq)
        from walk_key_empty [OF this] show ?thesis
        proof (elim disjE exE conjE)
          fix x y
          assume xy: "map_of a key = Some x" "map_of b key = Some y"
            and w: "walk (pos @ ''/'' @ pointer_segment key) x y = []"
          have wf: "json_wf x" "json_wf y"
            using "1.prems" xy unfolding obj by (auto dest!: map_of_SomeD)
          have "walk (pos @ ''/'' @ pointer_segment key) x y = [] \<longleftrightarrow> x = y"
            by (rule "1.IH"(2) [OF ne]) (use obj xy wf True in \<open>auto\<close>)
          with w xy show ?thesis by simp
        qed simp
      next
        case False
        then show ?thesis by (simp add: map_of_eq_None_iff [THEN iffD2])
      qed
      with "1.prems" have "a = b"
        unfolding obj by (intro strict_map_of_eqI) (auto intro: ext)
      with ne obj show False by simp
    next
      case arr: 2
      have "\<exists>x. nth_opt a i = Some x \<and> nth_opt b i = Some x" if i: "i < max (length a) (length b)" for i
      proof -
        from none ne i have "walk_item pos a b i = []"
          unfolding arr by (auto simp: walk_arr_eq)
        from walk_item_empty [OF this] obtain x y
          where xy: "nth_opt a i = Some x" "nth_opt b i = Some y"
            and w: "walk (pos @ ''/'' @ show_nat i) x y = []" by blast
        have wf: "json_wf x" "json_wf y"
          using "1.prems" xy unfolding arr by (auto simp: nth_opt_def split: if_splits)
        have "walk (pos @ ''/'' @ show_nat i) x y = [] \<longleftrightarrow> x = y"
          by (rule "1.IH"(1) [OF ne]) (use arr xy wf i in \<open>auto\<close>)
        with w xy show ?thesis by simp
      qed
      then have "a = b" by (rule same_items)
      with ne arr show False by simp
    qed
  qed
  then show ?case by auto
qed

lemma shown_empty_iff:
  assumes "json_wf l" and "json_wf r"
  shows "shown_changes l r = [] \<longleftrightarrow> journey_content_equal l r"
  using walk_empty_iff [OF strip_wf [OF assms(1)] strip_wf [OF assms(2)], of "[]"]
  by (simp add: shown_changes_def changes_def journey_content_equal_def)

section \<open>Redaction\<close>

text \<open>
  A value is clean when every member with a secret-named key, however deep, is the placeholder or
  null: a password the tenant never set is shown as unset.
\<close>

fun clean :: "json \<Rightarrow> bool" where
  "clean (JObj kvs) = (\<forall>(k, v) \<in> set kvs. clean v \<and> (is_secret_key k \<longrightarrow> v = JNull \<or> v = JStr HIDDEN))"
| "clean (JArr vs) = (\<forall>v \<in> set vs. clean v)"
| "clean _ = True"

lemma clean_redacted [simp]: "clean (redacted v)"
  by (induction v rule: redacted.induct) (auto split: if_splits)

lemma clean_hide: "hide p v = Some w \<Longrightarrow> clean w"
  by (auto simp: hide_def split: if_splits)

lemma root_path_plain: "\<not> path_is_secret ''/''"
  by code_simp

lemma shown_path_secret [simp]: "path_is_secret (shown_path ks) \<longleftrightarrow> (\<exists>k\<in>set ks. is_secret_key k)"
  using root_path_plain by (auto simp: shown_path_def path_is_secret_iff)

text \<open>A secret value reached by a difference is never printed, whichever of its ancestors is secret.\<close>

lemma shown_located:
  assumes "s \<in> set (shown_changes l r)"
  shows "\<exists>ks (c::change). sh_path s = shown_path ks \<and>
      (\<forall>v. ch_left c = Some v \<longrightarrow> reaches (journey_strip_revs l) ks v) \<and>
      (\<forall>v. ch_right c = Some v \<longrightarrow> reaches (journey_strip_revs r) ks v) \<and>
      sh_left s = hide (sh_path s) (ch_left c) \<and> sh_right s = hide (sh_path s) (ch_right c)"
proof -
  from assms obtain c where c: "c \<in> set (walk [] (journey_strip_revs l) (journey_strip_revs r))"
    and s: "s = \<lparr>sh_path = ch_path c, sh_left = hide (ch_path c) (ch_left c),
      sh_right = hide (ch_path c) (ch_right c)\<rparr>"
    by (auto simp: shown_changes_def changes_def)
  from walk_locates [OF c] obtain ks where "ch_path c = shown_path ks"
    "\<forall>v. ch_left c = Some v \<longrightarrow> reaches (journey_strip_revs l) ks v"
    "\<forall>v. ch_right c = Some v \<longrightarrow> reaches (journey_strip_revs r) ks v"
    by (auto simp: locates_def)
  then show ?thesis
    by (intro exI [of _ ks] exI [of _ c]) (simp add: s)
qed

section \<open>Properties\<close>

text \<open>C20: no output of the drift report carries a secret. Every difference shown is of one place of the two
  documents (revisions aside): its path is the path of the keys that lead there, and what it shows of each
  document is hidden from the value these keys reach in it, nothing else. Every value shown has each of its
  secret-named members replaced (or null), and when any key on the way to the place is secret-named,
  the whole value is the placeholder - whatever characters, slashes and tildes included, the keys
  are made of.\<close>

theorem secrets_are_hidden:
  "\<forall>s \<in> set (shown_changes l r). \<exists>ks x y.
     sh_path s = shown_path ks \<and>
     (\<forall>v. x = Some v \<longrightarrow> reaches (journey_strip_revs l) ks v) \<and>
     (\<forall>v. y = Some v \<longrightarrow> reaches (journey_strip_revs r) ks v) \<and>
     sh_left s = hide (sh_path s) x \<and> sh_right s = hide (sh_path s) y \<and>
     (\<forall>v. sh_left s = Some v \<or> sh_right s = Some v \<longrightarrow>
        clean v \<and> ((\<exists>k\<in>set ks. is_secret_key k) \<longrightarrow> v = JStr HIDDEN))"
proof
  fix s
  assume "s \<in> set (shown_changes l r)"
  from shown_located [OF this] obtain ks c where path: "sh_path s = shown_path ks"
    and left: "\<forall>v. ch_left c = Some v \<longrightarrow> reaches (journey_strip_revs l) ks v"
    and right: "\<forall>v. ch_right (c::change) = Some v \<longrightarrow> reaches (journey_strip_revs r) ks v"
    and sides: "sh_left s = hide (sh_path s) (ch_left c)" "sh_right s = hide (sh_path s) (ch_right c)"
    by blast
  have hidden: "v = JStr HIDDEN" if "hide (sh_path s) x = Some v" "\<exists>k\<in>set ks. is_secret_key k" for x v
    using that path by (auto simp: hide_def)
  have "clean v \<and> ((\<exists>k\<in>set ks. is_secret_key k) \<longrightarrow> v = JStr HIDDEN)"
    if "sh_left s = Some v \<or> sh_right s = Some v" for v
    using that sides clean_hide hidden by metis
  with path left right sides show "\<exists>ks x y. sh_path s = shown_path ks \<and>
     (\<forall>v. x = Some v \<longrightarrow> reaches (journey_strip_revs l) ks v) \<and>
     (\<forall>v. y = Some v \<longrightarrow> reaches (journey_strip_revs r) ks v) \<and>
     sh_left s = hide (sh_path s) x \<and> sh_right s = hide (sh_path s) y \<and>
     (\<forall>v. sh_left s = Some v \<or> sh_right s = Some v \<longrightarrow>
        clean v \<and> ((\<exists>k\<in>set ks. is_secret_key k) \<longrightarrow> v = JStr HIDDEN))"
    by (intro exI [of _ ks] exI [of _ "ch_left c"] exI [of _ "ch_right c"]) simp
qed

lemma secrets_are_hidden_witness:
  "shown_changes
     (JObj [(''nodes'', JObj [(''n/1'', JObj [(''apiKey'', JObj [(''value'', JStr ''s3cret'')])])])])
     (JObj [(''nodes'', JObj [(''n/1'', JObj [(''apiKey'', JObj [(''value'', JStr ''other'')])])])]) =
     [\<lparr>sh_path = ''/nodes/n~11/apiKey/value'', sh_left = Some (JStr HIDDEN), sh_right = Some (JStr HIDDEN)\<rparr>] \<and>
   clean (JStr HIDDEN)"
proof -
  let ?doc = "\<lambda>v. JObj [(''nodes'', JObj [(''n/1'', JObj [(''apiKey'', JObj [(''value'', JStr v)])])])]"
  have eval: "shown_changes (?doc ''s3cret'') (?doc ''other'') =
      [\<lparr>sh_path = ''/nodes/n~11/apiKey/value'', sh_left = Some (JStr HIDDEN),
        sh_right = Some (JStr HIDDEN)\<rparr>]"
    by code_simp
  from secrets_are_hidden [of "?doc ''s3cret''" "?doc ''other''"]
  have "clean (JStr HIDDEN)" unfolding eval by simp
  with eval show ?thesis by simp
qed

text \<open>C30: for documents as \<open>serde_json\<close> parses them, the three-way state agrees with what the report
  prints: the state says the workspace matches the tenant exactly when both copies exist and the
  list of differences between them is empty, with or without a snapshot.\<close>

theorem state_agrees_with_differences:
  assumes "json_wf l" and "json_wf r"
  shows "matches_tenant (drift_state_of (Some l) snapshot (Some r)) \<longleftrightarrow> shown_changes l r = []"
  using shown_empty_iff [OF assms] by (simp add: state_matches)

lemma state_agrees_with_differences_witness:
  "matches_tenant (drift_state_of (Some (JObj [(''_rev'', JStr ''1''), (''tree'', JNull)])) None
     (Some (JObj [(''_rev'', JStr ''2''), (''tree'', JNull)]))) \<and>
   shown_changes (JObj [(''_rev'', JStr ''1''), (''tree'', JNull)])
     (JObj [(''_rev'', JStr ''2''), (''tree'', JNull)]) = []"
proof -
  have m: "matches_tenant (drift_state_of (Some (JObj [(''_rev'', JStr ''1''), (''tree'', JNull)])) None
     (Some (JObj [(''_rev'', JStr ''2''), (''tree'', JNull)])))"
    by code_simp
  have wf: "json_wf (JObj [(''_rev'', JStr v), (''tree'', JNull)])" for v
    by simp
  from m state_agrees_with_differences [OF wf wf] show ?thesis by blast
qed

end
