(* ===== verification/Journey_Facts.thy ===== *)
theory Journey_Facts
  imports Journey Drift_Facts
begin

text \<open>
  What the journey commands do to the workspace and to the tenant: a pull keeps what the operator
  edited, a push follows a comparison with the tenant and writes the tree last, and the state
  \<open>status\<close> prints is the decision \<open>push\<close> takes.
\<close>

section \<open>The decision on journeys\<close>

interpretation journey: protected_pull "pull_json env" journey_content_equal for env
  by unfold_locales (auto simp: journey_content_equal_def)

text \<open>The file says what was synced last, so the operator has not touched it.\<close>

definition unedited :: "'w ws_env \<Rightarrow> string \<Rightarrow> string option \<Rightarrow> bool" where
  "unedited env bytes synced \<longleftrightarrow>
     (\<exists>c v w. synced = Some c \<and> pull_json env bytes = Some v \<and> pull_json env c = Some w \<and>
        journey_content_equal v w)"

lemma protected_unless_unedited:
  assumes "journey_pull_decision env (Some b) remote synced \<noteq> Unchanged" and "\<not> unedited env b synced"
  shows "journey_pull_decision env (Some b) remote synced = Protected"
proof (rule ccontr)
  assume "journey_pull_decision env (Some b) remote synced \<noteq> Protected"
  with assms show False
    using journey.unprotected_iff [of "Some b" remote synced env]
      journey.unchanged_iff [of "Some b" remote synced env]
    by (auto simp: journey_pull_decision_def unedited_def)
qed

section \<open>Reads\<close>

definition ws_get :: "ws_event \<Rightarrow> bool" where
  "ws_get ev = (case ev of Sent c \<Rightarrow> ac_method c = ''GET'' | _ \<Rightarrow> False)"

lemma emits_ws_send: "P (Sent c) \<Longrightarrow> emits P (ws_send env c)"
  unfolding ws_send_def by (intro emits_intros)

lemma get_calls [simp]:
  "ac_method (with_api_version v c) = ac_method c" "ac_method (new_call t m p) = m"
  "ac_method (with_confirmed_prod b c) = ac_method c" "ac_method (with_body j c) = ac_method c"
  by (simp_all add: with_api_version_def new_call_def with_confirmed_prod_def with_body_def)

lemma emits_read_tree: "emits ws_get (read_tree env tenant realm name)"
  unfolding read_tree_def by (rule emits_ws_send) (simp add: ws_get_def)

lemma emits_read_node: "emits ws_get (read_journey_node env tenant realm ty i)"
  unfolding read_journey_node_def
  by (intro emits_bind emits_lift emits_ws_send) (simp add: ws_get_def)

lemma emits_read_nodes:
  assumes "\<And>ty i. emits P (fetch ty i)"
  shows "emits P (read_nodes fetch refs nodes unread)"
proof (induction refs arbitrary: nodes unread)
  case (Cons ref refs)
  show ?case
    by (cases ref) (auto intro!: emits_bind emits_try assms Cons.IH split: sum.splits)
qed (simp add: emits_return)

lemma emits_api_pull: "emits ws_get (api_pull env tenant realm name)"
  unfolding api_pull_def assemble_export_with_def
  by (intro emits_bind emits_read_tree emits_lift)
    (auto intro!: emits_bind emits_read_nodes emits_read_node emits_fail emits_return split: prod.splits)

lemma emits_read_optional: "emits P (read_optional env path)"
  unfolding read_optional_def
  by (intro emits_bind emits_try emits_look)
    (auto intro: emits_return emits_fail split: sum.splits read_error.splits)

lemma emits_read_copy: "emits P (read_copy env path)"
  unfolding read_copy_def
  by (intro emits_bind emits_read_optional)
    (auto intro!: emits_bind emits_return emits_lift split: option.splits)

lemma emits_read_export: "emits P (read_export env path name)"
  unfolding read_export_def
  by (intro emits_bind emits_read_optional)
    (auto intro!: emits_bind emits_return emits_lift emits_fail split: option.splits)

lemma emits_read_remote: "emits ws_get (read_remote env tenant realm name)"
  unfolding read_remote_def
  by (intro emits_bind emits_try emits_api_pull) (auto intro: emits_return emits_fail split: sum.splits)

section \<open>Pull\<close>

definition touches_no_file :: "ws_event \<Rightarrow> bool" where
  "touches_no_file ev = (case ev of Wrote _ _ \<Rightarrow> False | Removed _ \<Rightarrow> False | _ \<Rightarrow> True)"

lemma get_touches: "ws_get ev \<Longrightarrow> touches_no_file ev"
  by (cases ev) (auto simp: ws_get_def touches_no_file_def)

lemma emits_pull_touch: "emits touches_no_file (api_pull env tenant realm name)"
  by (rule emits_mono [OF emits_api_pull get_touches])

lemma emits_pull_consent: "emits touches_no_file (pull_consent env name d f k)"
  unfolding pull_consent_def confirm_destructive_def
  by (auto intro!: emits_bind emits_try emits_look emits_call emits_return emits_fail
      simp: touches_no_file_def split: sum.splits confirm_error.splits)

lemma confirm_yes:
  assumes "confirm_destructive env subject prompt flag s = (Inr True, s')"
  shows "sent s' = sent s @ [Confirmed prompt] \<and> ws_confirm env prompt (world s) = (Inr True, world s')"
  using assms
  by (auto simp: confirm_destructive_def io_bind_def io_look_def io_try_def io_call_def io_return_def
      io_fail_def split: prod.splits sum.splits if_splits confirm_error.splits)

text \<open>The operator was asked in \<open>s\<close> and said yes, and nothing else happened until \<open>s'\<close>.\<close>

definition asked_yes :: "'w ws_env \<Rightarrow> string \<Rightarrow> ('w, ws_event) sess \<Rightarrow> ('w, ws_event) sess \<Rightarrow> bool" where
  "asked_yes env prompt s s' \<longleftrightarrow>
     ws_confirm env prompt (world s) = (Inr True, world s') \<and> sent s' = sent s @ [Confirmed prompt]"

lemma consent_given:
  assumes "pull_consent env name d f k s = (Inr u, s')"
  shows "if needs_consent d f then asked_yes env (protected_pull_prompt (''journey '' @ name) k) s s' else s' = s"
proof (cases "needs_consent d f")
  case True
  with assms obtain yes s1 where
    "confirm_destructive env ''journey pull overwrite'' (protected_pull_prompt (''journey '' @ name) k)
       ''--force'' s = (Inr yes, s1)"
    "(if yes then io_return () else io_fail (EditsKept name)) s1 = (Inr u, s')"
    by (auto simp: pull_consent_def io_bind_Inr)
  with True show ?thesis using confirm_yes by (cases yes) (fastforce simp: asked_yes_def)+
next
  case False
  with assms show ?thesis by (simp add: pull_consent_def)
qed

text \<open>The loop over backup names leaves one event, the backup's, when it succeeds.\<close>

lemma create_new_cases:
  assumes "create_new env path bytes s = (r, s')"
  shows "sent s' = sent s \<or> sent s' = sent s @ [Created path bytes]"
    and "r = Inr () \<Longrightarrow> sent s' = sent s @ [Created path bytes] \<and>
      (\<exists>w w'. ws_create_new env path bytes w = (Inr (), w'))"
  using assms
  by (auto simp: create_new_def split: prod.splits sum.splits create_error.splits)

lemma emits_create_new: "emits touches_no_file (create_new env path bytes)"
  unfolding emits_def
proof
  fix s
  obtain r s' where made: "create_new env path bytes s = (r, s')" by (cases "create_new env path bytes s")
  from create_new_cases(1) [OF made]
  show "\<exists>es. sent (snd (create_new env path bytes s)) = sent s @ es \<and> list_all touches_no_file es"
    unfolding made by (auto simp: touches_no_file_def)
qed

lemma emits_backup_loop: "emits touches_no_file (backup_loop n env dir ident stamp ext bytes)"
  by (induction n)
    (auto intro!: emits_bind emits_try emits_look emits_create_new emits_fail emits_return
      simp: Let_def split: sum.splits create_error.splits)

lemma emits_create_in: "emits touches_no_file (create_in env dir kind realm name ext bytes)"
  unfolding create_in_def create_at_def ensure_untracked_def Let_def
  by (auto intro!: emits_bind emits_try emits_look emits_map_err emits_create_new emits_fail emits_return
      emits_backup_loop split: sum.splits create_error.splits)

definition backed_up :: "'w ws_env \<Rightarrow> string \<Rightarrow> ws_event list \<Rightarrow> bool" where
  "backed_up env bytes es \<longleftrightarrow>
     (\<exists>p. Created p bytes \<in> set es \<and> (\<exists>w w'. ws_create_new env p bytes w = (Inr (), w')))"

lemma backup_loop_saves:
  "backup_loop n env dir ident stamp ext bytes s = (Inr p, s') \<Longrightarrow>
   \<exists>es. sent s' = sent s @ es \<and> backed_up env bytes es"
proof (induction n arbitrary: s)
  case (Suc n)
  obtain u w1 where fresh: "ws_uuid env (world s) = (u, w1)" by fastforce
  define s1 where "s1 = s\<lparr>world := w1\<rparr>"
  then have s1: "sent s1 = sent s" by simp
  obtain r s2 where made: "create_new env (backup_name dir ident stamp ext u) bytes s1 = (r, s2)"
    by fastforce
  from Suc.prems have rest: "(case r of Inr _ \<Rightarrow> io_return (backup_name dir ident stamp ext u)
       | Inl AlreadyThere \<Rightarrow> backup_loop n env dir ident stamp ext bytes
       | Inl (CannotCreate e) \<Rightarrow> io_fail (FileFailed (backup_name dir ident stamp ext u) e)) s2 = (Inr p, s')"
    using made by (simp add: s1_def io_bind_def io_try_def io_look_def fresh Let_def)
  show ?case
  proof (cases r)
    case (Inr x)
    with create_new_cases(2) [OF made] rest s1 show ?thesis
      by (intro exI [of _ "[Created (backup_name dir ident stamp ext u) bytes]"]) (auto simp: backed_up_def)
  next
    case (Inl e)
    with rest have e: "e = AlreadyThere" and more: "backup_loop n env dir ident stamp ext bytes s2 = (Inr p, s')"
      by (auto split: create_error.splits)
    from Suc.IH [OF more] obtain es where es: "sent s' = sent s2 @ es" "backed_up env bytes es" by blast
    have "sent s2 = sent s1" using made Inl e
      by (auto simp: create_new_def split: prod.splits sum.splits create_error.splits)
    with es s1 show ?thesis by auto
  qed
qed simp

lemma create_in_saves:
  assumes "create_in env dir kind realm name ext bytes s = (Inr p, s')"
  shows "\<exists>es. sent s' = sent s @ es \<and> backed_up env bytes es"
proof -
  from assms obtain stamp s1 s2 s3 where "s1 = s\<lparr>world := world s\<rparr>"
    and mk: "io_map_err (FileFailed dir) (io_look (ws_make_dir env dir)) s1 = (Inr (), s2)"
    and un: "ensure_untracked env dir s2 = (Inr (), s3)"
    and loop: "backup_loop (ws_turns env) env dir
      (component kind @ ''.'' @ component realm @ ''.'' @ component name) stamp ext bytes s3 = (Inr p, s')"
    unfolding create_in_def create_at_def by (auto simp: io_bind_Pair io_look_Pair)
  moreover have "quiet_to touches_no_file s1 s2"
    by (rule quiet_to_emits [where m = "io_map_err (FileFailed dir) (io_look (ws_make_dir env dir))", OF _ mk])
      (intro emits_intros)
  moreover have "quiet_to touches_no_file s2 s3"
    by (rule quiet_to_emits [where m = "ensure_untracked env dir", OF _ un])
      (auto intro!: emits_bind emits_try emits_create_new emits_return emits_fail
        simp: ensure_untracked_def Let_def split: sum.splits create_error.splits)
  ultimately obtain es where es: "sent s3 = sent s @ es"
    unfolding quiet_to_def by auto
  from backup_loop_saves [OF loop] obtain es' where "sent s' = sent s3 @ es'" "backed_up env bytes es'" by blast
  with es show ?thesis by (intro exI [of _ "es @ es'"]) (auto simp: backed_up_def)
qed

text \<open>
  The events of an install: what leads to the backup, then the export, then the snapshot. It writes
  only when the file still holds the bytes the decision was taken on.
\<close>

definition install_writes :: "string \<Rightarrow> string \<Rightarrow> string \<Rightarrow> ws_event list \<Rightarrow> bool" where
  "install_writes path snapshot bytes ws \<longleftrightarrow>
     ws \<in> {[], [Wrote path bytes], [Wrote path bytes, Wrote snapshot bytes], [Wrote snapshot bytes]}"

text \<open>The bytes the decision was taken on were read again in \<open>s\<close>, and backed up when that is due.\<close>

definition still_there ::
  "'w ws_env \<Rightarrow> string \<Rightarrow> string \<Rightarrow> string \<Rightarrow> string \<Rightarrow> bool \<Rightarrow> string option \<Rightarrow> ('w, ws_event) sess \<Rightarrow>
   ('w, ws_event) sess \<Rightarrow> bool" where
  "still_there env path dir realm name skip pre s s' \<longleftrightarrow>
     (\<exists>u. read_optional env path s = (Inr pre, u) \<and>
        (if pre \<noteq> None \<and> \<not> skip
         then \<exists>p. create_in env dir ''journey'' realm name ''json'' (the pre) u = (Inr p, s')
         else s' = u))"

lemma install_log:
  assumes "install_pull_at env path snapshot dir realm name e pre d skip s = (r, s')"
  shows "\<exists>bs ws. sent s' = sent s @ bs @ ws \<and> list_all touches_no_file bs \<and>
    install_writes path snapshot (export_bytes env e) ws \<and>
    (ws \<noteq> [] \<longrightarrow>
       (\<exists>u. still_there env path dir realm name (skip \<or> d = Unchanged) pre s u \<and> sent u = sent s @ bs) \<and>
       (\<forall>b. pre = Some b \<and> d \<noteq> Unchanged \<and> \<not> skip \<longrightarrow> backed_up env b bs) \<and>
       (d = Unchanged \<longrightarrow> ws = [Wrote snapshot (export_bytes env e)]))"
proof -
  let ?bytes = "export_bytes env e"
  let ?backup = "\<lambda>local. case local of
            Some original \<Rightarrow>
              if d \<noteq> Unchanged \<and> \<not> skip
              then io_bind (create_in env dir ''journey'' realm name ''json'' original)
                     (\<lambda>p. io_return (Some p))
              else io_return None
          | None \<Rightarrow> io_return None"
  have emits_backup: "emits touches_no_file (?backup local)" for local
    by (auto intro!: emits_bind emits_create_in emits_return split: option.splits)
  from assms obtain q s1 where read: "read_optional env path s = (q, s1)"
    and rest: "(case q of Inl err \<Rightarrow> (Inl err, s1) | Inr local \<Rightarrow>
      (if local \<noteq> pre then io_fail (ChangedSince name)
       else io_bind (?backup local) (\<lambda>backup.
         io_bind (if d \<noteq> Unchanged then write_bytes env path ?bytes else io_return ()) (\<lambda>_.
         io_bind (write_bytes env snapshot ?bytes) (\<lambda>_. io_return backup)))) s1) = (r, s')"
    unfolding install_pull_at_def io_bind_def Let_def by (auto split: prod.splits sum.splits)
  have log1: "sent s1 = sent s"
    using quiet_to_emits [OF emits_read_optional [of "\<lambda>_. False"] read]
    by (auto simp: quiet_to_def list_all_iff)
  have stay: ?thesis if "sent s' = sent s"
    using that by (intro exI [of _ "[]"]) (simp add: install_writes_def)
  show ?thesis
  proof (cases q)
    case (Inl err)
    with rest log1 stay show ?thesis by simp
  next
    case local: (Inr local)
    show ?thesis
    proof (cases "local = pre")
      case False
      with rest log1 stay local show ?thesis by simp
    next
      case same: True
      from rest local same obtain bq s2 where backup: "?backup pre s1 = (bq, s2)"
        and more: "(case bq of Inl err \<Rightarrow> (Inl err, s2) | Inr backup \<Rightarrow>
          io_bind (if d \<noteq> Unchanged then write_bytes env path ?bytes else io_return ()) (\<lambda>_.
            io_bind (write_bytes env snapshot ?bytes) (\<lambda>_. io_return backup)) s2) = (r, s')"
        by (cases "?backup pre s1") (simp add: io_bind_def [of "?backup pre"])
      from quiet_to_emits [OF emits_backup backup] log1
      obtain bs where bs: "sent s2 = sent s @ bs" "list_all touches_no_file bs"
        unfolding quiet_to_def by auto
      show ?thesis
      proof (cases bq)
        case (Inl err)
        with more bs show ?thesis by (intro exI [of _ bs] exI [of _ "[]"]) (simp add: install_writes_def)
      next
        case bq: (Inr backup')
        have saved: "backed_up env b bs" if "pre = Some b" "d \<noteq> Unchanged" "\<not> skip" for b
        proof -
          from backup bq that obtain p where "create_in env dir ''journey'' realm name ''json'' b s1 = (Inr p, s2)"
            by (auto simp: io_bind_Pair)
          from create_in_saves [OF this] obtain es where "sent s2 = sent s1 @ es" "backed_up env b es" by blast
          with bs log1 show ?thesis by simp
        qed
        have there: "still_there env path dir realm name (skip \<or> d = Unchanged) pre s s2"
          using read backup bq local same
          by (auto simp: still_there_def io_bind_Pair split: option.splits if_splits)
        from more bq have "\<exists>ws. sent s' = sent s2 @ ws \<and> ws \<noteq> [] \<and>
            install_writes path snapshot ?bytes ws \<and> (d = Unchanged \<longrightarrow> ws = [Wrote snapshot ?bytes])"
          by (auto simp: write_bytes_def io_pairs install_writes_def split: if_splits)
        then obtain ws where ws: "sent s' = sent s2 @ ws" "ws \<noteq> []"
            "install_writes path snapshot ?bytes ws" "d = Unchanged \<longrightarrow> ws = [Wrote snapshot ?bytes]"
          by blast
        with bs saved there show ?thesis
          by (intro exI [of _ bs] exI [of _ ws]) auto
      qed
    qed
  qed
qed

lemma pull_gate:
  assumes "journey_pull env proj t realm name f k s = (r, s')"
  obtains (stopped) "quiet_to touches_no_file s s'"
  | (install) path snapshot e local synced s1 s2 s3 u where
      "journey_export_path proj (ten_name t) realm name = Inr path"
      "journey_snapshot_path proj (ten_name t) realm name = Inr snapshot"
      "api_pull env (ten_name t) realm name s = (Inr e, s1)"
      "read_optional env path s1 = (Inr local, s2)" "read_optional env snapshot s2 = (Inr synced, s3)"
      "quiet_to touches_no_file s s3"
      "pull_consent env name (journey_pull_decision env local (export_value e) synced) f k s3 = (Inr (), u)"
      "install_pull_at env path snapshot (backups_path proj (ten_name t)) realm name e local
         (journey_pull_decision env local (export_value e) synced) k u = (r, s')"
proof -
  note quiet = quiet_to_bind [where P = touches_no_file]
  from quiet [OF quiet_to_refl assms [unfolded journey_pull_def] emits_lift]
  consider "quiet_to touches_no_file s s'" | path s1 where
    "io_lift (journey_export_path proj (ten_name t) realm name) s = (Inr path, s1)" "quiet_to touches_no_file s s1"
    "io_bind (io_lift (journey_snapshot_path proj (ten_name t) realm name)) (\<lambda>snapshot.
     io_bind (api_pull env (ten_name t) realm name) (\<lambda>e.
     io_bind (read_optional env path) (\<lambda>local.
     io_bind (read_optional env snapshot) (\<lambda>synced.
     let decision = journey_pull_decision env local (export_value e) synced in
     io_bind (pull_consent env name decision f k) (\<lambda>_.
       install_pull_at env path snapshot (backups_path proj (ten_name t)) realm name e local decision k))))) s1 = (r, s')"
    by blast
  then show thesis
  proof cases
    case 1
    then show ?thesis by (rule stopped)
  next
    case (2 path s1)
    show ?thesis
    proof (rule quiet [OF 2(2,3) emits_lift], goal_cases)
      case 1
      then show ?case by (blast intro: stopped)
    next
      case (2 snapshot s2)
      note snap = this
      show ?case
      proof (rule quiet [OF snap(2,3) emits_pull_touch], goal_cases)
        case 1
        then show ?case by (blast intro: stopped)
      next
        case pulled: (2 e s3)
        show ?case
        proof (rule quiet [OF pulled(2,3) emits_read_optional], goal_cases)
          case 1
          then show ?case by (blast intro: stopped)
        next
          case local: (2 local s4)
          show ?case
          proof (rule quiet [OF local(2,3) emits_read_optional], goal_cases)
            case 1
            then show ?case by (blast intro: stopped)
          next
            case synced: (2 synced s5)
            show ?case
            proof (rule quiet [OF synced(2) synced(3) [unfolded Let_def] emits_pull_consent], goal_cases)
              case 1
              then show ?case by (blast intro: stopped)
            next
              case final: (2 x u)
              show ?case
                by (rule install [of path snapshot e s3 local s4 synced s5 u])
                  (use \<open>io_lift _ s = _\<close> snap(1) pulled(1) local(1) synced(1,2) final in \<open>simp_all\<close>)
            qed
          qed
        qed
      qed
    qed
  qed
qed

lemma path_join_plain: "CHR ''/'' \<notin> set q \<Longrightarrow> path_join p q = p @ (if p = [] \<or> last p = CHR ''/'' then q else CHR ''/'' # q)"
  by (cases q) (auto simp: path_join_def)

lemma journey_paths_differ:
  assumes "journey_export_path proj tenant realm name = Inr path"
    and "journey_snapshot_path proj tenant realm name = Inr snapshot"
  shows "path \<noteq> snapshot"
proof -
  from assms have plain: "CHR ''/'' \<notin> set name"
    by (auto simp: journey_export_path_def validate_journey_name_def has_separator_def res_bind_def
        split: if_splits)
  let ?d = "journeys_dir proj tenant realm"
  from plain assms have "path = path_join ?d (name @ ''.json'')"
    "snapshot = path_join (path_join ?d ''.snapshots'') (name @ ''.json'')"
    by (simp_all add: journey_export_path_def journey_snapshot_path_def validate_journey_name_def
        has_separator_def res_bind_def)
  with plain show ?thesis
    by (auto simp: path_join_plain dest!: arg_cong [of _ _ length] split: if_splits)
qed

lemma first_among:
  assumes "xs @ ws = before @ w # after" and "\<forall>x\<in>set xs. \<not> P x" and "P w"
  shows "\<exists>us. before = xs @ us \<and> ws = us @ w # after"
  using assms by (auto simp: append_eq_append_conv2 append_eq_Cons_conv Cons_eq_append_conv)

lemma pull_overwrites:
  assumes run: "journey_pull env proj t realm name f k s = (r, s')"
    and path: "journey_export_path proj (ten_name t) realm name = Inr path"
    and log: "sent s' = sent s @ before @ Wrote path bytes # after"
  shows "\<exists>snapshot e s1 local s2 synced s3 s4 s5.
     journey_snapshot_path proj (ten_name t) realm name = Inr snapshot \<and>
     api_pull env (ten_name t) realm name s = (Inr e, s1) \<and> bytes = export_bytes env e \<and>
     read_optional env path s1 = (Inr local, s2) \<and> read_optional env snapshot s2 = (Inr synced, s3) \<and>
     (s4 = s3 \<and> (\<forall>b. local = Some b \<longrightarrow> unedited env b synced \<or> f) \<or>
      asked_yes env (protected_pull_prompt (''journey '' @ name) k) s3 s4) \<and>
     still_there env path (backups_path proj (ten_name t)) realm name k local s4 s5 \<and>
     sent s5 = sent s @ before \<and>
     (\<forall>b. local = Some b \<longrightarrow> k \<or> backed_up env b before)"
proof (rule pull_gate [OF run], goal_cases)
  case 1
  then obtain es where "sent s' = sent s @ es" "list_all touches_no_file es"
    unfolding quiet_to_def by blast
  with log show ?case by (simp add: touches_no_file_def)
next
  case (2 path' snapshot e local synced s1 s2 s3 u)
  let ?d = "journey_pull_decision env local (export_value e) synced"
  have "quiet_to touches_no_file s u"
    using 2(6) quiet_to_emits [OF emits_pull_consent 2(7)] by (rule quiet_to_trans)
  then obtain pre where pre: "sent u = sent s @ pre" "list_all touches_no_file pre"
    unfolding quiet_to_def by blast
  from install_log [OF 2(8)] obtain bs ws where
    bs: "sent s' = sent u @ bs @ ws" "list_all touches_no_file bs"
    and ws: "install_writes path' snapshot (export_bytes env e) ws"
    and wrote: "ws \<noteq> [] \<longrightarrow>
       (\<exists>v. still_there env path' (backups_path proj (ten_name t)) realm name (k \<or> ?d = Unchanged) local u v \<and>
          sent v = sent u @ bs) \<and>
       (\<forall>b. local = Some b \<and> ?d \<noteq> Unchanged \<and> \<not> k \<longrightarrow> backed_up env b bs) \<and>
       (?d = Unchanged \<longrightarrow> ws = [Wrote snapshot (export_bytes env e)])"
    by blast
  from path 2(1) have same: "path' = path" by simp
  have "(pre @ bs) @ ws = before @ Wrote path bytes # after"
    using log bs(1) pre(1) by simp
  moreover have "\<forall>x\<in>set (pre @ bs). \<not> \<not> touches_no_file x"
    using pre(2) bs(2) by (auto simp: list_all_iff)
  ultimately obtain us where us: "before = (pre @ bs) @ us" "ws = us @ Wrote path bytes # after"
    using first_among [of "pre @ bs" ws before "Wrote path bytes" after "\<lambda>x. \<not> touches_no_file x"]
    by (auto simp: touches_no_file_def)
  have differ: "path \<noteq> snapshot" using journey_paths_differ [OF path 2(2)] .
  have changed: "?d \<noteq> Unchanged"
    using wrote us differ by (auto simp: append_eq_Cons_conv)
  have first: "us = [] \<and> bytes = export_bytes env e"
    using ws us(2) differ
    by (auto simp: install_writes_def same append_eq_Cons_conv Cons_eq_append_conv)
  have saved: "k \<or> backed_up env b before" if "local = Some b" for b
    using wrote changed us that by (auto simp: backed_up_def)
  from wrote us(2) changed obtain v where
    v: "still_there env path (backups_path proj (ten_name t)) realm name k local u v" "sent v = sent u @ bs"
    by (auto simp: same)
  then have upto: "sent v = sent s @ before" using pre(1) us(1) first by simp
  have consent: "u = s3 \<and> (\<forall>b. local = Some b \<longrightarrow> unedited env b synced \<or> f) \<or>
      asked_yes env (protected_pull_prompt (''journey '' @ name) k) s3 u"
    using consent_given [OF 2(7)] protected_unless_unedited [of env _ "export_value e" synced] changed
    by (auto simp: needs_consent_def split: if_splits)
  show ?case
    using 2(2,3,4,5) v(1) upto consent saved first unfolding same by blast
qed

section \<open>Push\<close>

definition node_calls ::
  "string \<Rightarrow> string \<Rightarrow> json_map \<Rightarrow> bool \<Rightarrow> (string \<times> string) list \<Rightarrow> api_call list" where
  "node_calls tenant realm nodes confirmed refs =
     concat (map (\<lambda>(i, ty). case map_of nodes i of
         None \<Rightarrow> []
       | Some node \<Rightarrow> [versioned_call tenant ''PUT'' (node_path realm ty i)
                        (Some (strip_server_fields node)) confirmed]) refs)"

text \<open>What a push sends, in order: the nodes the tree lists and the export has, then the tree.\<close>

definition push_calls ::
  "string \<Rightarrow> string \<Rightarrow> string \<Rightarrow> journey_export \<Rightarrow> bool \<Rightarrow> (string \<times> string) list \<Rightarrow> api_call list" where
  "push_calls tenant realm name e confirmed refs =
     node_calls tenant realm (je_nodes e) confirmed refs @
     [versioned_call tenant ''PUT'' (tree_path realm name) (Some (strip_server_fields (je_tree e))) confirmed]"

lemma ws_send_log:
  assumes "ws_send env c s = (r, s')"
  shows "sent s' = sent s @ [Sent c]"
  using assms by (auto simp: ws_send_def io_pairs)

lemma push_nodes_log:
  "push_nodes env tenant realm nodes confirmed refs pushed s = (r, s') \<Longrightarrow>
   \<exists>k. sent s' = sent s @ map Sent (take k (node_calls tenant realm nodes confirmed refs)) \<and>
     (\<forall>n. r = Inr n \<longrightarrow> length (node_calls tenant realm nodes confirmed refs) \<le> k \<and>
        n = pushed + length (node_calls tenant realm nodes confirmed refs))"
proof (induction refs arbitrary: pushed s)
  case Nil
  then show ?case by (auto simp: node_calls_def)
next
  case (Cons ref refs)
  obtain i ty where ref: "ref = (i, ty)" by (cases ref)
  show ?case
  proof (cases "map_of nodes i")
    case None
    with Cons.prems Cons.IH [of pushed s] show ?thesis by (simp add: ref node_calls_def)
  next
    case (Some node)
    let ?c = "versioned_call tenant ''PUT'' (node_path realm ty i) (Some (strip_server_fields node)) confirmed"
    have calls: "node_calls tenant realm nodes confirmed (ref # refs) =
        ?c # node_calls tenant realm nodes confirmed refs"
      by (simp add: ref Some node_calls_def)
    from Cons.prems Some consider e where "upsert_node env tenant realm ty i node confirmed s = (Inl e, s')" "r = Inl e"
      | x s1 where "upsert_node env tenant realm ty i node confirmed s = (Inr x, s1)"
          "push_nodes env tenant realm nodes confirmed refs (Suc pushed) s1 = (r, s')"
      by (auto simp: ref io_bind_Pair)
    then show ?thesis
    proof cases
      case 1
      then have "sent s' = sent s \<or> sent s' = sent s @ [Sent ?c]"
        unfolding upsert_node_def by (auto simp: io_bind_Pair dest: ws_send_log)
      then show ?thesis
      proof
        assume "sent s' = sent s"
        with 1 show ?thesis by (intro exI [of _ 0]) simp
      next
        assume "sent s' = sent s @ [Sent ?c]"
        with 1 calls show ?thesis by (intro exI [of _ 1]) simp
      qed
    next
      case 2
      then have log: "sent s1 = sent s @ [Sent ?c]"
        unfolding upsert_node_def by (auto simp: io_bind_Inr dest: ws_send_log)
      from Cons.IH [OF 2(2)] obtain k where
        "sent s' = sent s1 @ map Sent (take k (node_calls tenant realm nodes confirmed refs))"
        "\<forall>n. r = Inr n \<longrightarrow> length (node_calls tenant realm nodes confirmed refs) \<le> k \<and>
          n = Suc pushed + length (node_calls tenant realm nodes confirmed refs)" by blast
      with log calls show ?thesis by (intro exI [of _ "Suc k"]) auto
    qed
  qed
qed

lemma api_push_log:
  assumes "api_push env tenant realm name e confirmed s = (r, s')"
  shows "\<exists>k refs. (tree_node_refs (je_tree e) = Inr refs \<or> k = 0) \<and>
     sent s' = sent s @ map Sent (take k (push_calls tenant realm name e confirmed refs)) \<and>
     (\<forall>n. r = Inr n \<longrightarrow> length (push_calls tenant realm name e confirmed refs) \<le> k \<and>
        length (push_calls tenant realm name e confirmed refs) = Suc n)"
proof (cases "tree_node_refs (je_tree e)")
  case (Inl err)
  with assms show ?thesis by (auto simp: api_push_def io_bind_def io_lift_def)
next
  case (Inr refs)
  let ?nodes = "node_calls tenant realm (je_nodes e) confirmed refs"
  from assms Inr consider err where "push_nodes env tenant realm (je_nodes e) confirmed refs 0 s = (Inl err, s')" "r = Inl err"
    | n s1 where "push_nodes env tenant realm (je_nodes e) confirmed refs 0 s = (Inr n, s1)"
        "io_bind (upsert_tree env tenant realm name (je_tree e) confirmed) (\<lambda>_. io_return n) s1 = (r, s')"
    by (auto simp: api_push_def io_bind_Pair [of "io_lift p" for p] io_bind_Pair [of "push_nodes a b c d e' f g" for a b c d e' f g])
  then show ?thesis
  proof cases
    case 1
    from push_nodes_log [OF 1(1)] obtain k where k: "sent s' = sent s @ map Sent (take k ?nodes)" by blast
    have "take k ?nodes = take (min k (length ?nodes)) (push_calls tenant realm name e confirmed refs)"
      by (simp add: push_calls_def min_def)
    with k 1 Inr show ?thesis
      by (intro exI [of _ "min k (length ?nodes)"] exI [of _ refs]) simp
  next
    case 2
    from push_nodes_log [OF 2(1)] have nodes: "sent s1 = sent s @ map Sent ?nodes" "n = length ?nodes"
      by auto
    from 2(2) have "sent s' = sent s1 @ [Sent (versioned_call tenant ''PUT'' (tree_path realm name)
        (Some (strip_server_fields (je_tree e))) confirmed)]" "\<And>m. r = Inr m \<Longrightarrow> m = n"
      by (auto simp: upsert_tree_def io_bind_Pair dest: ws_send_log)
    with nodes Inr show ?thesis
      by (intro exI [of _ "length (push_calls tenant realm name e confirmed refs)"] exI [of _ refs])
        (auto simp: push_calls_def)
  qed
qed

definition saves_snapshot :: "'w ws_env \<Rightarrow> string \<Rightarrow> tenant \<Rightarrow> string \<Rightarrow> string \<Rightarrow> ws_event \<Rightarrow> bool" where
  "saves_snapshot env proj t realm name ev \<longleftrightarrow>
     (\<exists>path e. journey_snapshot_path proj (ten_name t) realm name = Inr path \<and>
        ev = Wrote path (export_bytes env e))"

lemma write_snapshot_log:
  assumes "write_snapshot env proj (ten_name t) realm name e s = (r, s')"
  shows "\<exists>saved. sent s' = sent s @ saved \<and> length saved \<le> 1 \<and>
    (\<forall>ev\<in>set saved. saves_snapshot env proj t realm name ev)"
proof (cases "journey_snapshot_path proj (ten_name t) realm name")
  case (Inl err)
  with assms show ?thesis by (auto simp: write_snapshot_def io_bind_def io_lift_def)
next
  case (Inr path)
  with assms have "sent s' = sent s @ [Wrote path (export_bytes env e)]"
    by (auto simp: write_snapshot_def write_bytes_def io_pairs)
  with Inr show ?thesis
    by (intro exI [of _ "[Wrote path (export_bytes env e)]"]) (auto simp: saves_snapshot_def)
qed

text \<open>The reads a push decides on, and the decision they allow.\<close>

definition push_allowed ::
  "'w ws_env \<Rightarrow> string \<Rightarrow> tenant \<Rightarrow> string \<Rightarrow> string \<Rightarrow> bool \<Rightarrow> journey_export \<Rightarrow> bool" where
  "push_allowed env proj t realm name force e \<longleftrightarrow>
     (\<exists>path snapshot v remote synced u1 u1' u2 u2' u3 u3'.
        journey_export_path proj (ten_name t) realm name = Inr path \<and>
        journey_snapshot_path proj (ten_name t) realm name = Inr snapshot \<and>
        read_export env path name u1 = (Inr (e, v), u1') \<and>
        read_remote env (ten_name t) realm name u2 = (Inr remote, u2') \<and>
        read_copy env snapshot u3 = (Inr synced, u3') \<and>
        \<not> journey_content_equal v (remote_value remote) \<and>
        (force \<or> (\<exists>c. synced = Some c \<and> journey_content_equal (remote_value remote) c)))"

lemma push_decision_PushIt:
  "push_decision_of l r snap force = PushIt \<longleftrightarrow>
   \<not> journey_content_equal l r \<and> (force \<or> (\<exists>c. snap = Some c \<and> journey_content_equal r c))"
  by (auto simp: push_decision_of_def split: option.splits)

lemma push_act_log:
  assumes "(case push_decision_of lv (remote_value remote) synced force of
       NothingToDo \<Rightarrow>
         io_bind (case remote of
             Some e \<Rightarrow> write_snapshot env proj (ten_name t) realm name e
           | None \<Rightarrow> io_return ()) (\<lambda>_.
           io_return (AlreadyMatches (length (je_nodes local_export))))
     | Blocked reason \<Rightarrow> io_fail (PushBlocked name reason)
     | PushIt \<Rightarrow>
         io_bind (api_push env (ten_name t) realm name local_export confirmed) (\<lambda>pushed.
         io_bind (io_map_err (ConfirmingReadFailed name pushed) (api_pull env (ten_name t) realm name))
           (\<lambda>refreshed.
         io_bind (write_snapshot env proj (ten_name t) realm name refreshed) (\<lambda>_.
           io_return (PushedNodes pushed))))) s = (r, s')"
  shows "\<exists>k calls more saved. sent s' = sent s @ map Sent (take k calls) @ more @ saved \<and>
      list_all ws_get more \<and> length saved \<le> 1 \<and>
      (\<forall>ev\<in>set saved. saves_snapshot env proj t realm name ev) \<and>
      (more \<noteq> [] \<or> saved \<noteq> [] \<longrightarrow> length calls \<le> k) \<and>
      (\<forall>n. r = Inr (PushedNodes n) \<longrightarrow> length calls = Suc n \<and> length calls \<le> k) \<and>
      (k > 0 \<longrightarrow> push_decision_of lv (remote_value remote) synced force = PushIt \<and>
         (\<exists>refs. tree_node_refs (je_tree local_export) = Inr refs \<and>
            calls = push_calls (ten_name t) realm name local_export confirmed refs))"
proof (cases "push_decision_of lv (remote_value remote) synced force")
  case NothingToDo
  with assms have "(\<exists>e q. remote = Some e \<and> write_snapshot env proj (ten_name t) realm name e s = (q, s')) \<or> s' = s"
    and no: "\<And>n. r \<noteq> Inr (PushedNodes n)"
    by (auto simp: io_bind_Pair split: option.splits)
  then obtain saved where "sent s' = sent s @ saved" "length saved \<le> 1"
    "\<forall>ev\<in>set saved. saves_snapshot env proj t realm name ev"
    by (metis write_snapshot_log append_Nil2 empty_iff empty_set le0 list.size(3))
  with no show ?thesis
    by (intro exI [of _ 0] exI [of _ "[]"] exI [of _ saved]) simp
next
  case (Blocked reason)
  with assms show ?thesis
    by (intro exI [of _ 0] exI [of _ "[]"]) simp
next
  case PushIt
  let ?calls = "push_calls (ten_name t) realm name local_export confirmed"
  from assms PushIt consider (failed) err where
      "api_push env (ten_name t) realm name local_export confirmed s = (Inl err, s')" "r = Inl err"
    | (pushed) n s1 where "api_push env (ten_name t) realm name local_export confirmed s = (Inr n, s1)"
        "io_bind (io_map_err (ConfirmingReadFailed name n) (api_pull env (ten_name t) realm name))
           (\<lambda>refreshed.
         io_bind (write_snapshot env proj (ten_name t) realm name refreshed) (\<lambda>_.
           io_return (PushedNodes n))) s1 = (r, s')"
    by (auto simp: io_bind_Pair [of "api_push a b c d e' f" for a b c d e' f])
  then show ?thesis
  proof cases
    case failed
    from api_push_log [OF failed(1)] obtain k refs where
      "tree_node_refs (je_tree local_export) = Inr refs \<or> k = 0"
      "sent s' = sent s @ map Sent (take k (?calls refs))" by blast
    with failed PushIt show ?thesis
      by (intro exI [of _ k] exI [of _ "?calls refs"] exI [of _ "[]"]) auto
  next
    case pushed
    from api_push_log [OF pushed(1)] obtain k refs where
      k: "tree_node_refs (je_tree local_export) = Inr refs \<or> k = 0"
      "sent s1 = sent s @ map Sent (take k (?calls refs))"
      "length (?calls refs) \<le> k" "length (?calls refs) = Suc n" by blast
    have quiet: "emits ws_get (io_map_err (ConfirmingReadFailed name n) (api_pull env (ten_name t) realm name))"
      by (intro emits_map_err emits_api_pull)
    show ?thesis
    proof (rule quiet_to_bind [OF quiet_to_refl pushed(2) quiet], goal_cases)
      case (1 err)
      then obtain more where "sent s' = sent s1 @ more" "list_all ws_get more"
        unfolding quiet_to_def by blast
      with 1 k PushIt show ?case
        by (intro exI [of _ k] exI [of _ "?calls refs"] exI [of _ more] exI [of _ "[]"]) auto
    next
      case (2 refreshed s2)
      then obtain more where more: "sent s2 = sent s1 @ more" "list_all ws_get more"
        unfolding quiet_to_def by blast
      from 2(3) obtain q where "write_snapshot env proj (ten_name t) realm name refreshed s2 = (q, s')"
        "\<And>m. r = Inr (PushedNodes m) \<Longrightarrow> m = n"
        by (auto simp: io_bind_Pair)
      moreover from this write_snapshot_log obtain saved where
        "sent s' = sent s2 @ saved" "length saved \<le> 1"
        "\<forall>ev\<in>set saved. saves_snapshot env proj t realm name ev" by blast
      ultimately show ?case using more k PushIt
        by (intro exI [of _ k] exI [of _ "?calls refs"] exI [of _ more] exI [of _ saved]) auto
    qed
  qed
qed

lemma emits_ws_prod_gate: "emits P (ws_prod_gate t yes)"
  unfolding ws_prod_gate_def by (rule emits_lift)

definition push_log ::
  "'w ws_env \<Rightarrow> string \<Rightarrow> tenant \<Rightarrow> string \<Rightarrow> string \<Rightarrow> bool \<Rightarrow> bool \<Rightarrow> ws_error + push_result \<Rightarrow>
   ws_event list \<Rightarrow> bool" where
  "push_log env proj t realm name force yes r es \<longleftrightarrow>
     (\<exists>reads k calls more saved.
        es = reads @ map Sent (take k calls) @ more @ saved \<and>
        list_all ws_get reads \<and> list_all ws_get more \<and>
        length saved \<le> 1 \<and> (\<forall>ev\<in>set saved. saves_snapshot env proj t realm name ev) \<and>
        (more \<noteq> [] \<or> saved \<noteq> [] \<longrightarrow> length calls \<le> k) \<and>
        (\<forall>n. r = Inr (PushedNodes n) \<longrightarrow> length calls = Suc n \<and> length calls \<le> k) \<and>
        (k > 0 \<longrightarrow>
           (\<exists>e refs. tree_node_refs (je_tree e) = Inr refs \<and>
              calls = push_calls (ten_name t) realm name e yes refs \<and>
              (ten_theme t = Production \<longrightarrow> yes) \<and> push_allowed env proj t realm name force e)))"

lemma push_log_reads:
  assumes "list_all ws_get es" and "\<And>n. r \<noteq> Inr (PushedNodes n)"
  shows "push_log env proj t realm name force yes r es"
  unfolding push_log_def
  by (rule exI [of _ es], rule exI [of _ 0], rule exI [of _ "[]"], rule exI [of _ "[]"], rule exI [of _ "[]"])
    (use assms in simp)

lemma push_log_found:
  assumes "journey_push env proj t realm name force yes s = (r, s')"
  shows "\<exists>es. sent s' = sent s @ es \<and> push_log env proj t realm name force yes r es"
proof -
  note quiet = quiet_to_bind [where P = ws_get]
  have stop: ?thesis if "quiet_to ws_get s s'" "r = Inl err" for err
    using that push_log_reads unfolding quiet_to_def by (metis Inl_Inr_False)
  show ?thesis
  proof (rule quiet [OF quiet_to_refl assms [unfolded journey_push_def] emits_ws_prod_gate], goal_cases)
    case (1 err)
    show ?case by (rule stop [OF 1(3,2)])
  next
    case gate: (2 confirmed s1)
    then have confirmed: "confirmed = yes" "ten_theme t = Production \<longrightarrow> yes"
      by (auto simp: ws_prod_gate_def prod_write_ok_def map_err_def split: if_splits)
    show ?case
    proof (rule quiet [OF gate(2,3) emits_lift], goal_cases)
      case (1 err)
      show ?case by (rule stop [OF 1(3,2)])
    next
      case path: (2 path s2)
      show ?case
      proof (rule quiet [OF path(2,3) emits_lift], goal_cases)
        case (1 err)
        show ?case by (rule stop [OF 1(3,2)])
      next
        case snap: (2 snapshot s3)
        show ?case
        proof (rule quiet [OF snap(2,3) emits_read_export], goal_cases)
          case (1 err)
          show ?case by (rule stop [OF 1(3,2)])
        next
          case local: (2 x s4)
          obtain e v where x: "x = (e, v)" by (cases x)
          show ?case
          proof (rule quiet [OF local(2) local(3) [unfolded x prod.case] emits_read_remote], goal_cases)
            case (1 err)
            show ?case by (rule stop [OF 1(3,2)])
          next
            case remote: (2 remote s5)
            show ?case
            proof (rule quiet [OF remote(2,3) emits_read_copy], goal_cases)
              case (1 err)
              show ?case by (rule stop [OF 1(3,2)])
            next
              case synced: (2 synced s6)
              from synced(2) obtain reads where reads: "sent s6 = sent s @ reads" "list_all ws_get reads"
                unfolding quiet_to_def by blast
              from push_act_log [OF synced(3)] obtain k calls more saved where
                act: "sent s' = sent s6 @ map Sent (take k calls) @ more @ saved"
                "list_all ws_get more" "length saved \<le> 1"
                "\<forall>ev\<in>set saved. saves_snapshot env proj t realm name ev"
                "more \<noteq> [] \<or> saved \<noteq> [] \<longrightarrow> length calls \<le> k"
                "\<forall>n. r = Inr (PushedNodes n) \<longrightarrow> length calls = Suc n \<and> length calls \<le> k"
                and chosen: "k > 0 \<longrightarrow> push_decision_of v (remote_value remote) synced force = PushIt \<and>
                 (\<exists>refs. tree_node_refs (je_tree e) = Inr refs \<and>
                    calls = push_calls (ten_name t) realm name e confirmed refs)" by blast
              have allowed: "push_allowed env proj t realm name force e" if "k > 0"
                using chosen that path(1) snap(1) local(1) remote(1) synced(1)
                unfolding push_allowed_def push_decision_PushIt x io_lift_def by blast
              have "push_log env proj t realm name force yes r (reads @ map Sent (take k calls) @ more @ saved)"
                unfolding push_log_def
                by (rule exI [of _ reads], rule exI [of _ k], rule exI [of _ calls], rule exI [of _ more],
                    rule exI [of _ saved]) (use act reads chosen allowed confirmed in blast)
              with act(1) reads(1) show ?case by auto
            qed
          qed
        qed
      qed
    qed
  qed
qed

section \<open>What a read holds\<close>

text \<open>One listed node: either it was read and is held, or the tenant said 404 and it is not.\<close>

definition node_answered ::
  "(string \<Rightarrow> string \<Rightarrow> ('w, json) ws) \<Rightarrow> string \<times> string \<Rightarrow> json option \<Rightarrow> bool" where
  "node_answered fetch ref held \<longleftrightarrow>
     (case held of
        Some node \<Rightarrow> \<exists>u u'. fetch (snd ref) (fst ref) u = (Inr node, u')
      | None \<Rightarrow> \<exists>u err u'. fetch (snd ref) (fst ref) u = (Inl err, u') \<and> api_not_found err)"

lemma read_nodes_unread:
  "read_nodes fetch refs nodes unread s = (Inr (out, rest), s') \<Longrightarrow> set unread \<subseteq> set rest"
proof (induction refs arbitrary: nodes unread s)
  case (Cons ref refs)
  obtain i ty where ref: "ref = (i, ty)" by (cases ref)
  from Cons.prems obtain q s1 where "fetch ty i s = (q, s1)"
    and "(case q of Inr node \<Rightarrow> read_nodes fetch refs (obj_insert i node nodes) unread
       | Inl e \<Rightarrow> if api_not_found e then read_nodes fetch refs nodes unread
           else read_nodes fetch refs nodes (unread @ [(ty, i, e)])) s1 = (Inr (out, rest), s')"
    by (auto simp: ref io_bind_Inr io_try_Pair)
  then show ?case
    by (auto dest!: Cons.IH split: sum.splits if_splits)
qed simp

lemma read_nodes_whole:
  "read_nodes fetch refs nodes unread s = (Inr (out, []), s') \<Longrightarrow> distinct (map fst refs) \<Longrightarrow>
   (\<forall>i\<in>fst ` set refs. map_of nodes i = None) \<Longrightarrow>
   (\<forall>ref\<in>set refs. node_answered fetch ref (map_of out (fst ref))) \<and>
   (\<forall>i. i \<notin> fst ` set refs \<longrightarrow> map_of out i = map_of nodes i)"
proof (induction refs arbitrary: nodes unread s)
  case (Cons ref refs)
  obtain i ty where ref: "ref = (i, ty)" by (cases ref)
  from Cons.prems(1) obtain q s1 where fetched: "fetch ty i s = (q, s1)"
    and rest: "(case q of Inr node \<Rightarrow> read_nodes fetch refs (obj_insert i node nodes) unread
       | Inl e \<Rightarrow> if api_not_found e then read_nodes fetch refs nodes unread
           else read_nodes fetch refs nodes (unread @ [(ty, i, e)])) s1 = (Inr (out, []), s')"
    by (auto simp: ref io_bind_Inr io_try_Pair)
  from Cons.prems(2) have fresh: "distinct (map fst refs)" "i \<notin> fst ` set refs" by (simp_all add: ref)
  show ?case
  proof (cases q)
    case (Inr node)
    with rest have "read_nodes fetch refs (obj_insert i node nodes) unread s1 = (Inr (out, []), s')" by simp
    note ih = Cons.IH [OF this fresh(1)]
    have "\<forall>j\<in>fst ` set refs. map_of (obj_insert i node nodes) j = None"
      using Cons.prems(3) fresh(2) by (auto simp: ref)
    from ih [OF this] fetched Inr fresh(2) show ?thesis
      by (auto simp: ref node_answered_def)
  next
    case (Inl e)
    show ?thesis
    proof (cases "api_not_found e")
      case True
      with rest Inl have "read_nodes fetch refs nodes unread s1 = (Inr (out, []), s')" by simp
      from Cons.IH [OF this fresh(1)] Cons.prems(3) have
        ih: "\<forall>ref\<in>set refs. node_answered fetch ref (map_of out (fst ref))"
          "\<forall>i. i \<notin> fst ` set refs \<longrightarrow> map_of out i = map_of nodes i" by (simp_all add: ref)
      have "map_of out i = None" using ih(2) fresh(2) Cons.prems(3) by (simp add: ref)
      with ih fetched Inl True show ?thesis
        by (auto simp: ref node_answered_def)
    next
      case False
      with rest Inl have "read_nodes fetch refs nodes (unread @ [(ty, i, e)]) s1 = (Inr (out, []), s')" by simp
      from read_nodes_unread [OF this] show ?thesis by simp
    qed
  qed
qed simp

lemma refs_keys:
  assumes "tree_node_refs tree = Inr refs"
  shows "\<exists>nodes. Option.bind (json_get tree ''nodes'') as_object = Some nodes \<and> map fst refs = map fst nodes"
proof -
  from assms obtain nodes where nodes: "Option.bind (json_get tree ''nodes'') as_object = Some nodes"
    and refs: "res_mapM (\<lambda>(i, meta). case get_str meta ''nodeType'' of
              None \<Rightarrow> Inl (Unexpected (''no string `nodeType`: '' @ i) meta)
            | Some t \<Rightarrow> Inr (i, t)) nodes = Inr refs"
    by (auto simp: tree_node_refs_def split: option.splits)
  from refs have "map fst refs = map fst nodes"
    by (induction nodes arbitrary: refs)
      (auto simp: res_bind_def split: sum.splits option.splits prod.splits)
  with nodes show ?thesis by blast
qed

lemma api_pull_whole:
  assumes "api_pull env tenant realm name s = (Inr e, s')" and wf: "json_wf (je_tree e)"
  shows "\<exists>refs u. tree_node_refs (je_tree e) = Inr refs \<and>
    read_tree env tenant realm name s = (Inr (je_tree e), u) \<and>
    (\<forall>ref\<in>set refs. node_answered (\<lambda>ty i. read_journey_node env tenant realm ty i) ref
       (map_of (je_nodes e) (fst ref))) \<and>
    (\<forall>i. i \<notin> fst ` set refs \<longrightarrow> map_of (je_nodes e) i = None)"
proof -
  let ?fetch = "\<lambda>ty i. read_journey_node env tenant realm ty i"
  from assms(1) obtain tree s1 refs s2 nodes where
    tree: "read_tree env tenant realm name s = (Inr tree, s1)" and refs: "tree_node_refs tree = Inr refs"
    and nodes: "read_nodes ?fetch refs [] [] s2 = (Inr (nodes, []), s')"
    and e: "e = \<lparr>je_tree = tree, je_nodes = nodes\<rparr>"
    by (auto simp: api_pull_def assemble_export_with_def io_bind_Inr split: if_splits
        dest!: sym [of "Inr _" "tree_node_refs _"])
  from refs_keys [OF refs] obtain kvs where
    kvs: "Option.bind (json_get tree ''nodes'') as_object = Some kvs" "map fst refs = map fst kvs" by blast
  then have "json_wf (JObj kvs)"
    using wf json_wf_get [of tree "''nodes''"] by (auto simp: e bind_eq_Some_conv elim!: as_object.elims)
  with kvs have "distinct (map fst refs)" by simp
  from read_nodes_whole [OF nodes this] refs tree show ?thesis
    by (intro exI [of _ refs] exI [of _ s1]) (auto simp: e)
qed

section \<open>Status and push agree\<close>

lemma push_follows_state:
  "push_decision_of l r snap False =
     (case drift_state_of (Some l) snap (Some r) of
        InSync \<Rightarrow> NothingToDo
      | Converged \<Rightarrow> NothingToDo
      | NoSnapshot same \<Rightarrow> if same then NothingToDo else Blocked MissingSnapshot
      | LocallyModified \<Rightarrow> PushIt
      | _ \<Rightarrow> Blocked (remote_drift_reason r (case snap of Some v \<Rightarrow> v | None \<Rightarrow> l)))"
  by (auto simp: push_decision_of_def drift_state_of_def journey_content_equal_def
      split: option.splits bool.splits)

lemma forced_push:
  "push_decision_of l r snap True = (if journey_content_equal l r then NothingToDo else PushIt)"
  by (auto simp: push_decision_of_def split: option.splits)

text \<open>The parts named as changed are none exactly when the copies have the same content.\<close>

lemma strip_lookup:
  "k \<noteq> ''_rev'' \<Longrightarrow>
   map_of (map (\<lambda>(k, v). (k, journey_strip_revs v)) (filter (\<lambda>(k, v). k \<noteq> ''_rev'') kvs)) k =
   map_option journey_strip_revs (map_of kvs k)"
  by (induction kvs) auto

lemma strip_lookup_rev:
  "map_of (map (\<lambda>(k, v). (k, journey_strip_revs v)) (filter (\<lambda>(k, v). k \<noteq> ''_rev'') kvs)) ''_rev'' = None"
  by (induction kvs) auto

lemma opt_equal_iff: "opt_equal a b \<longleftrightarrow> map_option journey_strip_revs a = map_option journey_strip_revs b"
  by (cases a; cases b) (auto simp: opt_equal_def journey_content_equal_def)

lemma object_equal_iff:
  assumes "json_wf (JObj a)" and "json_wf (JObj b)"
    and "''_rev'' \<notin> fst ` set a" and "''_rev'' \<notin> fst ` set b"
  shows "journey_content_equal (JObj a) (JObj b) \<longleftrightarrow>
    (\<forall>k\<in>fst ` set a \<union> fst ` set b. opt_equal (map_of a k) (map_of b k))"
proof -
  let ?s = "\<lambda>kvs. map (\<lambda>(k, v). (k, journey_strip_revs v)) (filter (\<lambda>(k, v). k \<noteq> ''_rev'') kvs)"
  have none: "map_of kvs k = None" if "k \<notin> fst ` set kvs" for kvs :: json_map and k
    using that by (simp add: map_of_eq_None_iff)
  have "?s a = ?s b \<longleftrightarrow> map_of (?s a) = map_of (?s b)"
  proof
    assume "map_of (?s a) = map_of (?s b)"
    moreover have "sorted (map fst (?s kvs)) \<and> distinct (map fst (?s kvs))" if "json_wf (JObj kvs)" for kvs
      using that by (simp add: keys_strip sorted_filter distinct_map_filter del: map_map)
    ultimately show "?s a = ?s b" using assms(1,2) by (blast intro: strict_map_of_eqI)
  qed simp
  also have "\<dots> \<longleftrightarrow> (\<forall>k. k \<noteq> ''_rev'' \<longrightarrow> opt_equal (map_of a k) (map_of b k))"
  proof
    assume eq: "map_of (?s a) = map_of (?s b)"
    show "\<forall>k. k \<noteq> ''_rev'' \<longrightarrow> opt_equal (map_of a k) (map_of b k)"
    proof (intro allI impI)
      fix k :: string
      assume k: "k \<noteq> ''_rev''"
      from fun_cong [OF eq, of k] show "opt_equal (map_of a k) (map_of b k)"
        unfolding strip_lookup [OF k] opt_equal_iff .
    qed
  next
    assume all: "\<forall>k. k \<noteq> ''_rev'' \<longrightarrow> opt_equal (map_of a k) (map_of b k)"
    show "map_of (?s a) = map_of (?s b)"
    proof
      fix k
      show "map_of (?s a) k = map_of (?s b) k"
      proof (cases "k = ''_rev''")
        case True
        then show ?thesis by (simp only: strip_lookup_rev)
      next
        case False
        with all show ?thesis by (simp only: strip_lookup opt_equal_iff not_False_eq_True)
      qed
    qed
  qed
  also have "\<dots> \<longleftrightarrow> (\<forall>k\<in>fst ` set a \<union> fst ` set b. opt_equal (map_of a k) (map_of b k))"
  proof (intro iffI allI ballI impI)
    fix k
    assume all: "\<forall>k. k \<noteq> ''_rev'' \<longrightarrow> opt_equal (map_of a k) (map_of b k)"
      and k: "k \<in> fst ` set a \<union> fst ` set b"
    from k assms(3,4) have "k \<noteq> ''_rev''" by (metis Un_iff)
    then show "opt_equal (map_of a k) (map_of b k)" by (rule all [rule_format])
  next
    fix k
    assume all: "\<forall>k\<in>fst ` set a \<union> fst ` set b. opt_equal (map_of a k) (map_of b k)"
    show "opt_equal (map_of a k) (map_of b k)"
    proof (cases "k \<in> fst ` set a \<union> fst ` set b")
      case False
      then have "map_of a k = None" "map_of b k = None" by (simp_all add: none)
      then show ?thesis by (simp add: opt_equal_def)
    qed (use all in blast)
  qed
  finally show ?thesis unfolding journey_content_equal_def journey_strip_revs.simps json.inject .
qed

lemma export_equal_iff:
  "journey_content_equal (export_value a) (export_value b) \<longleftrightarrow>
   journey_content_equal (je_tree a) (je_tree b) \<and> journey_content_equal (JObj (je_nodes a)) (JObj (je_nodes b))"
  by (auto simp: export_value_def journey_content_equal_def)

lemma export_parts [simp]:
  "nodes_of (export_value a) = je_nodes a" "json_get (export_value a) ''tree'' = Some (je_tree a)"
  by (simp_all add: export_value_def nodes_of_def)

text \<open>A push that is blocked by the tenant names the tree or a node: the words for neither are unused.\<close>

lemma drift_reason_names:
  assumes "json_wf (JObj (je_nodes a))" and "json_wf (JObj (je_nodes b))"
    and "''_rev'' \<notin> fst ` set (je_nodes a)" and "''_rev'' \<notin> fst ` set (je_nodes b)"
  shows "remote_drift_reason (export_value a) (export_value b) = RemoteDrift False 0 \<longleftrightarrow>
    journey_content_equal (export_value a) (export_value b)"
proof -
  have "changed_nodes (export_value a) (export_value b) = 0 \<longleftrightarrow>
      journey_content_equal (JObj (je_nodes a)) (JObj (je_nodes b))"
    unfolding object_equal_iff [OF assms] changed_nodes_def export_parts
    by (auto simp: filter_empty_conv)
  then show ?thesis
    by (auto simp: remote_drift_reason_def export_equal_iff opt_equal_def)
qed

section \<open>What a passing check has read\<close>

lemma list_all2_left: "list_all2 P xs ys \<Longrightarrow> x \<in> set xs \<Longrightarrow> \<exists>y\<in>set ys. P x y"
  by (induction rule: list_all2_induct) auto

lemma io_mapM_runs:
  "io_mapM f xs s = (Inr ys, s') \<Longrightarrow> list_all2 (\<lambda>x y. \<exists>u u'. f x u = (Inr y, u')) xs ys"
proof (induction xs arbitrary: ys s)
  case (Cons x xs)
  from Cons.prems obtain y s1 zs where "f x s = (Inr y, s1)" "io_mapM f xs s1 = (Inr zs, s')" "ys = y # zs"
    by (auto simp: io_bind_Inr)
  with Cons.IH show ?case by blast
qed simp

text \<open>A row that matches rests on two whole copies, read from \<open>s\<close> to \<open>s'\<close>, with the same content.\<close>

definition row_compared ::
  "'w ws_env \<Rightarrow> string \<Rightarrow> tenant \<Rightarrow> string \<Rightarrow> string \<Rightarrow> ('w, ws_event) sess \<Rightarrow> ('w, ws_event) sess \<Rightarrow> bool" where
  "row_compared env proj t realm name s s' \<longleftrightarrow>
     (\<exists>path spath l synced e s1 s2.
        journey_export_path proj (ten_name t) realm name = Inr path \<and>
        journey_snapshot_path proj (ten_name t) realm name = Inr spath \<and>
        read_copy env path s = (Inr (Some l), s1) \<and>
        read_copy env spath s1 = (Inr synced, s2) \<and>
        api_pull env (ten_name t) realm name s2 = (Inr e, s') \<and>
        journey_content_equal l (export_value e))"

text \<open>The journeys one after the other, each compared in the session the one before ended in.\<close>

fun all_compared ::
  "'w ws_env \<Rightarrow> string \<Rightarrow> tenant \<Rightarrow> string \<Rightarrow> string list \<Rightarrow> ('w, ws_event) sess \<Rightarrow> ('w, ws_event) sess \<Rightarrow> bool" where
  "all_compared env proj t realm [] s s' \<longleftrightarrow> s' = s"
| "all_compared env proj t realm (n # ns) s s' \<longleftrightarrow>
     (\<exists>u. row_compared env proj t realm n s u \<and> all_compared env proj t realm ns u s')"

text \<open>The names of the files with the extension \<open>json\<close> that a directory holds, if it is there.\<close>

definition dir_stems ::
  "'w ws_env \<Rightarrow> string \<Rightarrow> ('w, ws_event) sess \<Rightarrow> string set \<Rightarrow> ('w, ws_event) sess \<Rightarrow> bool" where
  "dir_stems env dir s names s' \<longleftrightarrow>
     (\<exists>q w. ws_read_dir env dir (world s) = (q, w) \<and> s' = s\<lparr>world := w\<rparr> \<and>
        (q = Inl NotThere \<and> names = {} \<or>
         (\<exists>entries. q = Inr (map Inr entries) \<and>
            names = {stem. \<exists>n. (n, True) \<in> set entries \<and> json_stem n = Some stem})))"

lemma read_remote_Some:
  "read_remote env tenant realm name s = (Inr (Some e), s') \<longleftrightarrow>
   api_pull env tenant realm name s = (Inr e, s')"
  by (auto simp: read_remote_def io_bind_def io_try_def io_return_def io_fail_def
      split: prod.splits sum.splits if_splits)

lemma status_row_matches:
  assumes "status_row env proj (ten_name t) realm name s = (Inr row, s')"
    and "jr_state row = Some st" and "matches_tenant st"
  shows "row_compared env proj t realm name s s'"
proof -
  from assms(1) obtain path s1 local spath s2 synced q where
    path: "journey_export_path proj (ten_name t) realm name = Inr path"
      "journey_snapshot_path proj (ten_name t) realm name = Inr spath"
    and local: "read_copy env path s = (Inr local, s1)" "read_copy env spath s1 = (Inr synced, s2)"
    and remote: "read_remote env (ten_name t) realm name s2 = (q, s')"
    and row: "jr_state row = (case q of Inl _ \<Rightarrow> None
      | Inr e \<Rightarrow> Some (drift_state_of local synced (map_option export_value e)))"
    by (auto simp: status_row_def io_bind_Inr io_try_Pair Let_def split: sum.splits
        dest!: sym [of "Inr _" "journey_export_path _ _ _ _"] sym [of "Inr _" "journey_snapshot_path _ _ _ _"])
  from row assms(2) obtain e where q: "q = Inr e"
    and st: "st = drift_state_of local synced (map_option export_value e)"
    by (auto split: sum.splits)
  from assms(3) obtain l r where lr: "local = Some l" "map_option export_value e = Some r"
    "journey_content_equal l r"
    unfolding st state_matches by blast
  then obtain e' where e': "e = Some e'" "r = export_value e'" by auto
  from remote q e' have "api_pull env (ten_name t) realm name s2 = (Inr e', s')"
    by (simp add: read_remote_Some)
  with path local lr e' show ?thesis unfolding row_compared_def by blast
qed

lemma status_row_name:
  "status_row env proj tenant realm name s = (Inr row, s') \<Longrightarrow> jr_name row = name"
  by (auto simp: status_row_def io_bind_Inr io_try_Pair Let_def split: sum.splits)

lemma rows_compared:
  "io_mapM (status_row env proj (ten_name t) realm) names s = (Inr rows, s') \<Longrightarrow> rows_match rows \<Longrightarrow>
   all_compared env proj t realm names s s' \<and> map jr_name rows = names"
proof (induction names arbitrary: rows s)
  case (Cons n ns)
  from Cons.prems(1) obtain row s1 rest where
    row: "status_row env proj (ten_name t) realm n s = (Inr row, s1)"
    and rest: "io_mapM (status_row env proj (ten_name t) realm) ns s1 = (Inr rest, s')" "rows = row # rest"
    by (auto simp: io_bind_Inr)
  from Cons.prems(2) rest(2) obtain st where st: "jr_state row = Some st" "matches_tenant st" "rows_match rest"
    by (auto simp: rows_match_def split: option.splits)
  from Cons.IH [OF rest(1) st(3)] status_row_matches [OF row st(1,2)] status_row_name [OF row] rest(2)
  show ?case by auto
qed simp

lemma listed_dir_stems:
  assumes "listed_names env dir s = (Inr names, s')"
  shows "dir_stems env dir s (set names) s'"
proof -
  obtain q w where rd: "ws_read_dir env dir (world s) = (q, w)" by fastforce
  have all: "res_mapM (\<lambda>x. x) es = Inr xs \<Longrightarrow> es = map Inr xs" for es and xs :: "(string \<times> bool) list"
    by (induction es arbitrary: xs) (auto simp: res_bind_Inr_iff)
  show ?thesis
  proof (cases q)
    case (Inl e)
    with assms rd show ?thesis
      by (cases e) (auto simp: listed_names_def io_bind_def io_try_def io_look_def io_return_def io_fail_def dir_stems_def)
  next
    case (Inr es)
    with assms rd obtain entries where es: "res_mapM (\<lambda>x. x) es = Inr entries" and s': "s' = s\<lparr>world := w\<rparr>"
      and names: "names = concat (map (\<lambda>(n, is_file).
               case (is_file, json_stem n) of (True, Some stem) \<Rightarrow> [stem] | _ \<Rightarrow> []) entries)"
      by (cases "res_mapM (\<lambda>x. x) es")
        (auto simp: listed_names_def io_bind_def io_try_def io_look_def io_lift_def io_return_def)
    have "set names = {stem. \<exists>n. (n, True) \<in> set entries \<and> json_stem n = Some stem}"
      unfolding names by (force split: option.splits bool.splits)
    with rd Inr all [OF es] s' show ?thesis unfolding dir_stems_def by blast
  qed
qed

lemma status_rows:
  assumes "journey_status env proj t realm given True s = (Inr report, s')"
  shows "\<exists>names s1 s2.
    (if given = []
     then \<exists>here synced u. dir_stems env (journeys_dir proj (ten_name t) realm) s here u \<and>
        dir_stems env (path_join (journeys_dir proj (ten_name t) realm) ''.snapshots'') u synced s1 \<and>
        set names = here \<union> synced
     else names = given \<and> s1 = s) \<and>
    names \<noteq> [] \<and> all_compared env proj t realm names s1 s2 \<and> map jr_name (sr_rows report) = names"
proof -
  from assms obtain names s1 where
    start: "(if given = [] then workspace_journeys env proj (ten_name t) realm else io_return given) s = (Inr names, s1)"
    and rest: "(if names = [] then io_fail (NoJourneys realm)
     else
       io_bind (io_mapM (status_row env proj (ten_name t) realm) names) (\<lambda>rows.
       io_bind
         (if list_ex (\<lambda>r. list_ex is_node_part (jr_local r @ jr_remote r)) rows
          then node_owners env (ten_name t) realm else io_return ([], [])) (\<lambda>(owners, unread).
         io_lift (status_verdict True
           \<lparr>sr_rows = rows, sr_owners = owners, sr_unread = unread\<rparr>)))) s1 = (Inr report, s')"
    unfolding journey_status_def io_bind_Inr [of "if given = [] then _ else _"] by blast
  have names: "if given = []
     then \<exists>here synced u. dir_stems env (journeys_dir proj (ten_name t) realm) s here u \<and>
        dir_stems env (path_join (journeys_dir proj (ten_name t) realm) ''.snapshots'') u synced s1 \<and>
        set names = here \<union> synced
     else names = given \<and> s1 = s"
  proof (cases "given = []")
    case True
    with start obtain here u synced where "listed_names env (journeys_dir proj (ten_name t) realm) s = (Inr here, u)"
      "listed_names env (path_join (journeys_dir proj (ten_name t) realm) ''.snapshots'') u = (Inr synced, s1)"
      "names = btree_set (here @ synced)"
      by (auto simp: workspace_journeys_def Let_def io_bind_Inr)
    from listed_dir_stems [OF this(1)] listed_dir_stems [OF this(2)] this(3) True show ?thesis
      by (simp add: btree_set_def) blast
  next
    case False
    with start show ?thesis by simp
  qed
  from rest have some: "names \<noteq> []" by auto
  from rest some obtain rows s2 p s3 where
    rows: "io_mapM (status_row env proj (ten_name t) realm) names s1 = (Inr rows, s2)"
    and last: "(case p of (owners, unread) \<Rightarrow> io_lift (status_verdict True
      \<lparr>sr_rows = rows, sr_owners = owners, sr_unread = unread\<rparr>)) s3 = (Inr report, s')"
    unfolding if_not_P [OF some] io_bind_Inr by blast
  obtain owners unread where p: "p = (owners, unread)" by (cases p)
  from last have verdict: "status_verdict True
      \<lparr>sr_rows = rows, sr_owners = owners, sr_unread = unread\<rparr> = Inr report"
    by (simp add: p)
  from verdict have match: "rows_match rows" and report: "sr_rows report = rows"
    by (auto simp: status_verdict_def Let_def split: if_splits)
  from rows_compared [OF rows match] names some report show ?thesis by blast
qed

section \<open>Properties\<close>

text \<open>C17: a pull keeps what the operator edited. Whenever a pull writes over the export of a journey, it had read
  the journey from the tenant, then the file and the snapshot, and what it writes is that reading; then either it
  asked the operator about these edits, who said yes, or the file said what was synced last or \<open>--force\<close> was
  given, and nothing happened in between; then it read the file again and found the
  same bytes, and, unless \<open>--force=backup\<close> was given, saved a backup with exactly these bytes; and the write is the
  next event.\<close>

theorem pull_keeps_local_edits:
  assumes "journey_pull env proj t realm name force_op skip_backup s = (r, s')"
    and "journey_export_path proj (ten_name t) realm name = Inr path"
    and "sent s' = sent s @ before @ Wrote path bytes # after"
  shows "\<exists>snapshot e s1 local s2 synced s3 s4 s5.
     journey_snapshot_path proj (ten_name t) realm name = Inr snapshot \<and>
     api_pull env (ten_name t) realm name s = (Inr e, s1) \<and> bytes = export_bytes env e \<and>
     read_optional env path s1 = (Inr local, s2) \<and> read_optional env snapshot s2 = (Inr synced, s3) \<and>
     (s4 = s3 \<and> (\<forall>b. local = Some b \<longrightarrow> unedited env b synced \<or> force_op) \<or>
      asked_yes env (protected_pull_prompt (''journey '' @ name) skip_backup) s3 s4) \<and>
     still_there env path (backups_path proj (ten_name t)) realm name skip_backup local s4 s5 \<and>
     sent s5 = sent s @ before \<and>
     (\<forall>b. local = Some b \<longrightarrow> skip_backup \<or> backed_up env b before)"
  using assms by (rule pull_overwrites)

text \<open>A tenant with one journey of two nodes, one of them deleted, and a workspace that holds the bytes
  of the world as its export and no snapshot.\<close>

definition demo_tree :: json where
  "demo_tree = JObj [(''_id'', JStr ''Login''),
     (''nodes'', JObj [(''n1'', JObj [(''nodeType'', JStr ''Page'')]), (''n2'', JObj [(''nodeType'', JStr ''Page'')])])]"

definition demo_export :: journey_export where
  "demo_export = \<lparr>je_tree = demo_tree, je_nodes = [(''n1'', JObj [(''stage'', JStr ''one'')])]\<rparr>"

definition demo_env :: "string ws_env" where
  "demo_env =
     \<lparr>ws_agent = (\<lambda>c w. (Inr (
          if ac_path c = tree_path ''alpha'' ''Login'' then RespJson demo_tree
          else if ac_path c = node_path ''alpha'' ''Page'' ''n1'' then RespJson (JObj [(''stage'', JStr ''one'')])
          else RespApiError 404 []), w)),
      ws_read = (\<lambda>p w. (if p = ''/p/workspace/uat/journeys/alpha/Login.json'' then Inr w else Inl NotThere, w)),
      ws_write = (\<lambda>p b w. (Inr (), w)), ws_make_dir = (\<lambda>p w. (Inr (), w)),
      ws_create_new = (\<lambda>p b w. (Inr (), w)), ws_remove = (\<lambda>p w. (Inr (), w)),
      ws_read_dir = (\<lambda>p w. (Inl NotThere, w)), ws_stamp = (\<lambda>w. ''20261118T000000Z''),
      ws_uuid = (\<lambda>w. (''u1'', w)), ws_turns = 1,
      ws_parse = (\<lambda>b. if b = ''mine'' then Inr (JObj [(''nodes'', JObj []), (''tree'', JObj [])])
                      else if b = ''same'' then Inr (export_value demo_export) else Inl ''not json''),
      ws_render = (\<lambda>_. ''same''), ws_prompt_available = (\<lambda>w. True), ws_confirm = (\<lambda>q w. (Inr True, w))\<rparr>"

definition demo_tenant :: tenant where
  "demo_tenant = \<lparr>ten_name = ''uat'', ten_base_url = ''https://a'', ten_theme = Sandbox, ten_sa_id = None,
     ten_scopes = [], ten_provenance = \<lparr>pv_service_account = None, pv_log_key = None\<rparr>\<rparr>"

definition demo_pull :: "(ws_error + string option) \<times> (string, ws_event) sess" where
  "demo_pull = journey_pull demo_env ''/p'' demo_tenant ''alpha'' ''Login'' False False
     \<lparr>world = ''mine'', sent = []\<rparr>"

lemma pull_keeps_local_edits_witness:
  "\<exists>e s1 local s2 synced s3 s4.
     api_pull demo_env ''uat'' ''alpha'' ''Login'' \<lparr>world = ''mine'', sent = []\<rparr> = (Inr e, s1) \<and>
     read_optional demo_env ''/p/workspace/uat/journeys/alpha/Login.json'' s1 = (Inr local, s2) \<and>
     (s4 = s3 \<and> (\<forall>b. local = Some b \<longrightarrow> unedited demo_env b synced) \<or>
      asked_yes demo_env (protected_pull_prompt ''journey Login'' False) s3 s4) \<and>
     (\<forall>b. local = Some b \<longrightarrow> backed_up demo_env b (take 6 (sent (snd demo_pull))))"
proof -
  have run: "journey_pull demo_env ''/p'' demo_tenant ''alpha'' ''Login'' False False
      \<lparr>world = ''mine'', sent = []\<rparr> = (fst demo_pull, snd demo_pull)"
    by (simp add: demo_pull_def)
  have path: "journey_export_path ''/p'' (ten_name demo_tenant) ''alpha'' ''Login'' =
      Inr ''/p/workspace/uat/journeys/alpha/Login.json''"
    by code_simp
  have wrote: "sent (snd demo_pull) ! 6 = Wrote ''/p/workspace/uat/journeys/alpha/Login.json'' ''same''"
    and len: "length (sent (snd demo_pull)) = 8"
    by code_simp+
  have log: "sent (snd demo_pull) = sent \<lparr>world = ''mine'', sent = []\<rparr> @ take 6 (sent (snd demo_pull)) @
      Wrote ''/p/workspace/uat/journeys/alpha/Login.json'' ''same'' # drop 7 (sent (snd demo_pull))"
    using id_take_nth_drop [of 6 "sent (snd demo_pull)"] len wrote by simp
  have "ten_name demo_tenant = ''uat''" "''journey '' @ ''Login'' = ''journey Login''"
    by (simp_all add: demo_tenant_def)
  from pull_keeps_local_edits [OF run path log, unfolded this] show ?thesis by blast
qed

text \<open>C18: a push follows its comparison. Whatever happens, a push first only reads; then it sends a
  prefix of one list of writes, the nodes its export has in the tree's order and the tree last, and it
  sends any of them only if it read the export, the tenant's copy and the snapshot, found the export to
  differ from the tenant's copy, found the tenant's copy to be what was synced last (or \<open>--force\<close> was
  given), and the tenant is not production (or \<open>--yes\<close> was given). Only after all of them does it read
  again and save the snapshot; a push that reports success has sent them all.\<close>

theorem push_is_guarded:
  "\<exists>es. sent (snd (journey_push env proj t realm name force yes s)) = sent s @ es \<and>
     push_log env proj t realm name force yes (fst (journey_push env proj t realm name force yes s)) es"
  using push_log_found [of env proj t realm name force yes s] by (simp add: prod_eq_iff)

text \<open>C26: \<open>status\<close> foretells \<open>push\<close>. What \<open>push\<close> decides without \<open>--force\<close> is a function of the state
  \<open>status\<close> shows for the same copies; with \<open>--force\<close> it sends unless there is nothing to do; and a push
  blocked by the tenant names the tree or at least one node as changed.\<close>

theorem push_follows_status:
  "push_decision_of l r snap False =
     (case drift_state_of (Some l) snap (Some r) of
        InSync \<Rightarrow> NothingToDo
      | Converged \<Rightarrow> NothingToDo
      | NoSnapshot same \<Rightarrow> if same then NothingToDo else Blocked MissingSnapshot
      | LocallyModified \<Rightarrow> PushIt
      | _ \<Rightarrow> Blocked (remote_drift_reason r (case snap of Some v \<Rightarrow> v | None \<Rightarrow> l))) \<and>
   push_decision_of l r snap True = (if journey_content_equal l r then NothingToDo else PushIt) \<and>
   (\<forall>a b. json_wf (JObj (je_nodes a)) \<and> json_wf (JObj (je_nodes b)) \<and>
      ''_rev'' \<notin> fst ` set (je_nodes a) \<and> ''_rev'' \<notin> fst ` set (je_nodes b) \<longrightarrow>
      (remote_drift_reason (export_value a) (export_value b) = RemoteDrift False 0 \<longleftrightarrow>
       journey_content_equal (export_value a) (export_value b)))"
  using push_follows_state forced_push drift_reason_names by blast

lemma push_follows_status_witness:
  "remote_drift_reason (export_value demo_export) (export_value (demo_export\<lparr>je_nodes := []\<rparr>)) \<noteq>
     RemoteDrift False 0 \<and>
   \<not> journey_content_equal (export_value demo_export) (export_value (demo_export\<lparr>je_nodes := []\<rparr>))"
proof -
  have "json_wf (JObj (je_nodes demo_export)) \<and> json_wf (JObj (je_nodes (demo_export\<lparr>je_nodes := []\<rparr>))) \<and>
      ''_rev'' \<notin> fst ` set (je_nodes demo_export) \<and> ''_rev'' \<notin> fst ` set (je_nodes (demo_export\<lparr>je_nodes := []\<rparr>))"
    by (simp add: demo_export_def)
  moreover have "\<not> journey_content_equal (export_value demo_export) (export_value (demo_export\<lparr>je_nodes := []\<rparr>))"
    by code_simp
  ultimately show ?thesis using push_follows_status by blast
qed

text \<open>C27: a passing check has compared. When \<open>journey status --check\<close> succeeds, its report has a row for every
  journey named, or, when none is named, for every name of a file with the extension \<open>json\<close> in the
  realm's journeys or in its snapshots, as the run read these directories; and one after the other, each had an
  export on disk whose content equals a copy the run read whole from the tenant right after it.\<close>

theorem status_check_is_honest:
  assumes "journey_status env proj t realm given True s = (Inr report, s')"
  shows "\<exists>names s1 s2.
    (if given = []
     then \<exists>here synced u. dir_stems env (journeys_dir proj (ten_name t) realm) s here u \<and>
        dir_stems env (path_join (journeys_dir proj (ten_name t) realm) ''.snapshots'') u synced s1 \<and>
        set names = here \<union> synced
     else names = given \<and> s1 = s) \<and>
    names \<noteq> [] \<and> all_compared env proj t realm names s1 s2 \<and> map jr_name (sr_rows report) = names"
  using assms by (rule status_rows)

lemma status_check_is_honest_witness:
  "\<exists>u. row_compared demo_env ''/p'' demo_tenant ''alpha'' ''Login'' \<lparr>world = ''same'', sent = []\<rparr> u"
proof -
  let ?run = "journey_status demo_env ''/p'' demo_tenant ''alpha'' [''Login''] True \<lparr>world = ''same'', sent = []\<rparr>"
  have "case fst ?run of Inr _ \<Rightarrow> True | Inl _ \<Rightarrow> False" by code_simp
  then obtain report where "?run = (Inr report, snd ?run)"
    by (cases "fst ?run") (auto simp: prod_eq_iff)
  from status_check_is_honest [OF this] show ?thesis by auto
qed

text \<open>C28: an export is whole. A read that succeeds holds the tree as the tenant sent it and, for every
  node the tree lists, the node's configuration as the tenant sent it, or nothing exactly because the
  tenant answered 404 for it; and it holds nothing else.\<close>

theorem journey_read_is_whole:
  assumes "api_pull env tenant realm name s = (Inr e, s')" and "json_wf (je_tree e)"
  shows "\<exists>refs u. tree_node_refs (je_tree e) = Inr refs \<and>
    read_tree env tenant realm name s = (Inr (je_tree e), u) \<and>
    (\<forall>ref\<in>set refs. node_answered (\<lambda>ty i. read_journey_node env tenant realm ty i) ref
       (map_of (je_nodes e) (fst ref))) \<and>
    (\<forall>i. i \<notin> fst ` set refs \<longrightarrow> map_of (je_nodes e) i = None)"
  using assms by (rule api_pull_whole)

lemma journey_read_is_whole_witness:
  "node_answered (\<lambda>ty i. read_journey_node demo_env ''uat'' ''alpha'' ty i) (''n2'', ''Page'') None"
proof -
  let ?run = "api_pull demo_env ''uat'' ''alpha'' ''Login'' \<lparr>world = ''same'', sent = []\<rparr>"
  have run: "?run = (Inr demo_export, snd ?run)"
    by (simp add: prod_eq_iff) code_simp
  have wf: "json_wf (je_tree demo_export)"
    by code_simp
  have refs: "tree_node_refs (je_tree demo_export) = Inr [(''n1'', ''Page''), (''n2'', ''Page'')]"
    by code_simp
  have held: "map_of (je_nodes demo_export) ''n2'' = None"
    by (simp add: demo_export_def)
  from journey_read_is_whole [OF run wf] refs held show ?thesis by auto
qed

end
