(* ===== verification/Tenant_Choice.thy ===== *)
theory Tenant_Choice
  imports Offboard
begin

text \<open>
  Which tenant a command acts on (\<open>src/src/cli/mod.rs\<close>, \<open>src/src/config/mod.rs\<close>): settled once when the
  command line is parsed, from a typed \<open>--tenant\<close>, the workspace directory the command runs in, the
  stored context and the configuration, in this order; every later resolution of the run returns it.
\<close>

section \<open>Where the command runs\<close>

datatype workspace_origin = Cwd | ExplicitStart string

record workspace_context =
  wc_tenant :: "string option"
  wc_namespace :: "string option"
  wc_origin :: "workspace_origin option"

text \<open>
  \<open>detect_workspace_context\<close>, on the components of the canonical working directory below the
  canonical project root; \<open>None\<close> when one of the two cannot be made canonical or the directory is not
  below the root.
\<close>

definition next_component :: "string list \<Rightarrow> string option" where
  "next_component cs = head_opt cs"

definition detect_workspace_context :: "string list option \<Rightarrow> workspace_context" where
  "detect_workspace_context below =
     (let none = \<lparr>wc_tenant = None, wc_namespace = None, wc_origin = None\<rparr> in
      case below of
        None \<Rightarrow> none
      | Some cs \<Rightarrow>
          if next_component cs \<noteq> Some ''workspace'' then none
          else
            \<lparr>wc_tenant = opt_filter (\<lambda>s. s \<noteq> []) (next_component (drop 1 cs)),
             wc_namespace =
               (if next_component (drop 2 cs) = Some ''am''
                then opt_filter (\<lambda>r. r = ''alpha'' \<or> r = ''bravo'') (next_component (drop 3 cs))
                else if next_component (drop 2 cs) = Some ''idm''
                then opt_filter (\<lambda>k. k = ''endpoint'' \<or> k = ''schedule'') (next_component (drop 3 cs))
                else None),
             wc_origin = None\<rparr>)"

section \<open>The choice\<close>

datatype tenant_source =
    FromFlag
  | Given
  | FromWorkspace workspace_origin
  | StoredContext
  | DefaultTenant

record tenant_resolution =
  tr_tenant :: string
  tr_source :: tenant_source
  tr_ignored_workspace :: "string option"

definition source_text :: "tenant_source \<Rightarrow> string \<Rightarrow> string" where
  "source_text src tenant =
     (case src of
        FromFlag \<Rightarrow> ''--tenant''
      | Given \<Rightarrow> ''named by this command''
      | FromWorkspace Cwd \<Rightarrow> ''current directory is in workspace/'' @ tenant @ ''/''
      | FromWorkspace (ExplicitStart lbl) \<Rightarrow> lbl @ '' is in workspace/'' @ tenant @ ''/''
      | StoredContext \<Rightarrow> ''stored context, set by `aic ctx use`''
      | DefaultTenant \<Rightarrow> ''default_tenant in .aic/config.toml'')"

definition named :: "string \<Rightarrow> tenant_source \<Rightarrow> tenant_resolution" where
  "named tenant src = \<lparr>tr_tenant = tenant, tr_source = src, tr_ignored_workspace = None\<rparr>"

definition configured :: "project_config option \<Rightarrow> string \<Rightarrow> bool" where
  "configured cfg name =
     (case cfg of None \<Rightarrow> False | Some c \<Rightarrow> list_ex (\<lambda>t. ten_name t = name) (cfg_tenants c))"

text \<open>\<open>stored\<close> is the result of reading the context file, looked at only if it is reached.\<close>

definition implicit_tenant ::
  "project_config option \<Rightarrow> workspace_context \<Rightarrow> 'e + string option \<Rightarrow> 'e + tenant_resolution option" where
  "implicit_tenant cfg ws stored =
     (let fallback = (\<lambda>ignored.
        res_bind stored (\<lambda>s.
          let found = (case s of
                Some name \<Rightarrow> Some (name, StoredContext)
              | None \<Rightarrow>
                  (case cfg of
                     Some c \<Rightarrow> if cfg_default_tenant c \<noteq> [] then Some (cfg_default_tenant c, DefaultTenant)
                              else None
                   | None \<Rightarrow> None))
          in Inr (map_option (\<lambda>(name, src).
               \<lparr>tr_tenant = name, tr_source = src, tr_ignored_workspace = ignored\<rparr>) found)))
      in case wc_tenant ws of
           Some name \<Rightarrow>
             if configured cfg name
             then Inr (Some (named name (FromWorkspace (case wc_origin ws of Some o' \<Rightarrow> o' | None \<Rightarrow> Cwd))))
             else fallback (Some name)
         | None \<Rightarrow> fallback None)"

text \<open>The capture at parse time: \<open>typed\<close> is the value of a \<open>--tenant\<close> on the command line.\<close>

record 'e invocation_tenant =
  it_resolution :: "'e + tenant_resolution option"
  it_takes_tenant :: bool

text \<open>One command of the path clap matched: whether it has the flag, and the value typed there.\<close>

definition typed_tenant :: "(bool \<times> string option) list \<Rightarrow> string option" where
  "typed_tenant levels =
     fold (\<lambda>(has_flag, v) acc. if has_flag then (case v of Some t \<Rightarrow> Some t | None \<Rightarrow> acc) else acc) levels None"

definition capture_invocation ::
  "(bool \<times> string option) list \<Rightarrow> 'e + tenant_resolution option \<Rightarrow> 'e invocation_tenant" where
  "capture_invocation levels implicit =
     \<lparr>it_resolution =
        (case typed_tenant levels of Some t \<Rightarrow> Inr (Some (named t FromFlag)) | None \<Rightarrow> implicit),
      it_takes_tenant = list_ex fst levels\<rparr>"

definition tenant_flag_typed :: "'e invocation_tenant option \<Rightarrow> bool" where
  "tenant_flag_typed captured =
     (case captured of
        None \<Rightarrow> True
      | Some c \<Rightarrow>
          (case it_resolution c of Inr (Some r) \<Rightarrow> tr_source r = FromFlag | _ \<Rightarrow> False))"

text \<open>The value \<open>--tenant\<close> has when it is not typed: the default injected at parse time.\<close>

definition injected_default :: "'e + tenant_resolution option \<Rightarrow> string option" where
  "injected_default implicit =
     (case implicit of Inr (Some r) \<Rightarrow> Some (tr_tenant r) | _ \<Rightarrow> None)"

datatype 'e choice_error = CouldNotWorkOut 'e | NoCurrentContext | ChoiceFailed 'e

definition resolve_against ::
  "'e invocation_tenant option \<Rightarrow> string option \<Rightarrow> 'e + tenant_resolution option \<Rightarrow>
   'e choice_error + tenant_resolution option" where
  "resolve_against captured arg now =
     (case (map_option it_resolution captured, arg) of
        (None, Some tenant) \<Rightarrow> Inr (Some (named tenant FromFlag))
      | (None, None) \<Rightarrow> map_err ChoiceFailed now
      | (Some (Inl e), None) \<Rightarrow> Inl (CouldNotWorkOut e)
      | (Some (Inl _), Some tenant) \<Rightarrow> Inr (Some (named tenant Given))
      | (Some (Inr r), None) \<Rightarrow> Inr r
      | (Some (Inr r), Some tenant) \<Rightarrow>
          (case r of
             Some res \<Rightarrow> if tr_tenant res = tenant then Inr (Some res) else Inr (Some (named tenant Given))
           | None \<Rightarrow> Inr (Some (named tenant Given))))"

definition resolve_tenant_with_source ::
  "'e invocation_tenant option \<Rightarrow> string option \<Rightarrow> project_config \<Rightarrow> workspace_context \<Rightarrow>
   'e + string option \<Rightarrow> 'e choice_error + tenant_resolution" where
  "resolve_tenant_with_source captured arg cfg ws stored =
     res_bind (resolve_against captured arg (implicit_tenant (Some cfg) ws stored)) (\<lambda>r.
       ok_or NoCurrentContext r)"

definition resolve_tenant ::
  "'e invocation_tenant option \<Rightarrow> string option \<Rightarrow> project_config \<Rightarrow> workspace_context \<Rightarrow>
   'e + string option \<Rightarrow> 'e choice_error + string" where
  "resolve_tenant captured arg cfg ws stored =
     res_bind (resolve_tenant_with_source captured arg cfg ws stored) (\<lambda>r. Inr (tr_tenant r))"

text \<open>The banner: \<open>is_ctx\<close> says that the command is one of \<open>ctx\<close>.\<close>

definition invocation_banner :: "'e invocation_tenant option \<Rightarrow> bool \<Rightarrow> tenant_resolution option" where
  "invocation_banner captured is_ctx =
     (case captured of
        None \<Rightarrow> None
      | Some c \<Rightarrow>
          if \<not> it_takes_tenant c \<or> is_ctx then None
          else (case it_resolution c of Inr r \<Rightarrow> r | Inl _ \<Rightarrow> None))"

section \<open>Facts\<close>

lemma no_flag_no_value:
  "\<not> list_ex fst levels \<Longrightarrow>
   fold (\<lambda>(has_flag, v) acc. if has_flag then (case v of Some t \<Rightarrow> Some t | None \<Rightarrow> acc) else acc) levels acc = acc"
  by (induction levels arbitrary: acc) auto

lemma typed_needs_flag: "typed_tenant levels = Some t \<Longrightarrow> list_ex fst levels"
  by (rule ccontr) (simp add: typed_tenant_def no_flag_no_value)

text \<open>The order of the implicit sources.\<close>

lemma implicit_order:
  "implicit_tenant cfg ws stored = Inr (Some r) \<Longrightarrow>
   (case tr_source r of
      FromWorkspace _ \<Rightarrow> wc_tenant ws = Some (tr_tenant r) \<and> configured cfg (tr_tenant r)
    | StoredContext \<Rightarrow> stored = Inr (Some (tr_tenant r)) \<and> tr_ignored_workspace r = wc_tenant ws \<and>
        (\<forall>n. wc_tenant ws = Some n \<longrightarrow> \<not> configured cfg n)
    | DefaultTenant \<Rightarrow> stored = Inr None \<and> (\<exists>c. cfg = Some c \<and> cfg_default_tenant c = tr_tenant r) \<and>
        tr_tenant r \<noteq> [] \<and> tr_ignored_workspace r = wc_tenant ws \<and>
        (\<forall>n. wc_tenant ws = Some n \<longrightarrow> \<not> configured cfg n)
    | _ \<Rightarrow> False)"
  by (cases stored)
    (auto simp: implicit_tenant_def res_bind_def named_def Let_def split: option.splits if_splits)

text \<open>
  Within a run the answer does not change: a resolution with the value the flag carries (typed, or the
  injected default) is the captured one, whatever the files say by then.
\<close>

lemma resolution_is_captured:
  fixes levels and implicit :: "'e + tenant_resolution option"
  defines "c \<equiv> capture_invocation levels implicit"
  assumes "arg = (case typed_tenant levels of Some t \<Rightarrow> Some t | None \<Rightarrow> injected_default implicit) \<or> arg = None"
  shows "resolve_against (Some c) arg now =
     (case it_resolution c of
        Inr r \<Rightarrow> Inr r
      | Inl e \<Rightarrow> Inl (CouldNotWorkOut e))"
  using assms
  by (auto simp: resolve_against_def capture_invocation_def injected_default_def named_def
      split: option.splits sum.splits)

section \<open>Properties\<close>

text \<open>C19: a run acts on the tenant it announced. When the command line gives \<open>--tenant\<close> a value, typed or
  the default injected at parse time, or the command asks with none, the resolution is the one captured
  at parse time, whatever the configuration, the workspace and the stored context say by then; the
  banner, when one is printed, names that tenant; and a run whose capture failed resolves nothing.\<close>

theorem one_tenant_per_run:
  fixes implicit :: "'e + tenant_resolution option"
  assumes "arg = None \<or> arg = (case typed_tenant levels of Some t \<Rightarrow> Some t | None \<Rightarrow> injected_default implicit)"
  shows "resolve_tenant (Some (capture_invocation levels implicit)) arg cfg ws stored =
      (case it_resolution (capture_invocation levels implicit) of
         Inl e \<Rightarrow> Inl (CouldNotWorkOut e)
       | Inr None \<Rightarrow> Inl NoCurrentContext
       | Inr (Some r) \<Rightarrow> Inr (tr_tenant r)) \<and>
    (\<forall>r. invocation_banner (Some (capture_invocation levels implicit)) is_ctx = Some r \<longrightarrow>
       resolve_tenant (Some (capture_invocation levels implicit)) arg cfg ws stored = Inr (tr_tenant r)) \<and>
    (\<forall>t. typed_tenant levels = Some t \<longrightarrow>
       resolve_tenant (Some (capture_invocation levels implicit)) arg cfg ws stored = Inr t \<and>
       tenant_flag_typed (Some (capture_invocation levels implicit)) \<and>
       (\<not> is_ctx \<longrightarrow> invocation_banner (Some (capture_invocation levels implicit)) is_ctx = Some (named t FromFlag)))"
proof -
  let ?c = "capture_invocation levels implicit"
  have captured: "resolve_tenant (Some ?c) arg cfg ws stored =
      (case it_resolution ?c of
         Inl e \<Rightarrow> Inl (CouldNotWorkOut e)
       | Inr None \<Rightarrow> Inl NoCurrentContext
       | Inr (Some r) \<Rightarrow> Inr (tr_tenant r))"
    using resolution_is_captured [where arg = arg and levels = levels and implicit = implicit] assms
    by (auto simp: resolve_tenant_def resolve_tenant_with_source_def res_bind_def ok_or_def
        split: sum.splits option.splits)
  show ?thesis
  proof (intro conjI allI impI captured)
    fix r
    assume "invocation_banner (Some ?c) is_ctx = Some r"
    then have "it_resolution ?c = Inr (Some r)"
      by (auto simp: invocation_banner_def split: if_splits sum.splits)
    with captured show "resolve_tenant (Some ?c) arg cfg ws stored = Inr (tr_tenant r)" by simp
  next
    fix t
    assume typed: "typed_tenant levels = Some t"
    then have c: "it_resolution ?c = Inr (Some (named t FromFlag))" "it_takes_tenant ?c"
      using typed_needs_flag by (simp_all add: capture_invocation_def)
    with captured show "resolve_tenant (Some ?c) arg cfg ws stored = Inr t" by (simp add: named_def)
    from c show "tenant_flag_typed (Some ?c)" by (simp add: tenant_flag_typed_def named_def)
    show "invocation_banner (Some ?c) is_ctx = Some (named t FromFlag)" if "\<not> is_ctx"
      using c that by (simp add: invocation_banner_def)
  qed
qed

lemma one_tenant_per_run_witness:
  "\<forall>c ws stored. resolve_tenant (Some (capture_invocation [(False, None), (True, Some ''uat'')]
      (Inr (Some (named ''dev'' StoredContext)) :: string + _)))
     (Some ''uat'') c ws stored = Inr ''uat'' \<and>
   resolve_tenant (Some (capture_invocation [(True, None)] (Inr (Some (named ''dev'' StoredContext)) :: string + _)))
     (Some ''dev'') c ws stored = Inr ''dev''"
proof (intro allI conjI)
  fix c ws stored
  let ?i = "Inr (Some (named ''dev'' StoredContext)) :: string + tenant_resolution option"
  let ?a = "[(False, None), (True, Some ''uat'')] :: (bool \<times> string option) list"
  let ?b = "[(True, None)] :: (bool \<times> string option) list"
  have a: "typed_tenant ?a = Some ''uat''" by (simp add: typed_tenant_def)
  then have "Some ''uat'' = None \<or> Some ''uat'' =
      (case typed_tenant ?a of Some t \<Rightarrow> Some t | None \<Rightarrow> injected_default ?i)" by simp
  from one_tenant_per_run [OF this, of c ws stored True] a
  show "resolve_tenant (Some (capture_invocation ?a ?i)) (Some ''uat'') c ws stored = Inr ''uat''" by blast
  have b: "typed_tenant ?b = None" by (simp add: typed_tenant_def)
  then have "Some ''dev'' = None \<or> Some ''dev'' =
      (case typed_tenant ?b of Some t \<Rightarrow> Some t | None \<Rightarrow> injected_default ?i)"
    by (simp add: injected_default_def named_def)
  from conjunct1 [OF one_tenant_per_run [OF this, of c ws stored True]] b
  show "resolve_tenant (Some (capture_invocation ?b ?i)) (Some ''dev'') c ws stored = Inr ''dev''"
    by (simp add: capture_invocation_def named_def)
qed

end
