(* ===== verification/Force.thy ===== *)
theory Force
  imports Prelude "HOL-Library.Word"
begin

text \<open>
  The \<open>--force[=<guard>]\<close> permissions of a command (\<open>src/src/cli/force.rs\<close>): one bit per guard in a
  \<open>u8\<close>, and per command the set of bits it allows. \<open>parse_force\<close> is what clap does with the argument
  \<open>force_arg\<close> describes: each occurrence carries a value or the missing value's default, a value
  outside the possible ones is refused, and the occurrences accumulate.
\<close>

unbundle bit_operations_syntax

section \<open>The guards\<close>

definition OPERATION :: "8 word" where "OPERATION = push_bit 0 1"
definition SYNTAX_CHECK :: "8 word" where "SYNTAX_CHECK = push_bit 1 1"
definition BACKUP :: "8 word" where "BACKUP = push_bit 2 1"

definition GUARDS :: "(8 word \<times> string) list" where
  "GUARDS = [(OPERATION, ''operation''), (SYNTAX_CHECK, ''syntax-check''), (BACKUP, ''backup'')]"

definition known_guards :: "8 word" where
  "known_guards = fold (\<lambda>g acc. acc OR fst g) GUARDS 0"

definition force_operation :: "8 word \<Rightarrow> bool" where
  "force_operation requested = (requested AND OPERATION \<noteq> 0)"

definition force_syntax_check :: "8 word \<Rightarrow> bool" where
  "force_syntax_check requested = (requested AND SYNTAX_CHECK \<noteq> 0)"

definition force_backup :: "8 word \<Rightarrow> bool" where
  "force_backup requested = (requested AND BACKUP \<noteq> 0)"

section \<open>Parsing\<close>

definition allowed_names :: "8 word \<Rightarrow> string list" where
  "allowed_names allowed = map snd (filter (\<lambda>g. allowed AND fst g \<noteq> 0) GUARDS)"

definition force_value :: "8 word \<Rightarrow> string \<Rightarrow> string + 8 word" where
  "force_value allowed name =
     (if name \<notin> set (allowed_names allowed) then Inl name
      else case find (\<lambda>g. snd g = name) GUARDS of
             Some g \<Rightarrow> Inr (fst g)
           | None \<Rightarrow> Inl name)"

definition force_insert :: "8 word \<Rightarrow> 8 word \<Rightarrow> 8 word" where
  "force_insert requested guard = (requested OR guard)"

definition guard_name :: "string option \<Rightarrow> string" where
  "guard_name v = (case v of None \<Rightarrow> ''operation'' | Some n \<Rightarrow> n)"

text \<open>The occurrences of \<open>--force\<close> on a command line: \<open>None\<close> is one without a value.\<close>

definition parse_force :: "8 word \<Rightarrow> string option list \<Rightarrow> string + 8 word" where
  "parse_force allowed occurrences =
     res_bind (res_mapM (\<lambda>v. force_value allowed (guard_name v)) occurrences)
       (\<lambda>guards. Inr (fold (\<lambda>g acc. force_insert acc g) guards 0))"

section \<open>What a command sees\<close>

lemma force_bits:
  "OPERATION = 1" "SYNTAX_CHECK = 2" "BACKUP = 4"
  by (simp_all add: OPERATION_def SYNTAX_CHECK_def BACKUP_def push_bit_eq_mult)

lemma or_and_zero: "(a OR b) AND c = (0 :: 8 word) \<longleftrightarrow> a AND c = 0 \<and> b AND c = 0"
  by (simp add: bit.conj_disj_distrib2 or_eq_0_iff)

lemma fold_or_bit:
  "(fold (\<lambda>g acc. force_insert acc g) gs a AND c = 0) \<longleftrightarrow> a AND c = 0 \<and> (\<forall>g\<in>set gs. g AND c = 0)"
  by (induction gs arbitrary: a) (auto simp: force_insert_def or_and_zero)

text \<open>Every guard of the table is one bit, and no two share a name or a bit.\<close>

lemma guard_and:
  "(b, n) \<in> set GUARDS \<Longrightarrow> (c, m) \<in> set GUARDS \<Longrightarrow> b AND c = 0 \<longleftrightarrow> n \<noteq> m"
proof -
  have "list_all (\<lambda>g. list_all (\<lambda>h. (fst g AND fst h = 0) = (snd g \<noteq> snd h)) GUARDS) GUARDS"
    by code_simp
  moreover assume "(b, n) \<in> set GUARDS" "(c, m) \<in> set GUARDS"
  ultimately show ?thesis by (fastforce simp: list_all_iff)
qed

lemma find_by_snd:
  "distinct (map snd xs) \<Longrightarrow> find (\<lambda>g. snd g = n) xs = Some g \<longleftrightarrow> g \<in> set xs \<and> snd g = n"
  by (induction xs) (auto intro: rev_image_eqI)

lemma guard_names_distinct: "distinct (map snd GUARDS)"
  by code_simp

lemmas find_guard = find_by_snd [OF guard_names_distinct]

lemma force_value_iff:
  "force_value allowed n = Inr b \<longleftrightarrow> (b, n) \<in> set GUARDS \<and> allowed AND b \<noteq> 0"
proof -
  have "n \<in> set (allowed_names allowed) \<longleftrightarrow> (\<exists>c. (c, n) \<in> set GUARDS \<and> allowed AND c \<noteq> 0)"
    by (auto simp: allowed_names_def) (force intro: rev_image_eqI)
  moreover have "(c, n) \<in> set GUARDS \<Longrightarrow> (d, n) \<in> set GUARDS \<Longrightarrow> c = d" for c d
    using find_guard [of n "(c, n)"] find_guard [of n "(d, n)"] by simp
  moreover have "find (\<lambda>g. snd g = n) GUARDS = None \<longleftrightarrow> (\<forall>c. (c, n) \<notin> set GUARDS)"
    by (auto simp: find_None_iff)
  ultimately show ?thesis
    by (auto simp: force_value_def find_guard split: option.splits)
qed

lemma res_mapM_map_iff: "res_mapM f xs = Inr ys \<longleftrightarrow> map f xs = map Inr ys"
proof (induction xs arbitrary: ys)
  case (Cons x xs)
  show ?case
  proof (cases "res_mapM f xs")
    case (Inl e)
    with Cons.IH have "map f xs \<noteq> map Inr zs" for zs by (metis Inl_Inr_False)
    with Inl show ?thesis by (auto simp: res_bind_def Cons_eq_map_conv split: sum.splits)
  next
    case (Inr zs)
    with Cons.IH [of zs] show ?thesis
      by (auto simp: res_bind_def Cons_eq_map_conv split: sum.splits)
  qed
qed auto

lemma parse_force_Inr:
  "parse_force allowed vs = Inr flags \<longleftrightarrow>
   (\<exists>gs. map (\<lambda>v. force_value allowed (guard_name v)) vs = map Inr gs \<and>
      flags = fold (\<lambda>g acc. force_insert acc g) gs 0)"
  by (auto simp: parse_force_def res_bind_def simp flip: res_mapM_map_iff split: sum.splits)

lemma parsed_guard:
  assumes "parse_force allowed vs = Inr flags" and bn: "(b, n) \<in> set GUARDS"
  shows "flags AND b \<noteq> 0 \<longleftrightarrow> (\<exists>v\<in>set vs. guard_name v = n)"
    and "v \<in> set vs \<Longrightarrow> guard_name v \<in> set (allowed_names allowed)"
proof -
  from assms(1) obtain gs where gs: "map (\<lambda>v. force_value allowed (guard_name v)) vs = map Inr gs"
    and flags: "flags = fold (\<lambda>g acc. force_insert acc g) gs 0"
    unfolding parse_force_Inr by blast
  from arg_cong [OF gs, of set]
  have im: "(\<lambda>v. force_value allowed (guard_name v)) ` set vs = Inr ` set gs" by simp
  have mem: "(\<exists>v\<in>set vs. force_value allowed (guard_name v) = Inr g) \<longleftrightarrow> g \<in> set gs" for g
  proof -
    have "(\<exists>v\<in>set vs. force_value allowed (guard_name v) = Inr g) \<longleftrightarrow>
        Inr g \<in> (\<lambda>v. force_value allowed (guard_name v)) ` set vs" by (auto simp: image_iff eq_commute)
    then show ?thesis by (simp only: im inj_image_mem_iff [OF inj_Inr])
  qed
  have all: "\<exists>g. force_value allowed (guard_name v) = Inr g" if "v \<in> set vs" for v
    using imageI [OF that, of "\<lambda>v. force_value allowed (guard_name v)", unfolded im] by auto
  show "flags AND b \<noteq> 0 \<longleftrightarrow> (\<exists>v\<in>set vs. guard_name v = n)"
  proof
    assume "flags AND b \<noteq> 0"
    then obtain g where "g \<in> set gs" "g AND b \<noteq> 0"
      unfolding flags fold_or_bit by auto
    with mem [of g] guard_and [OF _ bn] show "\<exists>v\<in>set vs. guard_name v = n"
      unfolding force_value_iff by blast
  next
    assume "\<exists>v\<in>set vs. guard_name v = n"
    then obtain v where v: "v \<in> set vs" "guard_name v = n" ..
    with all obtain g where g: "force_value allowed n = Inr g" by blast
    with v mem have "g \<in> set gs" by blast
    with g guard_and [OF _ bn] show "flags AND b \<noteq> 0"
      unfolding flags fold_or_bit force_value_iff by blast
  qed
  show "v \<in> set vs \<Longrightarrow> guard_name v \<in> set (allowed_names allowed)"
    using all [of v] by (auto simp: force_value_def split: if_splits)
qed

lemma refused_iff:
  "(\<exists>n. parse_force allowed vs = Inl n) \<longleftrightarrow> (\<exists>v\<in>set vs. guard_name v \<notin> set (allowed_names allowed))"
proof -
  have "(\<exists>n. res_mapM (\<lambda>v. force_value allowed (guard_name v)) vs = Inl n) \<longleftrightarrow>
      (\<exists>v\<in>set vs. \<exists>n. force_value allowed (guard_name v) = Inl n)"
    by (induction vs) (auto simp: res_bind_def split: sum.splits)
  moreover have "(\<exists>n. force_value allowed m = Inl n) \<longleftrightarrow> m \<notin> set (allowed_names allowed)" for m
  proof -
    have "m \<in> set (allowed_names allowed) \<Longrightarrow> find (\<lambda>g. snd g = m) GUARDS \<noteq> None"
      by (auto simp: allowed_names_def find_None_iff)
    then show ?thesis by (auto simp: force_value_def split: option.splits)
  qed
  ultimately show ?thesis
    by (auto simp: parse_force_def res_bind_def split: sum.splits)
qed

section \<open>Properties\<close>

text \<open>C29: \<open>--force\<close> grants exactly what was asked for. A parse is refused exactly when an occurrence
  names a guard the command does not allow; otherwise each of the three permissions holds exactly when
  an occurrence asks for it, a bare \<open>--force\<close> asking for the operation, and none the command does not
  allow ever holds.\<close>

theorem force_grants_what_was_asked:
  "((\<exists>n. parse_force allowed vs = Inl n) \<longleftrightarrow>
      (\<exists>v\<in>set vs. guard_name v \<notin> set (allowed_names allowed))) \<and>
   (\<forall>flags. parse_force allowed vs = Inr flags \<longrightarrow>
      (force_operation flags \<longleftrightarrow> None \<in> set vs \<or> Some ''operation'' \<in> set vs) \<and>
      (force_syntax_check flags \<longleftrightarrow> Some ''syntax-check'' \<in> set vs) \<and>
      (force_backup flags \<longleftrightarrow> Some ''backup'' \<in> set vs) \<and>
      (\<forall>(b, n)\<in>set GUARDS. flags AND b \<noteq> 0 \<longrightarrow> n \<in> set (allowed_names allowed)))"
proof (intro conjI allI impI refused_iff)
  fix flags
  assume parsed: "parse_force allowed vs = Inr flags"
  note asked = parsed_guard(1) [OF parsed]
  have guards: "(OPERATION, ''operation'') \<in> set GUARDS" "(SYNTAX_CHECK, ''syntax-check'') \<in> set GUARDS"
    "(BACKUP, ''backup'') \<in> set GUARDS"
    by (simp_all add: GUARDS_def)
  have named: "(\<exists>v\<in>set vs. guard_name v = n) \<longleftrightarrow> Some n \<in> set vs \<or> None \<in> set vs \<and> n = ''operation''" for n
  proof -
    have "guard_name v = n \<longleftrightarrow> v = Some n \<or> v = None \<and> n = ''operation''" for v
      by (cases v) (auto simp: guard_name_def)
    then show ?thesis by auto
  qed
  show "force_operation flags \<longleftrightarrow> None \<in> set vs \<or> Some ''operation'' \<in> set vs"
    unfolding force_operation_def asked [OF guards(1)] named by blast
  show "force_syntax_check flags \<longleftrightarrow> Some ''syntax-check'' \<in> set vs"
    unfolding force_syntax_check_def asked [OF guards(2)] named by simp
  show "force_backup flags \<longleftrightarrow> Some ''backup'' \<in> set vs"
    unfolding force_backup_def asked [OF guards(3)] named by simp
  show "\<forall>(b, n)\<in>set GUARDS. flags AND b \<noteq> 0 \<longrightarrow> n \<in> set (allowed_names allowed)"
    using asked parsed_guard(2) [OF parsed] by blast
qed

lemma force_grants_what_was_asked_witness:
  "parse_force (OPERATION OR BACKUP) [None, Some ''backup''] = Inr 5 \<and>
   force_operation 5 \<and> force_backup 5 \<and> \<not> force_syntax_check 5"
proof -
  have p: "parse_force (OPERATION OR BACKUP) [None, Some ''backup''] = Inr 5" by code_simp
  with force_grants_what_was_asked [of "OPERATION OR BACKUP" "[None, Some ''backup'']"]
  show ?thesis by simp
qed

end
