(* ===== verification/Jwt_Issuer.thy ===== *)
theory Jwt_Issuer
  imports Offboard_Ops Pull_Guard
begin

text \<open>
  Trusted JWT issuers (\<open>src/src/jwtbearer/spec.rs\<close>): the key set an issuer publishes, the list of
  subjects it may mint for, the body of a write, the portable form of a private key, and the token
  request. serde is the argument \<open>cd\<close>: what it parses and how it prints a document.
\<close>

record codec =
  cd_parse :: "string \<Rightarrow> string + json"
  cd_render :: "json \<Rightarrow> string"

datatype token_hint =
    ClientAuthRejected
  | GrantRejected
  | UnknownIssuer
  | SubjectNotAllowed
  | UserNotFound
  | AudienceRejected

datatype (plugins only: code size) jb_error =
    JbCall error
  | BadJsonText string
  | JwkSetNotObject
  | NoKeysArray
  | KeyNotObject
  | PublicNotObject
  | PublicWithoutKid
  | KidNotPublished string "string list"
  | EmptySubject
  | LeavesUnrestricted string
  | MintUnrestricted
  | IssuerEmpty
  | BodyNotObject
  | RecordWithoutKid
  | NotRsaPrivate
  | MissingPrivate string
  | RecordKidDiffers
  | PrivateNotObject
  | PrivateWithoutKid
  | KeyRejected string
  | LookupShape string
  | LookupNobody string
  | LookupWithoutId string
  | LookupSeveral string
  | TokenError token_hint string
  | BadIssuerId string
  | NeedsOperator string
  | NoStoredKey string
  | NotRetained string
  | IssuerExists string
  | NoIssuerClaim string
  | RecordMissing string
  | NoAttribution string
  | HoldFailed string
  | TenantReplaced string
  | TenantRemoved string
  | VaultFailed string
  | BadRecord json
  | KeyFile string string
  | RemoveNeedsForce
  | KeyAlreadyStored string string
  | DiscoveryWithout string
  | NoTokenMember string
  | StdinFailed string
  | JbPanic

section \<open>The key set\<close>

definition parse_jwk_set :: "codec \<Rightarrow> string option \<Rightarrow> jb_error + json" where
  "parse_jwk_set cd existing =
     (case opt_filter (\<lambda>s. s \<noteq> []) (map_option trim existing) of
        None \<Rightarrow> Inr (JObj [(''keys'', JArr [])])
      | Some text \<Rightarrow>
          res_bind (map_err BadJsonText (cd_parse cd text)) (\<lambda>v.
          case as_object v of
            None \<Rightarrow> Inl JwkSetNotObject
          | Some obj \<Rightarrow>
              (case Option.bind (map_of obj ''keys'') as_array of
                 None \<Rightarrow> Inl NoKeysArray
               | Some ks \<Rightarrow> if list_ex (\<lambda>k. \<not> is_object k) ks then Inl KeyNotObject else Inr v)))"

text \<open>An issuer read wraps a member as an object with the member \<open>value\<close>; a template does not.\<close>

definition member_str :: "json \<Rightarrow> string \<Rightarrow> string option" where
  "member_str issuer field =
     (case get_str issuer field of
        Some s \<Rightarrow> Some s
      | None \<Rightarrow> Option.bind (json_get issuer field) (\<lambda>v. get_str v ''value''))"

definition issuer_jwk_set :: "json \<Rightarrow> string option" where
  "issuer_jwk_set issuer = member_str issuer ''jwkSet''"

definition issuer_name :: "json \<Rightarrow> string option" where
  "issuer_name issuer = opt_filter (\<lambda>s. s \<noteq> []) (member_str issuer ''issuer'')"

definition kid_of :: "json \<Rightarrow> string option" where
  "kid_of key = get_str key ''kid''"

definition jwk_set_keys :: "codec \<Rightarrow> json \<Rightarrow> jb_error + json list" where
  "jwk_set_keys cd issuer =
     res_bind (parse_jwk_set cd (issuer_jwk_set issuer)) (\<lambda>jwks.
       Inr (case get_array jwks ''keys'' of None \<Rightarrow> [] | Some ks \<Rightarrow> ks))"

definition missing_kid_error :: "string \<Rightarrow> json list \<Rightarrow> jb_error" where
  "missing_kid_error kid ks =
     KidNotPublished kid (map (\<lambda>k. case kid_of k of None \<Rightarrow> ''<missing kid>'' | Some s \<Rightarrow> s) ks)"

definition jwk_set_key :: "codec \<Rightarrow> string option \<Rightarrow> string \<Rightarrow> jb_error + json" where
  "jwk_set_key cd existing kid =
     res_bind (parse_jwk_set cd existing) (\<lambda>jwks.
     res_bind (ok_or NoKeysArray (get_array jwks ''keys'')) (\<lambda>ks.
       ok_or (missing_kid_error kid ks) (find (\<lambda>k. kid_of k = Some kid) ks)))"

text \<open>The set with its array of keys replaced; every other member stays.\<close>

definition with_keys :: "json \<Rightarrow> json list \<Rightarrow> json" where
  "with_keys jwks ks =
     (case jwks of JObj obj \<Rightarrow> JObj (obj_insert ''keys'' (JArr ks) obj) | v \<Rightarrow> v)"

fun remove_first :: "('a \<Rightarrow> bool) \<Rightarrow> 'a list \<Rightarrow> 'a list option" where
  "remove_first P [] = None"
| "remove_first P (x # xs) = (if P x then Some xs else map_option ((#) x) (remove_first P xs))"

definition remove_from_jwk_set :: "codec \<Rightarrow> string option \<Rightarrow> string \<Rightarrow> jb_error + string" where
  "remove_from_jwk_set cd existing kid =
     res_bind (parse_jwk_set cd existing) (\<lambda>jwks.
     res_bind (ok_or NoKeysArray (get_array jwks ''keys'')) (\<lambda>ks.
     res_bind (ok_or (missing_kid_error kid ks) (remove_first (\<lambda>k. kid_of k = Some kid) ks)) (\<lambda>rest.
       Inr (cd_render cd (with_keys jwks rest)))))"

fun put_key :: "string \<Rightarrow> json \<Rightarrow> json list \<Rightarrow> json list" where
  "put_key kid key [] = [key]"
| "put_key kid key (k # ks) = (if kid_of k = Some kid then key # ks else k # put_key kid key ks)"

definition merge_jwk_set :: "codec \<Rightarrow> string option \<Rightarrow> json \<Rightarrow> jb_error + string" where
  "merge_jwk_set cd existing incoming =
     (if \<not> is_object incoming then Inl PublicNotObject
      else
        res_bind (ok_or PublicWithoutKid (opt_filter (\<lambda>s. s \<noteq> []) (kid_of incoming))) (\<lambda>kid.
        res_bind (parse_jwk_set cd existing) (\<lambda>jwks.
        res_bind (ok_or NoKeysArray (get_array jwks ''keys'')) (\<lambda>ks.
          Inr (cd_render cd (with_keys jwks (put_key kid incoming ks)))))))"

definition jwk_set_contains :: "codec \<Rightarrow> json \<Rightarrow> string \<Rightarrow> jb_error + bool" where
  "jwk_set_contains cd issuer kid =
     res_bind (jwk_set_keys cd issuer) (\<lambda>ks. Inr (list_ex (\<lambda>k. kid_of k = Some kid) ks))"

section \<open>The subjects\<close>

definition strings_of :: "json list \<Rightarrow> string list" where
  "strings_of vs = List.map_filter as_str vs"

definition issuer_allowed_subjects :: "json \<Rightarrow> string list" where
  "issuer_allowed_subjects issuer =
     (case get_array issuer ''allowedSubjects'' of
        Some vs \<Rightarrow> strings_of vs
      | None \<Rightarrow>
          (case Option.bind (json_get issuer ''allowedSubjects'') (\<lambda>v. get_array v ''value'') of
             Some vs \<Rightarrow> strings_of vs
           | None \<Rightarrow> []))"

definition blank :: "string \<Rightarrow> bool" where
  "blank s = (trim s = [])"

definition issuer_is_restricted :: "string list \<Rightarrow> bool" where
  "issuer_is_restricted subjects = list_ex (\<lambda>s. \<not> blank s) subjects"

definition parse_subject :: "string \<Rightarrow> jb_error + string" where
  "parse_subject raw = (if blank raw then Inl EmptySubject else Inr (trim raw))"

fun add_subjects :: "string list \<Rightarrow> string list \<Rightarrow> jb_error + string list" where
  "add_subjects taken [] = Inr taken"
| "add_subjects taken (raw # rest) =
     res_bind (parse_subject raw) (\<lambda>s.
       add_subjects (if s \<in> set taken then taken else taken @ [s]) rest)"

definition subjects_after_add :: "string list \<Rightarrow> string list \<Rightarrow> jb_error + string list" where
  "subjects_after_add existing incoming = add_subjects (filter (\<lambda>s. \<not> blank s) existing) incoming"

definition subjects_after_remove :: "string list \<Rightarrow> string list \<Rightarrow> jb_error + string list" where
  "subjects_after_remove existing incoming =
     res_bind (res_mapM parse_subject incoming) (\<lambda>gone.
       Inr (filter (\<lambda>s. \<not> blank s \<and> s \<notin> set gone) existing))"

definition user_id_from_lookup :: "string \<Rightarrow> json \<Rightarrow> jb_error + string" where
  "user_id_from_lookup username response =
     res_bind (ok_or (LookupShape username) (get_array response ''result'')) (\<lambda>results.
     case results of
       [] \<Rightarrow> Inl (LookupNobody username)
     | [user] \<Rightarrow> ok_or (LookupWithoutId username) (opt_filter (\<lambda>i. i \<noteq> []) (get_str user ''_id''))
     | _ \<Rightarrow> Inl (LookupSeveral username))"

definition subjects_from_resolved ::
  "string list \<Rightarrow> (string \<times> json) list \<Rightarrow> jb_error + string list" where
  "subjects_from_resolved ids lookups =
     res_bind (res_mapM parse_subject ids) (\<lambda>a.
     res_bind (res_mapM (\<lambda>(username, response). user_id_from_lookup username response) lookups) (\<lambda>b.
       Inr (a @ b)))"

definition subjects_list_lines :: "string list \<Rightarrow> string list option" where
  "subjects_list_lines subjects = (if issuer_is_restricted subjects then Some subjects else None)"

definition ensure_production_write_restricted ::
  "tenant_theme \<Rightarrow> string list \<Rightarrow> string \<Rightarrow> jb_error + unit" where
  "ensure_production_write_restricted theme subjects remedy =
     (if theme \<noteq> Production \<or> issuer_is_restricted subjects then Inr ()
      else Inl (LeavesUnrestricted remedy))"

definition mint_reads_issuer :: "tenant_theme \<Rightarrow> bool" where
  "mint_reads_issuer theme = (theme = Production)"

definition ensure_mint_allowed :: "tenant_theme \<Rightarrow> string list \<Rightarrow> jb_error + unit" where
  "ensure_mint_allowed theme subjects =
     (if \<not> mint_reads_issuer theme \<or> issuer_is_restricted subjects then Inr ()
      else Inl MintUnrestricted)"

section \<open>The body of a write\<close>

definition SERVER_FIELDS :: "string list" where
  "SERVER_FIELDS = [''_id'', ''_rev'', ''_type'', ''_provider'']"

definition JWKS_CACHE_TIMEOUT_MS :: int where
  "JWKS_CACHE_TIMEOUT_MS = 60000"

lemma size_wrapped:
  "map_of kvs k = Some v \<Longrightarrow> size v < Suc (size_list (\<lambda>x. Suc (size (snd x))) kvs)"
  by (induction kvs) (auto split: if_splits)

function unwrap_inherited :: "json \<Rightarrow> json" where
  "unwrap_inherited (JArr vs) = JArr (map unwrap_inherited vs)"
| "unwrap_inherited (JObj kvs) =
     (if length kvs = 2 \<and> map_of kvs ''inherited'' \<noteq> None \<and> map_of kvs ''value'' \<noteq> None
      then unwrap_inherited (the (map_of kvs ''value''))
      else JObj (map (\<lambda>(k, v). (k, unwrap_inherited v)) kvs))"
| "unwrap_inherited JNull = JNull"
| "unwrap_inherited (JBool b) = JBool b"
| "unwrap_inherited (JNum n) = JNum n"
| "unwrap_inherited (JStr s) = JStr s"
  by pat_completeness auto

termination
  by (relation "measure size") (auto simp: termination_simp size_wrapped)

definition issuer_body :: "json \<Rightarrow> string \<Rightarrow> string \<Rightarrow> jb_error + json" where
  "issuer_body source issuer jwk_set =
     (if blank issuer then Inl IssuerEmpty
      else
        case as_object (unwrap_inherited source) of
          None \<Rightarrow> Inl BodyNotObject
        | Some obj \<Rightarrow>
            let obj = filter (\<lambda>(k, _). k \<notin> set SERVER_FIELDS) obj;
                obj = obj_insert ''issuer'' (JStr issuer) obj;
                obj = obj_insert ''jwkSet'' (JStr jwk_set) obj;
                obj = (if map_of obj ''allowedSubjects'' = None
                       then obj_insert ''allowedSubjects'' (JArr []) obj else obj);
                obj = obj_insert ''consentedScopesClaim'' (JStr ''scope'') obj;
                obj = obj_insert ''resourceOwnerIdentityClaim'' (JStr ''sub'') obj;
                obj = obj_insert ''jwksCacheTimeout'' (JNum (NInt JWKS_CACHE_TIMEOUT_MS)) obj
            in Inr (JObj obj))"

definition issuer_body_with_subjects ::
  "json \<Rightarrow> string \<Rightarrow> string \<Rightarrow> string list \<Rightarrow> jb_error + json" where
  "issuer_body_with_subjects source issuer jwk_set subjects =
     (if list_ex blank subjects then Inl EmptySubject
      else
        res_bind (issuer_body source issuer jwk_set) (\<lambda>body.
        case as_object body of
          None \<Rightarrow> Inl BodyNotObject
        | Some obj \<Rightarrow> Inr (JObj (obj_insert ''allowedSubjects'' (JArr (map JStr subjects)) obj))))"

end
