(* ===== verification/Jwt_Grant.thy ===== *)
theory Jwt_Grant
  imports Jwt_Issuer
begin

text \<open>
  What \<open>aic auth\<close> sends (\<open>src/src/jwtbearer/spec.rs\<close>, \<open>src/src/aic/auth.rs\<close>): private keys and their
  portable form, the assertion, the token request, and the reading of an error of AM. The RSA and
  base64 libraries, the form serializer and the signature are arguments.
\<close>

section \<open>RSA keys\<close>

record rsa_key =
  rk_primes :: "nat list"
  rk_dp :: "nat option"
  rk_dq :: "nat option"
  rk_qi :: "nat option"

text \<open>\<open>rl_decode\<close> is base64url and big-endian bytes, \<open>rl_encode\<close> back; \<open>rl_components\<close> builds and checks a
  key from modulus, exponents and primes; \<open>rl_der\<close> is the DER encoding.\<close>

record rsa_lib =
  rl_decode :: "string \<Rightarrow> string + nat"
  rl_encode :: "nat \<Rightarrow> string"
  rl_components :: "nat \<Rightarrow> nat \<Rightarrow> nat \<Rightarrow> nat list \<Rightarrow> string + rsa_key"
  rl_der :: "rsa_key \<Rightarrow> string + string"

definition jwk_number :: "rsa_lib \<Rightarrow> json \<Rightarrow> string \<Rightarrow> jb_error + nat" where
  "jwk_number lib jwk field =
     (case get_str jwk field of
        None \<Rightarrow> Inl (KeyRejected (''JWK missing '' @ field))
      | Some s \<Rightarrow> map_err KeyRejected (rl_decode lib s))"

definition jwk_to_private_key :: "rsa_lib \<Rightarrow> json \<Rightarrow> jb_error + rsa_key" where
  "jwk_to_private_key lib jwk =
     (if get_str jwk ''n'' = None then Inl (KeyRejected (''JWK missing '' @ ''n''))
      else if get_str jwk ''e'' = None then Inl (KeyRejected (''JWK missing '' @ ''e''))
      else if get_str jwk ''d'' = None then Inl (KeyRejected (''JWK missing '' @ ''d''))
      else
        res_bind (jwk_number lib jwk ''n'') (\<lambda>n.
        res_bind (jwk_number lib jwk ''e'') (\<lambda>e.
        res_bind (jwk_number lib jwk ''d'') (\<lambda>d.
        case (get_str jwk ''p'', get_str jwk ''q'') of
          (Some _, Some _) \<Rightarrow>
            res_bind (jwk_number lib jwk ''p'') (\<lambda>p.
            res_bind (jwk_number lib jwk ''q'') (\<lambda>q.
              map_err KeyRejected (rl_components lib n e d [p, q])))
        | _ \<Rightarrow> map_err KeyRejected (rl_components lib n e d [])))))"

definition rsa_crt_members :: "rsa_lib \<Rightarrow> rsa_key \<Rightarrow> jb_error + (string \<times> string) list" where
  "rsa_crt_members lib key =
     (let missing = KeyRejected ''RSA key has no CRT parameters'' in
      case rk_primes key of
        [p, q] \<Rightarrow>
          res_bind (ok_or missing (rk_dp key)) (\<lambda>dp.
          res_bind (ok_or missing (rk_dq key)) (\<lambda>dq.
          res_bind (ok_or missing (rk_qi key)) (\<lambda>qi.
            Inr [(''p'', rl_encode lib p), (''q'', rl_encode lib q), (''dp'', rl_encode lib dp),
                 (''dq'', rl_encode lib dq), (''qi'', rl_encode lib qi)])))
      | _ \<Rightarrow> Inl (KeyRejected ''RSA key is not a two-prime key''))"

definition jwk_to_encoding_key :: "rsa_lib \<Rightarrow> json \<Rightarrow> jb_error + string" where
  "jwk_to_encoding_key lib jwk =
     res_bind (jwk_to_private_key lib jwk) (\<lambda>key. map_err KeyRejected (rl_der lib key))"

text \<open>\<open>public_jwk\<close> of \<open>aic/auth.rs\<close>: an indexed member that is missing is null.\<close>

definition index_member :: "json \<Rightarrow> string \<Rightarrow> json" where
  "index_member v k = (case json_get v k of None \<Rightarrow> JNull | Some w \<Rightarrow> w)"

definition auth_public_jwk :: "json \<Rightarrow> json" where
  "auth_public_jwk private_jwk =
     (let base = obj_insert ''kty'' (index_member private_jwk ''kty'')
                 (obj_insert ''use'' (JStr ''sig'')
                 (obj_insert ''alg'' (JStr ''RS256'')
                 (obj_insert ''n'' (index_member private_jwk ''n'')
                 (obj_insert ''e'' (index_member private_jwk ''e'') []))))
      in JObj (case get_str private_jwk ''kid'' of
                 Some kid \<Rightarrow> obj_insert ''kid'' (JStr kid) base
               | None \<Rightarrow> base))"

section \<open>The portable private key\<close>

record key_record =
  kr_kid :: string
  kr_private_jwk :: json

definition private_members :: "json \<Rightarrow> jb_error + unit" where
  "private_members jwk =
     (case find (\<lambda>f. case get_str jwk f of None \<Rightarrow> True | Some s \<Rightarrow> s = []) [''n'', ''e'', ''d''] of
        Some f \<Rightarrow> Inl (MissingPrivate f)
      | None \<Rightarrow> Inr ())"

definition validate_private_rsa_jwk :: "rsa_lib \<Rightarrow> json \<Rightarrow> jb_error + unit" where
  "validate_private_rsa_jwk lib jwk =
     (if get_str jwk ''kty'' \<noteq> Some ''RSA'' then Inl NotRsaPrivate
      else
        res_bind (private_members jwk) (\<lambda>_.
        res_bind (jwk_to_encoding_key lib jwk) (\<lambda>_. Inr ())))"

definition fill_members :: "(string \<times> string) list \<Rightarrow> json_map \<Rightarrow> json_map" where
  "fill_members members obj =
     fold (\<lambda>(k, v) acc. if map_of acc k = None then obj_insert k (JStr v) acc else acc) members obj"

definition export_private_jwk :: "rsa_lib \<Rightarrow> key_record \<Rightarrow> jb_error + json" where
  "export_private_jwk lib r =
     (if kr_kid r = [] then Inl RecordWithoutKid
      else
        res_bind (validate_private_rsa_jwk lib (kr_private_jwk r)) (\<lambda>_.
        if (case kid_of (kr_private_jwk r) of Some k \<Rightarrow> k \<noteq> kr_kid r | None \<Rightarrow> False)
        then Inl RecordKidDiffers
        else
          res_bind (ok_or PrivateNotObject (as_object (kr_private_jwk r))) (\<lambda>obj.
          let obj = obj_insert ''kid'' (JStr (kr_kid r)) obj in
          res_bind (jwk_to_private_key lib (JObj obj)) (\<lambda>key.
          res_bind (rsa_crt_members lib key) (\<lambda>members.
            Inr (JObj (fill_members members obj)))))))"

definition import_private_jwk :: "rsa_lib \<Rightarrow> json \<Rightarrow> jb_error + key_record" where
  "import_private_jwk lib jwk =
     res_bind (validate_private_rsa_jwk lib jwk) (\<lambda>_.
     res_bind (ok_or PrivateWithoutKid (opt_filter (\<lambda>k. k \<noteq> []) (kid_of jwk))) (\<lambda>kid.
       Inr \<lparr>kr_kid = kid, kr_private_jwk = jwk\<rparr>))"

section \<open>The assertion\<close>

definition MAX_ASSERTION_TTL_SECS :: int where
  "MAX_ASSERTION_TTL_SECS = 180"

record user_claims =
  uc_iss :: string
  uc_sub :: string
  uc_aud :: string
  uc_iat :: int
  uc_exp :: int
  uc_jti :: string

definition user_assertion_claims ::
  "string \<Rightarrow> string \<Rightarrow> string \<Rightarrow> int \<Rightarrow> string \<Rightarrow> user_claims" where
  "user_assertion_claims issuer subject audience now jti =
     \<lparr>uc_iss = issuer, uc_sub = subject, uc_aud = audience, uc_iat = now,
      uc_exp = now + MAX_ASSERTION_TTL_SECS, uc_jti = jti\<rparr>"

text \<open>\<open>sign\<close> takes the key id of the header, the claims and the DER key.\<close>

definition sign_user_assertion ::
  "rsa_lib \<Rightarrow> (string \<Rightarrow> user_claims \<Rightarrow> string \<Rightarrow> string + string) \<Rightarrow> string \<Rightarrow> string \<Rightarrow> string \<Rightarrow> int \<Rightarrow>
   string \<Rightarrow> string \<Rightarrow> json \<Rightarrow> jb_error + string" where
  "sign_user_assertion lib sign issuer subject audience now jti kid private_jwk =
     (let claims = user_assertion_claims issuer subject audience now jti in
      res_bind (jwk_to_encoding_key lib private_jwk) (\<lambda>key.
        map_err (\<lambda>e. JbCall (Auth e)) (sign kid claims key)))"

section \<open>The token request\<close>

datatype client_auth = ClientSecretPost | ClientSecretBasic

record token_form =
  tq_body :: string
  tq_authorization :: "string option"

definition form_component :: "((string \<times> string) list \<Rightarrow> string) \<Rightarrow> string \<Rightarrow> jb_error + string" where
  "form_component form v = ok_or JbPanic (strip_prefix ''='' (form [([], v)]))"

definition GRANT_TYPE :: string where
  "GRANT_TYPE = ''urn:ietf:params:oauth:grant-type:jwt-bearer''"

definition form_pairs ::
  "string \<Rightarrow> string option \<Rightarrow> client_auth \<Rightarrow> string \<Rightarrow> string list \<Rightarrow> (string \<times> string) list" where
  "form_pairs client_id client_secret client_auth assertion scopes =
     [(''grant_type'', GRANT_TYPE), (''client_id'', client_id), (''assertion'', assertion)]
     @ (case (client_auth, client_secret) of
          (ClientSecretPost, Some secret) \<Rightarrow> [(''client_secret'', secret)] | _ \<Rightarrow> [])
     @ (if scopes \<noteq> [] then [(''scope'', join '' '' scopes)] else [])"

definition token_request ::
  "((string \<times> string) list \<Rightarrow> string) \<Rightarrow> (string \<Rightarrow> string) \<Rightarrow> string \<Rightarrow> string option \<Rightarrow> client_auth \<Rightarrow>
   string \<Rightarrow> string list \<Rightarrow> jb_error + token_form" where
  "token_request form b64 client_id client_secret client_auth assertion scopes =
     (let body = form (form_pairs client_id client_secret client_auth assertion scopes) in
      case (client_auth, client_secret) of
        (ClientSecretBasic, Some secret) \<Rightarrow>
          res_bind (form_component form client_id) (\<lambda>u.
          res_bind (form_component form secret) (\<lambda>p.
            Inr \<lparr>tq_body = body, tq_authorization = Some (''Basic '' @ b64 (u @ '':'' @ p))\<rparr>))
      | _ \<Rightarrow> Inr \<lparr>tq_body = body, tq_authorization = None\<rparr>)"

definition username_lookup_path ::
  "((string \<times> string) list \<Rightarrow> string) \<Rightarrow> string \<Rightarrow> string \<Rightarrow> string" where
  "username_lookup_path form realm username =
     ''/openidm/managed/'' @ realm @ ''_user?'' @
     form [(''_queryFilter'', ''userName eq '' @ [CHR 0x22] @ username @ [CHR 0x22]), (''_fields'', ''_id'')]"

section \<open>An error of AM\<close>

definition token_hint_of :: "string \<Rightarrow> string \<Rightarrow> token_hint option" where
  "token_hint_of err_code description =
     (let lower = map ascii_lower description in
      if err_code = ''invalid_client'' then Some ClientAuthRejected
      else if err_code = ''unauthorized_client'' \<or> str_contains lower ''grant not allowed'' then Some GrantRejected
      else if str_contains lower ''unknown jwt issuer'' then Some UnknownIssuer
      else if str_contains lower ''issuer is not authorized to grant consent for this subject''
        then Some SubjectNotAllowed
      else if str_contains lower ''not able to read user information'' then Some UserNotFound
      else if str_contains lower ''incorrect audience in jwt'' then Some AudienceRejected
      else None)"

definition map_token_error :: "codec \<Rightarrow> jb_error \<Rightarrow> jb_error" where
  "map_token_error cd e =
     (case e of
        JbCall (Api status body) \<Rightarrow>
          (let parsed = (case cd_parse cd body of Inr v \<Rightarrow> Some v | Inl _ \<Rightarrow> None);
               err_code = (case Option.bind parsed (\<lambda>v. get_str v ''error'') of Some c \<Rightarrow> c | None \<Rightarrow> []);
               description =
                 (case Option.bind parsed (\<lambda>v. get_str v ''error_description'') of
                    Some d \<Rightarrow> d | None \<Rightarrow> body)
           in case token_hint_of err_code description of
                Some hint \<Rightarrow> TokenError hint description
              | None \<Rightarrow> JbCall (Api status body))
      | _ \<Rightarrow> e)"

end
