(* ===== verification/Jwt_Ops.thy ===== *)
theory Jwt_Ops
  imports Jwt_Grant
begin

text \<open>
  The calls, operations and commands of Trusted JWT issuers (\<open>src/src/jwtbearer/api.rs\<close>, \<open>ops.rs\<close>,
  \<open>cli.rs\<close>, \<open>mod.rs\<close>). \<open>jb_env\<close> is what is outside: the agent, its vault, the lock and the configuration
  behind a tenant hold, the random sources, the clock, files and the direct HTTP client of the token
  endpoint. The log holds the calls, the stored keys, the holds, the files made and the HTTP sent.
\<close>

record 'w jb_env =
  jb_agent :: "api_call \<Rightarrow> 'w \<Rightarrow> (error + response) \<times> 'w"
  jb_http :: "'w http"
  jb_get_secret :: "string \<Rightarrow> 'w \<Rightarrow> (secret_error + json) \<times> 'w"
  jb_put_secret :: "string \<Rightarrow> json \<Rightarrow> 'w \<Rightarrow> (string + unit) \<times> 'w"
  jb_lock :: "'w \<Rightarrow> (string + unit) \<times> 'w"
  jb_config :: "'w \<Rightarrow> (string + project_config option) \<times> 'w"
  jb_uuid :: "'w \<Rightarrow> string \<times> 'w"
  jb_new_key :: "'w \<Rightarrow> (string + nat \<times> nat \<times> nat \<times> rsa_key) \<times> 'w"
  jb_stamp :: "'w \<Rightarrow> string"
  jb_unix :: "'w \<Rightarrow> int"
  jb_read_file :: "string \<Rightarrow> 'w \<Rightarrow> (string + string) \<times> 'w"
  jb_create_file :: "string \<Rightarrow> string \<Rightarrow> 'w \<Rightarrow> (string + unit) \<times> 'w"
  jb_stdin :: "'w \<Rightarrow> (string + string) \<times> 'w"
  jb_codec :: codec
  jb_pretty :: "json \<Rightarrow> string"
  jb_rsa :: rsa_lib
  jb_sign :: "string \<Rightarrow> user_claims \<Rightarrow> string \<Rightarrow> string + string"
  jb_form :: "(string \<times> string) list \<Rightarrow> string"
  jb_base64 :: "string \<Rightarrow> string"

datatype (plugins only: code size) jb_event =
    Asked api_call
  | HttpSent http_event
  | Stored string json
  | Held string
  | FileMade string string

type_synonym ('w, 'a) jb = "('w, jb_event, jb_error, 'a) io"

text \<open>A computation that logs other events, its events wrapped.\<close>

definition io_embed :: "('v \<Rightarrow> 'u) \<Rightarrow> ('w, 'v, 'e, 'a) io \<Rightarrow> ('w, 'u, 'e, 'a) io" where
  "io_embed wrap m s =
     (case m \<lparr>world = world s, sent = []\<rparr> of
        (r, s') \<Rightarrow> (r, s\<lparr>world := world s', sent := sent s @ map wrap (sent s')\<rparr>))"

section \<open>The calls\<close>

definition JB_API_VERSION :: string where
  "JB_API_VERSION = ''protocol=2.1,resource=1.0''"

definition jb_send :: "'w jb_env \<Rightarrow> api_call \<Rightarrow> ('w, json) jb" where
  "jb_send env c =
     io_map_err JbCall (io_bind (io_call (Asked c) (jb_agent env c)) (\<lambda>resp. io_lift (decode_response resp)))"

definition realm_segment :: "string \<Rightarrow> string" where
  "realm_segment realm = ''/realms/root/realms/'' @ realm"

definition jb_realm_path :: "string \<Rightarrow> string" where
  "jb_realm_path realm = ''/am/json'' @ realm_segment realm"

definition issuers_path :: "string \<Rightarrow> string" where
  "issuers_path realm = jb_realm_path realm @ ''/realm-config/agents/TrustedJwtIssuer''"

definition discovery_path :: "string \<Rightarrow> string" where
  "discovery_path realm = ''/am/oauth2'' @ realm_segment realm @ ''/.well-known/openid-configuration''"

definition token_path :: "string \<Rightarrow> string" where
  "token_path realm = ''/am/oauth2'' @ realm_segment realm @ ''/access_token''"

definition validate_issuer_id :: "string \<Rightarrow> jb_error + unit" where
  "validate_issuer_id i = (if i = [] \<or> has_separator i then Inl (BadIssuerId i) else Inr ())"

definition issuer_path :: "string \<Rightarrow> string \<Rightarrow> string" where
  "issuer_path realm i = issuers_path realm @ ''/'' @ i"

definition jb_discovery :: "'w jb_env \<Rightarrow> string \<Rightarrow> string \<Rightarrow> ('w, json) jb" where
  "jb_discovery env tenant realm = jb_send env (new_call tenant ''GET'' (discovery_path realm))"

definition lookup_username :: "'w jb_env \<Rightarrow> string \<Rightarrow> string \<Rightarrow> string \<Rightarrow> ('w, json) jb" where
  "lookup_username env tenant realm username =
     jb_send env (new_call tenant ''GET'' (username_lookup_path (jb_form env) realm username))"

definition mint_user_token :: "'w jb_env \<Rightarrow> tenant \<Rightarrow> string \<Rightarrow> token_form \<Rightarrow> ('w, json) jb" where
  "mint_user_token env t realm rq =
     io_map_err JbCall (io_embed HttpSent
       (write_form_with_authorization (jb_http env) t ''POST'' (token_path realm) (tq_body rq) False
         (tq_authorization rq)))"

definition list_issuers :: "'w jb_env \<Rightarrow> string \<Rightarrow> string \<Rightarrow> ('w, json) jb" where
  "list_issuers env tenant realm =
     jb_send env (with_api_version JB_API_VERSION
       (new_call tenant ''GET'' (issuers_path realm @ ''?_queryFilter=true'')))"

definition read_issuer :: "'w jb_env \<Rightarrow> string \<Rightarrow> string \<Rightarrow> string \<Rightarrow> ('w, json) jb" where
  "read_issuer env tenant realm i =
     io_bind (io_lift (validate_issuer_id i)) (\<lambda>_.
       jb_send env (with_api_version JB_API_VERSION (new_call tenant ''GET'' (issuer_path realm i))))"

definition issuer_template :: "'w jb_env \<Rightarrow> string \<Rightarrow> string \<Rightarrow> ('w, json) jb" where
  "issuer_template env tenant realm =
     jb_send env (with_api_version JB_API_VERSION (with_body (JObj [])
       (read_only_action tenant (issuers_path realm @ ''?_action=template''))))"

definition issuer_put_call :: "string \<Rightarrow> string \<Rightarrow> json \<Rightarrow> bool \<Rightarrow> api_call" where
  "issuer_put_call tenant path body confirmed =
     with_api_version JB_API_VERSION (with_confirmed_prod confirmed (with_body body (new_call tenant ''PUT'' path)))"

definition upsert_issuer ::
  "'w jb_env \<Rightarrow> string \<Rightarrow> string \<Rightarrow> string \<Rightarrow> json \<Rightarrow> bool \<Rightarrow> ('w, json) jb" where
  "upsert_issuer env tenant realm i body confirmed =
     io_bind (io_lift (validate_issuer_id i)) (\<lambda>_.
       jb_send env (issuer_put_call tenant (issuer_path realm i) body confirmed))"

section \<open>The vault and the hold\<close>

text \<open>The derived serde code of \<open>KeyRecord\<close>: an object with both members, or a sequence of the two.\<close>

definition record_value :: "key_record \<Rightarrow> json" where
  "record_value r = JObj [(''kid'', JStr (kr_kid r)), (''private_jwk'', kr_private_jwk r)]"

definition record_of :: "json \<Rightarrow> jb_error + key_record" where
  "record_of v =
     ok_or (BadRecord v)
       (case v of
          JObj kvs \<Rightarrow>
            (case (Option.bind (map_of kvs ''kid'') as_str, map_of kvs ''private_jwk'') of
               (Some kid, Some jwk) \<Rightarrow> Some \<lparr>kr_kid = kid, kr_private_jwk = jwk\<rparr>
             | _ \<Rightarrow> None)
        | JArr [JStr kid, jwk] \<Rightarrow> Some \<lparr>kr_kid = kid, kr_private_jwk = jwk\<rparr>
        | _ \<Rightarrow> None)"

definition get_key :: "'w jb_env \<Rightarrow> string \<Rightarrow> ('w, key_record option) jb" where
  "get_key env tenant =
     io_bind (io_try (io_look (jb_get_secret env tenant))) (\<lambda>r.
       case r of
         Inr v \<Rightarrow> io_bind (io_lift (record_of v)) (\<lambda>k. io_return (Some k))
       | Inl SecretMissing \<Rightarrow> io_return None
       | Inl (SecretError e) \<Rightarrow> io_fail (VaultFailed e))"

definition store_key :: "'w jb_env \<Rightarrow> string \<Rightarrow> key_record \<Rightarrow> ('w, unit) jb" where
  "store_key env held r =
     io_map_err VaultFailed
       (io_call (Stored held (record_value r)) (jb_put_secret env held (record_value r)))"

text \<open>\<open>ProjectPaths::hold_tenant\<close>; the returned name is the hold's.\<close>

definition hold_tenant :: "'w jb_env \<Rightarrow> tenant \<Rightarrow> ('w, string) jb" where
  "hold_tenant env expected =
     io_bind (io_map_err HoldFailed (io_call (Held (ten_name expected)) (jb_lock env))) (\<lambda>_.
     io_bind (io_map_err HoldFailed (io_look (jb_config env))) (\<lambda>config.
     case Option.bind config (\<lambda>c. find (\<lambda>t. ten_name t = ten_name expected) (cfg_tenants c)) of
       Some current \<Rightarrow>
         if same_identity current expected then io_return (ten_name expected)
         else io_fail (TenantReplaced (ten_name expected))
     | None \<Rightarrow> io_fail (TenantRemoved (ten_name expected))))"

section \<open>Keys\<close>

datatype name_source = NameFromSettings | NameFromServiceAccount | Placeholder

record operator =
  op_name :: string
  op_host :: string
  op_source :: name_source

definition generate_rsa_jwk :: "rsa_lib \<Rightarrow> string \<Rightarrow> nat \<times> nat \<times> nat \<times> rsa_key \<Rightarrow> jb_error + json" where
  "generate_rsa_jwk lib kid fresh =
     (case fresh of (n, e, d, key) \<Rightarrow>
        let base = obj_insert ''kty'' (JStr ''RSA'') (obj_insert ''alg'' (JStr ''RS256'')
                   (obj_insert ''use'' (JStr ''sig'') (obj_insert ''kid'' (JStr kid)
                   (obj_insert ''n'' (JStr (rl_encode lib n)) (obj_insert ''e'' (JStr (rl_encode lib e))
                   (obj_insert ''d'' (JStr (rl_encode lib d)) []))))))
        in res_bind (rsa_crt_members lib key) (\<lambda>members.
             Inr (JObj (fold (\<lambda>(k, v) acc. obj_insert k (JStr v) acc) members base))))"

definition add_attribution :: "json \<Rightarrow> operator \<Rightarrow> string \<Rightarrow> jb_error + json" where
  "add_attribution jwk op created =
     res_bind (ok_or PrivateNotObject (as_object jwk)) (\<lambda>obj.
       Inr (JObj (obj_insert ''aic_created'' (JStr created)
                 (obj_insert ''aic_host'' (JStr (op_host op))
                 (obj_insert ''aic_owner'' (JStr (op_name op)) obj)))))"

definition generate_key :: "'w jb_env \<Rightarrow> operator \<Rightarrow> ('w, key_record) jb" where
  "generate_key env op =
     io_bind (io_look (\<lambda>w. case jb_uuid env w of (u, w') \<Rightarrow> (Inr u, w'))) (\<lambda>kid.
     io_bind (io_look (\<lambda>w. (Inr (jb_stamp env w), w))) (\<lambda>created.
     io_bind (io_map_err KeyRejected (io_look (jb_new_key env))) (\<lambda>fresh.
     io_bind (io_lift (generate_rsa_jwk (jb_rsa env) kid fresh)) (\<lambda>jwk.
     io_bind (io_lift (add_attribution jwk op created)) (\<lambda>jwk.
       io_return \<lparr>kr_kid = kid, kr_private_jwk = jwk\<rparr>)))))"

definition public_jwk :: "key_record \<Rightarrow> jb_error + json" where
  "public_jwk r =
     (if kid_of (kr_private_jwk r) \<noteq> Some (kr_kid r) then Inl RecordKidDiffers
      else
        case find (\<lambda>f. get_str (kr_private_jwk r) f = None) [''kty'', ''n'', ''e''] of
          Some f \<Rightarrow> Inl (RecordMissing f)
        | None \<Rightarrow>
            res_bind (ok_or PublicNotObject (as_object (auth_public_jwk (kr_private_jwk r)))) (\<lambda>obj.
            case find (\<lambda>f. json_get (kr_private_jwk r) f = None) [''aic_owner'', ''aic_host'', ''aic_created''] of
              Some f \<Rightarrow> Inl (NoAttribution f)
            | None \<Rightarrow>
                Inr (JObj (fold (\<lambda>f acc. obj_insert f (index_member (kr_private_jwk r) f) acc)
                             [''aic_owner'', ''aic_host'', ''aic_created''] obj))))"

section \<open>The operations\<close>

definition DEFAULT_ISSUER_ID :: string where
  "DEFAULT_ISSUER_ID = ''aic-agent''"

definition DEFAULT_ISSUER :: string where
  "DEFAULT_ISSUER = ''aic-agent''"

definition SETUP_PRODUCTION_REMEDY :: string where
  "SETUP_PRODUCTION_REMEDY = ''pass --id/--username so the issuer is restricted, or run `aic jwt-bearer subjects add` first''"

definition ROTATE_PRODUCTION_REMEDY :: string where
  "ROTATE_PRODUCTION_REMEDY = ''restrict the issuer with `aic jwt-bearer subjects add` before rotating''"

definition CREATE_PRODUCTION_REMEDY :: string where
  "CREATE_PRODUCTION_REMEDY = ''pass --id/--username so the new issuer is restricted''"

definition SUBJECTS_RM_PRODUCTION_REMEDY :: string where
  "SUBJECTS_RM_PRODUCTION_REMEDY = ''the last non-empty subject cannot be removed on a production-themed tenant''"

definition check_setup_on_production ::
  "tenant_theme \<Rightarrow> json option \<Rightarrow> string list \<Rightarrow> jb_error + unit" where
  "check_setup_on_production theme existing incoming =
     res_bind (subjects_after_add
         (case existing of None \<Rightarrow> [] | Some v \<Rightarrow> issuer_allowed_subjects v) incoming) (\<lambda>planned.
       ensure_production_write_restricted theme planned SETUP_PRODUCTION_REMEDY)"

definition check_rotate_on_production :: "tenant_theme \<Rightarrow> json \<Rightarrow> jb_error + unit" where
  "check_rotate_on_production theme existing =
     ensure_production_write_restricted theme (issuer_allowed_subjects existing) ROTATE_PRODUCTION_REMEDY"

definition check_create_on_production :: "tenant_theme \<Rightarrow> string list \<Rightarrow> jb_error + unit" where
  "check_create_on_production theme incoming =
     res_bind (subjects_after_add [] incoming) (\<lambda>planned.
       ensure_production_write_restricted theme planned CREATE_PRODUCTION_REMEDY)"

definition jb_not_found :: "jb_error \<Rightarrow> bool" where
  "jb_not_found e = (case e of JbCall (Api status _) \<Rightarrow> status = 404 | _ \<Rightarrow> False)"

text \<open>An issuer that may be absent: a 404 is \<open>None\<close>, any other failure is one.\<close>

definition read_if_present :: "'w jb_env \<Rightarrow> string \<Rightarrow> string \<Rightarrow> string \<Rightarrow> ('w, json option) jb" where
  "read_if_present env tenant realm i =
     io_bind (io_try (read_issuer env tenant realm i)) (\<lambda>r.
       case r of
         Inr v \<Rightarrow> io_return (Some v)
       | Inl e \<Rightarrow> if jb_not_found e then io_return None else io_fail e)"

definition read_or_template :: "'w jb_env \<Rightarrow> string \<Rightarrow> string \<Rightarrow> string \<Rightarrow> ('w, json) jb" where
  "read_or_template env tenant realm i =
     io_bind (read_if_present env tenant realm i) (\<lambda>found.
       case found of Some v \<Rightarrow> io_return v | None \<Rightarrow> issuer_template env tenant realm)"

definition body_with_key :: "codec \<Rightarrow> json \<Rightarrow> string \<Rightarrow> json \<Rightarrow> jb_error + json" where
  "body_with_key cd source issuer public =
     res_bind (merge_jwk_set cd (issuer_jwk_set source) public) (\<lambda>jwk_set.
       issuer_body source issuer jwk_set)"

definition body_with_key_and_subjects ::
  "codec \<Rightarrow> json \<Rightarrow> string \<Rightarrow> json \<Rightarrow> string list \<Rightarrow> jb_error + json" where
  "body_with_key_and_subjects cd source issuer public extra =
     res_bind (merge_jwk_set cd (issuer_jwk_set source) public) (\<lambda>jwk_set.
     res_bind (subjects_after_add (issuer_allowed_subjects source) extra) (\<lambda>subjects.
       issuer_body_with_subjects source issuer jwk_set subjects))"

definition key_is_present :: "'w jb_env \<Rightarrow> string \<Rightarrow> string \<Rightarrow> string \<Rightarrow> ('w, bool) jb" where
  "key_is_present env tenant realm kid =
     io_bind (read_issuer env tenant realm DEFAULT_ISSUER_ID) (\<lambda>issuer.
       io_lift (jwk_set_contains (jb_codec env) issuer kid))"

definition publish_and_verify :: "string \<Rightarrow> ('w, unit) jb \<Rightarrow> ('w, bool) jb \<Rightarrow> ('w, unit) jb" where
  "publish_and_verify kid publish verify =
     io_bind publish (\<lambda>_.
     io_bind verify (\<lambda>seen.
       if seen then io_return ()
       else
         io_bind publish (\<lambda>_.
         io_bind verify (\<lambda>seen.
           if seen then io_return () else io_fail (NotRetained kid)))))"

text \<open>One attempt of \<open>setup\<close> to publish.\<close>

definition setup_publish ::
  "'w jb_env \<Rightarrow> tenant \<Rightarrow> string \<Rightarrow> json \<Rightarrow> string list \<Rightarrow> bool \<Rightarrow> ('w, unit) jb" where
  "setup_publish env t realm public incoming confirmed =
     io_bind (read_or_template env (ten_name t) realm DEFAULT_ISSUER_ID) (\<lambda>remote.
     io_bind (io_lift (check_setup_on_production (ten_theme t) (Some remote) incoming)) (\<lambda>_.
     io_bind (io_lift
         (if incoming = [] then body_with_key (jb_codec env) remote DEFAULT_ISSUER public
          else body_with_key_and_subjects (jb_codec env) remote DEFAULT_ISSUER public incoming)) (\<lambda>body.
     io_bind (upsert_issuer env (ten_name t) realm DEFAULT_ISSUER_ID body confirmed) (\<lambda>_.
       io_return ()))))"

definition jwt_setup ::
  "'w jb_env \<Rightarrow> tenant \<Rightarrow> string \<Rightarrow> operator \<Rightarrow> string list \<Rightarrow> bool \<Rightarrow> ('w, string) jb" where
  "jwt_setup env t realm op incoming confirmed =
     (if op_source op = Placeholder then io_fail (NeedsOperator ''setup'')
      else
        io_bind (hold_tenant env t) (\<lambda>held.
        io_bind
          (if ten_theme t = Production then
             io_bind (read_if_present env (ten_name t) realm DEFAULT_ISSUER_ID) (\<lambda>existing.
               io_lift (check_setup_on_production (ten_theme t) existing incoming))
           else io_return ()) (\<lambda>_.
        io_bind (get_key env (ten_name t)) (\<lambda>stored.
        io_bind (case stored of Some r \<Rightarrow> io_return r | None \<Rightarrow> generate_key env op) (\<lambda>r.
        io_bind (io_lift (public_jwk r)) (\<lambda>public.
        io_bind (store_key env held r) (\<lambda>_.
        io_bind (publish_and_verify (kr_kid r)
            (setup_publish env t realm public incoming confirmed)
            (key_is_present env (ten_name t) realm (kr_kid r))) (\<lambda>_.
          io_return (kr_kid r)))))))))"

definition remove_key_from_issuer ::
  "'w jb_env \<Rightarrow> string \<Rightarrow> string \<Rightarrow> string \<Rightarrow> json \<Rightarrow> bool \<Rightarrow> ('w, nat) jb" where
  "remove_key_from_issuer env tenant realm kid issuer confirmed =
     io_bind (io_lift (remove_from_jwk_set (jb_codec env) (issuer_jwk_set issuer) kid)) (\<lambda>jwk_set.
     io_bind (io_lift (parse_jwk_set (jb_codec env) (Some jwk_set))) (\<lambda>jwks.
     let remaining = (case get_array jwks ''keys'' of None \<Rightarrow> 0 | Some ks \<Rightarrow> length ks) in
     io_bind (io_lift (issuer_body issuer DEFAULT_ISSUER jwk_set)) (\<lambda>body.
     io_bind (upsert_issuer env tenant realm DEFAULT_ISSUER_ID body confirmed) (\<lambda>_.
       io_return remaining))))"

definition publish_public_jwk ::
  "'w jb_env \<Rightarrow> string \<Rightarrow> string \<Rightarrow> json \<Rightarrow> tenant_theme \<Rightarrow> bool \<Rightarrow> ('w, unit) jb" where
  "publish_public_jwk env tenant realm public theme confirmed =
     io_bind (read_or_template env tenant realm DEFAULT_ISSUER_ID) (\<lambda>source.
     io_bind (io_lift (check_rotate_on_production theme source)) (\<lambda>_.
     io_bind (io_lift (body_with_key (jb_codec env) source DEFAULT_ISSUER public)) (\<lambda>body.
     io_bind (upsert_issuer env tenant realm DEFAULT_ISSUER_ID body confirmed) (\<lambda>_.
       io_return ()))))"

definition remove_published_key ::
  "'w jb_env \<Rightarrow> string \<Rightarrow> string \<Rightarrow> string \<Rightarrow> bool \<Rightarrow> ('w, unit) jb" where
  "remove_published_key env tenant realm kid confirmed =
     io_bind (read_issuer env tenant realm DEFAULT_ISSUER_ID) (\<lambda>issuer.
     io_bind (remove_key_from_issuer env tenant realm kid issuer confirmed) (\<lambda>_.
       io_return ()))"

definition jwt_rotate ::
  "'w jb_env \<Rightarrow> tenant \<Rightarrow> string \<Rightarrow> operator \<Rightarrow> bool \<Rightarrow> ('w, string \<times> string) jb" where
  "jwt_rotate env t realm op confirmed =
     io_bind (hold_tenant env t) (\<lambda>held.
     io_bind (get_key env (ten_name t)) (\<lambda>stored.
     case stored of
       None \<Rightarrow> io_fail (NoStoredKey (ten_name t))
     | Some old_record \<Rightarrow>
         if op_source op = Placeholder then io_fail (NeedsOperator ''rotate'')
         else
           io_bind (generate_key env op) (\<lambda>new_record.
           io_bind (io_lift (public_jwk new_record)) (\<lambda>public.
           io_bind (publish_public_jwk env (ten_name t) realm public (ten_theme t) confirmed) (\<lambda>_.
           io_bind (store_key env held new_record) (\<lambda>_.
           io_bind (remove_published_key env (ten_name t) realm (kr_kid old_record) confirmed) (\<lambda>_.
             io_return (kr_kid old_record, kr_kid new_record))))))))"

definition create_issuer ::
  "'w jb_env \<Rightarrow> tenant \<Rightarrow> string \<Rightarrow> string \<Rightarrow> string \<Rightarrow> string \<Rightarrow> string list \<Rightarrow> bool \<Rightarrow> ('w, unit) jb" where
  "create_issuer env t realm i issuer jwks_path incoming confirmed =
     io_bind (io_lift (check_create_on_production (ten_theme t) incoming)) (\<lambda>_.
     io_bind (read_if_present env (ten_name t) realm i) (\<lambda>existing.
     if existing \<noteq> None then io_fail (IssuerExists i)
     else
       io_bind (io_map_err (KeyFile jwks_path) (io_look (jb_read_file env jwks_path))) (\<lambda>contents.
       io_bind (io_lift (parse_jwk_set (jb_codec env) (Some contents))) (\<lambda>jwks.
       let jwk_set = cd_render (jb_codec env) jwks in
       io_bind (issuer_template env (ten_name t) realm) (\<lambda>template.
       io_bind (io_lift (subjects_after_add [] incoming)) (\<lambda>subjects.
       io_bind (io_lift (issuer_body_with_subjects template issuer jwk_set subjects)) (\<lambda>body.
       io_bind (upsert_issuer env (ten_name t) realm i body confirmed) (\<lambda>_.
         io_return ()))))))))"

datatype subject_edit = AddSubjects | RemoveSubjects

definition edit_issuer_subjects ::
  "'w jb_env \<Rightarrow> tenant \<Rightarrow> string \<Rightarrow> string \<Rightarrow> string list \<Rightarrow> subject_edit \<Rightarrow> bool \<Rightarrow>
   ('w, string list \<times> string list) jb" where
  "edit_issuer_subjects env t realm issuer_id incoming edit confirmed =
     io_bind (read_issuer env (ten_name t) realm issuer_id) (\<lambda>issuer.
     let before = issuer_allowed_subjects issuer in
     io_bind (io_lift
         (case edit of
            AddSubjects \<Rightarrow> subjects_after_add before incoming
          | RemoveSubjects \<Rightarrow> subjects_after_remove before incoming)) (\<lambda>after.
     if after = before then io_return (before, after)
     else
       io_bind (io_lift (ensure_production_write_restricted (ten_theme t) after
           SUBJECTS_RM_PRODUCTION_REMEDY)) (\<lambda>_.
       io_bind (io_lift
           (case issuer_jwk_set issuer of
              Some v \<Rightarrow> Inr v
            | None \<Rightarrow> res_bind (parse_jwk_set (jb_codec env) None) (\<lambda>v. Inr (cd_render (jb_codec env) v))))
         (\<lambda>jwk_set.
       io_bind (io_lift (ok_or (NoIssuerClaim issuer_id) (issuer_name issuer))) (\<lambda>claim.
       io_bind (io_lift (issuer_body_with_subjects issuer claim jwk_set after)) (\<lambda>body.
       io_bind (upsert_issuer env (ten_name t) realm issuer_id body confirmed) (\<lambda>_.
         io_return (before, after))))))))"

section \<open>The commands\<close>

definition jb_prod_gate :: "tenant \<Rightarrow> bool \<Rightarrow> ('w, bool) jb" where
  "jb_prod_gate t yes = io_lift (map_err JbCall (prod_write_ok (ten_theme t) yes))"

definition resolve_subjects ::
  "'w jb_env \<Rightarrow> string \<Rightarrow> string \<Rightarrow> string list \<Rightarrow> string list \<Rightarrow> ('w, string list) jb" where
  "resolve_subjects env tenant realm ids usernames =
     io_bind (io_lift (res_mapM parse_subject ids)) (\<lambda>_.
     io_bind (io_mapM (\<lambda>username.
         io_bind (io_lift (parse_subject username)) (\<lambda>username.
         io_bind (lookup_username env tenant realm username) (\<lambda>response.
           io_return (username, response)))) usernames) (\<lambda>lookups.
       io_lift (subjects_from_resolved ids lookups)))"

definition setup_command ::
  "'w jb_env \<Rightarrow> tenant \<Rightarrow> string \<Rightarrow> operator \<Rightarrow> string list \<Rightarrow> string list \<Rightarrow> bool \<Rightarrow> ('w, string) jb" where
  "setup_command env t realm op ids usernames yes =
     io_bind (jb_prod_gate t yes) (\<lambda>confirmed.
     io_bind (resolve_subjects env (ten_name t) realm ids usernames) (\<lambda>incoming.
       jwt_setup env t realm op incoming confirmed))"

definition rotate_command ::
  "'w jb_env \<Rightarrow> tenant \<Rightarrow> string \<Rightarrow> operator \<Rightarrow> bool \<Rightarrow> ('w, string \<times> string) jb" where
  "rotate_command env t realm op yes =
     io_bind (jb_prod_gate t yes) (\<lambda>confirmed. jwt_rotate env t realm op confirmed)"

definition edit_subjects_command ::
  "'w jb_env \<Rightarrow> tenant \<Rightarrow> string \<Rightarrow> string option \<Rightarrow> string list \<Rightarrow> string list \<Rightarrow> subject_edit \<Rightarrow> bool \<Rightarrow>
   ('w, string list \<times> string list) jb" where
  "edit_subjects_command env t realm issuer ids usernames edit yes =
     io_bind (jb_prod_gate t yes) (\<lambda>confirmed.
     let issuer_id = (case issuer of None \<Rightarrow> DEFAULT_ISSUER_ID | Some i \<Rightarrow> i) in
     io_bind (resolve_subjects env (ten_name t) realm ids usernames) (\<lambda>incoming.
     io_bind (hold_tenant env t) (\<lambda>_.
       edit_issuer_subjects env t realm issuer_id incoming edit confirmed)))"

definition create_issuer_command ::
  "'w jb_env \<Rightarrow> tenant \<Rightarrow> string \<Rightarrow> string \<Rightarrow> string \<Rightarrow> string \<Rightarrow> string list \<Rightarrow> string list \<Rightarrow> bool \<Rightarrow> ('w, unit) jb" where
  "create_issuer_command env t realm i issuer jwks_path ids usernames yes =
     io_bind (jb_prod_gate t yes) (\<lambda>confirmed.
     io_bind (resolve_subjects env (ten_name t) realm ids usernames) (\<lambda>incoming.
     io_bind (hold_tenant env t) (\<lambda>_.
       create_issuer env t realm i issuer jwks_path incoming confirmed)))"

definition key_remove_command ::
  "'w jb_env \<Rightarrow> tenant \<Rightarrow> string \<Rightarrow> string \<Rightarrow> bool \<Rightarrow> bool \<Rightarrow> ('w, nat) jb" where
  "key_remove_command env t realm kid force yes =
     io_bind (jb_prod_gate t yes) (\<lambda>confirmed.
     io_bind (read_issuer env (ten_name t) realm DEFAULT_ISSUER_ID) (\<lambda>issuer.
     io_bind (io_lift (jwk_set_key (jb_codec env) (issuer_jwk_set issuer) kid)) (\<lambda>_.
     io_bind (get_key env (ten_name t)) (\<lambda>_.
     if \<not> force then io_fail RemoveNeedsForce
     else
       io_bind (hold_tenant env t) (\<lambda>_.
       io_bind (read_issuer env (ten_name t) realm DEFAULT_ISSUER_ID) (\<lambda>issuer.
         remove_key_from_issuer env (ten_name t) realm kid issuer confirmed))))))"

definition key_list_command :: "'w jb_env \<Rightarrow> tenant \<Rightarrow> string \<Rightarrow> bool \<Rightarrow> ('w, (json \<times> bool) list) jb" where
  "key_list_command env t realm as_json =
     io_bind (read_issuer env (ten_name t) realm DEFAULT_ISSUER_ID) (\<lambda>issuer.
     io_bind (io_lift (jwk_set_keys (jb_codec env) issuer)) (\<lambda>ks.
     if as_json then io_return (map (\<lambda>k. (k, False)) ks)
     else
       io_bind (get_key env (ten_name t)) (\<lambda>mine.
         io_return (map (\<lambda>k. (k, map_option kr_kid mine = kid_of k)) ks))))"

definition key_export_command ::
  "'w jb_env \<Rightarrow> tenant \<Rightarrow> string option \<Rightarrow> ('w, string) jb" where
  "key_export_command env t out =
     io_bind (get_key env (ten_name t)) (\<lambda>stored.
     case stored of
       None \<Rightarrow> io_fail (NoStoredKey (ten_name t))
     | Some r \<Rightarrow>
         io_bind (io_lift (export_private_jwk (jb_rsa env) r)) (\<lambda>jwk.
         let contents = jb_pretty env jwk @ [CHR 0x0A] in
         case out of
           None \<Rightarrow> io_return contents
         | Some path \<Rightarrow>
             io_bind (io_map_err (KeyFile path)
                 (io_call (FileMade path contents) (jb_create_file env path contents))) (\<lambda>_.
               io_return contents)))"

definition key_import_command ::
  "'w jb_env \<Rightarrow> tenant \<Rightarrow> string \<Rightarrow> string \<Rightarrow> bool \<Rightarrow> ('w, string) jb" where
  "key_import_command env t realm file force =
     io_bind (io_map_err (KeyFile file) (io_look (jb_read_file env file))) (\<lambda>contents.
     io_bind (io_lift (map_err (KeyFile file) (cd_parse (jb_codec env) contents))) (\<lambda>v.
     io_bind (io_lift (import_private_jwk (jb_rsa env) v)) (\<lambda>r.
     io_bind (hold_tenant env t) (\<lambda>held.
     io_bind (get_key env (ten_name t)) (\<lambda>existing.
     case (if force then None else existing) of
       Some old \<Rightarrow> io_fail (KeyAlreadyStored (ten_name t) (kr_kid old))
     | None \<Rightarrow>
         io_bind (store_key env held r) (\<lambda>_.
         io_bind (io_try (read_issuer env (ten_name t) realm DEFAULT_ISSUER_ID)) (\<lambda>_.
           io_return (kr_kid r))))))))"

datatype auth_subject = AsId string | AsUsername string

record auth_options =
  au_subject :: auth_subject
  au_client_id :: string
  au_secret_stdin :: bool
  au_client_auth :: client_auth
  au_scopes :: "string list"

record auth_result =
  ar_subject :: string
  ar_kid :: string
  ar_scope :: string
  ar_token :: string
  ar_expires_in :: int

definition required_string :: "json \<Rightarrow> string \<Rightarrow> jb_error + string" where
  "required_string v field = ok_or (DiscoveryWithout field) (opt_filter (\<lambda>s. s \<noteq> []) (get_str v field))"

definition read_client_secret :: "'w jb_env \<Rightarrow> bool \<Rightarrow> ('w, string option) jb" where
  "read_client_secret env from_stdin =
     (if from_stdin then
        io_bind (io_map_err StdinFailed (io_look (jb_stdin env))) (\<lambda>line. io_return (Some line))
      else io_return None)"

definition auth_subject_of :: "'w jb_env \<Rightarrow> string \<Rightarrow> string \<Rightarrow> auth_subject \<Rightarrow> ('w, string) jb" where
  "auth_subject_of env tenant realm subject =
     (case subject of
        AsId i \<Rightarrow> io_return i
      | AsUsername username \<Rightarrow>
          io_bind (lookup_username env tenant realm username) (\<lambda>response.
            io_lift (user_id_from_lookup username response)))"

definition run_auth :: "'w jb_env \<Rightarrow> tenant \<Rightarrow> string \<Rightarrow> auth_options \<Rightarrow> ('w, auth_result) jb" where
  "run_auth env t realm o' =
     io_bind
       (if mint_reads_issuer (ten_theme t) then
          io_bind (read_issuer env (ten_name t) realm DEFAULT_ISSUER_ID) (\<lambda>issuer.
            io_lift (ensure_mint_allowed (ten_theme t) (issuer_allowed_subjects issuer)))
        else io_return ()) (\<lambda>_.
     io_bind (get_key env (ten_name t)) (\<lambda>stored.
     case stored of
       None \<Rightarrow> io_fail (NoStoredKey (ten_name t))
     | Some r \<Rightarrow>
         io_bind (auth_subject_of env (ten_name t) realm (au_subject o')) (\<lambda>subject.
         io_bind (jb_discovery env (ten_name t) realm) (\<lambda>discovery.
         io_bind (io_lift (required_string discovery ''issuer'')) (\<lambda>audience.
         io_bind (read_client_secret env (au_secret_stdin o')) (\<lambda>secret.
         io_bind (io_look (\<lambda>w. (Inr (jb_unix env w), w))) (\<lambda>now.
         io_bind (io_look (\<lambda>w. case jb_uuid env w of (u, w') \<Rightarrow> (Inr u, w'))) (\<lambda>jti.
         io_bind (io_lift (sign_user_assertion (jb_rsa env) (jb_sign env) DEFAULT_ISSUER subject audience now
             jti (kr_kid r) (kr_private_jwk r))) (\<lambda>assertion.
         io_bind (io_lift (token_request (jb_form env) (jb_base64 env) (au_client_id o') secret
             (au_client_auth o') assertion (au_scopes o'))) (\<lambda>form.
         io_bind (io_map_err (map_token_error (jb_codec env)) (mint_user_token env t realm form)) (\<lambda>response.
         io_bind (io_lift (ok_or (NoTokenMember ''access_token'') (get_str response ''access_token''))) (\<lambda>token.
         io_bind (io_lift (ok_or (NoTokenMember ''expires_in'')
             (Option.bind (json_get response ''expires_in'') as_i64))) (\<lambda>expires_in.
           io_return
             \<lparr>ar_subject = subject, ar_kid = kr_kid r, ar_scope = str_or_default response ''scope'',
              ar_token = token, ar_expires_in = expires_in\<rparr>)))))))))))))"

end
