(* ===== verification/Jwt_Run_Facts.thy ===== *)
theory Jwt_Run_Facts
  imports Jwt_Facts
begin

text \<open>
  The order of a rotation, what \<open>aic auth\<close> sends, and the portable key read back: facts about whole runs
  of \<open>src/src/jwtbearer/ops.rs\<close> and \<open>cli.rs\<close>.
\<close>

section \<open>Events that change something\<close>

definition changes_of :: "jb_event list \<Rightarrow> jb_event list" where
  "changes_of es = filter (\<lambda>e. \<not> no_change e) es"

lemma changes_of_append [simp]: "changes_of (a @ b) = changes_of a @ changes_of b"
  by (simp add: changes_of_def)

lemma changes_of_Nil [simp]: "changes_of [] = []"
  by (simp add: changes_of_def)

lemma changes_none: "list_all no_change es \<Longrightarrow> changes_of es = []"
  by (auto simp: changes_of_def list_all_iff filter_empty_conv)

text \<open>Between two sessions the log grew by \<open>es\<close>.\<close>

definition grew :: "('w, jb_event) sess \<Rightarrow> jb_event list \<Rightarrow> ('w, jb_event) sess \<Rightarrow> bool" where
  "grew s es t \<longleftrightarrow> (\<exists>all. sent t = sent s @ all \<and> changes_of all = es)"

lemma grew_refl: "grew s [] s"
  by (simp add: grew_def)

lemma grew_trans: "grew s a t \<Longrightarrow> grew t b u \<Longrightarrow> grew s (a @ b) u"
  unfolding grew_def by auto

lemma grew_quiet: "emits no_change m \<Longrightarrow> m s = (r, s') \<Longrightarrow> grew s [] s'"
  unfolding grew_def by (metis emits_log changes_none)

lemma grew_send: "jb_send env c s = (r, s') \<Longrightarrow> ac_method c = ''PUT'' \<Longrightarrow> grew s [Asked c] s'"
  by (auto simp: grew_def jb_send_def io_map_err_Pair io_bind_Pair io_call_Pair changes_of_def no_change_def)

text \<open>The write of an issuer body to the default issuer.\<close>

definition issuer_put :: "string \<Rightarrow> string \<Rightarrow> json \<Rightarrow> bool \<Rightarrow> jb_event" where
  "issuer_put n realm b c = Asked (issuer_put_call n (issuer_path realm DEFAULT_ISSUER_ID) b c)"

lemma default_id_valid: "validate_issuer_id DEFAULT_ISSUER_ID = Inr ()"
  by (simp add: validate_issuer_id_def DEFAULT_ISSUER_ID_def has_separator_def)

lemma grew_upsert:
  "upsert_issuer env n realm DEFAULT_ISSUER_ID b c s = (r, s') \<Longrightarrow> grew s [issuer_put n realm b c] s'"
  by (auto simp: upsert_issuer_def io_bind_Pair default_id_valid issuer_put_def intro: grew_send)

lemma grew_store:
  "store_key env n r s = (q, s') \<Longrightarrow> grew s [Stored n (record_value r)] s'"
  by (auto simp: grew_def store_key_def io_map_err_Pair io_call_Pair changes_of_def no_change_def)

text \<open>One step of a run: it stopped there, or went on.\<close>

lemma step_quiet:
  assumes "io_bind m f s = (r, s')" and "emits no_change m"
  obtains (stopped) e where "r = Inl e" "grew s [] s'"
  | (went_on) x t where "m s = (Inr x, t)" "grew s [] t" "f x t = (r, s')"
proof (cases "m s")
  case (Pair q t)
  with assms(2) have g: "grew s [] t" by (rule grew_quiet)
  show thesis
  proof (cases q)
    case (Inl e)
    with Pair g assms(1) show thesis by (intro stopped) (auto simp: io_bind_def)
  next
    case (Inr x)
    with Pair g assms(1) show thesis by (intro went_on) (auto simp: io_bind_def)
  qed
qed

lemma step_lift:
  assumes "io_bind (io_lift q) f s = (r, s')"
  obtains (stopped) e where "r = Inl e" "s' = s"
  | (went_on) x where "q = Inr x" "f x s = (r, s')"
  using assms by (cases q) (auto simp: io_bind_def io_lift_def)

lemmas step_template = step_quiet [OF _ emits_read_or_template, consumes 1, case_names stopped went_on]
lemmas step_issuer = step_quiet [OF _ emits_read_issuer, consumes 1, case_names stopped went_on]
lemmas step_pure = step_lift [consumes 1, case_names stopped went_on]

section \<open>The order of a rotation\<close>

text \<open>
  What the first write of a rotation publishes: the set it read with the new public key put in; a
  reader finds the new key, and every other key as before.
\<close>

definition adds_key :: "codec \<Rightarrow> json \<Rightarrow> json \<Rightarrow> json \<Rightarrow> bool" where
  "adds_key cd source public b \<longleftrightarrow>
     (\<exists>printed kid. issuer_jwk_set b = Some printed \<and> kid_of public = Some kid \<and>
        merge_jwk_set cd (issuer_jwk_set source) public = Inr printed \<and>
        (reads_back cd printed \<longrightarrow>
           jwk_set_key cd (issuer_jwk_set b) kid = Inr public \<and>
           (\<forall>other k. other \<noteq> kid \<longrightarrow>
              (jwk_set_key cd (issuer_jwk_set b) other = Inr k \<longleftrightarrow>
               jwk_set_key cd (issuer_jwk_set source) other = Inr k))))"

text \<open>What the last one publishes: the set it read without the old key.\<close>

definition drops_key :: "codec \<Rightarrow> json \<Rightarrow> string \<Rightarrow> json \<Rightarrow> bool" where
  "drops_key cd source kid b \<longleftrightarrow>
     (\<exists>printed. issuer_jwk_set b = Some printed \<and>
        remove_from_jwk_set cd (issuer_jwk_set source) kid = Inr printed \<and>
        (reads_back cd printed \<longrightarrow>
           (\<forall>other k. other \<noteq> kid \<longrightarrow>
              (jwk_set_key cd (issuer_jwk_set b) other = Inr k \<longleftrightarrow>
               jwk_set_key cd (issuer_jwk_set source) other = Inr k))))"

lemma body_adds_key:
  assumes "body_with_key cd source issuer public = Inr b"
  shows "adds_key cd source public b"
proof -
  from assms obtain printed where m: "merge_jwk_set cd (issuer_jwk_set source) public = Inr printed"
    and b: "issuer_body source issuer printed = Inr b"
    by (auto simp: body_with_key_def res_bind_Inr_iff)
  from m obtain kid where kid: "kid_of public = Some kid" by (rule merge_Inr)
  with m b body_reads(1) [OF b] merged_lookups [OF m _ kid] show ?thesis
    unfolding adds_key_def by auto
qed

lemma body_drops_key:
  assumes "remove_from_jwk_set cd (issuer_jwk_set source) kid = Inr printed"
    and "issuer_body source issuer printed = Inr b"
  shows "drops_key cd source kid b"
  using assms body_reads(1) [OF assms(2)] removed_lookups [OF assms(1)]
  unfolding drops_key_def by auto

lemma emits_hold_quiet: "emits no_change (hold_tenant env t)"
  by (rule emits_hold) (simp add: no_change_def)

lemma held_name: "hold_tenant env t s = (Inr n, s') \<Longrightarrow> n = ten_name t"
  by (auto simp: hold_tenant_def io_pairs split: option.splits if_splits)

lemma public_kid: "public_jwk r = Inr p \<Longrightarrow> kid_of p = Some (kr_kid r)"
proof -
  assume p: "public_jwk r = Inr p"
  then have own: "kid_of (kr_private_jwk r) = Some (kr_kid r)"
    by (auto simp: public_jwk_def split: if_splits)
  obtain obj where obj: "auth_public_jwk (kr_private_jwk r) = JObj obj"
    and kid: "map_of obj ''kid'' = Some (JStr (kr_kid r))"
    using own by (auto simp: auth_public_jwk_def kid_of_def Let_def)
  from p own obj have "p = JObj (fold (\<lambda>f acc. obj_insert f (index_member (kr_private_jwk r) f) acc)
      [''aic_owner'', ''aic_host'', ''aic_created''] obj)"
    by (auto simp: public_jwk_def split: option.splits if_splits)
  with kid show ?thesis by (simp add: kid_of_def get_str_def)
qed

text \<open>
  The phases of a rotation, each from the session the one before it ended in. Prepared: the tenant held,
  the stored key read, the new key drawn. Published: the issuer (or the template) read, and the body with the new
  key put in sent on that reading. Retired: the issuer read once more, and the body without the old key sent on
  that reading.
\<close>

definition rotation_prepared ::
  "'w jb_env \<Rightarrow> tenant \<Rightarrow> operator \<Rightarrow> ('w, jb_event) sess \<Rightarrow> key_record \<Rightarrow> key_record \<Rightarrow> json \<Rightarrow>
   ('w, jb_event) sess \<Rightarrow> bool" where
  "rotation_prepared env t op s old new public s' \<longleftrightarrow>
     (\<exists>s1 s2. hold_tenant env t s = (Inr (ten_name t), s1) \<and>
        get_key env (ten_name t) s1 = (Inr (Some old), s2) \<and> op_source op \<noteq> Placeholder \<and>
        generate_key env op s2 = (Inr new, s') \<and>
        public_jwk new = Inr public \<and> kid_of public = Some (kr_kid new))"

definition rotation_publishes ::
  "'w jb_env \<Rightarrow> tenant \<Rightarrow> string \<Rightarrow> json \<Rightarrow> bool \<Rightarrow> ('w, jb_event) sess \<Rightarrow> json \<Rightarrow> json \<Rightarrow> jb_error + json \<Rightarrow>
   ('w, jb_event) sess \<Rightarrow> bool" where
  "rotation_publishes env t realm public c s source b q s' \<longleftrightarrow>
     (\<exists>s1. read_or_template env (ten_name t) realm DEFAULT_ISSUER_ID s = (Inr source, s1) \<and>
        check_rotate_on_production (ten_theme t) source = Inr () \<and>
        adds_key (jb_codec env) source public b \<and>
        set (issuer_allowed_subjects source) \<subseteq> set (issuer_allowed_subjects b) \<and>
        upsert_issuer env (ten_name t) realm DEFAULT_ISSUER_ID b c s1 = (q, s'))"

definition rotation_retires ::
  "'w jb_env \<Rightarrow> tenant \<Rightarrow> string \<Rightarrow> string \<Rightarrow> bool \<Rightarrow> ('w, jb_event) sess \<Rightarrow> json \<Rightarrow> json \<Rightarrow> jb_error + json \<Rightarrow>
   ('w, jb_event) sess \<Rightarrow> bool" where
  "rotation_retires env t realm kid c s source b q s' \<longleftrightarrow>
     (\<exists>s1. read_issuer env (ten_name t) realm DEFAULT_ISSUER_ID s = (Inr source, s1) \<and>
        drops_key (jb_codec env) source kid b \<and>
        set (issuer_allowed_subjects source) \<subseteq> set (issuer_allowed_subjects b) \<and>
        upsert_issuer env (ten_name t) realm DEFAULT_ISSUER_ID b c s1 = (q, s'))"

text \<open>Why a body could not be built from the issuer as read.\<close>

definition unpublishable :: "codec \<Rightarrow> tenant_theme \<Rightarrow> json \<Rightarrow> json \<Rightarrow> jb_error \<Rightarrow> bool" where
  "unpublishable cd theme source public e \<longleftrightarrow>
     check_rotate_on_production theme source = Inl e \<or>
     check_rotate_on_production theme source = Inr () \<and> body_with_key cd source DEFAULT_ISSUER public = Inl e"

definition unretirable :: "codec \<Rightarrow> json \<Rightarrow> string \<Rightarrow> jb_error \<Rightarrow> bool" where
  "unretirable cd source kid e \<longleftrightarrow>
     remove_from_jwk_set cd (issuer_jwk_set source) kid = Inl e \<or>
     (\<exists>printed. remove_from_jwk_set cd (issuer_jwk_set source) kid = Inr printed \<and>
        (parse_jwk_set cd (Some printed) = Inl e \<or> issuer_body source DEFAULT_ISSUER printed = Inl e))"

text \<open>
  A rotation from \<open>s\<close>: its result, the changes it made, in order, and the session it ended in. It may stop
  before any change, in its reads, for the reason it reports; or on the answer to a write; or after
  storing the new key, when the old one cannot be retired; and it succeeds only after all three changes.
\<close>

inductive rotation ::
  "'w jb_env \<Rightarrow> tenant \<Rightarrow> string \<Rightarrow> operator \<Rightarrow> bool \<Rightarrow> ('w, jb_event) sess \<Rightarrow> jb_error + string \<times> string \<Rightarrow>
   jb_event list \<Rightarrow> ('w, jb_event) sess \<Rightarrow> bool"
  for env t realm op c s where
  not_held: "hold_tenant env t s = (Inl e, s') \<Longrightarrow> rotation env t realm op c s (Inl e) [] s'"
| no_key: "hold_tenant env t s = (Inr (ten_name t), s1) \<Longrightarrow> get_key env (ten_name t) s1 = (q, s') \<Longrightarrow>
    (case q of Inl err \<Rightarrow> e = err | Inr None \<Rightarrow> e = NoStoredKey (ten_name t)
     | Inr (Some _) \<Rightarrow> op_source op = Placeholder \<and> e = NeedsOperator ''rotate'') \<Longrightarrow>
    rotation env t realm op c s (Inl e) [] s'"
| not_drawn: "hold_tenant env t s = (Inr (ten_name t), s1) \<Longrightarrow>
    get_key env (ten_name t) s1 = (Inr (Some old), s2) \<Longrightarrow> generate_key env op s2 = (q, s') \<Longrightarrow>
    (case q of Inl err \<Rightarrow> e = err | Inr new \<Rightarrow> public_jwk new = Inl e) \<Longrightarrow>
    rotation env t realm op c s (Inl e) [] s'"
| unpublished: "rotation_prepared env t op s old new public s1 \<Longrightarrow>
    read_or_template env (ten_name t) realm DEFAULT_ISSUER_ID s1 = (q, s') \<Longrightarrow>
    (case q of Inl err \<Rightarrow> e = err | Inr source \<Rightarrow> unpublishable (jb_codec env) (ten_theme t) source public e) \<Longrightarrow>
    rotation env t realm op c s (Inl e) [] s'"
| publish_failed: "rotation_prepared env t op s old new public s1 \<Longrightarrow>
    rotation_publishes env t realm public c s1 source b (Inl e) s' \<Longrightarrow>
    rotation env t realm op c s (Inl e) [issuer_put (ten_name t) realm b c] s'"
| store_failed: "rotation_prepared env t op s old new public s1 \<Longrightarrow>
    rotation_publishes env t realm public c s1 source b (Inr v) s2 \<Longrightarrow>
    store_key env (ten_name t) new s2 = (Inl e, s') \<Longrightarrow>
    rotation env t realm op c s (Inl e)
      [issuer_put (ten_name t) realm b c, Stored (ten_name t) (record_value new)] s'"
| unretired: "rotation_prepared env t op s old new public s1 \<Longrightarrow>
    rotation_publishes env t realm public c s1 source b (Inr v) s2 \<Longrightarrow>
    store_key env (ten_name t) new s2 = (Inr (), s3) \<Longrightarrow>
    read_issuer env (ten_name t) realm DEFAULT_ISSUER_ID s3 = (q, s') \<Longrightarrow>
    (case q of Inl err \<Rightarrow> e = err | Inr source \<Rightarrow> unretirable (jb_codec env) source (kr_kid old) e) \<Longrightarrow>
    rotation env t realm op c s (Inl e)
      [issuer_put (ten_name t) realm b c, Stored (ten_name t) (record_value new)] s'"
| retired: "rotation_prepared env t op s old new public s1 \<Longrightarrow>
    rotation_publishes env t realm public c s1 source b (Inr v) s2 \<Longrightarrow>
    store_key env (ten_name t) new s2 = (Inr (), s3) \<Longrightarrow>
    rotation_retires env t realm (kr_kid old) c s3 source2 b2 q s' \<Longrightarrow>
    r = (case q of Inl e \<Rightarrow> Inl e | Inr _ \<Rightarrow> Inr (kr_kid old, kr_kid new)) \<Longrightarrow>
    rotation env t realm op c s r
      [issuer_put (ten_name t) realm b c, Stored (ten_name t) (record_value new),
       issuer_put (ten_name t) realm b2 c] s'"

lemma publish_cases:
  assumes "publish_public_jwk env (ten_name t) realm public (ten_theme t) c s = (r, s')"
  obtains
    (unsent) q e where "read_or_template env (ten_name t) realm DEFAULT_ISSUER_ID s = (q, s')" "r = Inl e"
      "case q of Inl err \<Rightarrow> e = err | Inr source \<Rightarrow> unpublishable (jb_codec env) (ten_theme t) source public e"
  | (failed) source b e where "rotation_publishes env t realm public c s source b (Inl e) s'" "r = Inl e"
  | (published) source b v where "rotation_publishes env t realm public c s source b (Inr v) s'" "r = Inr ()"
proof -
  obtain q s1 where rd: "read_or_template env (ten_name t) realm DEFAULT_ISSUER_ID s = (q, s1)"
    by (cases "read_or_template env (ten_name t) realm DEFAULT_ISSUER_ID s")
  show thesis
  proof (cases "\<exists>source b. q = Inr source \<and> check_rotate_on_production (ten_theme t) source = Inr () \<and>
      body_with_key (jb_codec env) source DEFAULT_ISSUER public = Inr b")
    case True
    then obtain source b where q: "q = Inr source" "check_rotate_on_production (ten_theme t) source = Inr ()"
      "body_with_key (jb_codec env) source DEFAULT_ISSUER public = Inr b" by blast
    obtain p s2 where up: "upsert_issuer env (ten_name t) realm DEFAULT_ISSUER_ID b c s1 = (p, s2)"
      by (cases "upsert_issuer env (ten_name t) realm DEFAULT_ISSUER_ID b c s1")
    from q(3) have "set (issuer_allowed_subjects source) \<subseteq> set (issuer_allowed_subjects b)"
      by (auto simp: body_with_key_def res_bind_Inr_iff dest: body_keeps_subjects)
    with rd q up body_adds_key [OF q(3)]
    have w: "rotation_publishes env t realm public c s source b p s2"
      unfolding rotation_publishes_def by blast
    from assms rd q up have "s' = s2 \<and> r = (case p of Inl e \<Rightarrow> Inl e | Inr _ \<Rightarrow> Inr ())"
      by (cases p) (auto simp: publish_public_jwk_def io_bind_def io_lift_def io_return_def)
    with w failed published show thesis by (cases p) auto
  next
    case False
    have "s' = s1 \<and> (\<exists>e. r = Inl e \<and> (case q of Inl err \<Rightarrow> e = err
        | Inr source \<Rightarrow> unpublishable (jb_codec env) (ten_theme t) source public e))"
    proof (cases q)
      case (Inl err)
      with assms rd show ?thesis by (simp add: publish_public_jwk_def io_bind_def)
    next
      case (Inr source)
      note read = rd [unfolded Inr]
      show ?thesis
      proof (cases "check_rotate_on_production (ten_theme t) source")
        case (Inl e)
        with read have "publish_public_jwk env (ten_name t) realm public (ten_theme t) c s = (Inl e, s1)"
          by (simp add: publish_public_jwk_def io_bind_def io_lift_def)
        with assms have "r = Inl e" "s' = s1" by simp_all
        with Inl \<open>q = Inr source\<close> show ?thesis by (simp add: unpublishable_def)
      next
        case (Inr u)
        with False \<open>q = Inr source\<close> obtain e where b: "body_with_key (jb_codec env) source DEFAULT_ISSUER public = Inl e"
          by (cases "body_with_key (jb_codec env) source DEFAULT_ISSUER public") auto
        with read Inr have "publish_public_jwk env (ten_name t) realm public (ten_theme t) c s = (Inl e, s1)"
          by (simp add: publish_public_jwk_def io_bind_def io_lift_def)
        with assms Inr b \<open>q = Inr source\<close> show ?thesis by (auto simp: unpublishable_def)
      qed
    qed
    with rd unsent show thesis by blast
  qed
qed

lemma remove_cases:
  assumes "remove_published_key env (ten_name t) realm kid c s = (r, s')"
  obtains
    (unsent) q e where "read_issuer env (ten_name t) realm DEFAULT_ISSUER_ID s = (q, s')" "r = Inl e"
      "case q of Inl err \<Rightarrow> e = err | Inr source \<Rightarrow> unretirable (jb_codec env) source kid e"
  | (sent) source b q where "rotation_retires env t realm kid c s source b q s'"
      "r = (case q of Inl e \<Rightarrow> Inl e | Inr _ \<Rightarrow> Inr ())"
proof -
  obtain q s1 where rd: "read_issuer env (ten_name t) realm DEFAULT_ISSUER_ID s = (q, s1)"
    by (cases "read_issuer env (ten_name t) realm DEFAULT_ISSUER_ID s")
  show thesis
  proof (cases "\<exists>source printed jwks b. q = Inr source \<and>
      remove_from_jwk_set (jb_codec env) (issuer_jwk_set source) kid = Inr printed \<and>
      parse_jwk_set (jb_codec env) (Some printed) = Inr jwks \<and>
      issuer_body source DEFAULT_ISSUER printed = Inr b")
    case True
    then obtain source printed jwks b where q: "q = Inr source"
      "remove_from_jwk_set (jb_codec env) (issuer_jwk_set source) kid = Inr printed"
      "parse_jwk_set (jb_codec env) (Some printed) = Inr jwks"
      "issuer_body source DEFAULT_ISSUER printed = Inr b" by blast
    obtain p s2 where up: "upsert_issuer env (ten_name t) realm DEFAULT_ISSUER_ID b c s1 = (p, s2)"
      by (cases "upsert_issuer env (ten_name t) realm DEFAULT_ISSUER_ID b c s1")
    with rd q body_drops_key [OF q(2,4)] body_keeps_subjects [OF q(4)]
    have w: "rotation_retires env t realm kid c s source b p s2"
      unfolding rotation_retires_def by blast
    from assms rd q up have "s' = s2 \<and> r = (case p of Inl e \<Rightarrow> Inl e | Inr _ \<Rightarrow> Inr ())"
      by (cases p) (auto simp: remove_published_key_def remove_key_from_issuer_def Let_def
          io_bind_def io_lift_def io_return_def)
    with w sent show thesis by auto
  next
    case False
    have "s' = s1 \<and> (\<exists>e. r = Inl e \<and> (case q of Inl err \<Rightarrow> e = err
        | Inr source \<Rightarrow> unretirable (jb_codec env) source kid e))"
    proof (cases q)
      case (Inl err)
      with assms rd show ?thesis by (simp add: remove_published_key_def io_bind_def)
    next
      case (Inr source)
      note this_run = assms rd False Inr
      show ?thesis
      proof (cases "remove_from_jwk_set (jb_codec env) (issuer_jwk_set source) kid")
        case (Inl err)
        with this_run show ?thesis
          by (simp add: remove_published_key_def remove_key_from_issuer_def unretirable_def io_bind_def io_lift_def)
      next
        case (Inr printed)
        note removed = Inr
        show ?thesis
        proof (cases "parse_jwk_set (jb_codec env) (Some printed)")
          case (Inl e)
          with rd \<open>q = Inr source\<close> removed have "remove_published_key env (ten_name t) realm kid c s = (Inl e, s1)"
            by (simp add: remove_published_key_def remove_key_from_issuer_def io_bind_def io_lift_def)
          with assms Inl removed \<open>q = Inr source\<close> show ?thesis by (auto simp: unretirable_def)
        next
          case (Inr jwks)
          with False \<open>q = Inr source\<close> removed obtain e where b: "issuer_body source DEFAULT_ISSUER printed = Inl e"
            by (cases "issuer_body source DEFAULT_ISSUER printed") auto
          with rd \<open>q = Inr source\<close> removed Inr
          have "remove_published_key env (ten_name t) realm kid c s = (Inl e, s1)"
            by (simp add: remove_published_key_def remove_key_from_issuer_def Let_def io_bind_def io_lift_def)
          with assms Inr b removed \<open>q = Inr source\<close> show ?thesis by (auto simp: unretirable_def)
        qed
      qed
    qed
    with rd unsent show thesis by blast
  qed
qed

lemma rotation_tail:
  assumes run: "io_bind (publish_public_jwk env (ten_name t) realm public (ten_theme t) c) (\<lambda>_.
      io_bind (store_key env (ten_name t) new) (\<lambda>_.
      io_bind (remove_published_key env (ten_name t) realm (kr_kid old) c) (\<lambda>_.
        io_return (kr_kid old, kr_kid new)))) s1 = (r, s')"
    and prepared: "rotation_prepared env t op s old new public s1"
  shows "\<exists>chs. rotation env t realm op c s r chs s'"
proof -
  obtain q s2 where pub: "publish_public_jwk env (ten_name t) realm public (ten_theme t) c s1 = (q, s2)"
    by (cases "publish_public_jwk env (ten_name t) realm public (ten_theme t) c s1")
  then show ?thesis
  proof (cases rule: publish_cases)
    case (unsent p e)
    with run pub have "r = Inl e" "s' = s2" by (simp_all add: io_bind_def)
    with rotation.unpublished [OF prepared unsent(1)] unsent(2,3) pub show ?thesis by auto
  next
    case (failed source b e)
    with run pub have "r = Inl e" "s' = s2" by (simp_all add: io_bind_def)
    with rotation.publish_failed [OF prepared failed(1)] show ?thesis by auto
  next
    case (published source b v)
    obtain p s3 where st: "store_key env (ten_name t) new s2 = (p, s3)"
      by (cases "store_key env (ten_name t) new s2")
    show ?thesis
    proof (cases p)
      case (Inl e)
      with run pub published(2) st have "r = Inl e" "s' = s3" by (simp_all add: io_bind_def)
      with rotation.store_failed [OF prepared published(1) st [unfolded Inl]] show ?thesis by auto
    next
      case (Inr y)
      with st have stored: "store_key env (ten_name t) new s2 = (Inr (), s3)" by simp
      obtain z s4 where rm: "remove_published_key env (ten_name t) realm (kr_kid old) c s3 = (z, s4)"
        by (cases "remove_published_key env (ten_name t) realm (kr_kid old) c s3")
      with run pub published(2) st Inr have
        r: "r = (case z of Inl e \<Rightarrow> Inl e | Inr _ \<Rightarrow> Inr (kr_kid old, kr_kid new))" "s' = s4"
        by (cases z; simp add: io_bind_def io_return_def)+
      from rm show ?thesis
      proof (cases rule: remove_cases)
        case (unsent u e)
        with r rotation.unretired [OF prepared published(1) stored unsent(1,3)] show ?thesis by auto
      next
        case (sent source2 b2 u)
        have "r = (case u of Inl e \<Rightarrow> Inl e | Inr _ \<Rightarrow> Inr (kr_kid old, kr_kid new))"
          using r(1) sent(2) by (cases u) simp_all
        with r(2) rotation.retired [OF prepared published(1) stored sent(1)] show ?thesis by auto
      qed
    qed
  qed
qed

lemma rotation_runs:
  assumes "jwt_rotate env t realm op c s = (r, s')"
  shows "\<exists>chs. rotation env t realm op c s r chs s'"
proof -
  obtain q1 s1 where hold: "hold_tenant env t s = (q1, s1)" by (cases "hold_tenant env t s")
  show ?thesis
  proof (cases q1)
    case (Inl e)
    with assms hold have "r = Inl e" "s' = s1" by (simp_all add: jwt_rotate_def io_bind_def)
    with rotation.not_held [OF hold [unfolded Inl]] show ?thesis by blast
  next
    case (Inr held)
    with hold have h: "hold_tenant env t s = (Inr (ten_name t), s1)" and name: "held = ten_name t"
      by (auto dest: held_name)
    obtain q2 s2 where key: "get_key env (ten_name t) s1 = (q2, s2)" by (cases "get_key env (ten_name t) s1")
    show ?thesis
    proof (cases "(\<exists>old. q2 = Inr (Some old)) \<and> op_source op \<noteq> Placeholder")
      case False
      with assms h name key obtain e where "s' = s2" "r = Inl e" "case q2 of Inl err \<Rightarrow> e = err
          | Inr None \<Rightarrow> e = NoStoredKey (ten_name t)
          | Inr (Some _) \<Rightarrow> op_source op = Placeholder \<and> e = NeedsOperator ''rotate''"
        by (cases q2) (auto simp: jwt_rotate_def io_bind_def split: option.splits)
      with rotation.no_key [OF h key] show ?thesis by blast
    next
      case True
      then obtain old where old: "q2 = Inr (Some old)" and op: "op_source op \<noteq> Placeholder" by blast
      note k = key [unfolded old]
      obtain q3 s3 where gen: "generate_key env op s2 = (q3, s3)" by (cases "generate_key env op s2")
      show ?thesis
      proof (cases "\<exists>new public. q3 = Inr new \<and> public_jwk new = Inr public")
        case False
        with assms h k op gen have "s' = s3 \<and> (\<exists>e. r = Inl e \<and>
            (case q3 of Inl err \<Rightarrow> e = err | Inr new \<Rightarrow> public_jwk new = Inl e))"
          by (cases q3) (auto simp: jwt_rotate_def io_bind_def io_lift_def split: sum.splits)
        with rotation.not_drawn [OF h k gen] show ?thesis by blast
      next
        case True
        then obtain new public where new: "q3 = Inr new" "public_jwk new = Inr public" by blast
        with h k op gen public_kid [OF new(2)] have "rotation_prepared env t op s old new public s3"
          unfolding rotation_prepared_def by blast
        then show ?thesis
          by (rule rotation_tail [rotated])
            (use assms h k op gen new in \<open>simp add: jwt_rotate_def io_bind_def io_lift_def\<close>)
      qed
    qed
  qed
qed

text \<open>The changes named are the ones the log shows.\<close>

lemma prepared_grew: "rotation_prepared env t op s old new public s' \<Longrightarrow> grew s [] s'"
  unfolding rotation_prepared_def
  by (elim exE conjE) (metis append_Nil emits_generate_key emits_get_key emits_hold_quiet grew_quiet grew_trans)

lemma publishes_grew:
  "rotation_publishes env t realm public c s source b q s' \<Longrightarrow> grew s [issuer_put (ten_name t) realm b c] s'"
  unfolding rotation_publishes_def
  by (elim exE conjE) (metis append_Nil emits_read_or_template grew_quiet grew_trans grew_upsert)

lemma retires_grew:
  "rotation_retires env t realm kid c s source b q s' \<Longrightarrow> grew s [issuer_put (ten_name t) realm b c] s'"
  unfolding rotation_retires_def
  by (elim exE conjE) (metis append_Nil emits_read_issuer grew_quiet grew_trans grew_upsert)

lemma rotation_grew: "rotation env t realm op c s r chs s' \<Longrightarrow> grew s chs s'"
proof (induction rule: rotation.induct)
  case (not_held e s')
  then show ?case by (rule grew_quiet [OF emits_hold_quiet])
next
  case (no_key s1 q s' e)
  then show ?case by (metis append_Nil emits_get_key emits_hold_quiet grew_quiet grew_trans)
next
  case (not_drawn s1 old s2 q s' e)
  then show ?case
    by (metis append_Nil emits_generate_key emits_get_key emits_hold_quiet grew_quiet grew_trans)
next
  case (unpublished old new public s1 q s' e)
  then show ?case by (metis append_Nil prepared_grew emits_read_or_template grew_quiet grew_trans)
next
  case (publish_failed old new public s1 source b e s')
  from grew_trans [OF prepared_grew [OF publish_failed(1)] publishes_grew [OF publish_failed(2)]]
  show ?case by simp
next
  case (store_failed old new public s1 source b v s2 e s')
  from grew_trans [OF grew_trans [OF prepared_grew [OF store_failed(1)] publishes_grew [OF store_failed(2)]]
      grew_store [OF store_failed(3)]]
  show ?case by simp
next
  case (unretired old new public s1 source b v s2 s3 q s' e)
  from grew_trans [OF grew_trans [OF grew_trans [OF prepared_grew [OF unretired(1)]
      publishes_grew [OF unretired(2)]] grew_store [OF unretired(3)]] grew_quiet [OF emits_read_issuer unretired(4)]]
  show ?case by simp
next
  case (retired old new public s1 source b v s2 s3 source2 b2 q s' r)
  from grew_trans [OF grew_trans [OF grew_trans [OF prepared_grew [OF retired(1)]
      publishes_grew [OF retired(2)]] grew_store [OF retired(3)]] retires_grew [OF retired(4)]]
  show ?case by simp
qed

section \<open>A rotation against a tenant and a vault that keep what they are given\<close>



text \<open>
  \<open>doc\<close> is the issuer document the tenant holds, \<open>key\<close> the key in the vault. A read answers with what is
  there, if it answers; a write that is accepted has replaced it, and one that is not may have; nothing
  else touches either. Any answer may be an error.
\<close>

definition same_stores :: "('w \<Rightarrow> json) \<Rightarrow> ('w \<Rightarrow> key_record) \<Rightarrow> 'w \<Rightarrow> 'w \<Rightarrow> bool" where
  "same_stores doc key w w' \<longleftrightarrow> doc w' = doc w \<and> key w' = key w"



lemma same_stores_refl [simp]: "same_stores doc key w w"
  by (simp add: same_stores_def)


lemma record_of_value [simp]: "record_of (record_value k) = Inr k"
  by (simp add: record_of_def record_value_def)


































text \<open>On a production tenant only a rotation's last write may carry an open issuer, one that was read open.\<close>

lemma quiet_restricted:
  assumes "\<And>e. e \<in> set (changes_of es) \<Longrightarrow> keeps_restricted e"
  shows "list_all keeps_restricted es"
proof -
  have "keeps_restricted e" if "e \<in> set es" for e
    using that assms [of e] no_change_restricted [of e] by (cases "no_change e") (auto simp: changes_of_def)
  then show ?thesis by (simp add: list_all_iff)
qed

lemma issuer_put_restricted:
  "issuer_is_restricted (issuer_allowed_subjects b) \<Longrightarrow> keeps_restricted (issuer_put n realm b c)"
  by (simp add: keeps_restricted_def issuer_put_def)

lemma publishes_restricted:
  assumes "ten_theme t = Production" and "rotation_publishes env t realm public c s source b q s'"
  shows "keeps_restricted (issuer_put n realm b c)"
proof (rule issuer_put_restricted)
  from assms have "issuer_is_restricted (issuer_allowed_subjects source)"
    "set (issuer_allowed_subjects source) \<subseteq> set (issuer_allowed_subjects b)"
    by (auto simp: rotation_publishes_def check_rotate_on_production_def ensure_restricted)
  then show "issuer_is_restricted (issuer_allowed_subjects b)" by (rule restricted_mono [rotated])
qed

lemma stored_restricted [simp]: "keeps_restricted (Stored n v)"
  by (simp add: keeps_restricted_def)

lemma rotation_restricted:
  assumes "rotation env t realm op c s r chs s'" and "ten_theme t = Production"
  shows "(\<forall>e\<in>set chs. keeps_restricted e) \<or>
    (\<exists>old new public s1 source b v s2 s3 source2 b2 q.
       rotation_prepared env t op s old new public s1 \<and>
       rotation_publishes env t realm public c s1 source b (Inr v) s2 \<and>
       store_key env (ten_name t) new s2 = (Inr (), s3) \<and>
       rotation_retires env t realm (kr_kid old) c s3 source2 b2 q s' \<and>
       \<not> issuer_is_restricted (issuer_allowed_subjects source2) \<and>
       chs = [issuer_put (ten_name t) realm b c, Stored (ten_name t) (record_value new),
              issuer_put (ten_name t) realm b2 c] \<and>
       keeps_restricted (issuer_put (ten_name t) realm b c))"
  using assms
proof (induction rule: rotation.induct)
  case (retired old new public s1 source b v s2 s3 source2 b2 q s' r)
  note first = publishes_restricted [OF retired(6,2), of "ten_name t"]
  show ?case
  proof (cases "issuer_is_restricted (issuer_allowed_subjects source2)")
    case True
    with retired(4) have "issuer_is_restricted (issuer_allowed_subjects b2)"
      by (auto simp: rotation_retires_def intro: restricted_mono)
    from issuer_put_restricted [OF this] first show ?thesis by simp
  next
    case False
    with first retired(1-4) show ?thesis by blast
  qed
qed (auto dest: publishes_restricted)

section \<open>What \<open>aic auth\<close> sends\<close>

definition not_http :: "jb_event \<Rightarrow> bool" where
  "not_http e = (case e of HttpSent _ \<Rightarrow> False | _ \<Rightarrow> True)"

lemma no_change_not_http: "no_change e \<Longrightarrow> not_http e"
  by (cases e) (simp_all add: no_change_def not_http_def)

text \<open>The only request a grant may be: the form of a token request built for these options.\<close>

definition grant_request :: "'w jb_env \<Rightarrow> tenant \<Rightarrow> string \<Rightarrow> auth_options \<Rightarrow> jb_event \<Rightarrow> bool" where
  "grant_request env t realm o' e \<longleftrightarrow>
     (\<exists>secret assertion form.
        token_request (jb_form env) (jb_base64 env) (au_client_id o') secret (au_client_auth o') assertion
          (au_scopes o') = Inr form \<and>
        e = HttpSent (http_event.Sent
              (form_request t ''POST'' (token_path realm) (tq_body form) (tq_authorization form))))"

text \<open>
  A computation that sends at most one HTTP request, last, one with \<open>Q\<close>; and fails if it sends none.
\<close>

definition mints_last :: "(jb_event \<Rightarrow> bool) \<Rightarrow> ('w, 'a) jb \<Rightarrow> bool" where
  "mints_last Q m \<longleftrightarrow>
     (\<forall>s. \<exists>es. sent (snd (m s)) = sent s @ es \<and>
        (list_all not_http es \<and> (\<exists>e. fst (m s) = Inl e) \<or>
         (\<exists>before e. es = before @ [e] \<and> list_all not_http before \<and> Q e)))"

lemma mints_last_fail: "mints_last Q (io_fail e)"
  by (simp add: mints_last_def io_fail_def)

lemma mints_last_bind:
  assumes "emits not_http m" and "\<And>x. mints_last Q (f x)"
  shows "mints_last Q (io_bind m f)"
  unfolding mints_last_def
proof
  fix s
  obtain q t where m: "m s = (q, t)" by (cases "m s")
  from emits_log [OF assms(1) m] obtain es where es: "sent t = sent s @ es" "list_all not_http es" by blast
  show "\<exists>es. sent (snd (io_bind m f s)) = sent s @ es \<and>
      (list_all not_http es \<and> (\<exists>e. fst (io_bind m f s) = Inl e) \<or>
       (\<exists>before e. es = before @ [e] \<and> list_all not_http before \<and> Q e))"
  proof (cases q)
    case (Inl e)
    with m have "io_bind m f s = (Inl e, t)" by (simp add: io_bind_def)
    with es show ?thesis by simp
  next
    case (Inr x)
    with m have run: "io_bind m f s = f x t" by (simp add: io_bind_def)
    from assms(2) [of x, unfolded mints_last_def, THEN spec, of t] obtain es' where sent: "sent (snd (f x t)) = sent t @ es'"
      and "list_all not_http es' \<and> (\<exists>e. fst (f x t) = Inl e) \<or>
       (\<exists>before e. es' = before @ [e] \<and> list_all not_http before \<and> Q e)"
      by (elim exE conjE) (rule that)
    then have "list_all not_http (es @ es') \<and> (\<exists>e. fst (f x t) = Inl e) \<or>
       (\<exists>before e. es @ es' = before @ [e] \<and> list_all not_http before \<and> Q e)"
    proof (elim disjE exE conjE)
      fix before e
      assume "es' = before @ [e]" "list_all not_http before" "Q e"
      with es(2) show ?thesis by (intro disjI2 exI [of _ "es @ before"] exI [of _ e]) simp
    qed (use es in auto)
    with es sent show ?thesis unfolding run by (intro exI [of _ "es @ es'"] conjI) simp_all
  qed
qed

lemma mints_last_lift: "(\<And>x. r = Inr x \<Longrightarrow> mints_last Q (f x)) \<Longrightarrow> mints_last Q (io_bind (io_lift r) f)"
  by (cases r) (auto simp: mints_last_def io_bind_def io_lift_def)

lemma mint_run:
  assumes "mint_user_token env t realm form s = (r, s')"
  shows "ten_theme t = Production \<and> r = Inl (JbCall ProdConfirmRequired) \<and> sent s' = sent s \<or>
    ten_theme t \<noteq> Production \<and>
    sent s' = sent s @ [HttpSent (http_event.Sent
      (form_request t ''POST'' (token_path realm) (tq_body form) (tq_authorization form)))]"
proof (cases "ten_theme t = Production")
  case True
  with assms show ?thesis
    by (auto simp: mint_user_token_def io_embed_def write_form_with_authorization_def ensure_write_allowed_def
        io_bind_def io_lift_def io_map_err_def)
next
  case False
  with assms show ?thesis
    by (auto simp: mint_user_token_def io_embed_def write_form_with_authorization_def ensure_write_allowed_def
        send_http_def io_bind_def io_lift_def io_map_err_def io_call_def split: prod.splits sum.splits)
qed

lemma mints_last_mint:
  assumes "ten_theme t \<noteq> Production \<Longrightarrow> Q (HttpSent (http_event.Sent
      (form_request t ''POST'' (token_path realm) (tq_body form) (tq_authorization form))))"
    and "\<And>x. emits (\<lambda>_. False) (f x)"
  shows "mints_last Q (io_bind (io_map_err g (mint_user_token env t realm form)) f)"
  unfolding mints_last_def
proof
  fix s
  obtain q u where m: "mint_user_token env t realm form s = (q, u)"
    by (cases "mint_user_token env t realm form s")
  have silent: "sent (snd (f x v)) = sent v" for x v
    using assms(2) [of x] by (auto simp: emits_def list_all_iff dest: spec [of _ v])
  show "\<exists>es. sent (snd (io_bind (io_map_err g (mint_user_token env t realm form)) f s)) = sent s @ es \<and>
      (list_all not_http es \<and> (\<exists>e. fst (io_bind (io_map_err g (mint_user_token env t realm form)) f s) = Inl e) \<or>
       (\<exists>before e. es = before @ [e] \<and> list_all not_http before \<and> Q e))"
    using mint_run [OF m] m assms(1)
    by (cases q) (auto simp: io_bind_def io_map_err_def silent)
qed

lemma auth_mints_last:
  "mints_last (\<lambda>e. ten_theme t \<noteq> Production \<and> grant_request env t realm o' e) (run_auth env t realm o')"
proof -
  note reads = emits_jb [THEN emits_mono, OF no_change_not_http] emits_discovery [THEN emits_mono, OF no_change_not_http]
  have secret: "emits not_http (read_client_secret env b)" for b
    unfolding read_client_secret_def
    by (auto intro!: emits_bind emits_map_err emits_look emits_return)
  have subject: "emits not_http (auth_subject_of env n realm s)" for n s
    unfolding auth_subject_of_def
    by (auto intro!: emits_bind emits_return emits_lift reads split: auth_subject.splits)
  have gate: "emits not_http (if mint_reads_issuer (ten_theme t)
      then io_bind (read_issuer env (ten_name t) realm DEFAULT_ISSUER_ID)
        (\<lambda>issuer. io_lift (ensure_mint_allowed (ten_theme t) (issuer_allowed_subjects issuer)))
      else io_return ())"
    by (auto intro!: emits_bind emits_return emits_lift reads)
  show ?thesis
    unfolding run_auth_def
  proof (intro mints_last_bind gate reads)
    fix stored
    show "mints_last (\<lambda>e. ten_theme t \<noteq> Production \<and> grant_request env t realm o' e)
      (case stored of None \<Rightarrow> io_fail (NoStoredKey (ten_name t))
       | Some r \<Rightarrow>
         io_bind (auth_subject_of env (ten_name t) realm (au_subject o')) (\<lambda>subject.
         io_bind (jb_discovery env (ten_name t) realm) (\<lambda>discovery.
         io_bind (io_lift (required_string discovery ''issuer'')) (\<lambda>audience.
         io_bind (read_client_secret env (au_secret_stdin o')) (\<lambda>secret.
         io_bind (io_look (\<lambda>w. (Inr (jb_unix env w), w))) (\<lambda>now.
         io_bind (io_look (\<lambda>w. case jb_uuid env w of (u, w') \<Rightarrow> (Inr u, w'))) (\<lambda>jti.
         io_bind (io_lift (sign_user_assertion (jb_rsa env) (jb_sign env) DEFAULT_ISSUER subject audience now
             jti (kr_kid r) (kr_private_jwk r))) (\<lambda>assertion.
         io_bind (io_lift (token_request (jb_form env) (jb_base64 env) (au_client_id o') secret
             (au_client_auth o') assertion (au_scopes o'))) (\<lambda>form.
         io_bind (io_map_err (map_token_error (jb_codec env)) (mint_user_token env t realm form)) (\<lambda>response.
         io_bind (io_lift (ok_or (NoTokenMember ''access_token'') (get_str response ''access_token''))) (\<lambda>token.
         io_bind (io_lift (ok_or (NoTokenMember ''expires_in'')
             (Option.bind (json_get response ''expires_in'') as_i64))) (\<lambda>expires_in.
           io_return
             \<lparr>ar_subject = subject, ar_kid = kr_kid r, ar_scope = str_or_default response ''scope'',
              ar_token = token, ar_expires_in = expires_in\<rparr>))))))))))))"
    proof (cases stored)
      case None
      then show ?thesis by (simp add: mints_last_fail)
    next
      case (Some r)
      then show ?thesis
        unfolding Some option.case
        by (intro mints_last_bind subject reads secret emits_look mints_last_lift mints_last_mint emits_bind
            emits_lift emits_return) (auto simp: grant_request_def)
    qed
  qed
qed

section \<open>A key put in and taken out again\<close>

lemma obj_insert_twice: "obj_insert k v (obj_insert k w kvs) = obj_insert k v kvs"
  by (induction kvs) auto

lemma merged_removed:
  assumes merge: "merge_jwk_set cd existing key = Inr printed" "reads_back cd printed" "kid_of key = Some kid"
    and absent: "\<forall>k. jwk_set_key cd existing kid \<noteq> Inr k"
    and remove: "remove_from_jwk_set cd (Some printed) kid = Inr again" "reads_back cd again"
  shows "jwk_set_key cd (Some again) other = Inr k \<longleftrightarrow> jwk_set_key cd existing other = Inr k"
proof -
  obtain kid' obj ks where m: "kid_of key = Some kid'" "is_object key"
    "parse_jwk_set cd existing = Inr (JObj obj)" "get_array (JObj obj) ''keys'' = Some ks"
    "\<forall>k\<in>set ks. is_object k" "printed = cd_render cd (with_keys (JObj obj) (put_key kid' key ks))"
    by (rule merge_Inr [OF merge(1)]) (rule that)
  with merge(3) have same: "kid' = kid" by simp
  have "parse_jwk_set cd (Some printed) = Inr (with_keys (JObj obj) (put_key kid key ks))"
    unfolding m(6) same
    by (rule parse_printed [OF merge(2) [unfolded m(6) same] put_key_objects [OF m(2,5)]])
  moreover have "\<forall>x\<in>set ks. kid_of x \<noteq> Some kid"
    using absent by (auto simp: key_lookup [OF m(3,4)] ok_or_def find_None_iff split: option.splits)
  from put_key_new [OF this merge(3)]
  have "remove_first (\<lambda>k. kid_of k = Some kid) (put_key kid key ks) = Some ks" by (rule conjunct2)
  ultimately have printed: "again = cd_render cd (with_keys (JObj obj) ks)"
    using remove(1) by (simp add: remove_from_jwk_set_def with_keys_def get_array_def obj_insert_twice)
  have "parse_jwk_set cd (Some again) = Inr (with_keys (JObj obj) ks)"
    unfolding printed by (rule parse_printed [OF remove(2) [unfolded printed] m(5)])
  from key_lookup [OF this get_with_keys] key_lookup [OF m(3,4)] show ?thesis by simp
qed

section \<open>The body as a type\<close>

lemma obj_insert_present:
  "sorted (map fst kvs) \<Longrightarrow> distinct (map fst kvs) \<Longrightarrow> map_of kvs k = Some v \<Longrightarrow> obj_insert k v kvs = kvs"
  by (induction kvs) (auto split: if_splits dest!: map_of_SomeD)

lemma issuer_body_server_fields:
  assumes "issuer_body source issuer jwk_set = Inr b"
  shows "\<forall>k\<in>set SERVER_FIELDS. json_get b k = None"
proof (rule issuer_body_members [OF assms])
  assume "\<And>k. k \<in> set SERVER_FIELDS \<Longrightarrow> json_get b k = None"
  then show ?thesis by (rule ballI)
qed

lemma issuer_body_wf:
  assumes "issuer_body source issuer jwk_set = Inr b" and "json_wf source"
  shows "json_wf b"
proof (rule issuer_body_members [OF assms(1)])
  assume "json_wf source \<Longrightarrow> json_wf b"
  from this [OF assms(2)] show ?thesis .
qed

lemma issuer_body_plain:
  assumes "issuer_body source issuer jwk_set = Inr b"
  shows "plain_json b"
proof (rule issuer_body_members [OF assms])
  fix kvs obj
  assume b: "b = JObj kvs" and i: "json_get b ''issuer'' = Some (JStr issuer)" and plain: "\<forall>v\<in>snd ` set kvs. plain_json v"
  have "\<not> wrapper kvs"
    using wrapper_no_other [of kvs "''issuer''"] i by (auto simp: b)
  with plain show ?thesis by (auto simp: b)
qed

lemma issuer_body_fixed:
  assumes "issuer_body source issuer jwk_set = Inr b"
  shows "json_get b ''consentedScopesClaim'' = Some (JStr ''scope'')"
    and "json_get b ''resourceOwnerIdentityClaim'' = Some (JStr ''sub'')"
    and "json_get b ''jwksCacheTimeout'' = Some (JNum (NInt JWKS_CACHE_TIMEOUT_MS))"
  using assms by (auto simp: issuer_body_def Let_def split: if_splits option.splits)

lemma filter_absent: "\<forall>k\<in>S. map_of kvs k = None \<Longrightarrow> filter (\<lambda>(k, _). k \<notin> S) kvs = kvs"
  by (rule filter_True) (auto dest: weak_map_of_SomeI)

lemma issuer_body_again:
  assumes body: "issuer_body source issuer jwk_set = Inr b" and wf: "json_wf source"
  shows "issuer_body b issuer jwk_set = Inr b"
proof (rule issuer_body_members [OF body])
  fix kvs obj
  assume b: "b = JObj kvs" and nb: "\<not> blank issuer" and i: "json_get b ''issuer'' = Some (JStr issuer)"
    and j: "json_get b ''jwkSet'' = Some (JStr jwk_set)"
    and a: "json_get b ''allowedSubjects'' =
       (case map_of obj ''allowedSubjects'' of None \<Rightarrow> Some (JArr []) | Some v \<Rightarrow> Some v)"
    and server: "\<And>k. k \<in> set SERVER_FIELDS \<Longrightarrow> json_get b k = None"
  note fixed = issuer_body_fixed [OF body]
  have strict: "sorted (map fst kvs)" "distinct (map fst kvs)"
    using issuer_body_wf [OF body wf] by (auto simp: b)
  have u: "unwrap_inherited (JObj kvs) = JObj kvs"
    using unwrap_plain [OF issuer_body_plain [OF body]] by (simp only: b)
  have drop: "filter (\<lambda>(k, _). k \<notin> set SERVER_FIELDS) kvs = kvs"
    by (rule filter_absent) (use server in \<open>simp add: b\<close>)
  have same: "obj_insert k v kvs = kvs" if "json_get b k = Some v" for k v
    using that by (intro obj_insert_present strict) (simp add: b)
  obtain y where "map_of kvs ''allowedSubjects'' = Some y" using a by (auto simp: b split: option.splits)
  then show ?thesis
    by (simp add: issuer_body_def b u drop nb same [OF i] same [OF j] same [OF fixed(1)] same [OF fixed(2)]
        same [OF fixed(3)] del: unwrap_obj)
qed

section \<open>Properties\<close>

text \<open>A tenant with a restricted issuer and a stored key; the world is the issuer document, and the codec
  knows the empty key set, the set of the one public key, and no other text.\<close>

definition jwt_demo_jwk :: json where
  "jwt_demo_jwk = JObj [(''aic_created'', JStr ''now''), (''aic_host'', JStr ''h''), (''aic_owner'', JStr ''o''),
     (''d'', JStr ''xxx''), (''e'', JStr ''xx''), (''kid'', JStr ''k1''), (''kty'', JStr ''RSA''), (''n'', JStr ''x'')]"

definition jwt_demo_record :: key_record where
  "jwt_demo_record = \<lparr>kr_kid = ''k1'', kr_private_jwk = jwt_demo_jwk\<rparr>"

definition jwt_demo_public :: json where
  "jwt_demo_public = JObj [(''aic_created'', JStr ''now''), (''aic_host'', JStr ''h''), (''aic_owner'', JStr ''o''),
     (''alg'', JStr ''RS256''), (''e'', JStr ''xx''), (''kid'', JStr ''k1''), (''kty'', JStr ''RSA''),
     (''n'', JStr ''x''), (''use'', JStr ''sig'')]"

definition jwt_demo_codec :: codec where
  "jwt_demo_codec =
     \<lparr>cd_parse = (\<lambda>s. if s = ''none'' then Inr (JObj [(''keys'', JArr [])])
        else if s = ''one'' then Inr (JObj [(''keys'', JArr [jwt_demo_public])]) else Inl ''not json''),
      cd_render = (\<lambda>v. if v = JObj [(''keys'', JArr [])] then ''none''
        else if v = JObj [(''keys'', JArr [jwt_demo_public])] then ''one'' else ''other'')\<rparr>"

definition jwt_demo_lib :: rsa_lib where
  "jwt_demo_lib =
     \<lparr>rl_decode = (\<lambda>s. Inr (length s)), rl_encode = (\<lambda>n. replicate n CHR ''x''),
      rl_components = (\<lambda>n e d ps. Inr \<lparr>rk_primes = [2, 3], rk_dp = Some 1, rk_dq = Some 1, rk_qi = Some 1\<rparr>),
      rl_der = (\<lambda>_. Inr ''der'')\<rparr>"

definition jwt_demo_http :: "json http" where
  "jwt_demo_http =
     \<lparr>http_send = (\<lambda>_ w. (Inl ''offline'', w)), http_parse = (\<lambda>_. Inl ''not json''), http_url = (\<lambda>_. None),
      http_sign = (\<lambda>_ _ w. (Inl ''no key'', w)), http_now = (\<lambda>_. 0), http_cached = (\<lambda>_ _. None),
      http_store = (\<lambda>_ _ w. w)\<rparr>"

definition jwt_demo_tenant :: tenant where
  "jwt_demo_tenant = \<lparr>ten_name = ''live'', ten_base_url = ''https://a'', ten_theme = Production, ten_sa_id = None,
     ten_scopes = [], ten_provenance = \<lparr>pv_service_account = None, pv_log_key = None\<rparr>\<rparr>"

definition jwt_demo_env :: "json jb_env" where
  "jwt_demo_env =
     \<lparr>jb_agent = (\<lambda>c w. if ac_method c = ''PUT''
        then (Inr (RespJson JNull), case ac_body c of Some b \<Rightarrow> b | None \<Rightarrow> w)
        else (Inr (RespJson w), w)),
      jb_http = jwt_demo_http, jb_get_secret = (\<lambda>_ w. (Inr (record_value jwt_demo_record), w)),
      jb_put_secret = (\<lambda>_ _ w. (Inr (), w)), jb_lock = (\<lambda>w. (Inr (), w)),
      jb_config = (\<lambda>w. (Inr (Some \<lparr>cfg_project = ''p'', cfg_default_tenant = ''live'', cfg_tenants = [jwt_demo_tenant]\<rparr>), w)),
      jb_uuid = (\<lambda>w. (''k2'', w)), jb_new_key = (\<lambda>w. (Inl ''no entropy'', w)), jb_stamp = (\<lambda>_. ''now''),
      jb_unix = (\<lambda>_. 0), jb_read_file = (\<lambda>_ w. (Inl ''absent'', w)), jb_create_file = (\<lambda>_ _ w. (Inr (), w)),
      jb_stdin = (\<lambda>w. (Inl ''closed'', w)), jb_codec = jwt_demo_codec, jb_pretty = (\<lambda>_. ''pretty''),
      jb_rsa = jwt_demo_lib, jb_sign = (\<lambda>_ _ _. Inr ''signed''), jb_form = (\<lambda>_. ''=''), jb_base64 = id\<rparr>"

definition jwt_demo_issuer :: json where
  "jwt_demo_issuer = JObj [(''_id'', JStr ''aic-agent''),
     (''allowedSubjects'', JObj [(''inherited'', JBool False), (''value'', JArr [JStr ''u1''])])]"

definition jwt_demo_setup :: "(jb_error + string) \<times> (json, jb_event) sess" where
  "jwt_demo_setup = jwt_setup jwt_demo_env jwt_demo_tenant ''alpha''
     \<lparr>op_name = ''o'', op_host = ''h'', op_source = NameFromSettings\<rparr> [] True
     \<lparr>world = jwt_demo_issuer, sent = []\<rparr>"

text \<open>C10: no write opens a production issuer. On a production-themed tenant every issuer body that
  \<open>setup\<close>, \<open>issuer create\<close>, \<open>subjects add\<close> and \<open>rm\<close>, and the publishing write of \<open>key rotate\<close> send has a
  subject that is not blank; taking a key out of an issuer that is restricted leaves it restricted; and a
  whole rotation sends a body without such a subject at most as its last write, which retires the
  old key, and only if the issuer it had read for that write, after storing the new key, was itself open.\<close>

theorem production_issuer_stays_restricted:
  assumes "ten_theme t = Production"
  shows "emits keeps_restricted (jwt_setup env t realm op incoming c) \<and>
    emits keeps_restricted (create_issuer env t realm i issuer path incoming c) \<and>
    emits keeps_restricted (edit_issuer_subjects env t realm i incoming edit c) \<and>
    emits keeps_restricted (publish_public_jwk env (ten_name t) realm public (ten_theme t) c) \<and>
    (issuer_is_restricted (issuer_allowed_subjects source) \<longrightarrow>
       emits keeps_restricted (remove_key_from_issuer env (ten_name t) realm kid source c)) \<and>
    (\<forall>s. \<exists>es. sent (snd (jwt_rotate env t realm op c s)) = sent s @ es \<and>
       (list_all keeps_restricted es \<or>
        (\<exists>old new public s1 source b v s2 s3 source2 b2 q.
           rotation_prepared env t op s old new public s1 \<and>
           rotation_publishes env t realm public c s1 source b (Inr v) s2 \<and>
           store_key env (ten_name t) new s2 = (Inr (), s3) \<and>
           rotation_retires env t realm (kr_kid old) c s3 source2 b2 q (snd (jwt_rotate env t realm op c s)) \<and>
           \<not> issuer_is_restricted (issuer_allowed_subjects source2) \<and>
           changes_of es = [issuer_put (ten_name t) realm b c, Stored (ten_name t) (record_value new),
                            issuer_put (ten_name t) realm b2 c] \<and>
           keeps_restricted (issuer_put (ten_name t) realm b c))))"
proof (intro conjI impI allI jwt_setup_restricted create_issuer_restricted edit_subjects_restricted
    rotate_publish_restricted remove_key_restricted assms)
  fix s
  obtain r s' where run: "jwt_rotate env t realm op c s = (r, s')" by (cases "jwt_rotate env t realm op c s")
  from rotation_runs [OF run] obtain chs where rot: "rotation env t realm op c s r chs s'" by blast
  from rotation_grew [OF rot] obtain es where es: "sent s' = sent s @ es" "changes_of es = chs"
    unfolding grew_def by blast
  with rotation_restricted [OF rot assms] quiet_restricted [of es] run
  show "\<exists>es. sent (snd (jwt_rotate env t realm op c s)) = sent s @ es \<and>
       (list_all keeps_restricted es \<or>
        (\<exists>old new public s1 source b v s2 s3 source2 b2 q.
           rotation_prepared env t op s old new public s1 \<and>
           rotation_publishes env t realm public c s1 source b (Inr v) s2 \<and>
           store_key env (ten_name t) new s2 = (Inr (), s3) \<and>
           rotation_retires env t realm (kr_kid old) c s3 source2 b2 q (snd (jwt_rotate env t realm op c s)) \<and>
           \<not> issuer_is_restricted (issuer_allowed_subjects source2) \<and>
           changes_of es = [issuer_put (ten_name t) realm b c, Stored (ten_name t) (record_value new),
                            issuer_put (ten_name t) realm b2 c] \<and>
           keeps_restricted (issuer_put (ten_name t) realm b c)))"
    by auto
qed

lemma production_issuer_stays_restricted_witness:
  "fst jwt_demo_setup = Inr ''k1'' \<and> list_all keeps_restricted (sent (snd jwt_demo_setup)) \<and>
   length (changes_of (sent (snd jwt_demo_setup))) = 2"
proof (intro conjI)
  show "fst jwt_demo_setup = Inr ''k1''" "length (changes_of (sent (snd jwt_demo_setup))) = 2"
    by code_simp+
  have "ten_theme jwt_demo_tenant = Production" by (simp add: jwt_demo_tenant_def)
  from conjunct1 [OF production_issuer_stays_restricted [OF this]]
  have "emits keeps_restricted (jwt_setup jwt_demo_env jwt_demo_tenant ''alpha''
     \<lparr>op_name = ''o'', op_host = ''h'', op_source = NameFromSettings\<rparr> [] True)" .
  from emits_log [OF this, of "\<lparr>world = jwt_demo_issuer, sent = []\<rparr>" "fst jwt_demo_setup" "snd jwt_demo_setup"]
  show "list_all keeps_restricted (sent (snd jwt_demo_setup))"
    by (auto simp: jwt_demo_setup_def)
qed

text \<open>C11: the order of a rotation. Its changes are a prefix of three, each resting on what the run itself
  read in the session before: the issuer, read after the new key was drawn, with the new public key put
  in and every other key found as before; the new private key stored under the tenant held, once that write was
  accepted; and the issuer, read again after the store, without the old key and every other key found
  as before. It succeeds only after all three, and stops with an error on the answer that failed.\<close>

theorem rotation_goes_in_order:
  "\<exists>es. sent (snd (jwt_rotate env t realm op c s)) = sent s @ es \<and>
     rotation env t realm op c s (fst (jwt_rotate env t realm op c s)) (changes_of es)
       (snd (jwt_rotate env t realm op c s))"
proof -
  obtain r s' where run: "jwt_rotate env t realm op c s = (r, s')" by (cases "jwt_rotate env t realm op c s")
  from rotation_runs [OF run] obtain chs where rot: "rotation env t realm op c s r chs s'" by blast
  from rotation_grew [OF rot] run rot show ?thesis by (auto simp: grew_def)
qed


text \<open>C24: editing the key set touches one key. After a merge the new key is found under its kid and every
  other lookup answers as before; and if its kid was not there, removing it again restores every lookup.\<close>

theorem key_set_edits_are_local:
  assumes "merge_jwk_set cd existing key = Inr printed" and "reads_back cd printed"
  shows "\<exists>kid. kid_of key = Some kid \<and> jwk_set_key cd (Some printed) kid = Inr key \<and>
    (\<forall>other k. other \<noteq> kid \<longrightarrow>
       (jwk_set_key cd (Some printed) other = Inr k \<longleftrightarrow> jwk_set_key cd existing other = Inr k)) \<and>
    (\<forall>again other k. (\<forall>k. jwk_set_key cd existing kid \<noteq> Inr k) \<and>
       remove_from_jwk_set cd (Some printed) kid = Inr again \<and> reads_back cd again \<longrightarrow>
       (jwk_set_key cd (Some again) other = Inr k \<longleftrightarrow> jwk_set_key cd existing other = Inr k))"
proof -
  from assms(1) obtain kid where kid: "kid_of key = Some kid" by (rule merge_Inr)
  with merged_lookups [OF assms kid] merged_removed [OF assms kid] show ?thesis by blast
qed

lemma jwt_demo_reads_back: "reads_back jwt_demo_codec ''one''" "reads_back jwt_demo_codec ''none''"
  by (auto simp: reads_back_def jwt_demo_codec_def trim_def is_whitespace_def split: if_splits)

lemma key_set_edits_are_local_witness:
  "jwk_set_key jwt_demo_codec (Some ''one'') ''k1'' = Inr jwt_demo_public \<and>
   (\<forall>k. jwk_set_key jwt_demo_codec (Some ''none'') ''k1'' \<noteq> Inr k)"
proof -
  have merge: "merge_jwk_set jwt_demo_codec None jwt_demo_public = Inr ''one''" by code_simp
  have remove: "remove_from_jwk_set jwt_demo_codec (Some ''one'') ''k1'' = Inr ''none''" by code_simp
  have kid: "kid_of jwt_demo_public = Some ''k1''" by code_simp
  have absent: "jwk_set_key jwt_demo_codec None ''k1'' = Inl (KidNotPublished ''k1'' [])" by code_simp
  from key_set_edits_are_local [OF merge jwt_demo_reads_back(1)] kid remove jwt_demo_reads_back(2) absent
  show ?thesis by auto
qed

text \<open>C12: \<open>aic auth\<close> sends one grant and nothing else over HTTP. A run sends no HTTP request and fails, or
  it sends one, last: the form of a token request built from its options, to the token endpoint of the
  realm, with the client's own credential or none and never a bearer of the service account. It never
  sends one for a production-themed tenant, restricted or not.\<close>

theorem auth_sends_one_grant:
  "\<exists>es. sent (snd (run_auth env t realm o' s)) = sent s @ es \<and>
     (list_all not_http es \<and> (\<exists>e. fst (run_auth env t realm o' s) = Inl e) \<or>
      (\<exists>before e. es = before @ [e] \<and> list_all not_http before \<and>
         ten_theme t \<noteq> Production \<and> grant_request env t realm o' e))"
  using auth_mints_last [of t env realm o'] by (simp add: mints_last_def)

text \<open>C23: the body of an issuer write is a plain document. It is well formed when the document it is made
  from is, holds no inherited wrapper, none of the server's fields, the given claim and key set, and at
  least the subjects that were allowed; and making a body from it again gives the same body.\<close>

theorem issuer_body_is_plain:
  assumes "issuer_body source issuer jwk_set = Inr b" and "json_wf source"
  shows "json_wf b \<and> plain_json b \<and> (\<forall>k\<in>set SERVER_FIELDS. json_get b k = None) \<and>
    issuer_name b = Some issuer \<and> issuer_jwk_set b = Some jwk_set \<and>
    set (issuer_allowed_subjects source) \<subseteq> set (issuer_allowed_subjects b) \<and>
    issuer_body b issuer jwk_set = Inr b"
  using issuer_body_again [OF assms] issuer_body_plain [OF assms(1)] body_reads [OF assms(1)]
    body_keeps_subjects [OF assms(1)] issuer_body_server_fields [OF assms(1)] issuer_body_wf [OF assms]
  by blast

lemma issuer_body_is_plain_witness:
  "\<exists>b. issuer_body jwt_demo_issuer ''aic-agent'' ''none'' = Inr b \<and> plain_json b \<and>
     issuer_allowed_subjects b = [''u1''] \<and> issuer_body b ''aic-agent'' ''none'' = Inr b"
proof -
  have "case issuer_body jwt_demo_issuer ''aic-agent'' ''none'' of
      Inr b \<Rightarrow> issuer_allowed_subjects b = [''u1''] | Inl _ \<Rightarrow> False"
    by code_simp
  then obtain b where b: "issuer_body jwt_demo_issuer ''aic-agent'' ''none'' = Inr b"
    "issuer_allowed_subjects b = [''u1'']" by (auto split: sum.splits)
  have "json_wf jwt_demo_issuer" by code_simp
  from issuer_body_is_plain [OF b(1) this] b show ?thesis by blast
qed











end
