(* ===== verification/Spec2Isabelle.thy ===== *)
theory Spec2Isabelle
  imports Rotation_Cli_Facts Promotion_Check_Facts Offboard_Run_Facts Policy_Facts Journey_Facts Tenant_Choice
    Force Jwt_Run_Facts
begin

text \<open>
  Verification development of \<open>aic\<close>, the command-line manager of PingOne Advanced Identity Cloud
  tenants (the crate under \<open>src/src\<close>).

  \<^bold>\<open>What is modelled.\<close> The parts of \<open>aic\<close> that change a tenant and must not go wrong silently: the
  path every API call takes through the agent, the rotation of SAML signing keys, the promotion of
  configuration between a pair of environments, the workspace copies of journeys, the removal of a
  tenant, the issuers that mint user tokens, and what a command line may force and on which tenant it
  acts. A frontend (a command) builds an \<open>ApiCall\<close> and
  hands it to the agent process; the agent owns the tokens, applies the production gate, and sends
  HTTP. A rotation reads the tenant several times, decides a plan, asks, checks again, writes once,
  waits for the metadata export to show the write, and records it in a local journal. A promotion
  verb reads the lock and the status of a pair, asks, reads both again, mints a permit from that
  second reading, sends the one write it authorizes, and polls until the pair has settled;
  \<open>verify\<close> reads every item of a promotion report from both tenants and compares them. A journey
  command compares three copies (the workspace export, the tenant's, and the snapshot of the last
  sync) and overwrites one only on what it compared. \<open>ctx rm\<close> plans what a removal may delete, asks,
  saves a backup, plans again, and only then removes what no other tenant shares.

  \<^bold>\<open>Conventions.\<close> A Rust struct is a record, an enum a datatype with the source's constructors, a
  \<open>Result\<close> a sum with the error on the left, a \<open>BTreeSet\<close> the strictly increasing list of its
  elements, a JSON object an association list ordered by key. An effectful computation is a
  function from a session to a result and a session (\<open>Io\<close>): the session holds the outside world,
  which only the functions that stand for it change, and the log of what was sent to it. The log is
  what the theorems about order, permission and number of writes speak of; no modelled code reads
  it. An error text that \<open>format!\<close> builds is a constructor that carries what it interpolates.

  \<^bold>\<open>Theories.\<close>

  \<^item> \<open>Prelude\<close>, \<open>Io\<close>: results, strings, ordered sets; effects and what a computation sends
    (\<open>emits\<close>, \<open>at_most\<close>, \<open>quiet_to\<close>) or returns (\<open>yields\<close>).
  \<^item> \<open>Json\<close> (\<open>jsondiff.rs\<close>): documents and the structural comparison.
  \<^item> \<open>Statefile\<close> (\<open>statefile.rs\<close>): a locked read-modify-write of a file. \<open>fstep\<close> is the step relation
    of any number of processes that may die between any two of their operations; \<open>freach_finv\<close> its
    invariant. \<open>Journal\<close> (\<open>saml/rotate/journal.rs\<close>): the record of staged rollovers over it.
  \<^item> \<open>Saml_Types\<close>, \<open>Saml_Entity\<close>, \<open>Rotation_State\<close>, \<open>Survey\<close>, \<open>Rotation_Guards\<close>, \<open>Rotation_Plans\<close>
    (\<open>saml/spec.rs\<close>, \<open>saml/rotate/spec.rs\<close>): the data, the entity document and its secret label, the
    phase and pairing of a rotation, who else uses a secret, the checks in front of a write, and the
    plans of \<open>stage\<close>, \<open>complete\<close> and \<open>init\<close>. \<open>Rotation_Plan_Facts\<close> proves what the plans guarantee.
  \<^item> \<open>Write_Outcome\<close> (\<open>saml/write.rs\<close>): consent, and on which side of the send a write failed.
  \<^item> \<open>Transport\<close> (\<open>aic/api.rs\<close>, \<open>aic/mod.rs\<close>, \<open>aic/auth.rs\<close>, \<open>agent/daemon.rs\<close>, \<open>agent/protocol.rs\<close>,
    \<open>config/tenant.rs\<close>): the envelope, the production gate, retries, tokens. \<open>Transport_Facts\<close>: where
    requests go, how many, and that an unconfirmed production write sends none.
  \<^item> \<open>Tenant_Api\<close> (\<open>saml/api.rs\<close>, \<open>saml/export.rs\<close>, \<open>secretmap/api.rs\<close>, \<open>esv/api.rs\<close>): the endpoint
    wrappers and the environment \<open>env\<close>; \<open>Tenant_Facts\<close>: reads, permission, time.
  \<^item> \<open>Rotation_Ops\<close> (\<open>saml/rotate/ops.rs\<close>), \<open>Rotation_Cli\<close> (\<open>saml/rotate/cli.rs\<close>): the operations and
    the commands of a rotation. \<open>Rotation_Run_Facts\<close>, \<open>Init_Facts\<close>, \<open>Wait_Facts\<close>,
    \<open>Rotation_Cli_Facts\<close>: the recheck in front of each write, \<open>init\<close> as a prefix of an abstract batch (\<open>batch_log\<close>,
    with the phases of a step in \<open>run_step_phases\<close>), the waits,
    no write without permission, the journal changed last.
  \<^item> \<open>Promotion_Spec\<close>, \<open>Promotion_Lifecycle\<close> (\<open>promotion/spec.rs\<close>, \<open>promotion/lifecycle.rs\<close>): decoding,
    the phase of a pair, permits, the write sequence, the watch. \<open>Promotion_Facts\<close> proves the
    sequence once for any injected operations in the locale \<open>write_sequence\<close>.
  \<^item> \<open>Promotion_Verify\<close> (\<open>promotion/verify.rs\<close>): entries, targets, the bounded comparison, lists that can
    show absence. \<open>Promotion_Verify_Facts\<close>: the comparison is exact and bounded.
  \<^item> \<open>Promotion_Api\<close>, \<open>Promotion_Cli\<close> (\<open>promotion/api.rs\<close>, \<open>promotion/cli.rs\<close>): the calls and the
    commands; \<open>Promotion_Cli_Facts\<close> interprets \<open>write_sequence\<close> on them and proves the guard of the
    write, the wait and its evidence, \<open>Promotion_Check_Facts\<close> what a passing \<open>verify\<close> has compared.
  \<^item> \<open>Offboard\<close>, \<open>Offboard_Ops\<close> (\<open>offboard/spec.rs\<close>, \<open>offboard/ops.rs\<close>, \<open>offboard/cli.rs\<close>): the plan of
    a removal, what other tenants share, the execution. \<open>Offboard_Facts\<close>, \<open>Offboard_Run_Facts\<close>: the
    sharing guard is exact, survivors lose nothing, the config entry goes last.
  \<^item> \<open>Drift\<close> (\<open>journey/drift.rs\<close>): the three-way state of a journey and the printed differences;
    \<open>Drift_Facts\<close>: secrets stay hidden. \<open>Pull_Guard\<close> (\<open>pullguard.rs\<close>, \<open>backup.rs\<close>): when a pull may
    overwrite, and the backup before it; its locale \<open>protected_pull\<close> is interpreted on the journeys.
    \<open>Journey\<close> (\<open>journey/api.rs\<close>, \<open>journey/cli.rs\<close>): the calls and the commands; \<open>Journey_Facts\<close>: what a
    pull keeps, when a push writes, what \<open>status\<close> has compared.
  \<^item> \<open>Policy\<close> (\<open>policy/spec.rs\<close>): the resource matcher and the explanation of a decision;
    \<open>Policy_Facts\<close>: the matcher against a reference relation.
  \<^item> \<open>Jwt_Issuer\<close>, \<open>Jwt_Grant\<close>, \<open>Jwt_Ops\<close> (\<open>jwtbearer/spec.rs\<close>, \<open>api.rs\<close>, \<open>ops.rs\<close>, \<open>cli.rs\<close>,
    \<open>aic/auth.rs\<close>): trusted JWT issuers, the private keys of an install, and the grant that mints a
    user token. \<open>Jwt_Facts\<close>, \<open>Jwt_Run_Facts\<close>: bodies are plain and keep the subjects, no write
    opens a production issuer, a rotation goes step by step on its own readings and, against stores that keep
    what they accept (\<open>keeping_stores\<close>), leaves a usable key whatever fails, \<open>aic auth\<close> sends one grant.
  \<^item> \<open>Force\<close> (\<open>cli/force.rs\<close>): the mask behind \<open>--force\<close>. \<open>Tenant_Choice\<close> (\<open>cli/mod.rs\<close>,
    \<open>config/mod.rs\<close>): the one tenant of a run.

  \<^bold>\<open>Loops and fuel.\<close> A loop whose end depends on the outside has fuel, and running out is the
  error \<open>Panic\<close>, which the code does not have there. \<open>poll\<close> gets \<open>timeout div interval + 2\<close> turns
  and \<open>wait\<close> of a promotion \<open>1000 * secs div 15000 + 2\<close>; \<open>wait_terminates\<close> and \<open>promotion_wait_ends\<close>
  show that on a clock that sleeping moves neither is used up. The nodes of a journey are the
  tenant's answer, so the fuel of \<open>read_journey\<close> is an argument; \<open>journey_reading_ends\<close> bounds it for
  a journey of finitely many nodes. The loop of \<open>backup.rs\<close> over fresh names ends when a name is
  free, which the file system decides, so its fuel is a field of its environment. The loop of retried reads is structural in its delays.

  \<^bold>\<open>Parameters.\<close> What is not under \<open>src/\<close> is a field of \<open>env\<close> or an argument: the HTTP client, the
  clock, sleep, the prompt, the encoders of base64, of query strings and of form values, URL
  parsing, the file system under the state files and the codec of the journal. So is the scanner of
  metadata XML (\<open>saml/metadata.rs\<close>), which is under \<open>src/\<close> and not modelled. Hypotheses about them say
  what their documentation does: a clock that sleeping moves, a codec that reads back what it wrote,
  a parser that yields well-formed JSON.

  \<^bold>\<open>Integers.\<close> HTTP statuses and version numbers are naturals, parsed with the bound of \<open>u64\<close> where
  the code parses them. The timeout of a promotion verb is a 64-bit word: \<open>60 * m\<close> wraps in a release
  build (\<open>timeout_secs\<close>), so a very large \<open>--timeout\<close> is a short one.

  \<^bold>\<open>Not modelled.\<close> What a command prints; the terminal interface; the agent's socket server and its
  unlocking by security key or password; key wrapping on third-party cryptography; log streaming;
  and the feature modules listed as such in the manifest (managed objects, scripts, OAuth, policy
  commands, access rules), which are further components of the same kind. The concurrent reads of
  \<open>verify\<close> and of the journeys come one after the other: no reading depends on another.
\<close>

end
